(* ===== verification/Prelude.thy ===== *)
theory Prelude
  imports Main "HOL-Library.Word"
begin

text \<open>
  The types and the generic operations every component shares: the machine integers of the
  x86_64 target, Rust's \<open>Result\<close> as a sum (\<open>Inl\<close> the error), the \<open>?\<close> operator, the
  checked integer operations of the standard library, and the lemmas about them.  The
  collection \<open>res_simps\<close> holds the facts that take a successful chain of \<open>?\<close> apart.
\<close>

unbundle bit_operations_syntax

named_theorems res_simps "inversion of successful result chains"
named_theorems iter_simps "one step of an iterator"

section \<open>Machine integers\<close>

type_synonym u8 = "8 word"
type_synonym u16 = "16 word"
type_synonym u32 = "32 word"
type_synonym u64 = "64 word"
type_synonym usize = "64 word"
type_synonym i64 = "64 word"
type_synonym isize = "64 word"
type_synonym c_int = "32 word"
type_synonym bytes = "u8 list"

text \<open>The length of a slice as the \<open>usize\<close> that \<open>len()\<close> returns.\<close>

definition len_of :: "'a list \<Rightarrow> usize" where
  "len_of xs = of_nat (length xs)"

text \<open>A Rust slice never holds more than \<open>isize::MAX\<close> bytes.\<close>

definition slice_ok :: "'a list \<Rightarrow> bool" where
  "slice_ok xs \<longleftrightarrow> length xs < 2 ^ 63"

definition checked_add :: "'w::len word \<Rightarrow> 'w word \<Rightarrow> 'w word option" where
  "checked_add a b = (if unat a + unat b < 2 ^ LENGTH('w) then Some (a + b) else None)"

definition checked_sub :: "'w::len word \<Rightarrow> 'w word \<Rightarrow> 'w word option" where
  "checked_sub a b = (if b \<le> a then Some (a - b) else None)"

definition checked_mul :: "'w::len word \<Rightarrow> 'w word \<Rightarrow> 'w word option" where
  "checked_mul a b = (if unat a * unat b < 2 ^ LENGTH('w) then Some (a * b) else None)"

definition saturating_add :: "'w::len word \<Rightarrow> 'w word \<Rightarrow> 'w word" where
  "saturating_add a b = (case checked_add a b of Some c \<Rightarrow> c | None \<Rightarrow> - 1)"

definition saturating_sub :: "'w::len word \<Rightarrow> 'w word \<Rightarrow> 'w word" where
  "saturating_sub a b = (if b \<le> a then a - b else 0)"

text \<open>\<open>NonZeroUsize::new\<close>: the proof object is the number itself.\<close>

definition nonzero :: "usize \<Rightarrow> usize option" where
  "nonzero x = (if x = 0 then None else Some x)"

section \<open>Numbers in byte order\<close>

text \<open>The number a byte string spells, least significant byte first.\<close>

fun le_nat :: "bytes \<Rightarrow> nat" where
  "le_nat [] = 0"
| "le_nat (b # bs) = unat b + 256 * le_nat bs"

lemma le_nat_append: "le_nat (xs @ ys) = le_nat xs + 256 ^ length xs * le_nat ys"
  by (induction xs) (simp_all add: algebra_simps)

lemma le_nat_bound: "le_nat bs < 256 ^ length bs"
proof (induction bs)
  case Nil
  show ?case by simp
next
  case (Cons b bs)
  have "unat b < 256" using unsigned_less[of b] by simp
  with Cons show ?case by simp
qed


definition from_le_bytes :: "bytes \<Rightarrow> 'w::len word" where
  "from_le_bytes bs = of_nat (le_nat bs)"

definition from_be_bytes :: "bytes \<Rightarrow> 'w::len word" where
  "from_be_bytes bs = of_nat (le_nat (rev bs))"

text \<open>\<open>u64::to_be_bytes\<close>: the eight bytes, most significant first.\<close>

definition to_be_bytes :: "u64 \<Rightarrow> bytes" where
  "to_be_bytes w = map (\<lambda>i. ucast (drop_bit (8 * i) w)) [7, 6, 5, 4, 3, 2, 1, 0]"

lemma length_to_be_bytes [simp]: "length (to_be_bytes w) = 8"
  by (simp add: to_be_bytes_def)

lemma unat_byte_of: "unat (ucast (drop_bit (8 * i) w) :: u8) = (unat (w :: 'w::len word) div 256 ^ i) mod 256"
  by (simp only: unsigned_ucast_eq take_bit_eq_mod unat_drop_bit_eq) (simp add: drop_bit_eq_div power_mult)

lemma le_nat_digits:
  "le_nat (map (\<lambda>i. ucast (drop_bit (8 * i) (w :: 'w::len word))) [0..<n]) = unat w mod 256 ^ n"
proof (induction n)
  case 0
  show ?case by simp
next
  case (Suc n)
  have "unat w mod 256 ^ Suc n = unat w mod 256 ^ n + 256 ^ n * (unat w div 256 ^ n mod 256)"
    using mod_mult2_eq[of "unat w" "256 ^ n" 256] by (simp add: mult.commute)
  with Suc show ?case by (simp add: le_nat_append unat_byte_of)
qed

lemma rev_to_be_bytes: "rev (to_be_bytes w) = map (\<lambda>i. ucast (drop_bit (8 * i) w)) [0..<8]"
  by (simp add: to_be_bytes_def upt_rec)

lemma from_be_to_be_bytes: "from_be_bytes (to_be_bytes w) = w"
  using unsigned_less[of w, where ?'a = nat] by (simp add: from_be_bytes_def rev_to_be_bytes le_nat_digits)

lemma le_nat_inj: "length xs = length ys \<Longrightarrow> le_nat xs = le_nat ys \<Longrightarrow> xs = ys"
proof (induction xs ys rule: list_induct2)
  case Nil
  show ?case by simp
next
  case (Cons x xs y ys)
  have lt: "unat x < 256" "unat y < 256" using unsigned_less[of x] unsigned_less[of y] by simp_all
  have eq: "unat x + 256 * le_nat xs = unat y + 256 * le_nat ys" using Cons.prems by simp
  have "unat x = unat y" using arg_cong[OF eq, of "\<lambda>n. n mod 256"] lt by simp
  moreover from this eq have "le_nat xs = le_nat ys" by simp
  ultimately show ?case using Cons.IH by (simp add: word_unat_eq_iff)
qed

lemma to_be_from_be_bytes:
  assumes "length bs = 8"
  shows "to_be_bytes (from_be_bytes bs) = bs"
proof -
  let ?w = "from_be_bytes bs :: u64"
  have "le_nat (rev bs) < 2 ^ 64" using le_nat_bound[of "rev bs"] assms by simp
  then have "le_nat (rev (to_be_bytes ?w)) = le_nat (rev bs)"
    by (simp add: rev_to_be_bytes le_nat_digits from_be_bytes_def unat_of_nat)
  then have "rev (to_be_bytes ?w) = rev bs"
    using assms by (intro le_nat_inj) simp_all
  then show ?thesis by simp
qed

section \<open>Results\<close>

definition ok_or :: "'e \<Rightarrow> 'a option \<Rightarrow> 'e + 'a" where
  "ok_or e x = (case x of None \<Rightarrow> Inl e | Some y \<Rightarrow> Inr y)"

definition map_err :: "('e \<Rightarrow> 'f) \<Rightarrow> 'e + 'a \<Rightarrow> 'f + 'a" where
  "map_err f r = (case r of Inl e \<Rightarrow> Inl (f e) | Inr x \<Rightarrow> Inr x)"

text \<open>The \<open>?\<close> operator: an error leaves the function, a value goes on.\<close>

definition and_then :: "'e + 'a \<Rightarrow> ('a \<Rightarrow> 'e + 'b) \<Rightarrow> 'e + 'b" where
  "and_then r f = (case r of Inl e \<Rightarrow> Inl e | Inr x \<Rightarrow> f x)"

text \<open>
  The same for computations that may not return: the outer \<open>None\<close> is \<^emph>\<open>does not return\<close>,
  an inner \<open>Inl\<close> is an error that is returned.
\<close>

definition run_then :: "('e + 'a) option \<Rightarrow> ('a \<Rightarrow> ('e + 'b) option) \<Rightarrow> ('e + 'b) option" where
  "run_then r f = (case r of None \<Rightarrow> None | Some (Inl e) \<Rightarrow> Some (Inl e) | Some (Inr x) \<Rightarrow> f x)"

lemma and_then_simps [simp]:
  "and_then (Inl e) f = Inl e"
  "and_then (Inr x) f = f x"
  by (simp_all add: and_then_def)

lemma run_then_simps [simp]:
  "run_then None f = None"
  "run_then (Some (Inl e)) f = Some (Inl e)"
  "run_then (Some (Inr x)) f = f x"
  by (simp_all add: run_then_def)

lemma ok_or_simps [simp]:
  "ok_or e None = Inl e"
  "ok_or e (Some x) = Inr x"
  by (simp_all add: ok_or_def)

lemma map_err_simps [simp]:
  "map_err f (Inl e) = Inl (f e)"
  "map_err f (Inr x) = Inr x"
  by (simp_all add: map_err_def)

lemma and_then_Inr_iff [res_simps]:
  "and_then r f = Inr y \<longleftrightarrow> (\<exists>x. r = Inr x \<and> f x = Inr y)"
  by (cases r) simp_all

lemma run_then_Inr_iff [res_simps]:
  "run_then r f = Some (Inr y) \<longleftrightarrow> (\<exists>x. r = Some (Inr x) \<and> f x = Some (Inr y))"
  by (auto simp: run_then_def split: option.splits sum.splits)

lemma ok_or_Inr_iff [res_simps]: "ok_or e x = Inr y \<longleftrightarrow> x = Some y"
  by (cases x) simp_all

lemma map_err_Inr_iff [res_simps]: "map_err f r = Inr y \<longleftrightarrow> r = Inr y"
  by (cases r) simp_all

lemma map_err_Inl_iff: "map_err f r = Inl e \<longleftrightarrow> (\<exists>d. r = Inl d \<and> e = f d)"
  by (cases r) auto

lemma and_then_cong [fundef_cong]:
  "r = r' \<Longrightarrow> (\<And>x. r' = Inr x \<Longrightarrow> f x = g x) \<Longrightarrow> and_then r f = and_then r' g"
  by (cases r') simp_all

section \<open>Facts about checked arithmetic\<close>

lemma checked_add_Some_iff [res_simps]:
  fixes a b c :: "'w::len word"
  shows "checked_add a b = Some c \<longleftrightarrow> unat a + unat b < 2 ^ LENGTH('w) \<and> c = a + b"
  by (auto simp: checked_add_def)

lemma checked_sub_Some_iff [res_simps]: "checked_sub a b = Some c \<longleftrightarrow> b \<le> a \<and> c = a - b"
  by (auto simp: checked_sub_def)

lemma checked_mul_Some_iff [res_simps]:
  fixes a b c :: "'w::len word"
  shows "checked_mul a b = Some c \<longleftrightarrow> unat a * unat b < 2 ^ LENGTH('w) \<and> c = a * b"
  by (auto simp: checked_mul_def)

lemma nonzero_Some_iff [res_simps]: "nonzero x = Some y \<longleftrightarrow> x \<noteq> 0 \<and> y = x"
  by (auto simp: nonzero_def)

lemma unat_add_exact:
  fixes a b :: "'w::len word"
  shows "unat a + unat b < 2 ^ LENGTH('w) \<Longrightarrow> unat (a + b) = unat a + unat b"
  by (simp add: unat_word_ariths)

lemma unat_mult_exact:
  fixes a b :: "'w::len word"
  shows "unat a * unat b < 2 ^ LENGTH('w) \<Longrightarrow> unat (a * b) = unat a * unat b"
  by (simp add: unat_word_ariths)

lemma unat_sub_exact:
  fixes a b :: "'w::len word"
  shows "b \<le> a \<Longrightarrow> unat (a - b) = unat a - unat b"
  by (simp add: unat_sub)

lemma unat_saturating_add:
  fixes a b :: "'w::len word"
  shows "unat (saturating_add a b) = min (unat a + unat b) (2 ^ LENGTH('w) - 1)"
proof (cases "unat a + unat b < 2 ^ LENGTH('w)")
  case True
  then show ?thesis by (simp add: saturating_add_def checked_add_def unat_add_exact)
next
  case False
  then show ?thesis by (simp add: saturating_add_def checked_add_def unsigned_minus_1_eq_mask mask_eq_exp_minus_1)
qed

lemma unat_len_of:
  assumes "slice_ok xs"
  shows "unat (len_of xs) = length xs"
proof -
  have "length xs < 2 ^ LENGTH(64)" using assms by (simp add: slice_ok_def)
  then show ?thesis by (simp add: len_of_def unat_of_nat)
qed

lemma unat_of_int_exact:
  fixes t :: int
  assumes "0 \<le> t" "t < 2 ^ LENGTH('w::len)"
  shows "unat (of_int t :: 'w word) = nat t"
proof -
  have "uint (of_int t :: 'w word) = t"
    using assms by (simp add: uint_word_of_int_eq take_bit_int_eq_self)
  then show ?thesis by (metis nat_uint_eq)
qed

lemma slice_ok_le: "slice_ok xs \<Longrightarrow> length ys \<le> length xs \<Longrightarrow> slice_ok ys"
  by (simp add: slice_ok_def)

lemma len_of_le_iff:
  "slice_ok xs \<Longrightarrow> slice_ok ys \<Longrightarrow> len_of xs \<le> len_of ys \<longleftrightarrow> length xs \<le> length ys"
  by (simp add: word_le_nat_alt unat_len_of)

end
