(* ===== verification/Extern.thy ===== *)
theory Extern
  imports Prelude
begin

text \<open>
  The third-party code the workspace calls and that is not part of the repository, as one
  record of parameters: the \<open>nom\<close> complete-input parsers, the \<open>DwEhPe\<close> pointer encodings
  and the \<open>X86_64\<close> register numbers of \<open>gimli\<close>, and the flag sets of \<open>bitflags\<close>.
  Every definition of the development that uses one of them takes the record as its first
  argument.  What the code relies on is stated by the locales \<open>nom_laws\<close>, \<open>pe_laws\<close>,
  \<open>bits_laws\<close> and \<open>x86_laws\<close>, each the documented behaviour of one crate; a property that
  needs them has the locale's predicate as a hypothesis.  \<open>lib_ref\<close> is a concrete record that
  obeys all of them, on which the witnesses evaluate.
\<close>

section \<open>The parameters\<close>

text \<open>The registers the sources name as constants of \<open>gimli::X86_64\<close>.\<close>

datatype reg = RAX | RDX | RCX | RBX | RSI | RDI | RBP | RSP | R8 | R9 | R10 | R11 | R12 | R13
  | R14 | R15 | RA | MXCSR | FCW

text \<open>A \<open>nom\<close> parser over bytes: \<open>None\<close> is the error the callers throw away.\<close>

type_synonym 'a nom_parser = "bytes \<Rightarrow> (bytes \<times> 'a) option"

record lib =
  nom_be_u8 :: "u8 nom_parser"
  nom_take :: "usize \<Rightarrow> bytes nom_parser"
  nom_le_u16 :: "u16 nom_parser"
  nom_be_u16 :: "u16 nom_parser"
  nom_le_u32 :: "u32 nom_parser"
  nom_be_u32 :: "u32 nom_parser"
  nom_le_u64 :: "u64 nom_parser"
  nom_be_u64 :: "u64 nom_parser"
  nom_le_i16 :: "u16 nom_parser"
  nom_be_i16 :: "u16 nom_parser"
  nom_le_i32 :: "u32 nom_parser"
  nom_be_i32 :: "u32 nom_parser"
  nom_le_i64 :: "u64 nom_parser"
  nom_be_i64 :: "u64 nom_parser"
  pe_absptr :: u8
  pe_aligned :: u8
  pe_datarel :: u8
  pe_funcrel :: u8
  pe_pcrel :: u8
  pe_sdata2 :: u8
  pe_sdata4 :: u8
  pe_sdata8 :: u8
  pe_sleb128 :: u8
  pe_textrel :: u8
  pe_udata2 :: u8
  pe_udata4 :: u8
  pe_udata8 :: u8
  pe_uleb128 :: u8
  pe_format :: "u8 \<Rightarrow> u8"
  pe_application :: "u8 \<Rightarrow> u8"
  pe_is_absent :: "u8 \<Rightarrow> bool"
  pe_is_indirect :: "u8 \<Rightarrow> bool"
  pe_is_valid_encoding :: "u8 \<Rightarrow> bool"
  bits_all :: "c_int list \<Rightarrow> c_int"
  bits_from_bits :: "c_int list \<Rightarrow> c_int \<Rightarrow> c_int option"
  bits_contains :: "c_int \<Rightarrow> c_int \<Rightarrow> bool"
  bits_union :: "c_int \<Rightarrow> c_int \<Rightarrow> c_int"
  x86_64 :: "reg \<Rightarrow> u16"

section \<open>What a complete-input parser does\<close>

text \<open>What a complete-input parser of \<open>n\<close> bytes does: all of them, or an error.\<close>

definition take_le :: "nat \<Rightarrow> bytes \<Rightarrow> (bytes \<times> 'w::len word) option" where
  "take_le n i = (if n \<le> length i then Some (drop n i, of_nat (le_nat (take n i))) else None)"

definition take_be :: "nat \<Rightarrow> bytes \<Rightarrow> (bytes \<times> 'w::len word) option" where
  "take_be n i = (if n \<le> length i then Some (drop n i, of_nat (le_nat (rev (take n i)))) else None)"

section \<open>The documented behaviour\<close>

locale nom_laws =
  fixes L :: lib
  assumes be_u8: "nom_be_u8 L i = (case i of [] \<Rightarrow> None | b # r \<Rightarrow> Some (r, b))"
    and take_law: "nom_take L c i =
      (if unat c \<le> length i then Some (drop (unat c) i, take (unat c) i) else None)"
    and le_u16: "nom_le_u16 L = take_le 2" and be_u16: "nom_be_u16 L = take_be 2"
    and le_u32: "nom_le_u32 L = take_le 4" and be_u32: "nom_be_u32 L = take_be 4"
    and le_u64: "nom_le_u64 L = take_le 8" and be_u64: "nom_be_u64 L = take_be 8"
    and le_i16: "nom_le_i16 L = take_le 2" and be_i16: "nom_be_i16 L = take_be 2"
    and le_i32: "nom_le_i32 L = take_le 4" and be_i32: "nom_be_i32 L = take_be 4"
    and le_i64: "nom_le_i64 L = take_le 8" and be_i64: "nom_be_i64 L = take_be 8"

text \<open>The encodings of the Linux Standard Base DWARF extensions.\<close>

locale pe_laws =
  fixes L :: lib
  assumes pe_formats: "pe_absptr L = 0x00" "pe_uleb128 L = 0x01" "pe_udata2 L = 0x02"
      "pe_udata4 L = 0x03" "pe_udata8 L = 0x04" "pe_sleb128 L = 0x09" "pe_sdata2 L = 0x0a"
      "pe_sdata4 L = 0x0b" "pe_sdata8 L = 0x0c"
    and pe_applications: "pe_pcrel L = 0x10" "pe_textrel L = 0x20" "pe_datarel L = 0x30"
      "pe_funcrel L = 0x40" "pe_aligned L = 0x50"
    and pe_format: "pe_format L e = e AND 0x0f"
    and pe_application: "pe_application L e = e AND 0x70"
    and pe_is_absent: "pe_is_absent L e \<longleftrightarrow> e = 0xff"
    and pe_is_indirect: "pe_is_indirect L e \<longleftrightarrow> e AND 0x80 \<noteq> 0"
    and pe_is_valid: "pe_is_valid_encoding L e \<longleftrightarrow> e = 0xff \<or>
      e AND 0x0f \<in> {0, 1, 2, 3, 4, 9, 10, 11, 12} \<and>
      e AND 0x70 \<in> {0, 0x10, 0x20, 0x30, 0x40, 0x50}"

locale bits_laws =
  fixes L :: lib
  assumes bits_all: "bits_all L fs = foldr (\<lambda>f a. f OR a) fs 0"
    and bits_from_bits: "bits_from_bits L fs b =
      (if b AND NOT (foldr (\<lambda>f a. f OR a) fs 0) = 0 then Some b else None)"
    and bits_contains: "bits_contains L a b \<longleftrightarrow> a AND b = b"
    and bits_union: "bits_union L a b = a OR b"

text \<open>Distinct registers have distinct DWARF numbers.\<close>

locale x86_laws =
  fixes L :: lib
  assumes x86_inj: "x86_64 L r = x86_64 L s \<longleftrightarrow> r = s"

locale lsda_laws = nom_laws + pe_laws

locale lib_laws = lsda_laws + bits_laws + x86_laws

section \<open>A reference instance\<close>

text \<open>The DWARF register numbers of the x86_64 psABI.\<close>

fun psabi_number :: "reg \<Rightarrow> u16" where
  "psabi_number RAX = 0" | "psabi_number RDX = 1" | "psabi_number RCX = 2"
| "psabi_number RBX = 3" | "psabi_number RSI = 4" | "psabi_number RDI = 5"
| "psabi_number RBP = 6" | "psabi_number RSP = 7" | "psabi_number R8 = 8"
| "psabi_number R9 = 9" | "psabi_number R10 = 10" | "psabi_number R11 = 11"
| "psabi_number R12 = 12" | "psabi_number R13 = 13" | "psabi_number R14 = 14"
| "psabi_number R15 = 15" | "psabi_number RA = 16" | "psabi_number MXCSR = 64"
| "psabi_number FCW = 65"

definition lib_ref :: lib where
  "lib_ref = \<lparr>
    nom_be_u8 = (\<lambda>i. case i of [] \<Rightarrow> None | b # r \<Rightarrow> Some (r, b)),
    nom_take = (\<lambda>c i. if unat c \<le> length i then Some (drop (unat c) i, take (unat c) i) else None),
    nom_le_u16 = take_le 2, nom_be_u16 = take_be 2,
    nom_le_u32 = take_le 4, nom_be_u32 = take_be 4,
    nom_le_u64 = take_le 8, nom_be_u64 = take_be 8,
    nom_le_i16 = take_le 2, nom_be_i16 = take_be 2,
    nom_le_i32 = take_le 4, nom_be_i32 = take_be 4,
    nom_le_i64 = take_le 8, nom_be_i64 = take_be 8,
    pe_absptr = 0x00, pe_aligned = 0x50, pe_datarel = 0x30, pe_funcrel = 0x40, pe_pcrel = 0x10,
    pe_sdata2 = 0x0a, pe_sdata4 = 0x0b, pe_sdata8 = 0x0c, pe_sleb128 = 0x09, pe_textrel = 0x20,
    pe_udata2 = 0x02, pe_udata4 = 0x03, pe_udata8 = 0x04, pe_uleb128 = 0x01,
    pe_format = (\<lambda>e. e AND 0x0f), pe_application = (\<lambda>e. e AND 0x70),
    pe_is_absent = (\<lambda>e. e = 0xff), pe_is_indirect = (\<lambda>e. e AND 0x80 \<noteq> 0),
    pe_is_valid_encoding = (\<lambda>e. e = 0xff \<or>
      e AND 0x0f \<in> {0, 1, 2, 3, 4, 9, 10, 11, 12} \<and>
      e AND 0x70 \<in> {0, 0x10, 0x20, 0x30, 0x40, 0x50}),
    bits_all = (\<lambda>fs. foldr (\<lambda>f a. f OR a) fs 0),
    bits_from_bits = (\<lambda>fs b. if b AND NOT (foldr (\<lambda>f a. f OR a) fs 0) = 0 then Some b else None),
    bits_contains = (\<lambda>a b. a AND b = b),
    bits_union = (\<lambda>a b. a OR b),
    x86_64 = psabi_number\<rparr>"

lemma lib_ref_sel:
  "nom_be_u8 lib_ref i = (case i of [] \<Rightarrow> None | b # r \<Rightarrow> Some (r, b))"
  "nom_take lib_ref c i =
    (if unat c \<le> length i then Some (drop (unat c) i, take (unat c) i) else None)"
  "nom_le_u16 lib_ref = take_le 2" "nom_be_u16 lib_ref = take_be 2"
  "nom_le_u32 lib_ref = take_le 4" "nom_be_u32 lib_ref = take_be 4"
  "nom_le_u64 lib_ref = take_le 8" "nom_be_u64 lib_ref = take_be 8"
  "nom_le_i16 lib_ref = take_le 2" "nom_be_i16 lib_ref = take_be 2"
  "nom_le_i32 lib_ref = take_le 4" "nom_be_i32 lib_ref = take_be 4"
  "nom_le_i64 lib_ref = take_le 8" "nom_be_i64 lib_ref = take_be 8"
  "x86_64 lib_ref = psabi_number"
  by (simp_all add: lib_ref_def)

lemma psabi_number_inj: "psabi_number r = psabi_number s \<longleftrightarrow> r = s"
  by (cases r; cases s) simp_all

interpretation ref: lib_laws lib_ref
  by unfold_locales (simp_all add: lib_ref_def psabi_number_inj)

end
