(* ===== verification/Encoding.thy ===== *)
theory Encoding
  imports Extern
begin

text \<open>
  \<open>desenredo-lsda/src/encoding.rs\<close> and \<open>error.rs\<close>: byte order, the address bases of the
  relative pointer encodings, a decoded pointer, and the errors of the parser.
\<close>

datatype Endian = Little | Big

datatype LsdaError = Eof | Encoding | Base | Overflow | Table | Loop

record Bases =
  bases_origin :: usize
  bases_function :: usize
  bases_text :: "usize option"
  bases_data :: "usize option"

definition bases_new :: "usize \<Rightarrow> usize \<Rightarrow> Bases" where
  "bases_new origin function =
    \<lparr>bases_origin = origin, bases_function = function, bases_text = None, bases_data = None\<rparr>"

definition bases_with_text :: "Bases \<Rightarrow> usize \<Rightarrow> Bases" where
  "bases_with_text b text = \<lparr>bases_origin = bases_origin b, bases_function = bases_function b,
    bases_text = Some text, bases_data = bases_data b\<rparr>"

definition bases_with_data :: "Bases \<Rightarrow> usize \<Rightarrow> Bases" where
  "bases_with_data b data = \<lparr>bases_origin = bases_origin b, bases_function = bases_function b,
    bases_text = bases_text b, bases_data = Some data\<rparr>"

record Target =
  target_address :: usize
  target_indirect :: bool

lemma bases_sel [simp]:
  "bases_origin (bases_with_text b t) = bases_origin b"
  "bases_function (bases_with_text b t) = bases_function b"
  "bases_text (bases_with_text b t) = Some t"
  "bases_data (bases_with_text b t) = bases_data b"
  "bases_origin (bases_with_data b d) = bases_origin b"
  "bases_function (bases_with_data b d) = bases_function b"
  "bases_text (bases_with_data b d) = bases_text b"
  "bases_data (bases_with_data b d) = Some d"
  "bases_origin (bases_new ori f) = ori" "bases_function (bases_new ori f) = f"
  "bases_text (bases_new ori f) = None" "bases_data (bases_new ori f) = None"
  by (simp_all add: bases_with_text_def bases_with_data_def bases_new_def)

end
