(* ===== verification/Reader.thy ===== *)
theory Reader
  imports Encoding
begin

text \<open>
  The byte consumers of \<open>desenredo-lsda/src/table.rs\<close>: fixed-width integers, LEB128, the
  scalar forms of a pointer encoding, alignment, encoded pointers and call-site offsets.  A
  consumer takes the input and returns the rest and a value, or the error.
\<close>

section \<open>Scalars\<close>

datatype Scalar = Unsigned u64 | Signed i64

text \<open>
  \<open>Scalar::add\<close>: the sum is computed in \<open>i128\<close>, where it cannot overflow (both operands are
  below \<open>2 ^ 64\<close> in size), and converted back to an address.
\<close>

definition i128_checked_add :: "int \<Rightarrow> int \<Rightarrow> int option" where
  "i128_checked_add a b = (if - (2 ^ 127) \<le> a + b \<and> a + b < 2 ^ 127 then Some (a + b) else None)"

definition usize_try_from :: "int \<Rightarrow> usize option" where
  "usize_try_from v = (if 0 \<le> v \<and> v < 2 ^ 64 then Some (of_int v) else None)"

definition scalar_add :: "Scalar \<Rightarrow> usize \<Rightarrow> LsdaError + usize" where
  "scalar_add self base =
    (let value = (case self of Unsigned value \<Rightarrow> uint value | Signed value \<Rightarrow> sint value)
     in and_then (ok_or Overflow (i128_checked_add (uint base) value))
          (\<lambda>value. ok_or Overflow (usize_try_from value)))"

section \<open>Fixed-width input\<close>

definition byte :: "lib \<Rightarrow> bytes \<Rightarrow> LsdaError + (bytes \<times> u8)" where
  "byte L input = ok_or Eof (nom_be_u8 L input)"

definition take_bytes :: "lib \<Rightarrow> bytes \<Rightarrow> usize \<Rightarrow> LsdaError + (bytes \<times> bytes)" where
  "take_bytes L input count = ok_or Eof (nom_take L count input)"

definition position :: "bytes \<Rightarrow> bytes \<Rightarrow> LsdaError + usize" where
  "position whole rest = ok_or Table (checked_sub (len_of whole) (len_of rest))"

definition widen :: "('w \<Rightarrow> u64) \<Rightarrow> (bytes \<times> 'w) option \<Rightarrow> LsdaError + (bytes \<times> u64)" where
  "widen f r = ok_or Eof (map_option (\<lambda>(rest, value). (rest, f value)) r)"

definition unsigned :: "lib \<Rightarrow> bytes \<Rightarrow> usize \<Rightarrow> Endian \<Rightarrow> LsdaError + (bytes \<times> u64)" where
  "unsigned L input width endian =
    (if width = 2 then
       (case endian of Little \<Rightarrow> widen ucast (nom_le_u16 L input)
                     | Big \<Rightarrow> widen ucast (nom_be_u16 L input))
     else if width = 4 then
       (case endian of Little \<Rightarrow> widen ucast (nom_le_u32 L input)
                     | Big \<Rightarrow> widen ucast (nom_be_u32 L input))
     else if width = 8 then
       (case endian of Little \<Rightarrow> ok_or Eof (nom_le_u64 L input)
                     | Big \<Rightarrow> ok_or Eof (nom_be_u64 L input))
     else Inl Encoding)"

definition signed :: "lib \<Rightarrow> bytes \<Rightarrow> usize \<Rightarrow> Endian \<Rightarrow> LsdaError + (bytes \<times> i64)" where
  "signed L input width endian =
    (if width = 2 then
       (case endian of Little \<Rightarrow> widen scast (nom_le_i16 L input)
                     | Big \<Rightarrow> widen scast (nom_be_i16 L input))
     else if width = 4 then
       (case endian of Little \<Rightarrow> widen scast (nom_le_i32 L input)
                     | Big \<Rightarrow> widen scast (nom_be_i32 L input))
     else if width = 8 then
       (case endian of Little \<Rightarrow> ok_or Eof (nom_le_i64 L input)
                     | Big \<Rightarrow> ok_or Eof (nom_be_i64 L input))
     else Inl Encoding)"

section \<open>LEB128\<close>

text \<open>
  The loops of \<open>uleb\<close> and \<open>sleb\<close>.  They end whatever the byte parser does, because a shift
  past the width is an error and every round adds seven.
\<close>

function uleb_loop :: "lib \<Rightarrow> bytes \<Rightarrow> u64 \<Rightarrow> u32 \<Rightarrow> LsdaError + (bytes \<times> u64)" where
  "uleb_loop L input value shift =
    (case byte L input of
       Inl e \<Rightarrow> Inl e
     | Inr (rest, octet) \<Rightarrow>
         (let payload = (ucast (octet AND 0x7f) :: u64);
              fits = (if shift = 63 then payload \<le> 1 else shift \<le> 62)
          in if \<not> fits then Inl Overflow
             else let value = value OR push_bit (unat shift) payload
                  in if octet AND 0x80 = 0 then Inr (rest, value)
                     else (case checked_add shift 7 of
                             None \<Rightarrow> Inl Overflow
                           | Some shift' \<Rightarrow> uleb_loop L rest value shift')))"
  by pat_completeness auto
termination
  by (relation "measure (\<lambda>(L, input, value, shift). 100 - unat shift)")
     (auto simp: checked_add_def word_le_nat_alt unat_add_exact split: if_splits)

definition uleb :: "lib \<Rightarrow> bytes \<Rightarrow> LsdaError + (bytes \<times> u64)" where
  "uleb L input = uleb_loop L input 0 0"

text \<open>\<open>checked_shl\<close> fails on a shift of the width or more; the bits shifted out are lost.\<close>

definition checked_shl :: "u64 \<Rightarrow> u32 \<Rightarrow> u64 option" where
  "checked_shl x s = (if unat s < 64 then Some (push_bit (unat s) x) else None)"

function sleb_loop :: "lib \<Rightarrow> bytes \<Rightarrow> u64 \<Rightarrow> u32 \<Rightarrow> LsdaError + (bytes \<times> u64 \<times> u32 \<times> u8)" where
  "sleb_loop L input value shift =
    (case byte L input of
       Inl e \<Rightarrow> Inl e
     | Inr (rest, octet) \<Rightarrow>
         (let payload = (ucast (octet AND 0x7f) :: u64)
          in if 64 \<le> shift then Inl Overflow
             else (case checked_shl payload shift of
                     None \<Rightarrow> Inl Overflow
                   | Some shifted \<Rightarrow>
                       (let value = value OR shifted
                        in case checked_add shift 7 of
                             None \<Rightarrow> Inl Overflow
                           | Some shift' \<Rightarrow>
                               if octet AND 0x80 = 0 then Inr (rest, value, shift', octet)
                               else sleb_loop L rest value shift'))))"
  by pat_completeness auto
termination
  by (relation "measure (\<lambda>(L, input, value, shift). 100 - unat shift)")
     (auto simp: checked_add_def checked_shl_def word_le_nat_alt unat_add_exact split: if_splits)

text \<open>The sign bit of the last octet fills the bits above it, when there are any.\<close>

definition sign_extend :: "u64 \<Rightarrow> u32 \<Rightarrow> u8 \<Rightarrow> i64" where
  "sign_extend value shift terminal =
    (if shift < 64 \<and> terminal AND 0x40 \<noteq> 0 then value OR push_bit (unat shift) (NOT 0) else value)"

definition sleb :: "lib \<Rightarrow> bytes \<Rightarrow> LsdaError + (bytes \<times> i64)" where
  "sleb L input = and_then (sleb_loop L input 0 0)
    (\<lambda>(rest, value, shift, terminal).
       Inr (rest, sign_extend value shift terminal))"

declare uleb_loop.simps [simp del] sleb_loop.simps [simp del]

section \<open>Encoded values\<close>

definition scalar :: "lib \<Rightarrow> bytes \<Rightarrow> u8 \<Rightarrow> Endian \<Rightarrow> LsdaError + (bytes \<times> Scalar)" where
  "scalar L input format endian =
    (let uns = (\<lambda>r. and_then r (\<lambda>(rest, value). Inr (rest, Unsigned value)));
         sig = (\<lambda>r. and_then r (\<lambda>(rest, value). Inr (rest, Signed value)))
     in if format = pe_absptr L then uns (unsigned L input 8 endian)
        else if format = pe_uleb128 L then uns (uleb L input)
        else if format = pe_sleb128 L then sig (sleb L input)
        else if format = pe_udata2 L then uns (unsigned L input 2 endian)
        else if format = pe_udata4 L then uns (unsigned L input 4 endian)
        else if format = pe_udata8 L then uns (unsigned L input 8 endian)
        else if format = pe_sdata2 L then sig (signed L input 2 endian)
        else if format = pe_sdata4 L then sig (signed L input 4 endian)
        else if format = pe_sdata8 L then sig (signed L input 8 endian)
        else Inl Encoding)"

definition aligned :: "lib \<Rightarrow> bytes \<Rightarrow> bytes \<Rightarrow> Bases \<Rightarrow> LsdaError + bytes" where
  "aligned L whole input bases =
    and_then (position whole input) (\<lambda>offset.
    and_then (ok_or Overflow (checked_add (bases_origin bases) offset)) (\<lambda>address.
      let alignment = 8;
          remainder = address mod alignment;
          padding = (if remainder = 0 then 0 else alignment - remainder)
      in and_then (take_bytes L input padding) (\<lambda>(rest, _). Inr rest)))"

definition target_base :: "lib \<Rightarrow> u8 \<Rightarrow> usize \<Rightarrow> Bases \<Rightarrow> LsdaError + usize" where
  "target_base L encoding field bases =
    (let app = pe_application L encoding
     in if app = pe_absptr L \<or> app = pe_aligned L then Inr 0
        else if app = pe_pcrel L then Inr field
        else if app = pe_textrel L then ok_or Base (bases_text bases)
        else if app = pe_datarel L then ok_or Base (bases_data bases)
        else if app = pe_funcrel L then Inr (bases_function bases)
        else Inl Encoding)"

definition target ::
    "lib \<Rightarrow> bytes \<Rightarrow> bytes \<Rightarrow> u8 \<Rightarrow> Bases \<Rightarrow> Endian \<Rightarrow> LsdaError + (bytes \<times> Target)" where
  "target L whole input encoding bases endian =
    (if pe_is_valid_encoding L encoding \<and> \<not> pe_is_absent L encoding then
       and_then (if pe_application L encoding = pe_aligned L then aligned L whole input bases
                 else Inr input) (\<lambda>input.
       and_then (position whole input) (\<lambda>pos.
       and_then (ok_or Overflow (checked_add (bases_origin bases) pos)) (\<lambda>field.
       and_then (scalar L input (pe_format L encoding) endian) (\<lambda>(rest, sc).
       and_then (target_base L encoding field bases) (\<lambda>base.
       and_then (scalar_add sc base) (\<lambda>address.
         Inr (rest, \<lparr>target_address = address, target_indirect = pe_is_indirect L encoding\<rparr>)))))))
     else Inl Encoding)"

definition offset :: "lib \<Rightarrow> bytes \<Rightarrow> u8 \<Rightarrow> Endian \<Rightarrow> LsdaError + (bytes \<times> usize)" where
  "offset L input encoding endian =
    (let plain = (pe_application L encoding = pe_absptr L \<and> \<not> pe_is_indirect L encoding)
     in if pe_is_valid_encoding L encoding \<and> \<not> pe_is_absent L encoding \<and> plain then
          and_then (scalar L input (pe_format L encoding) endian) (\<lambda>(rest, value).
          and_then (scalar_add value 0) (\<lambda>value. Inr (rest, value)))
        else Inl Encoding)"

section \<open>Exact address arithmetic\<close>

fun scalar_int :: "Scalar \<Rightarrow> int" where
  "scalar_int (Unsigned v) = uint v"
| "scalar_int (Signed v) = sint v"

text \<open>The sum with a base is the mathematical sum, when that is an address.\<close>

lemma scalar_add_exact:
  "scalar_add s base = (let t = uint base + scalar_int s
     in if 0 \<le> t \<and> t < 2 ^ 64 then Inr (of_int t) else Inl Overflow)"
proof -
  have b: "0 \<le> uint base" "uint base < 2 ^ 64"
    using unsigned_less[of base, where ?'a = int] by simp_all
  have s: "- (2 ^ 63) \<le> scalar_int s \<and> scalar_int s < 2 ^ 64"
  proof (cases s)
    case (Unsigned v)
    have "uint v < 2 ^ 64" using unsigned_less[of v, where ?'a = int] by simp
    moreover have "- (2 ^ 63) \<le> uint v" by (rule order_trans[of _ 0]) simp_all
    ultimately show ?thesis using Unsigned by simp
  next
    case (Signed v)
    have "sint v < 2 ^ 63" "- (2 ^ 63) \<le> sint v" using sint_lt[of v] sint_ge[of v] by simp_all
    with Signed show ?thesis by simp
  qed
  have pow: "(2 :: int) ^ 63 \<le> 2 ^ 127" "(2 :: int) ^ 64 + 2 ^ 64 \<le> 2 ^ 127" by simp_all
  have "- (2 ^ 127) \<le> uint base + scalar_int s" using b s pow(1) by linarith
  moreover have "uint base + scalar_int s < 2 ^ 127" using b s pow(2) by linarith
  ultimately show ?thesis
    by (cases s) (simp_all add: scalar_add_def i128_checked_add_def usize_try_from_def Let_def)
qed

end
