(* ===== verification/Leb128.thy ===== *)
theory Leb128
  imports Reader "HOL-Library.Sublist"
begin

text \<open>
  LEB128 as DWARF defines it, and the proof that \<open>uleb\<close> and \<open>sleb\<close> implement it:
  \<open>leb_split\<close> cuts an input after the first octet without the continuation bit,
  \<open>leb_value\<close> and \<open>leb_signed\<close> are the number those octets spell, and \<open>uleb_encode\<close>
  and \<open>sleb_encode\<close> write a number in the shortest form.
\<close>

section \<open>The encoding\<close>

fun leb_split :: "bytes \<Rightarrow> (bytes \<times> bytes) option" where
  "leb_split [] = None"
| "leb_split (b # bs) =
    (if b AND 0x80 = 0 then Some ([b], bs)
     else map_option (\<lambda>(used, rest). (b # used, rest)) (leb_split bs))"

definition payload :: "u8 \<Rightarrow> nat" where
  "payload b = unat (b AND 0x7f)"

fun leb_value :: "bytes \<Rightarrow> nat" where
  "leb_value [] = 0"
| "leb_value (b # bs) = payload b + 128 * leb_value bs"

definition leb_signed :: "bytes \<Rightarrow> int" where
  "leb_signed bs = int (leb_value bs) - (if last bs AND 0x40 \<noteq> 0 then 128 ^ length bs else 0)"

fun uleb_encode :: "nat \<Rightarrow> bytes" where
  "uleb_encode n = (if n < 128 then [of_nat n]
     else (of_nat (n mod 128) OR 0x80) # uleb_encode (n div 128))"

function sleb_encode :: "int \<Rightarrow> bytes" where
  "sleb_encode v = (if - 64 \<le> v \<and> v < 64 then [word_of_int (v mod 128)]
     else (word_of_int (v mod 128) OR 0x80) # sleb_encode (v div 128))"
  by pat_completeness auto
termination
  by (relation "measure (\<lambda>v. nat \<bar>v\<bar>)") auto

declare uleb_encode.simps [simp del] sleb_encode.simps [simp del]

section \<open>Bits\<close>

lemma payload_less: "payload b < 128"
proof -
  have "unat (b AND 0x7f) \<le> unat (0x7f :: u8)"
    by (rule word_and_le1 [THEN word_le_nat_alt [THEN iffD1]])
  then show ?thesis by (simp add: payload_def)
qed

lemma or_push_bit:
  fixes v p :: u64
  assumes "unat v < 2 ^ m"
  shows "v OR push_bit m p = of_nat (unat v + 2 ^ m * unat p)"
proof -
  have v: "take_bit m v = v"
    using assms by (simp add: word_unat_eq_iff unsigned_take_bit_eq take_bit_nat_eq_self)
  have "v + push_bit m p = v OR push_bit m p"
  proof (rule disjunctive_add)
    fix n
    show "\<not> bit v n \<or> \<not> bit (push_bit m p) n"
      by (subst v [symmetric]) (auto simp: bit_take_bit_iff bit_push_bit_iff)
  qed
  then show ?thesis by (simp add: push_bit_eq_mult mult.commute)
qed

lemma unat_ucast_byte: "unat (ucast (b :: u8) :: u64) = unat b"
proof -
  have "unat b < 2 ^ 64" using unsigned_less[of b, where ?'a = nat] by simp
  then show ?thesis by (simp add: unsigned_ucast_eq take_bit_nat_eq_self)
qed

lemma unat_payload: "unat (ucast (b AND 0x7f) :: u64) = payload b"
  by (simp only: payload_def unat_ucast_byte)

lemma leb_value_bound: "leb_value bs < 128 ^ length bs"
proof (induction bs)
  case Nil
  show ?case by simp
next
  case (Cons b bs)
  then show ?case using payload_less[of b] by simp
qed

section \<open>Writing and reading back\<close>

lemma octet_bits_all:
  "list_all (\<lambda>m. (of_nat m :: u8) AND 0x80 = 0 \<and> payload (of_nat m) = m \<and>
     (of_nat m OR 0x80 :: u8) AND 0x80 \<noteq> 0 \<and> payload (of_nat m OR 0x80) = m \<and>
     ((of_nat m :: u8) AND 0x40 \<noteq> 0 \<longleftrightarrow> 64 \<le> m)) [0..<128]"
  by code_simp

lemma octet_bits:
  assumes "m < 128"
  shows "(of_nat m :: u8) AND 0x80 = 0" "payload (of_nat m) = m"
    "(of_nat m OR 0x80 :: u8) AND 0x80 \<noteq> 0" "payload (of_nat m OR 0x80) = m"
    "(of_nat m :: u8) AND 0x40 \<noteq> 0 \<longleftrightarrow> 64 \<le> m"
proof -
  from assms have "m \<in> set [0..<128]" by simp
  with octet_bits_all show "(of_nat m :: u8) AND 0x80 = 0" "payload (of_nat m) = m"
    "(of_nat m OR 0x80 :: u8) AND 0x80 \<noteq> 0" "payload (of_nat m OR 0x80) = m"
    "(of_nat m :: u8) AND 0x40 \<noteq> 0 \<longleftrightarrow> 64 \<le> m"
    unfolding list_all_iff by blast+
qed

lemma uleb_encode_split: "leb_split (uleb_encode n @ rest) = Some (uleb_encode n, rest)"
proof (induction n rule: uleb_encode.induct)
  case (1 n)
  then show ?case
    by (subst (1 2) uleb_encode.simps) (simp add: octet_bits del: of_nat_mod)
qed

lemma uleb_encode_value: "leb_value (uleb_encode n) = n"
proof (induction n rule: uleb_encode.induct)
  case (1 n)
  then show ?case
    by (subst uleb_encode.simps) (simp add: octet_bits)
qed

lemma uleb_encode_length: "n < 128 ^ Suc k \<Longrightarrow> length (uleb_encode n) \<le> Suc k"
proof (induction k arbitrary: n)
  case 0
  then show ?case by (subst uleb_encode.simps) simp
next
  case (Suc k)
  have "n div 128 < 128 ^ Suc k" using Suc.prems by (simp add: less_mult_imp_div_less mult.commute)
  then show ?case using Suc.IH[of "n div 128"] by (subst uleb_encode.simps) simp
qed

lemma mod128_nat: "(word_of_int (v mod 128) :: u8) = of_nat (nat (v mod 128))" "nat (v mod 128) < 128"
  by (simp_all add: nat_less_iff)

lemma sleb_encode_split: "leb_split (sleb_encode v @ rest) = Some (sleb_encode v, rest)"
proof (induction v rule: sleb_encode.induct)
  case (1 v)
  note bits = octet_bits[OF mod128_nat(2), of v]
  show ?case
  proof (cases "- 64 \<le> v \<and> v < 64")
    case True
    then have "sleb_encode v = [of_nat (nat (v mod 128))]"
      by (subst sleb_encode.simps) (simp only: mod128_nat(1) if_True simp_thms)
    then show ?thesis using bits(1) by (simp only: append.simps leb_split.simps if_True simp_thms)
  next
    case False
    then have "sleb_encode v = (of_nat (nat (v mod 128)) OR 0x80) # sleb_encode (v div 128)"
      by (subst sleb_encode.simps) (simp only: mod128_nat(1) if_False)
    then show ?thesis
      using bits(3) 1[OF False]
      by (simp only: append.simps leb_split.simps if_False option.map prod.case)
  qed
qed

lemma sleb_encode_nonempty: "sleb_encode v \<noteq> []"
  by (subst sleb_encode.simps) simp

lemma leb_signed_Cons: "bs \<noteq> [] \<Longrightarrow> leb_signed (b # bs) = int (payload b) + 128 * leb_signed bs"
  by (simp add: leb_signed_def)

lemma sleb_encode_value: "leb_signed (sleb_encode v) = v"
proof (induction v rule: sleb_encode.induct)
  case (1 v)
  let ?m = "nat (v mod 128)"
  show ?case
  proof (cases "- 64 \<le> v \<and> v < 64")
    case True
    have neg: "v mod 128 = v + 128" if "v < 0"
      using mod_pos_pos_trivial[of "v + 128" 128] True that by simp
    have pos: "v mod 128 = v" if "0 \<le> v"
      using mod_pos_pos_trivial[of v 128] True that by simp
    have "64 \<le> ?m \<longleftrightarrow> v < 0"
      using neg pos True by (cases "v < 0") auto
    with neg pos have "leb_signed [of_nat ?m] = v"
      using octet_bits(2,5)[OF mod128_nat(2), of v] by (auto simp: leb_signed_def)
    then show ?thesis using True by (subst sleb_encode.simps) (simp only: mod128_nat if_True simp_thms)
  next
    case False
    have "leb_signed (sleb_encode v) = int ?m + 128 * (v div 128)"
      by (subst sleb_encode.simps)
         (simp only: mod128_nat if_False False 1[OF False]
           leb_signed_Cons [OF sleb_encode_nonempty] octet_bits(4)[OF mod128_nat(2)])
    then show ?thesis by simp
  qed
qed

lemma sleb_encode_length:
  "- (64 * 128 ^ k) \<le> v \<Longrightarrow> v < 64 * 128 ^ k \<Longrightarrow> length (sleb_encode v) \<le> Suc k"
proof (induction k arbitrary: v)
  case 0
  then show ?case by (subst sleb_encode.simps) simp
next
  case (Suc k)
  have "- (64 * 128 ^ k) \<le> v div 128" "v div 128 < 64 * 128 ^ k"
    using Suc.prems by (simp_all add: zdiv_mono1 div_int_pos_iff)
  then show ?case using Suc.IH[of "v div 128"] by (subst sleb_encode.simps) simp
qed

text \<open>The shift after \<open>k\<close> octets.\<close>

definition leb_shift :: "nat \<Rightarrow> u32" where
  "leb_shift k = of_nat (7 * k)"

lemma leb_shift_0 [simp]: "leb_shift 0 = 0"
  by (simp add: leb_shift_def)

lemma unat_shift:
  assumes "k \<le> 10"
  shows "unat (leb_shift k) = 7 * k"
proof -
  have "7 * k < 2 ^ LENGTH(32)" using assms by simp
  then show ?thesis unfolding leb_shift_def by (simp only: unat_of_nat mod_less)
qed

lemma shift_step:
  assumes "k \<le> 9"
  shows "checked_add (leb_shift k) 7 = Some (leb_shift (Suc k))"
proof -
  have "leb_shift (Suc k) = leb_shift k + 7"
    by (simp add: leb_shift_def algebra_simps)
  then show ?thesis using assms unat_shift[of k] by (simp add: checked_add_def)
qed

lemma shift_cmp:
  assumes "k \<le> 10"
  shows "leb_shift k = 63 \<longleftrightarrow> k = 9" "leb_shift k \<le> 62 \<longleftrightarrow> k \<le> 8"
    "64 \<le> leb_shift k \<longleftrightarrow> k = 10" "leb_shift k < 64 \<longleftrightarrow> k < 10"
  using unat_shift[OF assms] assms
  by (auto simp: word_unat_eq_iff word_le_nat_alt word_less_nat_alt)

lemma pow128: "(2 :: nat) ^ (7 * k) = 128 ^ k"
  by (simp add: power_mult)

section \<open>Ten octets\<close>

lemma leb_split_last: "leb_split input = Some (used, rest) \<Longrightarrow> used \<noteq> [] \<and> last used AND 0x80 = 0"
  by (induction input arbitrary: used) (auto split: if_splits)

lemma terminal_octet:
  assumes "b AND 0x80 = (0 :: u8)"
  shows "payload b = unat b" "b AND 0x40 \<noteq> 0 \<longleftrightarrow> 64 \<le> unat b"
proof -
  have m: "(0x7f :: u8) = NOT 0x80" by code_simp
  have "b = (b AND 0x80) OR (b AND NOT 0x80)" by (rule bit_word_eqI) (auto simp: bit_simps)
  then have b: "b AND 0x7f = b" unfolding assms or.left_neutral m by (rule sym)
  then show "payload b = unat b" by (simp add: payload_def)
  with payload_less[of b] octet_bits(5)[of "unat b"] show "b AND 0x40 \<noteq> 0 \<longleftrightarrow> 64 \<le> unat b" by simp
qed

lemma leb_value_snoc: "leb_value (us @ [b]) = leb_value us + 128 ^ length us * payload b"
  by (induction us) (simp_all add: algebra_simps)

text \<open>Sixty-three bits and the tenth octet above them.\<close>

lemma ten_octets:
  assumes "leb_split input = Some (used, rest)" "length used = 10"
  obtains low where "low < (2 :: nat) ^ 63" "leb_value used = low + 2 ^ 63 * unat (last used)"
    "leb_signed used = int low + 2 ^ 63 * (int (unat (last used)) - (if 64 \<le> unat (last used) then 128 else 0))"
    "unat (last used) < 128"
proof -
  note l = leb_split_last[OF assms(1)]
  note t = terminal_octet[OF conjunct2[OF l]]
  have "leb_value used = leb_value (butlast used) + 128 ^ 9 * unat (last used)"
    using leb_value_snoc[of "butlast used" "last used"] l assms(2) by (simp add: t(1))
  moreover have "leb_value (butlast used) < 128 ^ 9"
    using leb_value_bound[of "butlast used"] assms(2) by simp
  moreover have "unat (last used) < 128" using payload_less[of "last used"] t(1) by simp
  ultimately show ?thesis
    by (intro that[of "leb_value (butlast used)"]) (simp_all add: leb_signed_def t(2) assms(2))
qed

lemma sint_word_of_int_iff: "sint (word_of_int z :: i64) = z \<longleftrightarrow> - (2 ^ 63) \<le> z \<and> z < 2 ^ 63"
  using sint_range_size[of "word_of_int z :: i64"]
  by (auto simp: signed_of_int signed_take_bit_int_eq_self word_size)

section \<open>The loops\<close>

context nom_laws begin

lemma byte_simps [simp]:
  "byte L [] = Inl Eof"
  "byte L (b # bs) = Inr (bs, b)"
  by (simp_all add: byte_def be_u8)

lemma take_bytes_eq: "take_bytes L input c =
    (if unat c \<le> length input then Inr (drop (unat c) input, take (unat c) input) else Inl Eof)"
  by (simp add: take_bytes_def take_law)

lemma uleb_loop_step:
  assumes "k \<le> 9" and v: "unat v < 128 ^ k"
  shows "uleb_loop L (b # bs) v (leb_shift k) =
    (if k = 9 \<and> 1 < payload b then Inl Overflow
     else if b AND 0x80 = 0 then Inr (bs, of_nat (unat v + 128 ^ k * payload b))
     else uleb_loop L bs (of_nat (unat v + 128 ^ k * payload b)) (leb_shift (Suc k)))"
proof -
  have s: "unat (leb_shift k) = 7 * k" using assms(1) by (intro unat_shift) simp
  have v': "unat v < 2 ^ (7 * k)" using v by (simp add: pow128)
  have le1: "(ucast (b AND 0x7f) :: u64) \<le> 1 \<longleftrightarrow> payload b \<le> 1"
    by (simp add: word_le_nat_alt unat_payload)
  have cmp: "leb_shift k = 63 \<longleftrightarrow> k = 9" "leb_shift k \<le> 62 \<longleftrightarrow> k \<le> 8"
    using assms(1) shift_cmp[of k] by auto
  have acc: "v OR push_bit (7 * k) (ucast (b AND 0x7f)) = of_nat (unat v + 128 ^ k * payload b)"
    by (simp only: or_push_bit [OF v'] unat_payload pow128)
  show ?thesis
    by (subst uleb_loop.simps)
       (use assms(1) in \<open>simp only: byte_simps sum.case prod.case Let_def s acc cmp le1
         shift_step [OF assms(1)] option.case, auto\<close>)
qed

lemma uleb_loop_10: "uleb_loop L bs v (leb_shift 10) \<noteq> Inr r"
proof -
  have "unat (leb_shift 10) = 70" using unat_shift[of 10] by simp
  then have "leb_shift 10 \<noteq> 63" "\<not> leb_shift 10 \<le> 62"
    by (auto simp: word_unat_eq_iff word_le_nat_alt)
  then show ?thesis
    by (cases bs) (simp_all add: uleb_loop.simps [of L _ v "leb_shift 10"] Let_def)
qed

lemma uleb_acc_exact:
  assumes "k \<le> 9" "unat (v :: u64) < 128 ^ k" "\<not> (k = 9 \<and> 1 < payload b)"
  shows "unat (of_nat (unat v + 128 ^ k * payload b) :: u64) = unat v + 128 ^ k * payload b"
    and "k \<le> 8 \<Longrightarrow> unat v + 128 ^ k * payload b < 128 ^ Suc k"
proof -
  have p: "payload b \<le> 127" using payload_less[of b] by simp
  then have le: "128 ^ k * payload b \<le> 128 ^ k * 127" by (rule mult_le_mono2)
  have pow: "(128 :: nat) ^ Suc k = 128 ^ k + 128 ^ k * 127" by simp
  show step: "unat v + 128 ^ k * payload b < 128 ^ Suc k" if "k \<le> 8"
    using assms(2) le unfolding pow by linarith
  have "unat v + 128 ^ k * payload b < 2 ^ 64"
  proof (cases "k = 9")
    case True
    then have "128 ^ k * payload b \<le> 128 ^ 9" using assms(3) by simp
    then show ?thesis using assms(2) True by simp
  next
    case False
    then have "k \<le> 8" using assms(1) by simp
    moreover have "(128 :: nat) ^ Suc k \<le> 128 ^ 9"
      using \<open>k \<le> 8\<close> by (intro power_increasing) simp_all
    ultimately show ?thesis using step by simp
  qed
  then show "unat (of_nat (unat v + 128 ^ k * payload b) :: u64) = unat v + 128 ^ k * payload b"
    by (simp only: unat_of_nat) simp
qed

lemma leb_split_nonempty: "leb_split bs = Some (used, rest) \<Longrightarrow> used \<noteq> []"
  by (cases bs) (auto split: if_splits)

lemma leb_split_cont:
  assumes "b AND 0x80 \<noteq> 0"
  shows "(\<exists>used. leb_split (b # bs) = Some (used, rest) \<and> P used) \<longleftrightarrow>
    (\<exists>used. leb_split bs = Some (used, rest) \<and> P (b # used))"
  using assms by auto

lemma uleb_loop_iff:
  assumes "k \<le> 9" "unat v < 128 ^ k"
  shows "uleb_loop L input v (leb_shift k) = Inr (rest, w) \<longleftrightarrow>
    (\<exists>used. leb_split input = Some (used, rest) \<and> k + length used \<le> 10 \<and>
      unat v + 128 ^ k * leb_value used < 2 ^ 64 \<and>
      w = of_nat (unat v + 128 ^ k * leb_value used))"
  using assms
proof (induction input arbitrary: v k)
  case Nil
  then show ?case by (subst uleb_loop.simps) simp
next
  case (Cons b bs)
  let ?v = "of_nat (unat v + 128 ^ k * payload b) :: u64"
  show ?case
  proof (cases "k = 9 \<and> 1 < payload b")
    case True
    have "\<not> unat v + 128 ^ k * leb_value (b # u) < 2 ^ 64" for u
    proof -
      have "2 \<le> leb_value (b # u)" using True by simp
      then have "128 ^ 9 * 2 \<le> (128 :: nat) ^ 9 * leb_value (b # u)" by (rule mult_le_mono2)
      then show ?thesis using True by simp
    qed
    with True show ?thesis
      using uleb_loop_step[OF Cons.prems, of b bs] by (auto split: if_splits)
  next
    case False
    note exact = uleb_acc_exact[OF Cons.prems False]
    show ?thesis
    proof (cases "b AND 0x80 = 0")
      case True
      moreover have "unat v + 128 ^ k * payload b < 2 ^ 64"
        using exact(1) unsigned_less[of ?v, where ?'a = nat] by simp
      ultimately show ?thesis
        using False Cons.prems uleb_loop_step[OF Cons.prems, of b bs] by auto
    next
      case cont: False
      have red: "uleb_loop L (b # bs) v (leb_shift k) = uleb_loop L bs ?v (leb_shift (Suc k))"
        by (simp only: uleb_loop_step[OF Cons.prems] False cont if_False)
      show ?thesis
      proof (cases "k = 9")
        case True
        then show ?thesis
          using red cont uleb_loop_10[of bs ?v "(rest, w)"] by (auto dest!: leb_split_nonempty)
      next
        case False
        then have k: "k \<le> 8" using Cons.prems(1) by simp
        have "unat ?v < 128 ^ Suc k" using exact(1) exact(2)[OF k] by (simp only:)
        moreover have "Suc k \<le> 9" using k by simp
        ultimately have "uleb_loop L bs ?v (leb_shift (Suc k)) = Inr (rest, w) \<longleftrightarrow>
            (\<exists>used. leb_split bs = Some (used, rest) \<and> Suc k + length used \<le> 10 \<and>
              unat ?v + 128 ^ Suc k * leb_value used < 2 ^ 64 \<and>
              w = of_nat (unat ?v + 128 ^ Suc k * leb_value used))"
          by (intro Cons.IH)
        moreover have "unat ?v + 128 ^ Suc k * n = unat v + 128 ^ k * (payload b + 128 * n)" for n
          by (simp only: exact(1)) (simp add: algebra_simps)
        ultimately show ?thesis
          unfolding red leb_split_cont [OF cont]
          by (simp only: leb_value.simps list.size add_Suc add_Suc_right One_nat_def add_0_right)
      qed
    qed
  qed
qed

lemma uleb_iff:
  "uleb L input = Inr (rest, v) \<longleftrightarrow>
    (\<exists>used. leb_split input = Some (used, rest) \<and> length used \<le> 10 \<and> leb_value used < 2 ^ 64 \<and>
      v = of_nat (leb_value used))"
  using uleb_loop_iff[of 0 0 input rest v] by (simp add: uleb_def)

text \<open>A complete encoding is read or overflows.\<close>

lemma uleb_loop_11: "bs \<noteq> [] \<Longrightarrow> uleb_loop L bs v (leb_shift 10) = Inl Overflow"
proof -
  have "unat (leb_shift 10) = 70" using unat_shift[of 10] by simp
  then have "leb_shift 10 \<noteq> 63" "\<not> leb_shift 10 \<le> 62" by (auto simp: word_unat_eq_iff word_le_nat_alt)
  then show "bs \<noteq> [] \<Longrightarrow> uleb_loop L bs v (leb_shift 10) = Inl Overflow"
    by (cases bs) (simp_all add: uleb_loop.simps [of L _ v "leb_shift 10"] Let_def)
qed

lemma uleb_loop_overflow:
  assumes "k \<le> 9" "unat v < 128 ^ k" "leb_split input = Some (used, rest)"
    "\<And>r. uleb_loop L input v (leb_shift k) \<noteq> Inr r"
  shows "uleb_loop L input v (leb_shift k) = Inl Overflow"
  using assms
proof (induction input arbitrary: v k used)
  case (Cons b bs)
  let ?v = "of_nat (unat v + 128 ^ k * payload b) :: u64"
  note step = uleb_loop_step[OF Cons.prems(1,2), of b bs]
  show ?case
  proof (cases "k = 9 \<and> 1 < payload b")
    case False
    have cont: "b AND 0x80 \<noteq> 0"
    proof
      assume "b AND 0x80 = 0"
      then have "uleb_loop L (b # bs) v (leb_shift k) = Inr (bs, ?v)" by (simp only: step False if_False) simp
      with Cons.prems(4) show False by blast
    qed
    then have red: "uleb_loop L (b # bs) v (leb_shift k) = uleb_loop L bs ?v (leb_shift (Suc k))"
      by (simp only: step False if_False)
    from cont Cons.prems(3) obtain u where u: "leb_split bs = Some (u, rest)" by auto
    show ?thesis
    proof (cases "k = 9")
      case True
      with red u uleb_loop_11[of bs] show ?thesis by (cases "bs = []") simp_all
    next
      case k: False
      then have k8: "k \<le> 8" using Cons.prems(1) by simp
      have "unat ?v < 128 ^ Suc k"
        unfolding uleb_acc_exact(1)[OF Cons.prems(1,2) False]
        by (rule uleb_acc_exact(2)[OF Cons.prems(1,2) False k8])
      then show ?thesis
        unfolding red by (intro Cons.IH[OF _ _ u]) (use k8 Cons.prems(4) red in simp_all)
    qed
  next
    case True
    then show ?thesis unfolding step by simp
  qed
qed simp

lemma uleb_overflow:
  "leb_split input = Some (used, rest) \<Longrightarrow> (\<And>r. uleb L input \<noteq> Inr r) \<Longrightarrow> uleb L input = Inl Overflow"
  using uleb_loop_overflow[of 0 0 input used rest] by (simp add: uleb_def)

lemma sleb_loop_step:
  assumes "k \<le> 9" and v: "unat v < 128 ^ k"
  shows "sleb_loop L (b # bs) v (leb_shift k) =
    (if b AND 0x80 = 0 then Inr (bs, of_nat (unat v + 128 ^ k * payload b), leb_shift (Suc k), b)
     else sleb_loop L bs (of_nat (unat v + 128 ^ k * payload b)) (leb_shift (Suc k)))"
proof -
  have s: "unat (leb_shift k) = 7 * k" using assms(1) by (intro unat_shift) simp
  have v': "unat v < 2 ^ (7 * k)" using v by (simp add: pow128)
  have ge: "64 \<le> leb_shift k \<longleftrightarrow> False" using assms(1) shift_cmp[of k] by auto
  have shl: "checked_shl (ucast (b AND 0x7f)) (leb_shift k) =
      Some (push_bit (7 * k) (ucast (b AND 0x7f)))"
    using assms(1) by (simp add: checked_shl_def s)
  have acc: "v OR push_bit (7 * k) (ucast (b AND 0x7f)) = of_nat (unat v + 128 ^ k * payload b)"
    by (simp only: or_push_bit [OF v'] unat_payload pow128)
  show ?thesis
    by (subst sleb_loop.simps)
       (simp only: byte_simps sum.case prod.case Let_def ge shl acc if_False
         shift_step [OF assms(1)] option.case)
qed

lemma sleb_loop_10: "sleb_loop L bs v (leb_shift 10) \<noteq> Inr r"
  using shift_cmp(3)[of 10]
  by (cases bs) (simp_all add: sleb_loop.simps [of L _ v "leb_shift 10"] Let_def)

lemma sleb_loop_iff:
  assumes "k \<le> 9" "unat v < 128 ^ k"
  shows "sleb_loop L input v (leb_shift k) = Inr (rest, w, s, t) \<longleftrightarrow>
    (\<exists>used. leb_split input = Some (used, rest) \<and> k + length used \<le> 10 \<and>
      w = of_nat (unat v + 128 ^ k * leb_value used) \<and> s = leb_shift (k + length used) \<and>
      t = last used)"
  using assms
proof (induction input arbitrary: v k)
  case Nil
  then show ?case by (subst sleb_loop.simps) simp
next
  case (Cons b bs)
  let ?v = "of_nat (unat v + 128 ^ k * payload b) :: u64"
  note step = sleb_loop_step[OF Cons.prems, of b bs]
  show ?case
  proof (cases "b AND 0x80 = 0")
    case True
    then show ?thesis using Cons.prems by (auto simp: step simp del: of_nat_add of_nat_mult)
  next
    case cont: False
    have red: "sleb_loop L (b # bs) v (leb_shift k) = sleb_loop L bs ?v (leb_shift (Suc k))"
      by (simp only: step cont if_False)
    show ?thesis
    proof (cases "k = 9")
      case True
      then show ?thesis
        using red cont sleb_loop_10[of bs ?v "(rest, w, s, t)"] by (auto dest!: leb_split_nonempty)
    next
      case False
      then have k: "k \<le> 8" using Cons.prems(1) by simp
      have nb: "\<not> (k = 9 \<and> 1 < payload b)" using False by simp
      note exact1 = uleb_acc_exact(1)[OF Cons.prems nb]
      have "unat ?v < 128 ^ Suc k" unfolding exact1 by (rule uleb_acc_exact(2)[OF Cons.prems nb k])
      moreover have "Suc k \<le> 9" using k by simp
      ultimately have IH: "sleb_loop L bs ?v (leb_shift (Suc k)) = Inr (rest, w, s, t) \<longleftrightarrow>
          (\<exists>used. leb_split bs = Some (used, rest) \<and> Suc k + length used \<le> 10 \<and>
            w = of_nat (unat ?v + 128 ^ Suc k * leb_value used) \<and>
            s = leb_shift (Suc k + length used) \<and> t = last used)"
        by (intro Cons.IH)
      have val: "unat ?v + 128 ^ Suc k * n = unat v + 128 ^ k * (payload b + 128 * n)" for n
        by (simp only: exact1) (simp add: algebra_simps)
      have last: "leb_split bs = Some (u, rest) \<Longrightarrow> last (b # u) = last u" for u
        by (auto dest: leb_split_nonempty)
      show ?thesis
        unfolding red leb_split_cont [OF cont] IH val
        by (auto simp: last simp del: of_nat_add of_nat_mult last.simps)
    qed
  qed
qed

lemma leb_sign_extend:
  assumes "used \<noteq> []" "length used \<le> 10"
  shows "sign_extend (of_nat (leb_value used)) (leb_shift (length used)) (last used) =
    word_of_int (leb_signed used)"
proof (cases "length used < 10 \<and> last used AND 0x40 \<noteq> 0")
  case True
  let ?n = "length used"
  have pow: "(128 :: nat) ^ ?n \<le> 128 ^ 9" using True by (intro power_increasing) simp_all
  have bound: "leb_value used < 128 ^ ?n" by (rule leb_value_bound)
  have u: "unat (of_nat (leb_value used) :: u64) = leb_value used"
    using pow bound by (simp add: unat_of_nat)
  have lt: "unat (of_nat (leb_value used) :: u64) < 2 ^ (7 * ?n)" using bound by (simp add: u pow128)
  have "(of_nat (leb_value used) :: u64) OR push_bit (7 * ?n) (NOT 0) =
      of_nat (leb_value used + 128 ^ ?n * unat (NOT 0 :: u64))"
    by (simp only: or_push_bit [OF lt] u pow128)
  also have "\<dots> = of_nat (leb_value used) + 128 ^ ?n * (NOT 0)"
    by (simp only: of_nat_add of_nat_mult of_nat_power of_nat_numeral of_nat_unat ucast_id)
  also have "\<dots> = word_of_int (leb_signed used)" using True by (simp add: leb_signed_def)
  finally show ?thesis
    using True shift_cmp(4)[of ?n] unat_shift[of ?n] by (simp only: sign_extend_def) auto
next
  case False
  have "(word_of_int (int (leb_value used) - 128 ^ 10) :: u64) = of_nat (leb_value used)"
    by simp
  then have "word_of_int (leb_signed used) = (of_nat (leb_value used) :: u64)"
    using False assms(2) by (cases "length used = 10") (auto simp: leb_signed_def)
  then show ?thesis
    using False shift_cmp(4)[OF assms(2)] by (auto simp: sign_extend_def)
qed

lemma sleb_iff:
  "sleb L input = Inr (rest, v) \<longleftrightarrow>
    (\<exists>used. leb_split input = Some (used, rest) \<and> length used \<le> 10 \<and>
      v = word_of_int (leb_signed used))"
proof -
  have "sleb L input = Inr (rest, v) \<longleftrightarrow>
      (\<exists>w s t. sleb_loop L input 0 (leb_shift 0) = Inr (rest, w, s, t) \<and> v = sign_extend w s t)"
    unfolding sleb_def leb_shift_0 by (cases "sleb_loop L input 0 0") auto
  also have "\<dots> \<longleftrightarrow> (\<exists>used. leb_split input = Some (used, rest) \<and> length used \<le> 10 \<and>
      v = sign_extend (of_nat (leb_value used)) (leb_shift (length used)) (last used))"
    using sleb_loop_iff[of 0 0 input rest] by auto
  also have "\<dots> \<longleftrightarrow> (\<exists>used. leb_split input = Some (used, rest) \<and> length used \<le> 10 \<and>
      v = word_of_int (leb_signed used))"
    using leb_sign_extend leb_split_nonempty by metis
  finally show ?thesis .
qed

end

end
