(* ===== verification/Table.thy ===== *)
theory Table
  imports Leb128
begin

text \<open>
  The tables of \<open>desenredo-lsda/src/table.rs\<close>: the parsed LSDA, the iterators over its
  call sites, its action chains and its exception-specification lists, the reverse RTTI table,
  and the lookup of the call site that covers a program counter.  An iterator is a record and
  its \<open>next\<close> returns the item together with the iterator it leaves behind.
\<close>

section \<open>Data\<close>

text \<open>
  \<open>Action\<close>, \<open>TypeIndex\<close> and \<open>FilterIndex\<close> are nonzero numbers; \<open>raw\<close> reads them.
\<close>

datatype Action = Action (action_raw: usize)

datatype TypeIndex = TypeIndex (type_raw: usize)

datatype FilterIndex = FilterIndex (filter_raw: usize)

record Site =
  site_start :: usize
  site_length :: usize
  site_landing :: "usize option"
  site_action :: "Action option"

datatype Kind = Cleanup | Catch TypeIndex | Filter FilterIndex

record Types =
  types_end :: usize
  types_encoding :: u8

record Lsda =
  lsda_bytes :: bytes
  lsda_bases :: Bases
  lsda_endian :: Endian
  lsda_landing_base :: usize
  lsda_types :: "Types option"
  lsda_call_encoding :: u8
  lsda_call_sites :: bytes
  lsda_action_offset :: usize

record Sites =
  sites_lsda :: Lsda
  sites_input :: bytes
  sites_done :: bool

record Chain =
  chain_bytes :: bytes
  chain_rest :: "bytes option"
  chain_fuel :: usize
  chain_floor :: usize

record FilterTypes =
  ft_input :: bytes
  ft_done :: bool

section \<open>Parsing the header\<close>

text \<open>\<open>i64::unsigned_abs\<close>.\<close>

definition unsigned_abs :: "i64 \<Rightarrow> u64" where
  "unsigned_abs x = (if 0 \<le> sint x then x else - x)"

definition kind_new :: "i64 \<Rightarrow> LsdaError + Kind" where
  "kind_new index =
    (if sint index = 0 then Inr Cleanup
     else if 1 \<le> sint index then
       and_then (ok_or Overflow (usize_try_from (sint index))) (\<lambda>index.
       and_then (ok_or Table (nonzero index)) (\<lambda>index. Inr (Catch (TypeIndex index))))
     else
       and_then (ok_or Overflow (usize_try_from (uint (unsigned_abs index)))) (\<lambda>index.
       and_then (ok_or Table (nonzero index)) (\<lambda>index. Inr (Filter (FilterIndex index)))))"

text \<open>The landing-pad base, the type table and the call-site table, in the order of the bytes.\<close>

definition lsda_landing ::
    "lib \<Rightarrow> bytes \<Rightarrow> bytes \<Rightarrow> u8 \<Rightarrow> Bases \<Rightarrow> Endian \<Rightarrow> LsdaError + (bytes \<times> usize)" where
  "lsda_landing L bytes input landing_encoding bases endian =
    (if pe_is_absent L landing_encoding then Inr (input, bases_function bases)
     else and_then (target L bytes input landing_encoding bases endian) (\<lambda>(input, target).
       if target_indirect target then Inl Encoding else Inr (input, target_address target)))"

definition lsda_type_table ::
    "lib \<Rightarrow> bytes \<Rightarrow> bytes \<Rightarrow> u8 \<Rightarrow> LsdaError + (bytes \<times> Types option)" where
  "lsda_type_table L bytes input type_encoding =
    (if pe_is_absent L type_encoding then Inr (input, None)
     else
       (let valid = pe_is_valid_encoding L type_encoding
        in and_then (uleb L input) (\<lambda>(input, type_offset).
           and_then (position bytes input) (\<lambda>pos.
           and_then (ok_or Overflow (checked_add pos type_offset)) (\<lambda>end.
             if valid \<and> end \<le> len_of bytes
             then Inr (input, Some \<lparr>types_end = end, types_encoding = type_encoding\<rparr>)
             else if \<not> valid then Inl Encoding
             else Inl Table)))))"

definition lsda_new :: "lib \<Rightarrow> bytes \<Rightarrow> Bases \<Rightarrow> Endian \<Rightarrow> LsdaError + Lsda" where
  "lsda_new L bytes bases endian =
    and_then (byte L bytes) (\<lambda>(input, landing_encoding).
    and_then (lsda_landing L bytes input landing_encoding bases endian) (\<lambda>(input, landing_base).
    and_then (byte L input) (\<lambda>(input, type_encoding).
    and_then (lsda_type_table L bytes input type_encoding) (\<lambda>(input, types).
    and_then (byte L input) (\<lambda>(input, call_encoding).
      let call_valid = (pe_is_valid_encoding L call_encoding \<and> \<not> pe_is_absent L call_encoding)
      in and_then (uleb L input) (\<lambda>(input, call_length).
         and_then (take_bytes L input call_length) (\<lambda>(actions, call_sites).
         and_then (position bytes actions) (\<lambda>action_offset.
           if call_valid then Inr
             \<lparr>lsda_bytes = bytes, lsda_bases = bases, lsda_endian = endian,
              lsda_landing_base = landing_base, lsda_types = types,
              lsda_call_encoding = call_encoding, lsda_call_sites = call_sites,
              lsda_action_offset = action_offset\<rparr>
           else Inl Encoding))))))))"

section \<open>Iterators\<close>

definition lsda_sites :: "Lsda \<Rightarrow> Sites" where
  "lsda_sites self =
    \<lparr>sites_lsda = self, sites_input = lsda_call_sites self, sites_done = False\<rparr>"

definition lsda_chain :: "lib \<Rightarrow> Lsda \<Rightarrow> Action \<Rightarrow> LsdaError + Chain" where
  "lsda_chain L self action =
    (let whole = lsda_bytes self; action_offset = lsda_action_offset self in
     and_then (ok_or Table (checked_sub (action_raw action) 1)) (\<lambda>relative.
     and_then (ok_or Overflow (checked_add action_offset relative)) (\<lambda>next_offset.
       if next_offset < len_of whole then
         and_then (take_bytes L whole next_offset) (\<lambda>(next, _). Inr
           \<lparr>chain_bytes = whole, chain_rest = Some next,
            chain_fuel = saturating_add (len_of whole) 1, chain_floor = action_offset\<rparr>)
       else Inl Table)))"

definition lsda_filter :: "lib \<Rightarrow> Lsda \<Rightarrow> FilterIndex \<Rightarrow> LsdaError + FilterTypes" where
  "lsda_filter L self index =
    (let whole = lsda_bytes self in
     and_then (ok_or Table (lsda_types self)) (\<lambda>types.
     and_then (ok_or Table (checked_sub (filter_raw index) 1)) (\<lambda>relative.
     and_then (ok_or Overflow (checked_add (types_end types) relative)) (\<lambda>start.
       if start \<le> len_of whole then
         and_then (take_bytes L whole start) (\<lambda>(input, _). Inr \<lparr>ft_input = input, ft_done = False\<rparr>)
       else Inl Table))))"

definition call_site :: "lib \<Rightarrow> bytes \<Rightarrow> Lsda \<Rightarrow> LsdaError + (bytes \<times> Site)" where
  "call_site L input lsda =
    (let endian = lsda_endian lsda; encoding = lsda_call_encoding lsda in
     and_then (offset L input encoding endian) (\<lambda>(input, start).
     and_then (offset L input encoding endian) (\<lambda>(input, length).
     and_then (offset L input encoding endian) (\<lambda>(input, landing).
     and_then (uleb L input) (\<lambda>(input, action).
     and_then (if landing = 0 then Inr None
               else map_sum id Some (ok_or Overflow (checked_add (lsda_landing_base lsda) landing)))
       (\<lambda>landing.
       let action = map_option Action (nonzero action)
       in Inr (input, \<lparr>site_start = start, site_length = length, site_landing = landing,
                       site_action = action\<rparr>)))))))"

definition sites_next :: "lib \<Rightarrow> Sites \<Rightarrow> (LsdaError + Site) option \<times> Sites" where
  "sites_next L self =
    (if sites_done self \<or> sites_input self = [] then (None, self)
     else (case call_site L (sites_input self) (sites_lsda self) of
             Inr (rest, site) \<Rightarrow> (Some (Inr site), self\<lparr>sites_input := rest\<rparr>)
           | Inl error \<Rightarrow> (Some (Inl error), self\<lparr>sites_done := True\<rparr>)))"

text \<open>
  The record at the head of a chain and where the chain goes on.  The delta is relative to the
  position of the link field; the sum is in \<open>i128\<close>.
\<close>

definition chain_target :: "lib \<Rightarrow> Chain \<Rightarrow> bytes \<Rightarrow> i64 \<Rightarrow> LsdaError + bytes option" where
  "chain_target L self link delta =
    (let whole = chain_bytes self in
     if sint delta = 0 then Inr None
     else and_then (position whole link) (\<lambda>link.
          and_then (ok_or Overflow (i128_checked_add (uint link) (sint delta))) (\<lambda>target.
          and_then (ok_or Table (usize_try_from target)) (\<lambda>target.
            if chain_floor self \<le> target \<and> target < len_of whole then
              and_then (take_bytes L whole target) (\<lambda>(next, _). Inr (Some next))
            else Inl Table))))"

definition chain_parse :: "lib \<Rightarrow> Chain \<Rightarrow> bytes \<Rightarrow> LsdaError + (Kind \<times> bytes option)" where
  "chain_parse L self input =
    and_then (sleb L input) (\<lambda>(link, index).
    and_then (sleb L link) (\<lambda>(_, delta).
    and_then (kind_new index) (\<lambda>kind.
    and_then (chain_target L self link delta) (\<lambda>next. Inr (kind, next)))))"

definition chain_next :: "lib \<Rightarrow> Chain \<Rightarrow> (LsdaError + Kind) option \<times> Chain" where
  "chain_next L self =
    (case chain_rest self of
       None \<Rightarrow> (None, self)
     | Some input \<Rightarrow>
         if chain_fuel self = 0 then (Some (Inl Loop), self\<lparr>chain_rest := None\<rparr>)
         else
           (let self = self\<lparr>chain_fuel := chain_fuel self - 1\<rparr>
            in case chain_parse L self input of
                 Inr (kind, next_input) \<Rightarrow> (Some (Inr kind), self\<lparr>chain_rest := next_input\<rparr>)
               | Inl error \<Rightarrow> (Some (Inl error), self\<lparr>chain_rest := None\<rparr>)))"

definition ft_next :: "lib \<Rightarrow> FilterTypes \<Rightarrow> (LsdaError + TypeIndex) option \<times> FilterTypes" where
  "ft_next L self =
    (if ft_done self then (None, self)
     else (case uleb L (ft_input self) of
             Inl error \<Rightarrow> (Some (Inl error), self\<lparr>ft_done := True\<rparr>)
           | Inr (rest, index) \<Rightarrow>
               if index = 0 then (None, self\<lparr>ft_input := rest, ft_done := True\<rparr>)
               else (Some (and_then (ok_or Table (nonzero index)) (\<lambda>index. Inr (TypeIndex index))),
                     self\<lparr>ft_input := rest\<rparr>)))"

section \<open>Lookups\<close>

definition types_width :: "lib \<Rightarrow> u8 \<Rightarrow> LsdaError + usize" where
  "types_width L encoding =
    (let f = pe_format L encoding in
     if f = pe_absptr L then Inr 8
     else if f = pe_udata2 L \<or> f = pe_sdata2 L then Inr 2
     else if f = pe_udata4 L \<or> f = pe_sdata4 L then Inr 4
     else if f = pe_udata8 L \<or> f = pe_sdata8 L then Inr 8
     else Inl Encoding)"

definition types_get :: "lib \<Rightarrow> Types \<Rightarrow> Lsda \<Rightarrow> TypeIndex \<Rightarrow> LsdaError + Target" where
  "types_get L self lsda index =
    and_then (types_width L (types_encoding self)) (\<lambda>width.
    and_then (ok_or Overflow (checked_mul (type_raw index) width)) (\<lambda>offset.
    and_then (ok_or Table (checked_sub (types_end self) offset)) (\<lambda>start.
      let whole = lsda_bytes lsda in
      and_then (take_bytes L whole start) (\<lambda>(input, _).
      and_then (target L whole input (types_encoding self) (lsda_bases lsda) (lsda_endian lsda))
        (\<lambda>(rest, target).
      and_then (position whole rest) (\<lambda>consumed.
        if consumed \<le> types_end self then Inr target else Inl Table))))))"

text \<open>
  The loop over the call sites in \<open>Lsda::site\<close>, with the program counter already relative to
  the function.  Whether it ends depends on the parsers, so the outer option is not returning.
\<close>

partial_function (option) site_loop ::
    "lib \<Rightarrow> Sites \<Rightarrow> usize \<Rightarrow> (LsdaError + Site option) option" where
  "site_loop L it pc =
    (case fst (sites_next L it) of
       None \<Rightarrow> Some (Inr None)
     | Some (Inl error) \<Rightarrow> Some (Inl error)
     | Some (Inr site) \<Rightarrow>
         (case checked_add (site_start site) (site_length site) of
            None \<Rightarrow> Some (Inl Overflow)
          | Some end \<Rightarrow>
              if site_start site \<le> pc \<and> pc < end then Some (Inr (Some site))
              else if pc < site_start site then Some (Inr None)
              else site_loop L (snd (sites_next L it)) pc))"

definition lsda_site :: "lib \<Rightarrow> Lsda \<Rightarrow> usize \<Rightarrow> (LsdaError + Site option) option" where
  "lsda_site L self pc =
    (case ok_or Table (checked_sub pc (bases_function (lsda_bases self))) of
       Inl error \<Rightarrow> Some (Inl error)
     | Inr pc \<Rightarrow> site_loop L (lsda_sites self) pc)"

end
