(* ===== verification/Iterator.thy ===== *)
theory Iterator
  imports Prelude
begin

text \<open>
  Running an iterator to its end.  \<open>drain\<close> calls \<open>next\<close> until it returns \<open>None\<close> and collects
  the items; it may not return.  The locale \<open>progress\<close> is the contract under which it does: a
  call that yields an item decreases a measure of the iterator's state.
\<close>

partial_function (option) drain :: "('s \<Rightarrow> 'a option \<times> 's) \<Rightarrow> 's \<Rightarrow> 'a list option" where
  "drain next s =
    (case fst (next s) of
       None \<Rightarrow> Some []
     | Some a \<Rightarrow> Option.bind (drain next (snd (next s))) (\<lambda>as. Some (a # as)))"

lemma drain_stop: "fst (next s) = None \<Longrightarrow> drain next s = Some []"
  by (subst drain.simps) simp

lemma drain_yield:
  "next s = (Some a, s') \<Longrightarrow> drain next s = map_option (Cons a) (drain next s')"
  by (subst drain.simps) (cases "drain next s'"; simp)

locale progress =
  fixes step :: "'s \<Rightarrow> 'a option \<times> 's" and \<mu> :: "'s \<Rightarrow> nat"
  assumes decreases: "step s = (Some a, s') \<Longrightarrow> \<mu> s' < \<mu> s"
begin

lemma progress_induct [case_names step]:
  assumes "\<And>s. (\<And>a s'. step s = (Some a, s') \<Longrightarrow> P s') \<Longrightarrow> P s"
  shows "P s"
proof (induction "\<mu> s" arbitrary: s rule: less_induct)
  case less
  show ?case by (rule assms) (rule less, erule decreases)
qed

lemma drain_total: "\<exists>as. drain step s = Some as \<and> length as \<le> \<mu> s"
proof (induction s rule: progress_induct)
  case (step s)
  show ?case
  proof (cases "step s")
    case (Pair r s')
    show ?thesis
    proof (cases r)
      case None
      with Pair show ?thesis by (simp add: drain_stop)
    next
      case (Some a)
      with Pair have now: "step s = (Some a, s')" by simp
      from step[OF now] obtain as where "drain step s' = Some as" "length as \<le> \<mu> s'" by blast
      with decreases[OF now] show ?thesis by (simp add: drain_yield[of step, OF now])
    qed
  qed
qed

lemma drain_invariant:
  assumes "drain step s = Some as" "I s"
    and "\<And>s a s'. I s \<Longrightarrow> step s = (Some a, s') \<Longrightarrow> I s' \<and> P a"
  shows "list_all P as"
  using assms(1,2)
proof (induction s arbitrary: as rule: progress_induct)
  case (step s)
  show ?case
  proof (cases "step s")
    case (Pair r s')
    show ?thesis
    proof (cases r)
      case None
      with Pair step.prems show ?thesis by (simp add: drain_stop)
    next
      case (Some a)
      with Pair have now: "step s = (Some a, s')" by simp
      with step.prems obtain as' where "drain step s' = Some as'" "as = a # as'"
        by (auto simp: drain_yield[of step, OF now])
      with step.IH[OF now] assms(3)[OF step.prems(2) now] show ?thesis by simp
    qed
  qed
qed

end

end
