(* ===== verification/Consume.thy ===== *)
theory Consume
  imports Table Iterator "HOL-Library.Sublist"
begin

text \<open>
  What the byte consumers take: whenever one succeeds, the rest it returns is a proper suffix of
  its input (\<open>consumes\<close>), so every loop over a table ends and every position computed from a
  rest is inside the table.
\<close>

definition consumes :: "bytes \<Rightarrow> bytes \<Rightarrow> bool" where
  "consumes input rest \<longleftrightarrow> strict_suffix rest input"

lemma consumes_length: "consumes input rest \<Longrightarrow> length rest < length input"
  by (simp add: consumes_def suffix_length_less)

lemma consumes_suffix: "consumes input rest \<Longrightarrow> suffix rest input"
  by (simp add: consumes_def strict_suffix_def)

lemma consumes_trans: "consumes a b \<Longrightarrow> consumes b c \<Longrightarrow> consumes a c"
  unfolding consumes_def by (rule suffix_order.less_trans)

lemma consumes_Cons: "consumes (b # bs) bs"
  by (simp add: consumes_def strict_suffix_def suffix_Cons)

lemma consumes_append: "used \<noteq> [] \<Longrightarrow> consumes (used @ rest) rest"
  by (simp add: consumes_def strict_suffix_def suffix_def)

lemma consumes_drop: "0 < n \<Longrightarrow> n \<le> length i \<Longrightarrow> consumes i (drop n i)"
  using consumes_append[of "take n i" "drop n i"] by (cases i) auto

lemma leb_split_append: "leb_split bs = Some (used, rest) \<Longrightarrow> bs = used @ rest"
  by (induction bs arbitrary: used) (auto split: if_splits)

lemma consumes_trans4:
  "consumes a b \<Longrightarrow> consumes b c \<Longrightarrow> consumes c d \<Longrightarrow> consumes d e \<Longrightarrow> consumes a e"
  by (blast intro: consumes_trans)

lemma suffix_slice_ok: "suffix rest whole \<Longrightarrow> slice_ok whole \<Longrightarrow> slice_ok rest"
  using slice_ok_le suffix_length_le by blast

lemma position_iff:
  assumes "suffix rest whole" "slice_ok whole"
  shows "position whole rest = Inr p \<longleftrightarrow> unat p = length whole - length rest"
    and "position whole rest \<noteq> Inl e"
proof -
  have le: "len_of rest \<le> len_of whole"
    using assms by (simp add: len_of_le_iff suffix_slice_ok suffix_length_le)
  have u: "unat (len_of whole - len_of rest) = length whole - length rest"
    using assms le by (simp add: unat_sub_exact unat_len_of suffix_slice_ok)
  show "position whole rest = Inr p \<longleftrightarrow> unat p = length whole - length rest"
    using le u by (auto simp: position_def checked_sub_def word_unat_eq_iff)
  show "position whole rest \<noteq> Inl e"
    using le by (simp add: position_def checked_sub_def)
qed

context nom_laws begin

lemma uleb_consumes: "uleb L i = Inr (r, v) \<Longrightarrow> consumes i r"
proof -
  assume "uleb L i = Inr (r, v)"
  then obtain used where s: "leb_split i = Some (used, r)" by (auto simp: uleb_iff)
  then have "i = used @ r" by (rule leb_split_append)
  with leb_split_nonempty[OF s] show ?thesis by (simp add: consumes_append)
qed

lemma sleb_consumes: "sleb L i = Inr (r, v) \<Longrightarrow> consumes i r"
proof -
  assume "sleb L i = Inr (r, v)"
  then obtain used where s: "leb_split i = Some (used, r)" by (auto simp: sleb_iff)
  then have "i = used @ r" by (rule leb_split_append)
  with leb_split_nonempty[OF s] show ?thesis by (simp add: consumes_append)
qed

lemma uleb_octet: "b AND 0x80 = 0 \<Longrightarrow> uleb L (b # r) = Inr (r, of_nat (payload b))"
proof -
  assume "b AND 0x80 = 0"
  moreover have "payload b < 2 ^ 64" using payload_less[of b] by simp
  ultimately show ?thesis by (simp add: uleb_iff)
qed

lemma sleb_octet: "b AND 0x80 = 0 \<Longrightarrow> sleb L (b # r) = Inr (r, word_of_int (leb_signed [b]))"
  by (simp add: sleb_iff)

lemma byte_iff: "byte L i = Inr (r, b) \<longleftrightarrow> i = b # r"
  by (cases i) auto

lemma byte_consumes: "byte L i = Inr (r, b) \<Longrightarrow> consumes i r"
  by (simp add: byte_iff consumes_Cons)

lemma take_bytes_suffix:
  "take_bytes L i c = Inr (r, t) \<Longrightarrow> suffix r i \<and> i = t @ r \<and> unat c = length t"
  by (auto simp: take_bytes_eq suffix_drop split: if_splits)

lemma take_consumes:
  "take_le n i = Some (r, v) \<Longrightarrow> 0 < n \<Longrightarrow> consumes i r"
  "take_be n i = Some (r, v) \<Longrightarrow> 0 < n \<Longrightarrow> consumes i r"
  by (auto simp: take_le_def take_be_def consumes_drop split: if_splits)

lemma unsigned_consumes: "unsigned L i w e = Inr (r, v) \<Longrightarrow> consumes i r"
  by (auto simp: unsigned_def widen_def le_u16 be_u16 le_u32 be_u32 le_u64 be_u64 res_simps
        dest: take_consumes split: if_splits Endian.splits)

lemma signed_consumes: "signed L i w e = Inr (r, v) \<Longrightarrow> consumes i r"
  by (auto simp: signed_def widen_def le_i16 be_i16 le_i32 be_i32 le_i64 be_i64 res_simps
        dest: take_consumes split: if_splits Endian.splits)

lemma scalar_consumes: "scalar L i f e = Inr (r, s) \<Longrightarrow> consumes i r"
  by (auto simp: scalar_def Let_def res_simps
        dest: unsigned_consumes signed_consumes uleb_consumes sleb_consumes split: if_splits)

lemma offset_consumes: "offset L i c e = Inr (r, v) \<Longrightarrow> consumes i r"
  by (auto simp: offset_def Let_def res_simps dest: scalar_consumes split: if_splits)

lemma aligned_suffix: "aligned L whole i b = Inr r \<Longrightarrow> suffix r i"
  by (auto simp: aligned_def Let_def res_simps dest!: take_bytes_suffix split: if_splits)

lemma target_consumes: "target L whole i c b e = Inr (r, t) \<Longrightarrow> consumes i r"
  unfolding consumes_def
  by (auto simp: target_def res_simps consumes_def suffix_order.le_less_trans
        dest!: scalar_consumes aligned_suffix split: if_splits)

lemma call_site_consumes: "call_site L i l = Inr (r, s) \<Longrightarrow> consumes i r"
  by (auto simp: call_site_def Let_def res_simps
        dest!: offset_consumes uleb_consumes elim: consumes_trans4 split: if_splits)

end

section \<open>The iterators end\<close>

definition sites_measure :: "Sites \<Rightarrow> nat" where
  "sites_measure it = (if sites_done it then 0 else Suc (length (sites_input it)))"

definition chain_measure :: "Chain \<Rightarrow> nat" where
  "chain_measure c = (case chain_rest c of None \<Rightarrow> 0 | Some _ \<Rightarrow> Suc (unat (chain_fuel c)))"

definition ft_measure :: "FilterTypes \<Rightarrow> nat" where
  "ft_measure f = (if ft_done f then 0 else Suc (length (ft_input f)))"

lemma chain_decreases:
  "chain_next L c = (Some r, c') \<Longrightarrow> chain_measure c' < chain_measure c"
  by (auto simp: chain_next_def chain_measure_def Let_def measure_unat
        split: option.splits if_splits sum.splits)

text \<open>A chain ends whatever the bytes and the parsers do: its fuel is spent.\<close>

interpretation chain_it: progress "chain_next L" chain_measure for L
  by unfold_locales (rule chain_decreases)

context nom_laws begin

lemma sites_decreases: "sites_next L it = (Some r, it') \<Longrightarrow> sites_measure it' < sites_measure it"
  by (auto simp: sites_next_def sites_measure_def dest!: call_site_consumes consumes_length
        split: if_splits sum.splits)

lemma ft_decreases: "ft_next L f = (Some r, f') \<Longrightarrow> ft_measure f' < ft_measure f"
  by (auto simp: ft_next_def ft_measure_def dest!: uleb_consumes consumes_length
        split: if_splits sum.splits)

end

sublocale nom_laws \<subseteq> sites_it: progress "sites_next L" sites_measure
  by unfold_locales (rule sites_decreases)

sublocale nom_laws \<subseteq> ft_it: progress "ft_next L" ft_measure
  by unfold_locales (rule ft_decreases)

end
