(* ===== verification/TableFacts.thy ===== *)
theory TableFacts
  imports Consume
begin

text \<open>
  The header and the action chains.  \<open>lsda_wf\<close> is what \<open>Lsda::new\<close> promises of the record it
  returns.  \<open>follows\<close> is the abstract reading of an action chain, a list of records joined by
  their links; \<open>Chain\<close> is proved to enumerate exactly the chains that end.
\<close>

section \<open>The header\<close>

definition lsda_wf :: "lib \<Rightarrow> Lsda \<Rightarrow> bool" where
  "lsda_wf L l \<longleftrightarrow> slice_ok (lsda_bytes l) \<and>
    (\<exists>header actions. lsda_bytes l = header @ lsda_call_sites l @ actions \<and> header \<noteq> [] \<and>
      unat (lsda_action_offset l) = length header + length (lsda_call_sites l)) \<and>
    (case lsda_types l of None \<Rightarrow> True
     | Some t \<Rightarrow> types_end t \<le> len_of (lsda_bytes l) \<and>
         pe_is_valid_encoding L (types_encoding t) \<and> \<not> pe_is_absent L (types_encoding t)) \<and>
    pe_is_valid_encoding L (lsda_call_encoding l) \<and> \<not> pe_is_absent L (lsda_call_encoding l)"

context nom_laws begin

lemma lsda_landing_suffix:
  "lsda_landing L whole i enc b e = Inr (r, p) \<Longrightarrow> suffix r i"
  by (auto simp: lsda_landing_def res_simps dest!: target_consumes consumes_suffix split: if_splits)

lemma lsda_type_table_suffix:
  "lsda_type_table L whole i enc = Inr (r, t) \<Longrightarrow> suffix r i"
  by (auto simp: lsda_type_table_def Let_def res_simps dest!: uleb_consumes consumes_suffix
        split: if_splits)

lemma lsda_type_table_types:
  "lsda_type_table L whole i enc = Inr (r, types) \<Longrightarrow>
    case types of None \<Rightarrow> pe_is_absent L enc
    | Some t \<Rightarrow> types_end t \<le> len_of whole \<and> types_encoding t = enc \<and>
        pe_is_valid_encoding L enc \<and> \<not> pe_is_absent L enc"
  by (auto simp: lsda_type_table_def Let_def res_simps split: if_splits)

lemma lsda_new_parts:
  assumes "lsda_new L whole bases endian = Inr l"
  obtains i1 lenc i2 i3 tenc i4 i5 i6 n actions where
    "byte L whole = Inr (i1, lenc)"
    "lsda_landing L whole i1 lenc bases endian = Inr (i2, lsda_landing_base l)"
    "byte L i2 = Inr (i3, tenc)"
    "lsda_type_table L whole i3 tenc = Inr (i4, lsda_types l)"
    "byte L i4 = Inr (i5, lsda_call_encoding l)"
    "uleb L i5 = Inr (i6, n)"
    "take_bytes L i6 n = Inr (actions, lsda_call_sites l)"
    "position whole actions = Inr (lsda_action_offset l)"
    "pe_is_valid_encoding L (lsda_call_encoding l)" "\<not> pe_is_absent L (lsda_call_encoding l)"
    "lsda_bytes l = whole" "lsda_bases l = bases" "lsda_endian l = endian"
  using assms by (auto simp: lsda_new_def Let_def res_simps split: if_splits)

lemma lsda_new_layout:
  assumes "lsda_new L whole bases endian = Inr l" "slice_ok whole"
  shows "\<exists>header actions. whole = header @ lsda_call_sites l @ actions \<and> header \<noteq> [] \<and>
    unat (lsda_action_offset l) = length header + length (lsda_call_sites l)"
proof -
  obtain i1 lenc i2 i3 tenc i4 i5 i6 n actions where
      b1: "byte L whole = Inr (i1, lenc)"
    and la: "lsda_landing L whole i1 lenc bases endian = Inr (i2, lsda_landing_base l)"
    and b2: "byte L i2 = Inr (i3, tenc)"
    and ty: "lsda_type_table L whole i3 tenc = Inr (i4, lsda_types l)"
    and b3: "byte L i4 = Inr (i5, lsda_call_encoding l)"
    and ul: "uleb L i5 = Inr (i6, n)"
    and tk: "take_bytes L i6 n = Inr (actions, lsda_call_sites l)"
    and po: "position whole actions = Inr (lsda_action_offset l)"
    using assms(1) by (rule lsda_new_parts)
  have "consumes whole i6"
    unfolding consumes_def
    using byte_consumes[OF b1] lsda_landing_suffix[OF la] byte_consumes[OF b2]
      lsda_type_table_suffix[OF ty] byte_consumes[OF b3] uleb_consumes[OF ul]
    by (meson consumes_def suffix_order.le_less_trans suffix_order.less_trans)
  then obtain header where h: "whole = header @ i6" "header \<noteq> []"
    by (auto simp: consumes_def strict_suffix_def suffix_def)
  have t: "i6 = lsda_call_sites l @ actions" using take_bytes_suffix[OF tk] by simp
  with h have "suffix actions whole" by (simp add: suffix_def)
  from position_iff(1)[THEN iffD1, OF this assms(2) po]
  have "unat (lsda_action_offset l) = length whole - length actions" .
  with h t show ?thesis by auto
qed

lemma lsda_new_wf:
  assumes "lsda_new L whole bases endian = Inr l" "slice_ok whole"
  shows "lsda_wf L l"
  using assms(1)
proof (rule lsda_new_parts)
  fix i3 tenc i4
  assume "lsda_type_table L whole i3 tenc = Inr (i4, lsda_types l)" "lsda_bytes l = whole"
    "pe_is_valid_encoding L (lsda_call_encoding l)" "\<not> pe_is_absent L (lsda_call_encoding l)"
  then show ?thesis
    using lsda_new_layout[OF assms] assms(2)
    by (auto simp: lsda_wf_def dest!: lsda_type_table_types split: option.splits)
qed

end

section \<open>Kinds of action\<close>

text \<open>The error branches of \<open>Kind::new\<close> are never taken on a 64-bit target.\<close>

lemma kind_new_eq:
  "kind_new index = Inr (if sint index = 0 then Cleanup
     else if 0 < sint index then Catch (TypeIndex index)
     else Filter (FilterIndex (- index)))"
proof -
  have nz: "index \<noteq> 0" if "sint index \<noteq> 0" using that by auto
  have "sint index < 2 ^ 64" using sint_lt[of index] by simp
  moreover have "uint (- index) < 2 ^ 64" using unsigned_less[of "- index", where ?'a = int] by simp
  ultimately show ?thesis
    using nz by (auto simp: kind_new_def usize_try_from_def unsigned_abs_def nonzero_def)
qed


section \<open>Action chains\<close>

text \<open>What every operation of a chain keeps: the next record starts inside the table, not below
  the floor.\<close>

definition chain_wf :: "Chain \<Rightarrow> bool" where
  "chain_wf c \<longleftrightarrow> slice_ok (chain_bytes c) \<and>
    (case chain_rest c of None \<Rightarrow> True
     | Some r \<Rightarrow> suffix r (chain_bytes c) \<and> r \<noteq> [] \<and>
         unat (chain_floor c) \<le> length (chain_bytes c) - length r)"

text \<open>
  The chain from the record at \<open>off\<close>: the kinds of the records, in order, until one whose link
  is zero.
\<close>

inductive follows :: "lib \<Rightarrow> bytes \<Rightarrow> nat \<Rightarrow> nat \<Rightarrow> Kind list \<Rightarrow> bool"
  for L whole floor where
  follows_last:
    "floor \<le> off \<Longrightarrow> off < length whole \<Longrightarrow> sleb L (drop off whole) = Inr (link, index) \<Longrightarrow>
     sleb L link = Inr (rest, 0) \<Longrightarrow> kind_new index = Inr kind \<Longrightarrow>
     follows L whole floor off [kind]"
| follows_link:
    "floor \<le> off \<Longrightarrow> off < length whole \<Longrightarrow> sleb L (drop off whole) = Inr (link, index) \<Longrightarrow>
     sleb L link = Inr (rest, delta) \<Longrightarrow> delta \<noteq> 0 \<Longrightarrow> kind_new index = Inr kind \<Longrightarrow>
     int next_off = int (length whole - length link) + sint delta \<Longrightarrow>
     follows L whole floor next_off kinds \<Longrightarrow>
     follows L whole floor off (kind # kinds)"

lemma follows_range: "follows L whole floor off kinds \<Longrightarrow> floor \<le> off \<and> off < length whole"
  by (induction rule: follows.induct) simp_all

lemma follows_det:
  "follows L whole floor off ks \<Longrightarrow> follows L whole floor off ks' \<Longrightarrow> ks' = ks"
proof (induction arbitrary: ks' rule: follows.induct)
  case (follows_last off link index rest kind)
  from follows_last.prems follows_last.hyps show ?case
    by (auto elim!: follows.cases[of _ _ _ _ ks'])
next
  case (follows_link off link index rest delta kind next_off kinds)
  from follows_link.prems show ?case
  proof (cases rule: follows.cases)
    case (follows_link link' index' rest' delta' kind' next' kinds')
    with follows_link.hyps \<open>int next_off = _\<close> have "next' = next_off" "kind' = kind" by simp_all
    with follows_link follows_link.IH show ?thesis by simp
  qed (use follows_link.hyps in auto)
qed

text \<open>
  A chain that ends visits no record twice, so it is no longer than the table; the fuel of
  \<open>Chain\<close> is therefore enough for every chain that ends.
\<close>

lemma follows_offsets:
  "follows L whole floor off ks \<Longrightarrow>
    \<exists>S. S \<subseteq> {..<length whole} \<and> card S = length ks \<and>
      (\<forall>i\<in>S. \<exists>ks'. follows L whole floor i ks' \<and> length ks' \<le> length ks)"
proof (induction rule: follows.induct)
  case (follows_last off link index rest kind)
  then have "follows L whole floor off [kind]" by (rule follows.follows_last)
  with follows_last.hyps(2) show ?case by (intro exI[of _ "{off}"]) auto
next
  case (follows_link off link index rest delta kind next_off kinds)
  from follows_link.IH obtain S where S: "S \<subseteq> {..<length whole}" "card S = length kinds"
    "\<forall>i\<in>S. \<exists>ks'. follows L whole floor i ks' \<and> length ks' \<le> length kinds" by blast
  have here: "follows L whole floor off (kind # kinds)"
    using follows_link.hyps by (rule follows.follows_link)
  have "off \<notin> S"
  proof
    assume "off \<in> S"
    with S(3) obtain ks' where "follows L whole floor off ks'" "length ks' \<le> length kinds" by blast
    with follows_det[OF here] show False by fastforce
  qed
  moreover have "finite S" using S(1) finite_subset by blast
  ultimately have "card (insert off S) = length (kind # kinds)" using S(2) by simp
  moreover have "insert off S \<subseteq> {..<length whole}" using S(1) follows_link.hyps(2) by simp
  moreover have "\<forall>i\<in>insert off S. \<exists>ks'. follows L whole floor i ks' \<and> length ks' \<le> length (kind # kinds)"
    using S(3) here by (fastforce intro: le_SucI)
  ultimately show ?case by blast
qed

lemma follows_length: "follows L whole floor off ks \<Longrightarrow> length ks \<le> length whole"
proof -
  assume "follows L whole floor off ks"
  from follows_offsets[OF this] obtain S where "S \<subseteq> {..<length whole}" "card S = length ks" by blast
  then show ?thesis using card_mono[of "{..<length whole}" S] by simp
qed


context nom_laws begin

lemma chain_target_iff:
  assumes "suffix link (chain_bytes c)" "slice_ok (chain_bytes c)"
  shows "chain_target L c link delta = Inr next \<longleftrightarrow>
    (if delta = 0 then next = None
     else \<exists>off. int off = int (length (chain_bytes c) - length link) + sint delta \<and>
       unat (chain_floor c) \<le> off \<and> off < length (chain_bytes c) \<and>
       next = Some (drop off (chain_bytes c)))"
proof (cases "delta = 0")
  case True
  then show ?thesis by (auto simp: chain_target_def)
next
  case False
  let ?w = "chain_bytes c"
  obtain p where p: "position ?w link = Inr p" using position_iff(2)[OF assms] by (cases "position ?w link") auto
  then have pu: "unat p = length ?w - length link" using position_iff(1)[OF assms] by simp
  define t where "t = uint p + sint delta"
  have d: "- (2 ^ 63) \<le> sint delta" "sint delta < 2 ^ 63"
    using sint_lt[of delta] sint_ge[of delta] by simp_all
  have u: "0 \<le> uint p" "uint p < 2 ^ 64" using unsigned_less[of p, where ?'a = int] by simp_all
  have pow: "(2 :: int) ^ 63 \<le> 2 ^ 127" "(2 :: int) ^ 64 + 2 ^ 63 \<le> 2 ^ 127" by simp_all
  have lo: "- (2 ^ 127) \<le> t" using d u pow(1) unfolding t_def by linarith
  have hi: "t < 2 ^ 127" using d u pow(2) unfolding t_def by linarith
  have nz: "sint delta \<noteq> 0" using False by (simp only: signed_eq_0_iff not_False_eq_True)
  have "chain_target L c link delta = and_then (ok_or Table (usize_try_from t))
      (\<lambda>target. if chain_floor c \<le> target \<and> target < len_of ?w
        then and_then (take_bytes L ?w target) (\<lambda>(next, _). Inr (Some next)) else Inl Table)"
    using lo hi unfolding chain_target_def Let_def p i128_checked_add_def and_then_simps
    by (simp only: nz if_False t_def[symmetric] HOL.simp_thms if_True ok_or_simps and_then_simps)
  also have "\<dots> = Inr next \<longleftrightarrow>
      0 \<le> t \<and> t < 2 ^ 64 \<and> chain_floor c \<le> of_int t \<and> of_int t < len_of ?w \<and>
      next = Some (drop (unat (of_int t :: usize)) ?w)"
    using unat_len_of[OF assms(2)]
    by (auto simp: usize_try_from_def take_bytes_eq word_less_nat_alt)
  also have "\<dots> \<longleftrightarrow> (\<exists>off. int off = t \<and> unat (chain_floor c) \<le> off \<and> off < length ?w \<and>
      next = Some (drop off ?w))" (is "?l \<longleftrightarrow> ?r")
  proof
    assume l: ?l
    then have "unat (of_int t :: usize) = nat t" by (simp add: unat_of_int_exact)
    with l show ?r
      by (intro exI[of _ "nat t"]) (simp add: word_less_nat_alt word_le_nat_alt unat_len_of assms(2))
  next
    assume ?r
    then obtain off where off: "int off = t" "unat (chain_floor c) \<le> off" "off < length ?w"
      "next = Some (drop off ?w)" by blast
    have lt: "length ?w < 2 ^ 64" using assms(2) by (simp add: slice_ok_def)
    have "unat (of_int t :: usize) = off" using off(1,3) lt by (subst unat_of_int_exact) simp_all
    with off lt show ?l
      by (simp add: word_less_nat_alt word_le_nat_alt unat_len_of assms(2))
  qed
  finally show ?thesis unfolding t_def uint_nat pu using False by (simp only: if_False)
qed

lemma chain_parse_iff:
  assumes "off < length (chain_bytes c)" "slice_ok (chain_bytes c)"
  shows "chain_parse L c (drop off (chain_bytes c)) = Inr (kind, next) \<longleftrightarrow>
    (\<exists>link index rest delta. sleb L (drop off (chain_bytes c)) = Inr (link, index) \<and>
       sleb L link = Inr (rest, delta) \<and> kind_new index = Inr kind \<and>
       (if delta = 0 then next = None
        else \<exists>off'. int off' = int (length (chain_bytes c) - length link) + sint delta \<and>
          unat (chain_floor c) \<le> off' \<and> off' < length (chain_bytes c) \<and>
          next = Some (drop off' (chain_bytes c))))"
proof -
  have s: "suffix link (chain_bytes c)"
    if "sleb L (drop off (chain_bytes c)) = Inr (link, index)" for link index
    using consumes_suffix[OF sleb_consumes[OF that]] suffix_drop suffix_order.order_trans by blast
  show ?thesis
  proof (cases "sleb L (drop off (chain_bytes c))")
    case (Inr p)
    then obtain link index where one: "sleb L (drop off (chain_bytes c)) = Inr (link, index)"
      by (cases p) simp
    show ?thesis
    proof (cases "sleb L link")
      case (Inr q)
      with one show ?thesis
        by (cases q) (simp add: chain_parse_def res_simps chain_target_iff[OF s[OF one] assms(2)])
    qed (simp add: chain_parse_def one)
  qed (simp add: chain_parse_def)
qed

lemma chain_parse_fuel [simp]: "chain_parse L (c\<lparr>chain_fuel := f\<rparr>) i = chain_parse L c i"
  by (simp add: chain_parse_def chain_target_def cong: if_cong)

text \<open>A chain positioned at an offset of the table.\<close>

lemma chain_enumerates:
  assumes "follows L (chain_bytes c) (unat (chain_floor c)) off ks" "slice_ok (chain_bytes c)"
    "chain_rest c = Some (drop off (chain_bytes c))" "length ks \<le> unat (chain_fuel c)"
  shows "drain (chain_next L) c = Some (map Inr ks)"
proof -
  define whole floor where "whole = chain_bytes c" and "floor = unat (chain_floor c)"
  have "follows L whole floor off ks" using assms(1) by (simp add: whole_def floor_def)
  then show ?thesis
    using assms(2-4) whole_def floor_def
  proof (induction arbitrary: c rule: follows.induct)
    case (follows_last off link index rest kind)
    let ?c = "c\<lparr>chain_fuel := chain_fuel c - 1, chain_rest := None\<rparr>"
    have "chain_parse L c (drop off (chain_bytes c)) = Inr (kind, None)"
      using follows_last by (subst chain_parse_iff) auto
    then have "chain_next L c = (Some (Inr kind), ?c)"
      using follows_last.prems by (auto simp: chain_next_def)
    then show ?case by (simp add: drain_yield drain_stop chain_next_def)
  next
    case (follows_link off link index rest delta kind next_off kinds)
    let ?c = "c\<lparr>chain_fuel := chain_fuel c - 1, chain_rest := Some (drop next_off (chain_bytes c))\<rparr>"
    have fuel: "chain_fuel c \<noteq> 0" using follows_link.prems by auto
    have "chain_parse L c (drop off (chain_bytes c)) = Inr (kind, Some (drop next_off (chain_bytes c)))"
      using follows_link follows_range[OF follows_link.hyps(8)] by (subst chain_parse_iff) auto
    then have "chain_next L c = (Some (Inr kind), ?c)"
      using fuel follows_link.prems(2) by (auto simp: chain_next_def)
    moreover have "drain (chain_next L) ?c = Some (map Inr kinds)"
      using follows_link.prems fuel by (intro follows_link.IH) (auto simp: unat_minus_one)
    ultimately show ?case by (simp add: drain_yield)
  qed
qed

lemma chain_next_cases:
  assumes "chain_rest c = Some i"
  shows "chain_fuel c = 0 \<Longrightarrow> chain_next L c = (Some (Inl Loop), c\<lparr>chain_rest := None\<rparr>)"
    and "chain_fuel c \<noteq> 0 \<Longrightarrow> chain_parse L c i = Inl e \<Longrightarrow>
      chain_next L c = (Some (Inl e), c\<lparr>chain_fuel := chain_fuel c - 1, chain_rest := None\<rparr>)"
    and "chain_fuel c \<noteq> 0 \<Longrightarrow> chain_parse L c i = Inr (kind, n) \<Longrightarrow>
      chain_next L c = (Some (Inr kind), c\<lparr>chain_fuel := chain_fuel c - 1, chain_rest := n\<rparr>)"
  using assms by (simp_all add: chain_next_def)

lemma chain_sound:
  assumes "drain (chain_next L) c = Some (map Inr ks)" "slice_ok (chain_bytes c)"
    "chain_rest c = Some (drop off (chain_bytes c))" "off < length (chain_bytes c)"
    "unat (chain_floor c) \<le> off"
  shows "follows L (chain_bytes c) (unat (chain_floor c)) off ks"
  using assms
proof (induction ks arbitrary: c off)
  case Nil
  then show ?case
    by (cases "chain_fuel c = 0"; cases "chain_parse L c (drop off (chain_bytes c))")
       (auto simp: chain_next_cases drain_yield)
next
  case (Cons k ks)
  let ?i = "drop off (chain_bytes c)"
  have fuel: "chain_fuel c \<noteq> 0"
    using Cons.prems(1) chain_next_cases(1)[OF Cons.prems(3)] by (auto simp: drain_yield)
  obtain n where n: "chain_parse L c ?i = Inr (k, n)"
    and d: "drain (chain_next L) (c\<lparr>chain_fuel := chain_fuel c - 1, chain_rest := n\<rparr>) = Some (map Inr ks)"
    using Cons.prems(1) chain_next_cases(2,3)[OF Cons.prems(3) fuel]
    by (cases "chain_parse L c ?i") (auto simp: drain_yield)
  from n obtain link index rest delta where p: "sleb L ?i = Inr (link, index)"
    "sleb L link = Inr (rest, delta)" "kind_new index = Inr k"
    "if delta = 0 then n = None
     else \<exists>off'. int off' = int (length (chain_bytes c) - length link) + sint delta \<and>
          unat (chain_floor c) \<le> off' \<and> off' < length (chain_bytes c) \<and>
          n = Some (drop off' (chain_bytes c))"
    using chain_parse_iff[OF Cons.prems(4,2)] by blast
  show ?case
  proof (cases "delta = 0")
    case True
    with d p(4) have "ks = []" by (simp add: drain_stop chain_next_def)
    with True p Cons.prems show ?thesis by (auto intro: follows_last)
  next
    case False
    then obtain off' where o: "int off' = int (length (chain_bytes c) - length link) + sint delta"
      "unat (chain_floor c) \<le> off'" "off' < length (chain_bytes c)"
      "n = Some (drop off' (chain_bytes c))" using p(4) by auto
    have "follows L (chain_bytes c) (unat (chain_floor c)) off' ks"
      using Cons.IH[OF d] o Cons.prems(2) by simp
    with False p o Cons.prems show ?thesis by (auto intro: follows_link)
  qed
qed

lemma lsda_chain_start:
  assumes "lsda_wf L l" "lsda_chain L l a = Inr c"
  shows "chain_bytes c = lsda_bytes l" "chain_floor c = lsda_action_offset l"
    "slice_ok (chain_bytes c)" "unat (chain_fuel c) = Suc (length (lsda_bytes l))"
    "\<exists>off. int off = int (unat (lsda_action_offset l)) + int (unat (action_raw a)) - 1 \<and>
      off < length (lsda_bytes l) \<and> unat (lsda_action_offset l) \<le> off \<and>
      chain_rest c = Some (drop off (lsda_bytes l))"
proof -
  have s: "slice_ok (lsda_bytes l)" using assms(1) by (simp add: lsda_wf_def)
  from assms(2) show "chain_bytes c = lsda_bytes l" "chain_floor c = lsda_action_offset l"
    by (auto simp: lsda_chain_def Let_def res_simps split: if_splits)
  with s show "slice_ok (chain_bytes c)" by simp
  have "unat (saturating_add (len_of (lsda_bytes l)) 1) = Suc (length (lsda_bytes l))"
    using s by (simp add: unat_saturating_add unat_len_of slice_ok_def)
  with assms(2) show "unat (chain_fuel c) = Suc (length (lsda_bytes l))"
    by (auto simp: lsda_chain_def Let_def res_simps split: if_splits)
  let ?o = "lsda_action_offset l" and ?r = "action_raw a - 1"
  from assms(2) have one: "1 \<le> action_raw a" "unat ?o + unat ?r < 2 ^ 64"
    "?o + ?r < len_of (lsda_bytes l)" "chain_rest c = Some (drop (unat (?o + ?r)) (lsda_bytes l))"
    by (auto simp: lsda_chain_def Let_def res_simps take_bytes_eq split: if_splits)
  have u: "unat (?o + ?r) = unat ?o + unat ?r" using one(2) by (intro unat_add_exact) simp
  have r: "unat ?r = unat (action_raw a) - 1" "1 \<le> unat (action_raw a)"
    using one(1) by (simp_all add: unat_sub_exact word_le_nat_alt)
  show "\<exists>off. int off = int (unat ?o) + int (unat (action_raw a)) - 1 \<and>
      off < length (lsda_bytes l) \<and> unat ?o \<le> off \<and>
      chain_rest c = Some (drop off (lsda_bytes l))"
    using one(3,4) u r s
    by (intro exI[of _ "unat ?o + unat ?r"]) (simp add: word_less_nat_alt unat_len_of del: unat_1)
qed

text \<open>What the iterator yields for an action is exactly the chain, when the chain ends.\<close>

lemma lsda_chain_exact:
  assumes "lsda_wf L l" "lsda_chain L l a = Inr c"
  shows "drain (chain_next L) c = Some (map Inr ks) \<longleftrightarrow>
    follows L (lsda_bytes l) (unat (lsda_action_offset l))
      (unat (lsda_action_offset l) + unat (action_raw a) - 1) ks"
proof -
  note st = lsda_chain_start[OF assms]
  from st(5) obtain off where off: "int off = int (unat (lsda_action_offset l)) + int (unat (action_raw a)) - 1"
    "off < length (lsda_bytes l)" "unat (lsda_action_offset l) \<le> off"
    "chain_rest c = Some (drop off (lsda_bytes l))" by blast
  from off(1) have o: "unat (lsda_action_offset l) + unat (action_raw a) - 1 = off" by linarith
  show ?thesis
    unfolding o
  proof
    assume "drain (chain_next L) c = Some (map Inr ks)"
    from chain_sound[OF this st(3)] st off
    show "follows L (lsda_bytes l) (unat (lsda_action_offset l)) off ks" by simp
  next
    assume f: "follows L (lsda_bytes l) (unat (lsda_action_offset l)) off ks"
    then show "drain (chain_next L) c = Some (map Inr ks)"
      using st off follows_length[OF f] by (intro chain_enumerates[where off = off]) simp_all
  qed
qed

end

end
