(* ===== verification/SiteFacts.thy ===== *)
theory SiteFacts
  imports TableFacts
begin

text \<open>
  The call-site table: the lookup always returns, it agrees with a search of the list of sites,
  on a sorted table it finds exactly the site that covers the program counter, and a table
  written with unsigned LEB128 fields is read back as it was.
\<close>

section \<open>The lookup as a search of a list\<close>

fun site_search :: "usize \<Rightarrow> (LsdaError + Site) list \<Rightarrow> LsdaError + Site option" where
  "site_search pc [] = Inr None"
| "site_search pc (Inl error # items) = Inl error"
| "site_search pc (Inr site # items) =
    (case checked_add (site_start site) (site_length site) of
       None \<Rightarrow> Inl Overflow
     | Some end \<Rightarrow>
         if site_start site \<le> pc \<and> pc < end then Inr (Some site)
         else if pc < site_start site then Inr None
         else site_search pc items)"

definition covers :: "usize \<Rightarrow> Site \<Rightarrow> bool" where
  "covers pc site \<longleftrightarrow> unat (site_start site) \<le> unat pc \<and>
    unat pc < unat (site_start site) + unat (site_length site)"

text \<open>A table in ascending order of start, no site of which wraps around.\<close>

definition sites_ok :: "Site list \<Rightarrow> bool" where
  "sites_ok sites \<longleftrightarrow> sorted (map site_start sites) \<and>
    (\<forall>s\<in>set sites. unat (site_start s) + unat (site_length s) < 2 ^ 64)"

lemma site_search_find:
  "sites_ok sites \<Longrightarrow> site_search pc (map Inr sites) = Inr (List.find (covers pc) sites)"
proof (induction sites)
  case Nil
  show ?case by simp
next
  case (Cons s sites)
  have fit: "unat (site_start s) + unat (site_length s) < 2 ^ 64"
    and ord: "\<forall>t\<in>set sites. site_start s \<le> site_start t"
    and ok: "sites_ok sites" using Cons.prems by (auto simp: sites_ok_def)
  have sum: "checked_add (site_start s) (site_length s) = Some (site_start s + site_length s)"
    "unat (site_start s + site_length s) = unat (site_start s) + unat (site_length s)"
    using fit by (simp_all add: checked_add_def unat_add_exact)
  have late: "List.find (covers pc) sites = None" if "pc < site_start s"
    using that ord by (force simp: find_None_iff covers_def word_less_nat_alt word_le_nat_alt)
  have c: "covers pc s \<longleftrightarrow> site_start s \<le> pc \<and> pc < site_start s + site_length s"
    by (simp add: covers_def word_le_nat_alt word_less_nat_alt sum(2))
  show ?case using Cons.IH[OF ok] sum(1) late by (auto simp: c)
qed

context nom_laws begin

lemma site_loop_drain:
  "site_loop L it pc = map_option (site_search pc) (drain (sites_next L) it)"
proof (induction it rule: sites_it.progress_induct)
  case (step it)
  obtain r it' where n: "sites_next L it = (r, it')" by fastforce
  show ?case
  proof (cases r)
    case None
    with n show ?thesis by (subst site_loop.simps) (simp add: drain_stop)
  next
    case (Some a)
    with n have now: "sites_next L it = (Some a, it')" by simp
    from sites_it.drain_total[of it'] obtain items where
      items: "drain (sites_next L) it' = Some items" by blast
    show ?thesis
      using step[OF now] items
      by (subst site_loop.simps) (auto simp: now drain_yield split: sum.splits option.splits)
  qed
qed

lemma lsda_site_total: "\<exists>r. lsda_site L l pc = Some r"
  using sites_it.drain_total[of "lsda_sites l"]
  by (auto simp: lsda_site_def site_loop_drain split: sum.splits)

lemma lsda_site_find:
  assumes "drain (sites_next L) (lsda_sites l) = Some (map Inr sites)" "sites_ok sites"
    "bases_function (lsda_bases l) \<le> pc"
  shows "lsda_site L l pc =
    Some (Inr (List.find (covers (pc - bases_function (lsda_bases l))) sites))"
  using assms by (simp add: lsda_site_def site_loop_drain site_search_find checked_sub_def)

end

section \<open>Writing a table\<close>

text \<open>
  A call-site table with unsigned LEB128 fields, as a compiler writes it for a function whose
  landing-pad base is the function's start.
\<close>

definition encode_word :: "u64 \<Rightarrow> bytes" where
  "encode_word w = uleb_encode (unat w)"

definition encode_site :: "usize \<Rightarrow> Site \<Rightarrow> bytes" where
  "encode_site base s =
    encode_word (site_start s) @ encode_word (site_length s) @
    encode_word (case site_landing s of None \<Rightarrow> 0 | Some p \<Rightarrow> p - base) @
    encode_word (case site_action s of None \<Rightarrow> 0 | Some a \<Rightarrow> action_raw a)"

text \<open>A pad lies above the base, because a zero distance means that there is none.\<close>

definition encodable :: "usize \<Rightarrow> Site \<Rightarrow> bool" where
  "encodable base s \<longleftrightarrow> (case site_landing s of None \<Rightarrow> True | Some p \<Rightarrow> base < p) \<and>
    (case site_action s of None \<Rightarrow> True | Some a \<Rightarrow> action_raw a \<noteq> 0)"

definition encode_table :: "usize \<Rightarrow> Site list \<Rightarrow> bytes" where
  "encode_table base sites = concat (map (encode_site base) sites)"

definition encode_lsda :: "usize \<Rightarrow> Site list \<Rightarrow> bytes \<Rightarrow> bytes" where
  "encode_lsda base sites actions =
    [0xff, 0xff, 0x01] @ uleb_encode (length (encode_table base sites)) @
    encode_table base sites @ actions"

lemma encode_word_nonempty: "encode_word w \<noteq> []"
  by (simp add: encode_word_def uleb_encode.simps)

lemma encode_site_nonempty: "encode_site base s \<noteq> []"
  by (simp add: encode_site_def encode_word_nonempty)

context nom_laws begin

lemma uleb_encode_read:
  assumes "n < 2 ^ 64"
  shows "uleb L (uleb_encode n @ rest) = Inr (rest, of_nat n)"
proof -
  have "n < 128 ^ Suc 9" using assms by simp
  from uleb_encode_length[OF this] show ?thesis
    using assms by (auto simp: uleb_iff uleb_encode_split uleb_encode_value)
qed

lemma encode_word_read [simp]: "uleb L (encode_word w @ rest) = Inr (rest, w)"
  using uleb_encode_read[of "unat w" rest] unsigned_less[of w, where ?'a = nat]
  by (simp add: encode_word_def)

end

context lsda_laws begin

lemma offset_uleb:
  "offset L i 0x01 e = and_then (uleb L i) (\<lambda>(r, v). Inr (r, v))"
proof -
  have v: "pe_is_valid_encoding L 1" "\<not> pe_is_absent L 1" "pe_application L 1 = pe_absptr L"
    "\<not> pe_is_indirect L 1" "pe_format L 1 = 1"
    by (simp_all add: pe_is_valid pe_is_absent pe_application pe_formats pe_is_indirect pe_format)
  have s: "scalar L i 1 e = and_then (uleb L i) (\<lambda>(r, v). Inr (r, Unsigned v))"
    by (simp add: scalar_def pe_formats)
  have a: "scalar_add (Unsigned x) 0 = Inr x" for x
    using unsigned_less[of x, where ?'a = int] by (simp add: scalar_add_exact)
  show ?thesis
    using v by (cases "uleb L i") (auto simp: offset_def s a)
qed

lemma call_site_read:
  assumes "lsda_call_encoding l = 0x01" "encodable (lsda_landing_base l) s"
  shows "call_site L (encode_site (lsda_landing_base l) s @ rest) l = Inr (rest, s)"
proof -
  let ?b = "lsda_landing_base l"
  have land: "checked_add ?b (p - ?b) = Some p \<and> p - ?b \<noteq> 0" if "?b < p" for p
  proof -
    have "unat (p - ?b) = unat p - unat ?b" "unat ?b < unat p"
        using that unat_sub_exact[OF order.strict_implies_order[OF that]]
      by (simp_all add: word_less_nat_alt)
    with unsigned_less[of p, where ?'a = nat] show ?thesis
      by (auto simp: checked_add_def)
  qed
  show ?thesis
    using assms(2) land
    by (cases s) (auto simp: call_site_def encode_site_def assms(1) offset_uleb encodable_def
        nonzero_def split: option.splits)
qed

lemma table_read:
  assumes "lsda_call_encoding l = 0x01" "\<forall>s\<in>set sites. encodable (lsda_landing_base l) s"
  shows "drain (sites_next L) \<lparr>sites_lsda = l, sites_input = encode_table (lsda_landing_base l) sites,
    sites_done = False\<rparr> = Some (map Inr sites)"
  using assms(2)
proof (induction sites)
  case Nil
  show ?case by (simp add: drain_stop sites_next_def encode_table_def)
next
  case (Cons s sites)
  let ?b = "lsda_landing_base l"
  have "encode_table ?b (s # sites) = encode_site ?b s @ encode_table ?b sites"
    by (simp add: encode_table_def)
  then have "sites_next L \<lparr>sites_lsda = l, sites_input = encode_table ?b (s # sites), sites_done = False\<rparr> =
      (Some (Inr s), \<lparr>sites_lsda = l, sites_input = encode_table ?b sites, sites_done = False\<rparr>)"
    using Cons.prems assms(1) by (simp add: sites_next_def call_site_read encode_site_nonempty)
  with Cons show ?case by (simp add: drain_yield)
qed

lemma encode_lsda_read:
  assumes "\<forall>s\<in>set sites. encodable (bases_function bases) s"
    and ok: "slice_ok (encode_lsda (bases_function bases) sites actions)"
  shows "\<exists>l. lsda_new L (encode_lsda (bases_function bases) sites actions) bases endian = Inr l \<and>
    lsda_bases l = bases \<and> lsda_wf L l \<and> drop (unat (lsda_action_offset l)) (lsda_bytes l) = actions \<and>
    drain (sites_next L) (lsda_sites l) = Some (map Inr sites)"
proof -
  let ?b = "bases_function bases"
  let ?t = "encode_table ?b sites"
  let ?h = "[0xff, 0xff, 0x01] @ uleb_encode (length ?t)"
  let ?w = "encode_lsda ?b sites actions"
  have w: "?w = ?h @ ?t @ actions" by (simp add: encode_lsda_def)
  have t: "length ?t < 2 ^ 64" using ok by (simp add: slice_ok_def w)
  have "suffix actions ?w" by (simp add: w suffix_def)
  note pos = position_iff[OF this ok]
  obtain p where p1: "position ?w actions = Inr p"
    using pos(2) by (cases "position ?w actions") auto
  have p2: "unat p = length ?h + length ?t"
    using pos(1)[THEN iffD1, OF p1] by (simp add: w)
  let ?l = "\<lparr>lsda_bytes = ?w, lsda_bases = bases, lsda_endian = endian, lsda_landing_base = ?b,
    lsda_types = None, lsda_call_encoding = 1, lsda_call_sites = ?t, lsda_action_offset = p\<rparr>"
  have abs: "pe_is_absent L 0xff" "pe_is_valid_encoding L 1" "\<not> pe_is_absent L 1"
    by (simp_all add: pe_is_absent pe_is_valid)
  have "take_bytes L (?t @ actions) (of_nat (length ?t)) = Inr (actions, ?t)"
    using t by (simp add: take_bytes_eq unat_of_nat)
  then have new: "lsda_new L ?w bases endian = Inr ?l"
    using p1 abs uleb_encode_read[OF t, of "?t @ actions"]
    by (simp add: lsda_new_def w lsda_landing_def lsda_type_table_def Let_def)
  moreover have "drain (sites_next L) (lsda_sites ?l) = Some (map Inr sites)"
    using table_read[of ?l sites] assms(1) by (simp add: lsda_sites_def)
  moreover have "drop (unat p) ?w = actions" using p2 by (simp add: w)
  ultimately show ?thesis using lsda_new_wf[OF new ok] by simp
qed

end

end
