(* ===== verification/LsdaProps.thy ===== *)
theory LsdaProps
  imports SiteFacts
begin

text \<open>
  The properties of \<open>desenredo-lsda\<close>: what its number readers accept, what its parsed header
  guarantees, what its iterators enumerate and what its lookups find.
\<close>

section \<open>Facts about the type table\<close>

context nom_laws begin

lemma types_get_reads:
  assumes "types_get L types l index = Inr t" "lsda_wf L l" "lsda_types l = Some types"
  shows "\<exists>width rest. types_width L (types_encoding types) = Inr width \<and>
    unat (type_raw index) * unat width \<le> unat (types_end types) \<and>
    target L (lsda_bytes l)
      (drop (unat (types_end types) - unat (type_raw index) * unat width) (lsda_bytes l))
      (types_encoding types) (lsda_bases l) (lsda_endian l) = Inr (rest, t) \<and>
    length (lsda_bytes l) - length rest \<le> unat (types_end types)"
proof -
  let ?w = "lsda_bytes l"
  have ok: "slice_ok ?w" using assms(2) by (simp add: lsda_wf_def)
  obtain width start input taken rest consumed where
      wd: "types_width L (types_encoding types) = Inr width"
    and mu: "unat (type_raw index) * unat width < 2 ^ 64"
    and le: "type_raw index * width \<le> types_end types"
    and st: "start = types_end types - type_raw index * width"
    and tk: "take_bytes L ?w start = Inr (input, taken)"
    and tg: "target L ?w input (types_encoding types) (lsda_bases l) (lsda_endian l) = Inr (rest, t)"
    and po: "position ?w rest = Inr consumed" and co: "consumed \<le> types_end types"
    using assms(1) by (auto simp: types_get_def Let_def res_simps split: if_splits)
  have m: "unat (type_raw index * width) = unat (type_raw index) * unat width"
    using mu by (intro unat_mult_exact) simp
  have s: "unat start = unat (types_end types) - unat (type_raw index) * unat width"
    using le st m by (simp add: unat_sub_exact)
  have i: "input = drop (unat start) ?w" using tk by (simp add: take_bytes_eq split: if_splits)
  have "suffix rest ?w"
    using consumes_suffix[OF target_consumes[OF tg]] i suffix_drop suffix_order.order_trans by blast
  from position_iff(1)[THEN iffD1, OF this ok po] co
  have "length ?w - length rest \<le> unat (types_end types)" by (simp add: word_le_nat_alt)
  with wd le m i s tg show ?thesis by (auto simp: word_le_nat_alt)
qed

text \<open>An exception specification: type indices, ended by a zero.\<close>

lemma ft_read:
  assumes "ft_input f = concat (map encode_word indices) @ encode_word 0 @ rest" "\<not> ft_done f"
    "0 \<notin> set indices"
  shows "drain (ft_next L) f = Some (map (\<lambda>i. Inr (TypeIndex i)) indices)"
  using assms
proof (induction indices arbitrary: f)
  case Nil
  then show ?case by (simp add: drain_stop ft_next_def)
next
  case (Cons i indices)
  let ?f = "f\<lparr>ft_input := concat (map encode_word indices) @ encode_word 0 @ rest\<rparr>"
  have "ft_next L f = (Some (Inr (TypeIndex i)), ?f)"
    using Cons.prems by (simp add: ft_next_def nonzero_def)
  moreover have "drain (ft_next L) ?f = Some (map (\<lambda>i. Inr (TypeIndex i)) indices)"
    using Cons.prems by (intro Cons.IH) simp_all
  ultimately show ?case by (simp add: drain_yield)
qed

end

section \<open>Numbers\<close>

text \<open>C26. \<open>uleb\<close> accepts exactly the encodings of at most ten octets whose value fits 64 bits, and
  returns that value and the bytes after it.\<close>

theorem uleb_correct:
  assumes "nom_laws L"
  shows "uleb L input = Inr (rest, v) \<longleftrightarrow>
    (\<exists>used. leb_split input = Some (used, rest) \<and> length used \<le> 10 \<and> leb_value used < 2 ^ 64 \<and>
      v = of_nat (leb_value used))"
  by (rule nom_laws.uleb_iff[OF assms])

theorem uleb_correct_witness: "uleb lib_ref [0xe5, 0x8e, 0x26, 7] = Inr ([7], 624485)"
  unfolding uleb_correct[OF ref.nom_laws_axioms]
  by (intro exI[of _ "[0xe5, 0x8e, 0x26]"]) (simp add: payload_def)

text \<open>Every 64-bit number written in unsigned LEB128 is read back, whatever follows it.\<close>

theorem uleb_roundtrip:
  assumes "nom_laws L" "n < 2 ^ 64"
  shows "uleb L (uleb_encode n @ rest) = Inr (rest, of_nat n)"
  by (rule nom_laws.uleb_encode_read[OF assms])

theorem uleb_roundtrip_witness:
  "uleb lib_ref (uleb_encode (2 ^ 64 - 1) @ [5]) = Inr ([5], of_nat (2 ^ 64 - 1))"
  by (rule uleb_roundtrip[OF ref.nom_laws_axioms]) simp

text \<open>C27. \<open>sleb\<close> accepts exactly the encodings of at most ten octets, and returns the encoded
  number reduced to 64 bits: no range check is made on the tenth octet.\<close>

theorem sleb_correct:
  assumes "nom_laws L"
  shows "sleb L input = Inr (rest, v) \<longleftrightarrow>
    (\<exists>used. leb_split input = Some (used, rest) \<and> length used \<le> 10 \<and>
      v = word_of_int (leb_signed used))"
  by (rule nom_laws.sleb_iff[OF assms])

theorem sleb_correct_witness: "sleb lib_ref [0x80, 0x7f, 9] = Inr ([9], - 128)"
  unfolding sleb_correct[OF ref.nom_laws_axioms]
  by (intro exI[of _ "[0x80, 0x7f]"]) (simp add: leb_signed_def payload_def)

text \<open>Every number of the \<open>i64\<close> range written in signed LEB128 is read back.\<close>

theorem sleb_roundtrip:
  assumes "nom_laws L" "- (2 ^ 63) \<le> z" "z < 2 ^ 63"
  shows "\<exists>v. sleb L (sleb_encode z @ rest) = Inr (rest, v) \<and> sint v = z"
proof -
  have "length (sleb_encode z) \<le> Suc 9" using assms(2,3) by (intro sleb_encode_length) simp_all
  then have "sleb L (sleb_encode z @ rest) = Inr (rest, word_of_int z)"
    by (simp add: nom_laws.sleb_iff[OF assms(1)] sleb_encode_split sleb_encode_value)
  moreover have "sint (word_of_int z :: i64) = z"
    using assms(2,3) by (simp add: signed_of_int signed_take_bit_int_eq_self)
  ultimately show ?thesis by blast
qed

theorem sleb_roundtrip_witness:
  "\<exists>v. sleb lib_ref (sleb_encode (- (2 ^ 63)) @ [1]) = Inr ([1], v) \<and> sint v = - (2 ^ 63)"
  by (rule sleb_roundtrip[OF ref.nom_laws_axioms]) simp_all

text \<open>C32. What becomes of an encoding of ten octets, of which the tenth has room for one more bit of
  the number: the signed reader accepts every one of them and returns the number spelled exactly
  when the tenth octet is \<open>0\<close> or \<open>0x7f\<close>, hence a wrong number in all other cases; the unsigned
  reader returns the number when the tenth octet is at most \<open>1\<close> and the error OVERFLOW otherwise.\<close>

theorem sleb_drops_high_bits:
  assumes "nom_laws L" "leb_split input = Some (used, rest)" "length used = 10"
  shows "(\<exists>v. sleb L input = Inr (rest, v) \<and> (sint v = leb_signed used \<longleftrightarrow> last used = 0 \<or> last used = 0x7f)) \<and>
    uleb L input = (if last used \<le> 1 then Inr (rest, of_nat (leb_value used)) else Inl Overflow)"
proof -
  define p where "p = unat (last used)"
  obtain low where low: "low < (2 :: nat) ^ 63" "leb_value used = low + 2 ^ 63 * p"
    "leb_signed used = int low + 2 ^ 63 * (int p - (if 64 \<le> p then 128 else 0))" "p < 128"
    unfolding p_def by (rule ten_octets[OF assms(2,3)])
  have "sleb L input = Inr (rest, word_of_int (leb_signed used))"
    using assms(2,3) by (simp add: nom_laws.sleb_iff[OF assms(1)])
  moreover have "- (2 ^ 63) \<le> leb_signed used \<and> leb_signed used < 2 ^ 63 \<longleftrightarrow> p = 0 \<or> p = 127"
    using low(1,4) unfolding low(3) by (cases "64 \<le> p") (simp_all, linarith+)
  ultimately have "\<exists>v. sleb L input = Inr (rest, v) \<and> (sint v = leb_signed used \<longleftrightarrow> last used = 0 \<or> last used = 0x7f)"
    by (auto simp: sint_word_of_int_iff word_unat_eq_iff p_def)
  moreover have "leb_value used < 2 ^ 64 \<longleftrightarrow> p \<le> 1" using low(1) unfolding low(2) by simp linarith
  then have "leb_value used < 2 ^ 64 \<longleftrightarrow> last used \<le> 1" by (simp add: p_def word_le_nat_alt)
  then have "uleb L input = (if last used \<le> 1 then Inr (rest, of_nat (leb_value used)) else Inl Overflow)"
    using nom_laws.uleb_iff[OF assms(1)] nom_laws.uleb_overflow[OF assms(1,2)] assms(2,3) by auto
  ultimately show ?thesis ..
qed

text \<open>The encoding of \<open>-2^64\<close>.\<close>

theorem sleb_drops_high_bits_witness:
  "(\<exists>v. sleb lib_ref (replicate 9 0x80 @ [0x7e, 3]) = Inr ([3], v) \<and> sint v \<noteq> - (2 ^ 64)) \<and>
    leb_signed (replicate 9 0x80 @ [0x7e]) = - (2 ^ 64) \<and>
    uleb lib_ref (replicate 9 0x80 @ [0x7e, 3]) = Inl Overflow"
proof -
  have s: "leb_split (replicate 9 0x80 @ [0x7e, 3]) = Some (replicate 9 0x80 @ [0x7e], [3])" by code_simp
  have "leb_value (replicate n 0x80 @ [b]) = 128 ^ n * payload b" for n b
    by (induction n) (simp_all add: payload_def)
  then have v: "leb_signed (replicate 9 0x80 @ [0x7e]) = - (2 ^ 64)" by (simp add: leb_signed_def payload_def)
  have t: "last (replicate 9 0x80 @ [0x7e :: u8]) = 0x7e" "length (replicate 9 0x80 @ [0x7e :: u8]) = 10" by simp_all
  have n: "((0x7e :: u8) \<le> 1) = False" "((0x7e :: u8) = 0) = False" "((0x7e :: u8) = 0x7f) = False"
    by (simp_all add: word_le_nat_alt)
  show ?thesis
    using sleb_drops_high_bits[OF ref.nom_laws_axioms s t(2)]
    unfolding t(1) v n if_False simp_thms by (simp only: simp_thms)
qed

section \<open>The header, the chains and the tables\<close>

text \<open>A decoded pointer is the mathematical sum of its base and its signed or unsigned value;
  whenever that sum is not a 64-bit address the reader reports an overflow, and never wraps.\<close>

theorem scalar_add_correct:
  "scalar_add s base = (let t = uint base + scalar_int s
     in if 0 \<le> t \<and> t < 2 ^ 64 then Inr (of_int t) else Inl Overflow)"
  by (rule scalar_add_exact)

text \<open>A parsed header is well formed: the call-site table is a slice of the input after a
  non-empty header, the action table starts right after it, the type table ends inside the input
  and has a valid encoding, and so has the call-site table; bytes, bases and byte order are those
  given.\<close>

theorem lsda_new_invariant:
  assumes "nom_laws L" "slice_ok whole" "lsda_new L whole bases endian = Inr l"
  shows "lsda_wf L l \<and> lsda_bytes l = whole \<and> lsda_bases l = bases \<and> lsda_endian l = endian"
  using nom_laws.lsda_new_wf[OF assms(1,3,2)] nom_laws.lsda_new_parts[OF assms(1,3)] by metis

definition sample_lsda :: bytes where
  "sample_lsda = [0xff, 0xff, 0x01, 4, 16, 8, 32, 1, 1, 0]"

definition sample_parsed :: Lsda where
  "sample_parsed = \<lparr>lsda_bytes = sample_lsda, lsda_bases = bases_new 0 0x1000, lsda_endian = Little,
    lsda_landing_base = 0x1000, lsda_types = None, lsda_call_encoding = 1,
    lsda_call_sites = [16, 8, 32, 1], lsda_action_offset = 8\<rparr>"

lemma ref_pe: "pe_is_absent lib_ref e \<longleftrightarrow> e = 0xff" "pe_is_valid_encoding lib_ref 1"
  by (simp_all add: lib_ref_def)

lemma sample_lsda_new: "lsda_new lib_ref sample_lsda (bases_new 0 0x1000) Little = Inr sample_parsed"
  by (simp add: lsda_new_def sample_lsda_def sample_parsed_def lsda_landing_def lsda_type_table_def
      ref_pe ref.uleb_octet payload_def ref.take_bytes_eq position_def len_of_def checked_sub_def)

lemma sample_wf: "lsda_wf lib_ref sample_parsed"
  by (rule ref.lsda_new_wf[OF sample_lsda_new]) (simp add: slice_ok_def sample_lsda_def)

theorem lsda_new_invariant_witness: "lsda_wf lib_ref sample_parsed \<and> lsda_bytes sample_parsed = sample_lsda"
  using lsda_new_invariant[OF ref.nom_laws_axioms _ sample_lsda_new]
  by (simp add: slice_ok_def sample_lsda_def)

text \<open>C13. The iterator over an action chain yields exactly the records the chain links, in order,
  whenever the chain ends: the fuel never cuts a chain short, and what is yielded without an error
  is a whole chain that stays inside the action table.\<close>

theorem chain_exact:
  assumes "nom_laws L" "lsda_wf L l" "lsda_chain L l a = Inr c"
  shows "drain (chain_next L) c = Some (map Inr ks) \<longleftrightarrow>
    follows L (lsda_bytes l) (unat (lsda_action_offset l))
      (unat (lsda_action_offset l) + unat (action_raw a) - 1) ks"
  by (rule nom_laws.lsda_chain_exact[OF assms])

definition sample_chain :: Chain where
  "sample_chain = \<lparr>chain_bytes = sample_lsda, chain_rest = Some [1, 0], chain_fuel = 11, chain_floor = 8\<rparr>"

lemma sample_chain_eq: "lsda_chain lib_ref sample_parsed (Action 1) = Inr sample_chain"
  by (simp add: lsda_chain_def sample_chain_def sample_parsed_def sample_lsda_def checked_sub_def
      checked_add_def len_of_def ref.take_bytes_eq saturating_add_def)

theorem chain_exact_witness:
  "follows lib_ref sample_lsda 8 8 [Catch (TypeIndex 1)]"
proof -
  have "drain (chain_next lib_ref) sample_chain = Some (map Inr [Catch (TypeIndex 1)])"
  proof -
    have "chain_next lib_ref sample_chain = (Some (Inr (Catch (TypeIndex 1))),
        sample_chain\<lparr>chain_rest := None, chain_fuel := 10\<rparr>)"
      by (simp add: chain_next_def sample_chain_def chain_parse_def ref.sleb_octet leb_signed_def
          payload_def kind_new_eq chain_target_def)
    then show ?thesis by (simp add: drain_yield drain_stop chain_next_def)
  qed
  then show ?thesis
    using chain_exact[OF ref.nom_laws_axioms sample_wf sample_chain_eq, of "[Catch (TypeIndex 1)]"]
    by (simp add: sample_parsed_def)
qed

text \<open>C28. Whatever the bytes and however the byte parsers behave, the iterator over an action chain
  ends, after at most one item more than its fuel.\<close>

theorem chain_ends:
  "\<exists>items. drain (chain_next L) c = Some items \<and> length items \<le> Suc (unat (chain_fuel c))"
proof -
  from chain_it.drain_total[of L c] obtain items where
    "drain (chain_next L) c = Some items" "length items \<le> chain_measure c" by blast
  then show ?thesis by (auto simp: chain_measure_def split: option.splits)
qed

text \<open>The classification of an action record is total: zero is a cleanup, a positive index a
  catch clause, a negative one an exception specification with the index's magnitude.\<close>

theorem kind_total:
  "kind_new index = Inr (if sint index = 0 then Cleanup
     else if 0 < sint index then Catch (TypeIndex index) else Filter (FilterIndex (- index)))"
  by (rule kind_new_eq)

text \<open>The call-site lookup always returns.\<close>

theorem site_lookup_total:
  assumes "nom_laws L"
  shows "\<exists>r. lsda_site L l pc = Some r"
  by (rule nom_laws.lsda_site_total[OF assms])

theorem site_lookup_total_witness: "\<exists>r. lsda_site lib_ref sample_parsed 0x1012 = Some r"
  by (rule site_lookup_total[OF ref.nom_laws_axioms])

text \<open>C12. On an LSDA whose call-site table was written by \<open>encode_lsda\<close> from sites in ascending
  order, parsing succeeds, gives back the actions and the sites, and the lookup of any program
  counter of the function returns exactly the first site that covers it, or none.\<close>

theorem lsda_roundtrip:
  assumes "lsda_laws L" "\<forall>s\<in>set sites. encodable (bases_function bases) s" "sites_ok sites"
    "slice_ok (encode_lsda (bases_function bases) sites actions)"
    "bases_function bases \<le> pc"
  shows "\<exists>l. lsda_new L (encode_lsda (bases_function bases) sites actions) bases endian = Inr l \<and>
    drop (unat (lsda_action_offset l)) (lsda_bytes l) = actions \<and>
    drain (sites_next L) (lsda_sites l) = Some (map Inr sites) \<and>
    lsda_site L l pc = Some (Inr (List.find (covers (pc - bases_function bases)) sites))"
proof -
  have nom: "nom_laws L" using assms(1) by (simp add: lsda_laws_def)
  from lsda_laws.encode_lsda_read[OF assms(1,2,4)] obtain l where
    "lsda_new L (encode_lsda (bases_function bases) sites actions) bases endian = Inr l"
    "lsda_bases l = bases" "drop (unat (lsda_action_offset l)) (lsda_bytes l) = actions"
    "drain (sites_next L) (lsda_sites l) = Some (map Inr sites)" by blast
  with nom_laws.lsda_site_find[OF nom, of l sites pc] assms(3,5) show ?thesis by simp
qed

definition sample_site :: Site where
  "sample_site = \<lparr>site_start = 16, site_length = 8, site_landing = Some 0x1020,
    site_action = Some (Action 1)\<rparr>"

theorem lsda_roundtrip_witness:
  "\<exists>l. lsda_site lib_ref l 0x1012 = Some (Inr (Some sample_site))"
proof -
  have len: "slice_ok (encode_lsda 0x1000 [sample_site] [1, 0])"
    by (simp add: slice_ok_def encode_lsda_def encode_table_def encode_site_def encode_word_def
        sample_site_def uleb_encode.simps)
  have "encodable 0x1000 sample_site" "sites_ok [sample_site]" "covers 0x12 sample_site"
    by (simp_all add: encodable_def sites_ok_def covers_def sample_site_def)
  with len lsda_roundtrip[OF ref.lsda_laws_axioms, where sites = "[sample_site]"
      and bases = "bases_new 0 0x1000" and actions = "[1, 0]" and pc = "0x1012" and endian = Little]
  show ?thesis by auto
qed

text \<open>A type-table lookup reads the entry that lies the index times the entry width below the
  end of the table, and nothing past that end.\<close>

theorem types_get_in_bounds:
  assumes "nom_laws L" "types_get L types l index = Inr t" "lsda_wf L l" "lsda_types l = Some types"
  shows "\<exists>width rest. types_width L (types_encoding types) = Inr width \<and>
    unat (type_raw index) * unat width \<le> unat (types_end types) \<and>
    target L (lsda_bytes l)
      (drop (unat (types_end types) - unat (type_raw index) * unat width) (lsda_bytes l))
      (types_encoding types) (lsda_bases l) (lsda_endian l) = Inr (rest, t) \<and>
    length (lsda_bytes l) - length rest \<le> unat (types_end types)"
  by (rule nom_laws.types_get_reads[OF assms])

definition sample_types :: Types where
  "sample_types = \<lparr>types_end = 9, types_encoding = 3\<rparr>"

definition sample_typed :: Lsda where
  "sample_typed = \<lparr>lsda_bytes = [0xff, 3, 6, 1, 0, 0x44, 0x33, 0x22, 0x11],
    lsda_bases = bases_new 0 0x1000, lsda_endian = Little, lsda_landing_base = 0x1000,
    lsda_types = Some sample_types, lsda_call_encoding = 1, lsda_call_sites = [],
    lsda_action_offset = 5\<rparr>"

lemma ref_udata4:
  "pe_is_valid_encoding lib_ref 3" "\<not> pe_is_indirect lib_ref 3" "pe_application lib_ref 3 = 0"
  "pe_format lib_ref 3 = 3"
  by (simp_all add: lib_ref_def)

lemma sample_types_get:
  "types_get lib_ref sample_types sample_typed (TypeIndex 1) =
    Inr \<lparr>target_address = 0x11223344, target_indirect = False\<rparr>"
  by (simp add: types_get_def types_width_def sample_types_def sample_typed_def ref_udata4 ref_pe
      ref.pe_formats ref.pe_applications checked_mul_def checked_sub_def checked_add_def
      ref.take_bytes_eq target_def position_def len_of_def scalar_def unsigned_def widen_def
      ref.le_u32 take_le_def target_base_def scalar_add_exact)

theorem types_get_in_bounds_witness:
  "\<exists>rest. target lib_ref (lsda_bytes sample_typed) (drop 5 (lsda_bytes sample_typed)) 3
    (bases_new 0 0x1000) Little = Inr (rest, \<lparr>target_address = 0x11223344, target_indirect = False\<rparr>)"
proof -
  have wf: "lsda_wf lib_ref sample_typed"
    unfolding lsda_wf_def
  proof (intro conjI exI)
    show "lsda_bytes sample_typed = [0xff, 3, 6, 1, 0] @ lsda_call_sites sample_typed @
        [0x44, 0x33, 0x22, 0x11]" by (simp add: sample_typed_def)
  qed (simp_all add: sample_typed_def sample_types_def slice_ok_def len_of_def ref_udata4 ref_pe)
  have "lsda_types sample_typed = Some sample_types" by (simp add: sample_typed_def)
  from types_get_in_bounds[OF ref.nom_laws_axioms sample_types_get wf this]
  show ?thesis
    by (auto simp: types_width_def sample_types_def sample_typed_def ref_udata4 ref.pe_formats)
qed

text \<open>An exception specification written as unsigned LEB128 type indices and a zero is read
  back index by index, and the iterator stops at the zero.\<close>

theorem filter_list_read:
  assumes "nom_laws L" "0 \<notin> set indices"
    "ft_input f = concat (map encode_word indices) @ encode_word 0 @ rest" "\<not> ft_done f"
  shows "drain (ft_next L) f = Some (map (\<lambda>i. Inr (TypeIndex i)) indices)"
  by (rule nom_laws.ft_read[OF assms(1,3,4,2)])

theorem filter_list_read_witness:
  "drain (ft_next lib_ref) \<lparr>ft_input = concat (map encode_word [1, 300]) @ encode_word 0 @ [9],
    ft_done = False\<rparr> = Some [Inr (TypeIndex 1), Inr (TypeIndex 300)]"
  using filter_list_read[OF ref.nom_laws_axioms, of "[1, 300]"
      "\<lparr>ft_input = concat (map encode_word [1, 300]) @ encode_word 0 @ [9], ft_done = False\<rparr>" "[9]"]
  by simp

end
