(* ===== verification/State.thy ===== *)
theory State
  imports Extern
begin

text \<open>
  The register state of \<open>desenredo-unwind\<close>: the raw transport \<open>Registers\<close>
  (\<open>arch/x86_64/registers.rs\<close>), the availability-aware \<open>State\<close> (\<open>arch/x86_64/state.rs\<close>)
  and the errors of \<open>error.rs\<close>.  A DWARF register number is a \<open>u16\<close>; which modelled register
  it names is decided by comparing it, in the order of the source's matches, with the numbers
  that \<open>gimli\<close> gives.  The contract of a register file is the locale \<open>register_file\<close>.
\<close>

section \<open>Data\<close>

text \<open>The errors of \<open>gimli\<close> are opaque.\<close>

datatype GimliError = GimliError nat

datatype CfiError = CfiGimli GimliError

datatype UnwindError = EImage | EMemory | ERegister u16 | EUnavailable u16 | EInstall
  | EExpression | EAddress | EGimli GimliError | ECfi CfiError

record Registers =
  reg_rax :: usize
  reg_rdx :: usize
  reg_rcx :: usize
  reg_rbx :: usize
  reg_rsi :: usize
  reg_rdi :: usize
  reg_rbp :: usize
  reg_rsp :: usize
  reg_r8 :: usize
  reg_r9 :: usize
  reg_r10 :: usize
  reg_r11 :: usize
  reg_r12 :: usize
  reg_r13 :: usize
  reg_r14 :: usize
  reg_r15 :: usize
  reg_ra :: usize
  reg_mxcsr :: usize
  reg_fcw :: usize

record State =
  st_rax :: "usize option"
  st_rdx :: "usize option"
  st_rcx :: "usize option"
  st_rbx :: "usize option"
  st_rsi :: "usize option"
  st_rdi :: "usize option"
  st_rbp :: "usize option"
  st_rsp :: "usize option"
  st_r8 :: "usize option"
  st_r9 :: "usize option"
  st_r10 :: "usize option"
  st_r11 :: "usize option"
  st_r12 :: "usize option"
  st_r13 :: "usize option"
  st_r14 :: "usize option"
  st_r15 :: "usize option"
  st_ra :: "usize option"
  st_mxcsr :: "usize option"
  st_fcw :: "usize option"

definition registers_zeroed :: Registers where
  "registers_zeroed = \<lparr>reg_rax = 0, reg_rdx = 0, reg_rcx = 0, reg_rbx = 0, reg_rsi = 0, reg_rdi = 0,
    reg_rbp = 0, reg_rsp = 0, reg_r8 = 0, reg_r9 = 0, reg_r10 = 0, reg_r11 = 0, reg_r12 = 0,
    reg_r13 = 0, reg_r14 = 0, reg_r15 = 0, reg_ra = 0, reg_mxcsr = 0, reg_fcw = 0\<rparr>"

text \<open>Only what a call preserves becomes available.\<close>

definition captured :: "Registers \<Rightarrow> State" where
  "captured registers = \<lparr>st_rax = None, st_rdx = None, st_rcx = None, st_rbx = Some (reg_rbx registers),
    st_rsi = None, st_rdi = None, st_rbp = Some (reg_rbp registers),
    st_rsp = Some (reg_rsp registers), st_r8 = None, st_r9 = None, st_r10 = None,
    st_r11 = None, st_r12 = Some (reg_r12 registers), st_r13 = Some (reg_r13 registers),
    st_r14 = Some (reg_r14 registers), st_r15 = Some (reg_r15 registers),
    st_ra = Some (reg_ra registers), st_mxcsr = Some (reg_mxcsr registers),
    st_fcw = Some (reg_fcw registers)\<rparr>"

section \<open>Naming registers\<close>

definition reg_order :: "reg list" where
  "reg_order = [RAX, RDX, RCX, RBX, RSI, RDI, RBP, RSP, R8, R9, R10, R11, R12, R13, R14, R15, RA, MXCSR,
    FCW]"

definition reg_named :: "lib \<Rightarrow> u16 \<Rightarrow> reg option" where
  "reg_named L register = List.find (\<lambda>g. x86_64 L g = register) reg_order"

definition state_width :: "lib \<Rightarrow> u16 \<Rightarrow> UnwindError + u8" where
  "state_width L register =
    (case reg_named L register of
       None \<Rightarrow> Inl (ERegister register)
     | Some MXCSR \<Rightarrow> Inr 4
     | Some FCW \<Rightarrow> Inr 2
     | Some _ \<Rightarrow> Inr 8)"

fun slot_get :: "reg \<Rightarrow> State \<Rightarrow> usize option" where
  "slot_get RAX s = st_rax s"
| "slot_get RDX s = st_rdx s"
| "slot_get RCX s = st_rcx s"
| "slot_get RBX s = st_rbx s"
| "slot_get RSI s = st_rsi s"
| "slot_get RDI s = st_rdi s"
| "slot_get RBP s = st_rbp s"
| "slot_get RSP s = st_rsp s"
| "slot_get R8 s = st_r8 s"
| "slot_get R9 s = st_r9 s"
| "slot_get R10 s = st_r10 s"
| "slot_get R11 s = st_r11 s"
| "slot_get R12 s = st_r12 s"
| "slot_get R13 s = st_r13 s"
| "slot_get R14 s = st_r14 s"
| "slot_get R15 s = st_r15 s"
| "slot_get RA s = st_ra s"
| "slot_get MXCSR s = st_mxcsr s"
| "slot_get FCW s = st_fcw s"

fun slot_set :: "reg \<Rightarrow> usize option \<Rightarrow> State \<Rightarrow> State" where
  "slot_set RAX v s = s\<lparr>st_rax := v\<rparr>"
| "slot_set RDX v s = s\<lparr>st_rdx := v\<rparr>"
| "slot_set RCX v s = s\<lparr>st_rcx := v\<rparr>"
| "slot_set RBX v s = s\<lparr>st_rbx := v\<rparr>"
| "slot_set RSI v s = s\<lparr>st_rsi := v\<rparr>"
| "slot_set RDI v s = s\<lparr>st_rdi := v\<rparr>"
| "slot_set RBP v s = s\<lparr>st_rbp := v\<rparr>"
| "slot_set RSP v s = s\<lparr>st_rsp := v\<rparr>"
| "slot_set R8 v s = s\<lparr>st_r8 := v\<rparr>"
| "slot_set R9 v s = s\<lparr>st_r9 := v\<rparr>"
| "slot_set R10 v s = s\<lparr>st_r10 := v\<rparr>"
| "slot_set R11 v s = s\<lparr>st_r11 := v\<rparr>"
| "slot_set R12 v s = s\<lparr>st_r12 := v\<rparr>"
| "slot_set R13 v s = s\<lparr>st_r13 := v\<rparr>"
| "slot_set R14 v s = s\<lparr>st_r14 := v\<rparr>"
| "slot_set R15 v s = s\<lparr>st_r15 := v\<rparr>"
| "slot_set RA v s = s\<lparr>st_ra := v\<rparr>"
| "slot_set MXCSR v s = s\<lparr>st_mxcsr := v\<rparr>"
| "slot_set FCW v s = s\<lparr>st_fcw := v\<rparr>"

section \<open>Operations\<close>

text \<open>\<open>State::slot\<close>: the register a number names, or the error every access returns.\<close>

definition state_slot :: "lib \<Rightarrow> u16 \<Rightarrow> UnwindError + reg" where
  "state_slot L register = ok_or (ERegister register) (reg_named L register)"

definition state_read :: "lib \<Rightarrow> State \<Rightarrow> u16 \<Rightarrow> UnwindError + usize" where
  "state_read L self register =
    and_then (ok_or (ERegister register) (reg_named L register)) (\<lambda>g.
      case slot_get g self of
        Some value \<Rightarrow> Inr value
      | None \<Rightarrow> Inl (EUnavailable register))"

definition state_write :: "lib \<Rightarrow> State \<Rightarrow> u16 \<Rightarrow> usize \<Rightarrow> UnwindError + State" where
  "state_write L self register value =
    and_then (state_slot L register) (\<lambda>g. Inr (slot_set g (Some value) self))"

definition state_clear :: "lib \<Rightarrow> State \<Rightarrow> u16 \<Rightarrow> UnwindError + State" where
  "state_clear L self register =
    and_then (state_slot L register) (\<lambda>g. Inr (slot_set g None self))"

definition state_stack :: "lib \<Rightarrow> State \<Rightarrow> UnwindError + usize" where
  "state_stack L self = state_read L self (x86_64 L RSP)"

definition state_ip :: "State \<Rightarrow> usize option" where
  "state_ip self = st_ra self"

definition state_adjust :: "lib \<Rightarrow> State \<Rightarrow> usize \<Rightarrow> UnwindError + State" where
  "state_adjust L self amount =
    and_then (state_read L self (x86_64 L RSP)) (\<lambda>rsp.
      state_write L self (x86_64 L RSP) (rsp + amount))"

definition unwrap_or_default :: "usize option \<Rightarrow> usize" where
  "unwrap_or_default x = (case x of Some v \<Rightarrow> v | None \<Rightarrow> 0)"

text \<open>\<open>State::install\<close>; the \<open>Install\<close> proof object is the register image it holds.\<close>

definition state_install :: "State \<Rightarrow> UnwindError + Registers" where
  "state_install self =
    (case (st_rax self, st_rdx self, st_rbx self, st_rbp self, st_rsp self, st_r12 self,
      st_r13 self, st_r14 self, st_r15 self, st_ra self, st_mxcsr self, st_fcw self) of
       (Some rax, Some rdx, Some rbx, Some rbp, Some rsp, Some r12, Some r13, Some r14,
        Some r15, Some ra, Some mxcsr, Some fcw) \<Rightarrow>
         Inr \<lparr>reg_rax = rax, reg_rdx = rdx, reg_rcx = unwrap_or_default (st_rcx self), reg_rbx = rbx,
           reg_rsi = unwrap_or_default (st_rsi self), reg_rdi = unwrap_or_default (st_rdi self),
           reg_rbp = rbp, reg_rsp = rsp, reg_r8 = unwrap_or_default (st_r8 self),
           reg_r9 = unwrap_or_default (st_r9 self), reg_r10 = unwrap_or_default (st_r10 self),
           reg_r11 = unwrap_or_default (st_r11 self), reg_r12 = r12, reg_r13 = r13, reg_r14 = r14,
           reg_r15 = r15, reg_ra = ra, reg_mxcsr = mxcsr, reg_fcw = fcw\<rparr>
     | _ \<Rightarrow> Inl EInstall)"

section \<open>Facts\<close>

lemma unwrap_or_default_simps [simp]:
  "unwrap_or_default None = 0" "unwrap_or_default (Some v) = v"
  by (simp_all add: unwrap_or_default_def)

lemma slot_get_set [simp]: "slot_get g (slot_set h v s) = (if g = h then v else slot_get g s)"
  by (cases g; cases h) simp_all

lemma slot_set_set [simp]: "slot_set g v (slot_set g w s) = slot_set g v s"
  by (cases g) simp_all

lemma slot_set_swap: "g \<noteq> h \<Longrightarrow> slot_set g v (slot_set h w s) = slot_set h w (slot_set g v s)"
  by (cases g; cases h) simp_all

lemma slot_set_get [simp]: "slot_set g (slot_get g s) s = s"
  by (cases g) simp_all

lemma state_eqI: "(\<And>g. slot_get g s = slot_get g t) \<Longrightarrow> s = t"
  apply (rule State.equality)
  subgoal premises p using p[of RAX] by simp
  subgoal premises p using p[of RDX] by simp
  subgoal premises p using p[of RCX] by simp
  subgoal premises p using p[of RBX] by simp
  subgoal premises p using p[of RSI] by simp
  subgoal premises p using p[of RDI] by simp
  subgoal premises p using p[of RBP] by simp
  subgoal premises p using p[of RSP] by simp
  subgoal premises p using p[of R8] by simp
  subgoal premises p using p[of R9] by simp
  subgoal premises p using p[of R10] by simp
  subgoal premises p using p[of R11] by simp
  subgoal premises p using p[of R12] by simp
  subgoal premises p using p[of R13] by simp
  subgoal premises p using p[of R14] by simp
  subgoal premises p using p[of R15] by simp
  subgoal premises p using p[of RA] by simp
  subgoal premises p using p[of MXCSR] by simp
  subgoal premises p using p[of FCW] by simp
  apply simp
  done

lemma reg_order_all: "g \<in> set reg_order"
  by (cases g) (simp_all add: reg_order_def)

lemma reg_named_number: "reg_named L r = Some g \<Longrightarrow> x86_64 L g = r"
  by (auto simp: reg_named_def find_Some_iff)

lemma reg_named_None: "reg_named L r = None \<longleftrightarrow> (\<forall>g. x86_64 L g \<noteq> r)"
  by (simp add: reg_named_def find_None_iff reg_order_all)

context x86_laws begin

lemma reg_named_of [simp]: "reg_named L (x86_64 L g) = Some g"
proof (cases "reg_named L (x86_64 L g)")
  case None
  then have "x86_64 L g \<noteq> x86_64 L g" unfolding reg_named_None by blast
  then show ?thesis by simp
next
  case (Some h)
  from reg_named_number[OF this] show ?thesis using Some by (simp add: x86_inj)
qed

end

end
