(* ===== verification/Dwarf.thy ===== *)
theory Dwarf
  imports State
begin

text \<open>
  The DWARF reader of \<open>gimli\<close> as the record \<open>gimli\<close> of parameters: its entries, expressions,
  evaluations, address bases and errors are opaque handles, and its row rules and evaluation
  requests are the data types that the sources match on.  The evaluation of call-frame
  information over it (\<open>desenredo-dwarf/src/cfi.rs\<close>), with its fixed storage.
\<close>

section \<open>The DWARF reader\<close>

datatype BaseAddresses = BaseAddresses nat

datatype Fde = Fde nat

datatype UnwindExpression = UnwindExpression nat

datatype Expression = Expression nat

datatype Evaluation = Evaluation nat

datatype Value = Generic u64 | OtherValue nat

datatype Pointer = Direct u64 | Indirect u64

datatype CfaRule = RegisterAndOffset u16 i64 | CfaExpression UnwindExpression

datatype RegisterRule = Undefined | SameValue | Offset i64 | ValOffset i64 | Register u16
  | RuleExpression UnwindExpression | ValExpression UnwindExpression | Architectural | Constant u64

datatype EvaluationResult = Complete
  | RequiresMemory u64 u8 "nat option"
  | RequiresRegister u16
  | RequiresCallFrameCfa
  | RequiresRelocatedAddress u64
  | OtherRequest nat

datatype Location = AddressLocation u64 | RegisterLocation u16 | ValueLocation Value | OtherLocation nat

record Row =
  row_cfa :: CfaRule
  row_registers :: "(u16 \<times> RegisterRule) list"
  row_saved_args_size :: u64

type_synonym evaluated = "GimliError + (Evaluation \<times> EvaluationResult)"

text \<open>\<open>Storage\<close>: how many register rules a row may have, and how many rows may be remembered.\<close>

record Storage =
  storage_rules :: nat
  storage_stack :: nat

definition inline_storage :: Storage where
  "inline_storage = \<lparr>storage_rules = 192, storage_stack = 4\<rparr>"

text \<open>Rows are asked of a selected entry (\<open>unwind_info_for_address\<close> of an entry) or of a whole
  section (\<open>section_unwind_info\<close>, its method of the same name).\<close>

record gimli =
  base_default :: BaseAddresses
  base_set_eh_frame :: "u64 \<Rightarrow> BaseAddresses \<Rightarrow> BaseAddresses"
  base_set_text :: "u64 \<Rightarrow> BaseAddresses \<Rightarrow> BaseAddresses"
  base_set_got :: "u64 \<Rightarrow> BaseAddresses \<Rightarrow> BaseAddresses"
  fde_for_address :: "bytes \<Rightarrow> BaseAddresses \<Rightarrow> u64 \<Rightarrow> GimliError + Fde"
  unwind_info_for_address :: "Storage \<Rightarrow> bytes \<Rightarrow> BaseAddresses \<Rightarrow> Fde \<Rightarrow> u64 \<Rightarrow> GimliError + Row"
  section_unwind_info :: "Storage \<Rightarrow> bytes \<Rightarrow> BaseAddresses \<Rightarrow> u64 \<Rightarrow> GimliError + Row"
  is_signal_trampoline :: "Fde \<Rightarrow> bool"
  initial_address :: "Fde \<Rightarrow> u64"
  fde_lsda :: "Fde \<Rightarrow> Pointer option"
  fde_personality :: "Fde \<Rightarrow> Pointer option"
  expression_get :: "UnwindExpression \<Rightarrow> bytes \<Rightarrow> GimliError + Expression"
  evaluation_new :: "Expression \<Rightarrow> Fde \<Rightarrow> Evaluation"
  evaluate :: "Evaluation \<Rightarrow> evaluated"
  resume_with_memory :: "Evaluation \<Rightarrow> Value \<Rightarrow> evaluated"
  resume_with_register :: "Evaluation \<Rightarrow> Value \<Rightarrow> evaluated"
  resume_with_call_frame_cfa :: "Evaluation \<Rightarrow> u64 \<Rightarrow> evaluated"
  resume_with_relocated_address :: "Evaluation \<Rightarrow> u64 \<Rightarrow> evaluated"
  as_result :: "Evaluation \<Rightarrow> Location list"
  to_u64 :: "Value \<Rightarrow> u64 \<Rightarrow> GimliError + u64"

section \<open>Call-frame evaluation\<close>

definition cfi_row :: "gimli \<Rightarrow> Storage \<Rightarrow> bytes \<Rightarrow> BaseAddresses \<Rightarrow> Fde \<Rightarrow> u64 \<Rightarrow> CfiError + Row" where
  "cfi_row G storage frame bases fde address =
    map_err CfiGimli (unwind_info_for_address G storage frame bases fde address)"

definition cfi_unwind :: "gimli \<Rightarrow> Storage \<Rightarrow> bytes \<Rightarrow> BaseAddresses \<Rightarrow> u64 \<Rightarrow> CfiError + Row" where
  "cfi_unwind G storage frame bases address = map_err CfiGimli (section_unwind_info G storage frame bases address)"

text \<open>What \<open>gimli\<close> documents for a storage: a row has no more rules than there is room for, and the
  row of a section is the row of the entry it selects for the address.\<close>

locale cfi_laws =
  fixes G :: gimli and storage :: Storage
  assumes rules_bounded: "unwind_info_for_address G storage frame bases fde address = Inr row \<Longrightarrow>
      length (row_registers row) \<le> storage_rules storage"
    and section_selects: "section_unwind_info G storage frame bases address =
      and_then (fde_for_address G frame bases address)
        (\<lambda>fde. unwind_info_for_address G storage frame bases fde address)"
begin

lemma unwind_is_row:
  "cfi_unwind G storage frame bases address =
    and_then (map_err CfiGimli (fde_for_address G frame bases address))
      (\<lambda>fde. cfi_row G storage frame bases fde address)"
  by (cases "fde_for_address G frame bases address") (simp_all add: cfi_unwind_def cfi_row_def section_selects)

lemma row_bounded: "cfi_row G storage frame bases fde address = Inr row \<Longrightarrow>
    length (row_registers row) \<le> storage_rules storage"
  by (auto simp: cfi_row_def map_err_Inr_iff intro: rules_bounded)

end

end
