(* ===== verification/Flow.thy ===== *)
theory Flow
  imports Main
begin

text \<open>
  Rust's \<open>loop\<close>: a body that goes on with a new state or breaks with a result, or does not come
  back.  The loop is related to the sequence of its iterations once, here; what a traversal
  computes and when it ends follows from facts about its body.
\<close>

datatype ('s, 'r) flow = Continue 's | Break 'r

partial_function (option) run_loop :: "('s \<Rightarrow> ('s, 'r) flow option) \<Rightarrow> 's \<Rightarrow> 'r option" where
  "run_loop body s =
    Option.bind (body s) (\<lambda>x. case x of Continue s' \<Rightarrow> run_loop body s' | Break r \<Rightarrow> Some r)"

definition iterates :: "('s \<Rightarrow> ('s, 'r) flow option) \<Rightarrow> 's \<Rightarrow> 's \<Rightarrow> bool" where
  "iterates body s s' \<longleftrightarrow> body s = Some (Continue s')"

lemma run_loop_simps:
  "body s = None \<Longrightarrow> run_loop body s = None"
  "body s = Some (Continue s') \<Longrightarrow> run_loop body s = run_loop body s'"
  "body s = Some (Break r) \<Longrightarrow> run_loop body s = Some r"
  by (subst run_loop.simps, simp)+

lemma run_loop_iterates: "(iterates body)\<^sup>*\<^sup>* s s' \<Longrightarrow> run_loop body s = run_loop body s'"
  by (induction rule: converse_rtranclp_induct) (simp_all add: iterates_def run_loop_simps)

lemma run_loop_reaches:
  fixes body :: "'s \<Rightarrow> ('s, 'r) flow option"
  shows "run_loop body s = Some r \<Longrightarrow> \<exists>s'. (iterates body)\<^sup>*\<^sup>* s s' \<and> body s' = Some (Break r)"
proof (erule run_loop.raw_induct[rotated, where P = "\<lambda>body s r. \<exists>s'. (iterates body)\<^sup>*\<^sup>* s s' \<and> body s' = Some (Break r)"])
  fix loop :: "('s \<Rightarrow> ('s, 'r) flow option) \<Rightarrow> 's \<Rightarrow> 'r option"
    and body :: "'s \<Rightarrow> ('s, 'r) flow option" and s r
  assume IH: "\<And>body s r. loop body s = Some r \<Longrightarrow> \<exists>s'. (iterates body)\<^sup>*\<^sup>* s s' \<and> body s' = Some (Break r)"
    and now: "Option.bind (body s) (\<lambda>x. case x of Continue s' \<Rightarrow> loop body s' | Break r \<Rightarrow> Some r) = Some r"
  then obtain x where x: "body s = Some x" by (cases "body s") auto
  show "\<exists>s'. (iterates body)\<^sup>*\<^sup>* s s' \<and> body s' = Some (Break r)"
  proof (cases x)
    case (Continue s')
    with now x have "loop body s' = Some r" by simp
    from IH[OF this] obtain t where "(iterates body)\<^sup>*\<^sup>* s' t" "body t = Some (Break r)" by blast
    moreover have "iterates body s s'" using x Continue by (simp add: iterates_def)
    ultimately show ?thesis by (meson converse_rtranclp_into_rtranclp)
  next
    case (Break q)
    with now x show ?thesis by auto
  qed
qed

text \<open>A loop returns what some iteration it reaches breaks with, and nothing else.\<close>

lemma run_loop_iff:
  "run_loop body s = Some r \<longleftrightarrow> (\<exists>s'. (iterates body)\<^sup>*\<^sup>* s s' \<and> body s' = Some (Break r))"
proof
  assume "\<exists>s'. (iterates body)\<^sup>*\<^sup>* s s' \<and> body s' = Some (Break r)"
  then obtain s' where "(iterates body)\<^sup>*\<^sup>* s s'" "body s' = Some (Break r)" by blast
  then show "run_loop body s = Some r" by (simp add: run_loop_iterates run_loop_simps(3))
qed (rule run_loop_reaches)

lemma run_loop_invariant:
  assumes "run_loop body s = Some r" "I s"
    and "\<And>s s'. I s \<Longrightarrow> body s = Some (Continue s') \<Longrightarrow> I s'"
    and "\<And>s. I s \<Longrightarrow> body s = Some (Break r) \<Longrightarrow> P"
  shows P
proof -
  obtain t where t: "(iterates body)\<^sup>*\<^sup>* s t" "body t = Some (Break r)"
    using run_loop_reaches[OF assms(1)] by blast
  from t(1) have "I t" by (induction) (auto simp: assms(2) iterates_def intro: assms(3))
  with t(2) assms(4) show P by blast
qed

text \<open>Bodies that agree on every state that can come up give the same loop.\<close>

lemma run_loop_cong:
  assumes "I s" "\<And>s. I s \<Longrightarrow> body s = body' s"
    and "\<And>s s'. I s \<Longrightarrow> body s = Some (Continue s') \<Longrightarrow> I s'"
  shows "run_loop body s = run_loop body' s"
proof -
  have trans: "run_loop b t = Some r \<Longrightarrow> I t \<Longrightarrow> (\<And>s. I s \<Longrightarrow> b s = b' s) \<Longrightarrow>
      (\<And>s s'. I s \<Longrightarrow> b s = Some (Continue s') \<Longrightarrow> I s') \<Longrightarrow> run_loop b' t = Some r" for b b' t r
  proof -
    assume run: "run_loop b t = Some r" and I: "I t" and eq: "\<And>s. I s \<Longrightarrow> b s = b' s"
      and inv: "\<And>s s'. I s \<Longrightarrow> b s = Some (Continue s') \<Longrightarrow> I s'"
    from run_loop_reaches[OF run] obtain u where u: "(iterates b)\<^sup>*\<^sup>* t u" "b u = Some (Break r)" by blast
    from u(1) have "(iterates b')\<^sup>*\<^sup>* t u \<and> I u"
      by induction (auto simp: I iterates_def eq[symmetric] inv intro: rtranclp.rtrancl_into_rtrancl)
    with u(2) eq show "run_loop b' t = Some r" unfolding run_loop_iff by metis
  qed
  have "run_loop body s = Some r \<longleftrightarrow> run_loop body' s = Some r" for r
    using trans[of body s r body'] trans[of body' s r body] assms by metis
  then show ?thesis by (metis not_None_eq)
qed

text \<open>The contract under which a loop comes back.\<close>

locale bounded_loop =
  fixes body :: "'s \<Rightarrow> ('s, 'r) flow option" and \<mu> :: "'s \<Rightarrow> nat" and I :: "'s \<Rightarrow> bool"
  assumes body_returns: "I s \<Longrightarrow> body s \<noteq> None"
    and body_decreases: "I s \<Longrightarrow> body s = Some (Continue s') \<Longrightarrow> I s' \<and> \<mu> s' < \<mu> s"
begin

lemma loop_returns: "I s \<Longrightarrow> \<exists>r. run_loop body s = Some r"
proof (induction "\<mu> s" arbitrary: s rule: less_induct)
  case less
  then obtain x where x: "body s = Some x" using body_returns by blast
  show ?case
  proof (cases x)
    case (Continue s')
    with x less body_decreases[of s s'] show ?thesis by (simp add: run_loop_simps)
  next
    case (Break r)
    with x show ?thesis by (simp add: run_loop_simps)
  qed
qed

end

end
