(* ===== verification/Source.thy ===== *)
theory Source
  imports Dwarf Flow
begin

text \<open>
  Frame resolution: \<open>desenredo-unwind/src/source.rs\<close>, \<open>relation.rs\<close> and the trait \<open>Unwinder\<close>
  of \<open>runtime.rs\<close>.
\<close>

section \<open>Images and relations\<close>

record Image =
  image_eh_frame :: bytes
  image_bases :: BaseAddresses
  image_start :: usize
  image_end :: usize
  image_data :: "usize option"

text \<open>The section is given by its address and its bytes.\<close>

definition image_new :: "gimli \<Rightarrow> usize \<Rightarrow> bytes \<Rightarrow> usize \<Rightarrow> usize \<Rightarrow> Image option" where
  "image_new G address eh_frame text_start text_end =
    (if text_start < text_end then Some
       \<lparr>image_eh_frame = eh_frame,
        image_bases = base_set_text G text_start (base_set_eh_frame G address (base_default G)),
        image_start = text_start, image_end = text_end, image_data = None\<rparr>
     else None)"

definition image_with_data :: "gimli \<Rightarrow> Image \<Rightarrow> usize \<Rightarrow> Image" where
  "image_with_data G self data =
    self\<lparr>image_bases := base_set_got G data (image_bases self), image_data := Some data\<rparr>"

definition image_contains :: "Image \<Rightarrow> usize \<Rightarrow> bool" where
  "image_contains self address \<longleftrightarrow> image_start self \<le> address \<and> address < image_end self"

datatype Relation = Return | Instruction

fun relation_site :: "Relation \<Rightarrow> usize \<Rightarrow> usize option" where
  "relation_site Return address = checked_sub address 1"
| "relation_site Instruction address = Some address"

definition relation_before :: "Relation \<Rightarrow> bool" where
  "relation_before self = (case self of Instruction \<Rightarrow> True | Return \<Rightarrow> False)"

text \<open>
  An implementation of \<open>Unwinder\<close> looks up images and reads memory; both depend on the state
  \<open>'w\<close> of the process, which personality routines may change.
\<close>

record 'w unwinder =
  u_lib :: lib
  u_gimli :: gimli
  u_image :: "'w \<Rightarrow> usize \<Rightarrow> Image option"
  u_read :: "'w \<Rightarrow> usize \<Rightarrow> u8 \<Rightarrow> u64 option"

section \<open>Resolved frames\<close>

record Info =
  info_image :: Image
  info_fde :: Fde
  info_row :: Row
  info_instruction :: usize

definition info_new :: "'w unwinder \<Rightarrow> 'w \<Rightarrow> State \<Rightarrow> Relation \<Rightarrow> UnwindError + Info option" where
  "info_new U w state relation =
    (let site = (case state_ip state of
                   None \<Rightarrow> None
                 | Some ip \<Rightarrow> if ip = 0 then None else relation_site relation ip)
     in case site of
          None \<Rightarrow> Inr None
        | Some instruction \<Rightarrow>
            and_then (ok_or EImage (u_image U w instruction)) (\<lambda>image.
            and_then (map_err EGimli (fde_for_address (u_gimli U) (image_eh_frame image)
              (image_bases image) instruction)) (\<lambda>fde.
            and_then (map_err ECfi (cfi_row (u_gimli U) inline_storage (image_eh_frame image)
              (image_bases image) fde instruction)) (\<lambda>row.
            Inr (Some \<lparr>info_image = image, info_fde = fde, info_row = row,
                       info_instruction = instruction\<rparr>)))))"

definition info_signal :: "gimli \<Rightarrow> Info \<Rightarrow> bool" where
  "info_signal G self = is_signal_trampoline G (info_fde self)"

definition info_start :: "gimli \<Rightarrow> Info \<Rightarrow> UnwindError + usize" where
  "info_start G self = Inr (initial_address G (info_fde self))"

definition info_text :: "Info \<Rightarrow> usize" where
  "info_text self = image_start (info_image self)"

definition info_data :: "Info \<Rightarrow> usize option" where
  "info_data self = image_data (info_image self)"

definition info_args :: "Info \<Rightarrow> UnwindError + usize" where
  "info_args self = Inr (row_saved_args_size (info_row self))"

section \<open>Memory\<close>

definition info_word :: "'w unwinder \<Rightarrow> 'w \<Rightarrow> usize \<Rightarrow> UnwindError + usize" where
  "info_word U w target_address = ok_or EMemory (u_read U w target_address 8)"

definition info_pointer :: "'w unwinder \<Rightarrow> 'w \<Rightarrow> Pointer \<Rightarrow> UnwindError + usize" where
  "info_pointer U w pointer =
    (case pointer of
       Direct address \<Rightarrow> Inr address
     | Indirect address \<Rightarrow> info_word U w address)"

text \<open>\<open>map(Self::pointer).transpose()\<close>.\<close>

definition pointer_transpose :: "'w unwinder \<Rightarrow> 'w \<Rightarrow> Pointer option \<Rightarrow> UnwindError + usize option" where
  "pointer_transpose U w p =
    (case p of None \<Rightarrow> Inr None | Some q \<Rightarrow> map_sum id Some (info_pointer U w q))"

definition info_lsda :: "'w unwinder \<Rightarrow> 'w \<Rightarrow> Info \<Rightarrow> UnwindError + usize option" where
  "info_lsda U w self = pointer_transpose U w (fde_lsda (u_gimli U) (info_fde self))"

definition info_personality :: "'w unwinder \<Rightarrow> 'w \<Rightarrow> Info \<Rightarrow> UnwindError + usize option" where
  "info_personality U w self = pointer_transpose U w (fde_personality (u_gimli U) (info_fde self))"

definition info_register :: "'w unwinder \<Rightarrow> 'w \<Rightarrow> u16 \<Rightarrow> usize \<Rightarrow> UnwindError + usize" where
  "info_register U w register address =
    and_then (state_width (u_lib U) register) (\<lambda>width.
      ok_or EMemory (u_read U w address width))"

section \<open>Expressions\<close>

text \<open>One answer to a request of the evaluation.\<close>

definition expr_answer ::
    "'w unwinder \<Rightarrow> 'w \<Rightarrow> State \<Rightarrow> usize option \<Rightarrow> Evaluation \<Rightarrow> EvaluationResult
      \<Rightarrow> UnwindError + (Evaluation \<times> EvaluationResult)" where
  "expr_answer U w registers cfa evaluation result =
    (case result of
       RequiresMemory address width space \<Rightarrow>
         if space = None then
           and_then (ok_or EMemory (u_read U w address width)) (\<lambda>value.
             map_err EGimli (resume_with_memory (u_gimli U) evaluation (Generic value)))
         else Inl EExpression
     | RequiresRegister register \<Rightarrow>
         and_then (state_read (u_lib U) registers register) (\<lambda>value.
           map_err EGimli (resume_with_register (u_gimli U) evaluation (Generic value)))
     | RequiresCallFrameCfa \<Rightarrow>
         (case cfa of
            Some cfa \<Rightarrow> map_err EGimli (resume_with_call_frame_cfa (u_gimli U) evaluation cfa)
          | None \<Rightarrow> Inl EExpression)
     | RequiresRelocatedAddress address \<Rightarrow>
         map_err EGimli (resume_with_relocated_address (u_gimli U) evaluation address)
     | _ \<Rightarrow> Inl EExpression)"

text \<open>The loop that answers requests until the evaluation is complete; it may not return.\<close>

definition expr_body ::
    "'w unwinder \<Rightarrow> 'w \<Rightarrow> State \<Rightarrow> usize option \<Rightarrow> Evaluation \<times> EvaluationResult
      \<Rightarrow> (Evaluation \<times> EvaluationResult, UnwindError + Evaluation) flow option" where
  "expr_body U w registers cfa s =
    (case s of (evaluation, result) \<Rightarrow>
       if result = Complete then Some (Break (Inr evaluation))
       else (case expr_answer U w registers cfa evaluation result of
               Inl e \<Rightarrow> Some (Break (Inl e))
             | Inr s' \<Rightarrow> Some (Continue s')))"

definition expr_loop ::
    "'w unwinder \<Rightarrow> 'w \<Rightarrow> State \<Rightarrow> usize option \<Rightarrow> Evaluation \<Rightarrow> EvaluationResult
      \<Rightarrow> (UnwindError + Evaluation) option" where
  "expr_loop U w registers cfa evaluation result =
    run_loop (expr_body U w registers cfa) (evaluation, result)"

definition expr_result :: "'w unwinder \<Rightarrow> State \<Rightarrow> Evaluation \<Rightarrow> UnwindError + usize" where
  "expr_result U registers evaluation =
    (let pieces = as_result (u_gimli U) evaluation
     in if pieces = [] then Inl EExpression
        else (case last pieces of
                AddressLocation address \<Rightarrow> Inr address
              | RegisterLocation register \<Rightarrow> state_read (u_lib U) registers register
              | ValueLocation value \<Rightarrow> map_err EGimli (to_u64 (u_gimli U) value (- 1))
              | OtherLocation _ \<Rightarrow> Inl EExpression))"

definition info_expr ::
    "'w unwinder \<Rightarrow> 'w \<Rightarrow> Info \<Rightarrow> State \<Rightarrow> UnwindExpression \<Rightarrow> usize option
      \<Rightarrow> (UnwindError + usize) option" where
  "info_expr U w self registers expression cfa =
    run_then (Some (map_err EGimli (expression_get (u_gimli U) expression
      (image_eh_frame (info_image self))))) (\<lambda>expression.
    run_then (Some (map_err EGimli (evaluate (u_gimli U)
      (evaluation_new (u_gimli U) expression (info_fde self))))) (\<lambda>(evaluation, result).
    run_then (expr_loop U w registers cfa evaluation result) (\<lambda>evaluation.
      Some (expr_result U registers evaluation))))"

section \<open>The caller's registers\<close>

definition info_cfa :: "'w unwinder \<Rightarrow> 'w \<Rightarrow> Info \<Rightarrow> State \<Rightarrow> (UnwindError + usize) option" where
  "info_cfa U w self registers =
    (case row_cfa (info_row self) of
       RegisterAndOffset register offset \<Rightarrow>
         Some (and_then (state_read (u_lib U) registers register) (\<lambda>base. Inr (base + offset)))
     | CfaExpression expression \<Rightarrow> info_expr U w self registers expression None)"

text \<open>One rule of the row, applied to the caller's registers.\<close>

definition apply_rule ::
    "'w unwinder \<Rightarrow> 'w \<Rightarrow> Info \<Rightarrow> State \<Rightarrow> usize \<Rightarrow> State \<Rightarrow> u16 \<Rightarrow> RegisterRule
      \<Rightarrow> (UnwindError + State) option" where
  "apply_rule U w self registers cfa caller register rule =
    (let L = u_lib U; put = (\<lambda>value. Some (state_write L caller register value)) in
     case rule of
       Undefined \<Rightarrow> Some (state_clear L caller register)
     | SameValue \<Rightarrow> run_then (Some (state_read L registers register)) put
     | Offset offset \<Rightarrow> run_then (Some (info_register U w register (cfa + offset))) put
     | ValOffset offset \<Rightarrow> put (cfa + offset)
     | Register source \<Rightarrow> run_then (Some (state_read L registers source)) put
     | RuleExpression expression \<Rightarrow>
         run_then (info_expr U w self registers expression (Some cfa)) (\<lambda>address.
         run_then (Some (info_register U w register address)) put)
     | ValExpression expression \<Rightarrow>
         run_then (info_expr U w self registers expression (Some cfa)) put
     | Architectural \<Rightarrow> Some (Inl EExpression)
     | Constant value \<Rightarrow> put value)"

fun apply_rules ::
    "'w unwinder \<Rightarrow> 'w \<Rightarrow> Info \<Rightarrow> State \<Rightarrow> usize \<Rightarrow> State \<Rightarrow> (u16 \<times> RegisterRule) list
      \<Rightarrow> (UnwindError + State) option" where
  "apply_rules U w self registers cfa caller [] = Some (Inr caller)"
| "apply_rules U w self registers cfa caller ((register, rule) # rules) =
    run_then (apply_rule U w self registers cfa caller register rule) (\<lambda>caller.
      apply_rules U w self registers cfa caller rules)"

definition info_caller :: "'w unwinder \<Rightarrow> 'w \<Rightarrow> Info \<Rightarrow> State \<Rightarrow> (UnwindError + State) option" where
  "info_caller U w self registers =
    (let L = u_lib U in
     run_then (info_cfa U w self registers) (\<lambda>cfa.
     run_then (Some (state_write L registers (x86_64 L RSP) cfa)) (\<lambda>caller.
     run_then (Some (state_clear L caller (x86_64 L RA))) (\<lambda>caller.
       apply_rules U w self registers cfa caller (row_registers (info_row self))))))"

end
