(* ===== verification/Cursor.thy ===== *)
theory Cursor
  imports Source
begin

text \<open>
  \<open>desenredo-unwind/src/cursor.rs\<close>: the traversal of a physical stack, one frame at a time.  A
  cursor is the register state of the frame and how its instruction pointer is to be read.
\<close>

datatype Key = Key (key_get: usize)

record Frame =
  frame_ip :: usize
  frame_sp :: usize

record Cursor =
  cursor_state :: State
  cursor_relation :: Relation

definition cursor_new :: "State \<Rightarrow> Cursor" where
  "cursor_new state = \<lparr>cursor_state = state, cursor_relation = Return\<rparr>"

text \<open>A failing operation leaves the cursor as it was.\<close>

definition next_relation :: "gimli \<Rightarrow> Info \<Rightarrow> Relation" where
  "next_relation G info = (if info_signal G info then Instruction else Return)"

definition cursor_step ::
    "'w unwinder \<Rightarrow> 'w \<Rightarrow> Cursor \<Rightarrow> (UnwindError + (Frame option \<times> Cursor)) option" where
  "cursor_step U w self =
    run_then (Some (info_new U w (cursor_state self) (cursor_relation self))) (\<lambda>info.
      case info of
        None \<Rightarrow> Some (Inr (None, self))
      | Some info \<Rightarrow>
          run_then (Some (state_stack (u_lib U) (cursor_state self))) (\<lambda>sp.
          run_then (info_caller U w info (cursor_state self)) (\<lambda>caller.
            Some (Inr (Some \<lparr>frame_ip = info_instruction info, frame_sp = sp\<rparr>,
              \<lparr>cursor_state = caller, cursor_relation = next_relation (u_gimli U) info\<rparr>)))))"

definition cursor_current :: "'w unwinder \<Rightarrow> 'w \<Rightarrow> Cursor \<Rightarrow> UnwindError + Info option" where
  "cursor_current U w self = info_new U w (cursor_state self) (cursor_relation self)"

definition cursor_advance ::
    "'w unwinder \<Rightarrow> 'w \<Rightarrow> Cursor \<Rightarrow> Info \<Rightarrow> (UnwindError + Cursor) option" where
  "cursor_advance U w self info =
    run_then (info_caller U w info (cursor_state self)) (\<lambda>caller.
      Some (Inr \<lparr>cursor_state = caller, cursor_relation = next_relation (u_gimli U) info\<rparr>))"

definition cursor_read :: "lib \<Rightarrow> Cursor \<Rightarrow> u16 \<Rightarrow> UnwindError + usize" where
  "cursor_read L self register = state_read L (cursor_state self) register"

definition cursor_write :: "lib \<Rightarrow> Cursor \<Rightarrow> u16 \<Rightarrow> usize \<Rightarrow> UnwindError + Cursor" where
  "cursor_write L self register value =
    and_then (state_write L (cursor_state self) register value) (\<lambda>state.
      Inr (self\<lparr>cursor_state := state\<rparr>))"

definition cursor_stack :: "lib \<Rightarrow> Cursor \<Rightarrow> UnwindError + usize" where
  "cursor_stack L self = state_stack L (cursor_state self)"

definition cursor_ip :: "Cursor \<Rightarrow> usize option" where
  "cursor_ip self = state_ip (cursor_state self)"

definition cursor_key :: "lib \<Rightarrow> Cursor \<Rightarrow> UnwindError + Key" where
  "cursor_key L self =
    (let adjustment = (if relation_before (cursor_relation self) then 1 else 0)
     in and_then (state_stack L (cursor_state self)) (\<lambda>stack. Inr (Key (stack - adjustment))))"

definition cursor_adjust :: "lib \<Rightarrow> Cursor \<Rightarrow> usize \<Rightarrow> UnwindError + Cursor" where
  "cursor_adjust L self amount =
    and_then (state_adjust L (cursor_state self) amount) (\<lambda>state.
      Inr (self\<lparr>cursor_state := state\<rparr>))"

section \<open>Keys are ordered by their stack address\<close>

instantiation Key :: linorder
begin

definition less_eq_Key :: "Key \<Rightarrow> Key \<Rightarrow> bool" where
  "less_eq_Key a b \<longleftrightarrow> key_get a \<le> key_get b"

definition less_Key :: "Key \<Rightarrow> Key \<Rightarrow> bool" where
  "less_Key a b \<longleftrightarrow> key_get a < key_get b"

instance
  by standard (auto simp: less_eq_Key_def less_Key_def Key.expand)

end

end
