(* ===== verification/Abi.thy ===== *)
theory Abi
  imports Extern
begin

text \<open>
  The crate \<open>desenredo-abi\<close>: exception classes (\<open>class.rs\<close>), reason codes, action bits and
  the exception header with its two unwinder-private words (\<open>unwind.rs\<close>).  Function pointers
  are their addresses; an optional one is an option of its address.
\<close>

section \<open>Exception classes\<close>

datatype Vendor = Vendor u8 u8 u8 u8

datatype Language = Language u8 u8 u8 u8

definition vendor_clang :: Vendor where
  "vendor_clang = Vendor 0x43 0x4c 0x4e 0x47"

definition vendor_gnu :: Vendor where
  "vendor_gnu = Vendor 0x47 0x4e 0x55 0x43"

definition language_cxx :: Language where
  "language_cxx = Language 0x43 0x2b 0x2b 0x00"

fun vendor_bytes :: "Vendor \<Rightarrow> bytes" where
  "vendor_bytes (Vendor b0 b1 b2 b3) = [b0, b1, b2, b3]"

fun language_bytes :: "Language \<Rightarrow> bytes" where
  "language_bytes (Language b4 b5 b6 b7) = [b4, b5, b6, b7]"

datatype ExceptionClass = ExceptionClass (class_bits: u64)

definition class_join :: "Vendor \<Rightarrow> Language \<Rightarrow> ExceptionClass" where
  "class_join v l = ExceptionClass (from_be_bytes (vendor_bytes v @ language_bytes l))"

definition class_vendor :: "ExceptionClass \<Rightarrow> Vendor" where
  "class_vendor c = (let bs = to_be_bytes (class_bits c)
    in Vendor (bs ! 0) (bs ! 1) (bs ! 2) (bs ! 3))"

definition class_language :: "ExceptionClass \<Rightarrow> Language" where
  "class_language c = (let bs = to_be_bytes (class_bits c)
    in Language (bs ! 4) (bs ! 5) (bs ! 6) (bs ! 7))"

definition class_cxx :: "ExceptionClass \<Rightarrow> bool" where
  "class_cxx c \<longleftrightarrow> language_bytes (class_language c) = [0x43, 0x2b, 0x2b, 0]"

section \<open>Reason codes and actions\<close>

datatype ReasonCode = ReasonCode (reason_raw: c_int)

definition rc_continue :: ReasonCode where "rc_continue = ReasonCode 8"
definition rc_end :: ReasonCode where "rc_end = ReasonCode 5"
definition rc_fatal1 :: ReasonCode where "rc_fatal1 = ReasonCode 3"
definition rc_fatal2 :: ReasonCode where "rc_fatal2 = ReasonCode 2"
definition rc_foreign :: ReasonCode where "rc_foreign = ReasonCode 1"
definition rc_handler :: ReasonCode where "rc_handler = ReasonCode 6"
definition rc_install :: ReasonCode where "rc_install = ReasonCode 7"
definition rc_none :: ReasonCode where "rc_none = ReasonCode 0"
definition rc_stop :: ReasonCode where "rc_stop = ReasonCode 4"

lemmas reason_defs = rc_continue_def rc_end_def rc_fatal1_def rc_fatal2_def rc_foreign_def
  rc_handler_def rc_install_def rc_none_def rc_stop_def

datatype Actions = Actions (actions_raw: c_int)

text \<open>The flags declared by \<open>bitflags!\<close>: SEARCH, CLEANUP, HANDLER, FORCE, END.\<close>

definition action_bits :: "c_int list" where
  "action_bits = [1, 2, 4, 8, 16]"

definition act_all :: "lib \<Rightarrow> Actions" where "act_all L = Actions (bits_all L action_bits)"
definition act_cleanup :: Actions where "act_cleanup = Actions 2"
definition act_end :: Actions where "act_end = Actions 16"
definition act_force :: Actions where "act_force = Actions 8"
definition act_handler :: Actions where "act_handler = Actions 4"
definition act_none :: "lib \<Rightarrow> Actions" where "act_none L = Actions (bits_all L [])"
definition act_search :: Actions where "act_search = Actions 1"

lemmas action_defs = act_cleanup_def act_end_def act_force_def act_handler_def act_search_def

definition actions_known :: "lib \<Rightarrow> Actions \<Rightarrow> bool" where
  "actions_known L a \<longleftrightarrow> bits_from_bits L action_bits (actions_raw a) \<noteq> None"

definition actions_has :: "lib \<Rightarrow> Actions \<Rightarrow> Actions \<Rightarrow> bool" where
  "actions_has L a b \<longleftrightarrow> bits_contains L (actions_raw a) (actions_raw b)"

definition actions_or :: "lib \<Rightarrow> Actions \<Rightarrow> Actions \<Rightarrow> Actions" where
  "actions_or L a b = Actions (bits_union L (actions_raw a) (actions_raw b))"

section \<open>The exception header\<close>

record Exception =
  exception_class :: ExceptionClass
  exception_cleanup :: "usize option"
  private_1 :: usize
  private_2 :: usize

definition exception_new :: "ExceptionClass \<Rightarrow> usize option \<Rightarrow> Exception" where
  "exception_new class cleanup =
    \<lparr>exception_class = class, exception_cleanup = cleanup, private_1 = 0, private_2 = 0\<rparr>"

text \<open>The private words as the \<open>Private\<close> capability reads and writes them.\<close>

definition private_words :: "Exception \<Rightarrow> usize \<times> usize" where
  "private_words e = (private_1 e, private_2 e)"

definition private_write :: "usize \<times> usize \<Rightarrow> Exception \<Rightarrow> Exception" where
  "private_write ws e = (case ws of (new_first, new_second) \<Rightarrow>
    e\<lparr>private_1 := new_first, private_2 := new_second\<rparr>)"

section \<open>Facts\<close>

lemma vendor_language_length [simp]:
  "length (vendor_bytes v) = 4" "length (language_bytes l) = 4"
  by (cases v, simp) (cases l, simp)

lemma length_8_split:
  assumes "length bs = 8"
  shows "bs = [bs ! 0, bs ! 1, bs ! 2, bs ! 3] @ [bs ! 4, bs ! 5, bs ! 6, bs ! 7]"
proof -
  have "bs = map ((!) bs) [0..<8]" using assms map_nth[of bs] by simp
  then show ?thesis by (simp add: upt_rec eval_nat_numeral)
qed

lemma to_be_bytes_join:
  "to_be_bytes (class_bits (class_join v l)) = vendor_bytes v @ language_bytes l"
  by (simp add: class_join_def to_be_from_be_bytes)

lemma join_parts: "class_join (class_vendor c) (class_language c) = c"
proof -
  have "vendor_bytes (class_vendor c) @ language_bytes (class_language c) = to_be_bytes (class_bits c)"
    using length_8_split[of "to_be_bytes (class_bits c)"]
    by (simp add: class_vendor_def class_language_def Let_def)
  then show ?thesis by (simp add: class_join_def from_be_to_be_bytes)
qed

lemma parts_join: "class_vendor (class_join v l) = v" "class_language (class_join v l) = l"
  by (cases v; cases l; simp add: class_vendor_def class_language_def to_be_bytes_join Let_def)+

lemma private_words_write [simp]: "private_words (private_write ws e) = ws"
  by (cases ws) (simp add: private_words_def private_write_def)

lemma private_write_frame [simp]:
  "exception_class (private_write ws e) = exception_class e"
  "exception_cleanup (private_write ws e) = exception_cleanup e"
  by (cases ws, simp add: private_write_def)+

context bits_laws begin

lemma known_iff: "actions_known L a \<longleftrightarrow> actions_raw a AND NOT 31 = 0"
  by (simp add: actions_known_def bits_from_bits action_bits_def)

lemma has_iff: "actions_has L a b \<longleftrightarrow> actions_raw a AND actions_raw b = actions_raw b"
  by (simp add: actions_has_def bits_contains)

lemma actions_or_eq: "actions_or L a b = Actions (actions_raw a OR actions_raw b)"
  by (simp add: actions_or_def bits_union)

lemma all_eq: "act_all L = Actions 31"
  by (simp add: act_all_def action_bits_def bits_all)

lemma none_eq: "act_none L = Actions 0"
  by (simp add: act_none_def bits_all)

end

end
