(* ===== verification/Runtime.thy ===== *)
theory Runtime
  imports Cursor Abi
begin

text \<open>
  \<open>desenredo-unwind/src/runtime.rs\<close>: the callback context, the resume state kept in an
  exception's private words, and the traversals of the Level I interface.

  The process state is a record of the exception headers, by address, and the rest.  Routines
  the unwinder calls through addresses (personality, stop, trace and cleanup functions) are
  parameters.  A routine sees the callback context; what it does to the context goes through
  \<open>_Unwind_SetGR\<close> and \<open>_Unwind_SetIP\<close>, so its effect there is a list of register writes.  A
  routine, a DWARF expression or a traversal that does not come back is the outer \<open>None\<close>.
\<close>

record 'w world =
  w_exception :: "usize \<Rightarrow> Exception"
  w_rest :: 'w

section \<open>The callback context\<close>

record Callback =
  callback_cursor :: Cursor
  callback_frame :: "Info option"

text \<open>\<open>u16::try_from\<close> of a C integer.\<close>

definition callback_decode :: "c_int \<Rightarrow> u16 option" where
  "callback_decode index =
    (if 0 \<le> sint index \<and> sint index < 2 ^ 16 then Some (of_int (sint index)) else None)"

definition ok_or_zero :: "'e + usize \<Rightarrow> usize" where
  "ok_or_zero r = (case r of Inr v \<Rightarrow> v | Inl _ \<Rightarrow> 0)"

definition callback_read :: "lib \<Rightarrow> Callback \<Rightarrow> c_int \<Rightarrow> usize" where
  "callback_read L self index =
    (case callback_decode index of
       None \<Rightarrow> 0
     | Some register \<Rightarrow>
         if register = x86_64 L RSP \<and> callback_frame self = None then 0
         else ok_or_zero (cursor_read L (callback_cursor self) register))"

definition callback_set :: "lib \<Rightarrow> Callback \<Rightarrow> c_int \<Rightarrow> usize \<Rightarrow> Callback" where
  "callback_set L self index value =
    (case callback_decode index of
       None \<Rightarrow> self
     | Some register \<Rightarrow>
         (case cursor_write L (callback_cursor self) register value of
            Inl _ \<Rightarrow> self
          | Inr cursor \<Rightarrow> self\<lparr>callback_cursor := cursor\<rparr>))"

definition callback_pc :: "Callback \<Rightarrow> usize" where
  "callback_pc self = (case cursor_ip (callback_cursor self) of Some ip \<Rightarrow> ip | None \<Rightarrow> 0)"

definition callback_base :: "lib \<Rightarrow> Callback \<Rightarrow> usize" where
  "callback_base L self =
    (case callback_frame self of
       Some _ \<Rightarrow> ok_or_zero (cursor_stack L (callback_cursor self))
     | None \<Rightarrow> 0)"

text \<open>The static functions take the context pointer; \<open>None\<close> is a null one.\<close>

definition context_reg :: "lib \<Rightarrow> Callback option \<Rightarrow> c_int \<Rightarrow> usize" where
  "context_reg L context index =
    (case context of Some callback \<Rightarrow> callback_read L callback index | None \<Rightarrow> 0)"

definition context_write :: "lib \<Rightarrow> Callback option \<Rightarrow> c_int \<Rightarrow> usize \<Rightarrow> Callback option" where
  "context_write L context index value =
    map_option (\<lambda>callback. callback_set L callback index value) context"

definition context_ip :: "Callback option \<Rightarrow> usize" where
  "context_ip context = (case context of Some callback \<Rightarrow> callback_pc callback | None \<Rightarrow> 0)"

text \<open>The value and what is stored through \<open>before\<close>, when it is stored.\<close>

definition context_info :: "Callback option \<Rightarrow> bool \<Rightarrow> usize \<times> c_int option" where
  "context_info context before_nonnull =
    (case context of
       Some callback \<Rightarrow>
         (let flag = (if relation_before (cursor_relation (callback_cursor callback)) then 1 else 0)
          in (callback_pc callback, if before_nonnull then Some flag else None))
     | None \<Rightarrow> (0, None))"

definition context_jump :: "lib \<Rightarrow> Callback option \<Rightarrow> usize \<Rightarrow> Callback option" where
  "context_jump L context value = context_write L context (ucast (x86_64 L RA)) value"

definition context_cfa :: "lib \<Rightarrow> Callback option \<Rightarrow> usize" where
  "context_cfa L context = (case context of Some callback \<Rightarrow> callback_base L callback | None \<Rightarrow> 0)"

definition context_frame :: "Callback option \<Rightarrow> Info option" where
  "context_frame context = (case context of Some callback \<Rightarrow> callback_frame callback | None \<Rightarrow> None)"

definition context_lsda :: "'w unwinder \<Rightarrow> 'w \<Rightarrow> Callback option \<Rightarrow> usize" where
  "context_lsda U w context =
    (case context_frame context of
       Some frame \<Rightarrow> (case info_lsda U w frame of Inr (Some address) \<Rightarrow> address | _ \<Rightarrow> 0)
     | None \<Rightarrow> 0)"

definition context_start :: "gimli \<Rightarrow> Callback option \<Rightarrow> usize" where
  "context_start G context =
    (case context_frame context of Some frame \<Rightarrow> ok_or_zero (info_start G frame) | None \<Rightarrow> 0)"

definition context_text :: "Callback option \<Rightarrow> usize" where
  "context_text context =
    (case context_frame context of Some frame \<Rightarrow> info_text frame | None \<Rightarrow> 0)"

definition context_data :: "Callback option \<Rightarrow> usize" where
  "context_data context =
    unwrap_or_default (Option.bind (context_frame context) info_data)"

section \<open>Routines called through addresses\<close>

type_synonym writes = "(c_int \<times> usize) list"

record 'w routines =
  r_personality :: "usize \<Rightarrow> c_int \<Rightarrow> Actions \<Rightarrow> ExceptionClass \<Rightarrow> usize \<Rightarrow> Callback \<Rightarrow> 'w world
    \<Rightarrow> (ReasonCode \<times> writes \<times> 'w world) option"
  r_stop :: "usize \<Rightarrow> c_int \<Rightarrow> Actions \<Rightarrow> ExceptionClass \<Rightarrow> usize \<Rightarrow> Callback \<Rightarrow> usize \<Rightarrow> 'w world
    \<Rightarrow> (ReasonCode \<times> writes \<times> 'w world) option"
  r_trace :: "usize \<Rightarrow> Callback \<Rightarrow> usize \<Rightarrow> 'w world \<Rightarrow> (ReasonCode \<times> writes \<times> 'w world) option"
  r_cleanup :: "usize \<Rightarrow> ReasonCode \<Rightarrow> usize \<Rightarrow> 'w world \<Rightarrow> 'w world option"

definition callback_writes :: "lib \<Rightarrow> writes \<Rightarrow> Callback \<Rightarrow> Callback" where
  "callback_writes L ws callback =
    fold (\<lambda>(index, value) c. callback_set L c index value) ws callback"

text \<open>
  A call: the routine sees the cursor and the frame, and the cursor comes back with the writes
  in it.
\<close>

definition with_callback ::
    "lib \<Rightarrow> Cursor \<Rightarrow> Info option \<Rightarrow> (Callback \<Rightarrow> (ReasonCode \<times> writes \<times> 'w world) option)
      \<Rightarrow> (ReasonCode \<times> Cursor \<times> 'w world) option" where
  "with_callback L cursor frame routine =
    (let callback = \<lparr>callback_cursor = cursor, callback_frame = frame\<rparr>
     in map_option (\<lambda>(reason, ws, w). (reason, callback_cursor (callback_writes L ws callback), w))
          (routine callback))"

definition protocol_version :: c_int where
  "protocol_version = 1"

text \<open>What a traversal ends in.\<close>

datatype 'w outcome = Returned ReasonCode "'w world" | Transferred Registers "'w world" | Trapped

definition delete_exception :: "'w routines \<Rightarrow> usize \<Rightarrow> 'w world \<Rightarrow> 'w world option" where
  "delete_exception R exception w =
    (if exception = 0 then Some w
     else (case exception_cleanup (w_exception w exception) of
             Some cleanup \<Rightarrow> r_cleanup R cleanup rc_foreign exception w
           | None \<Rightarrow> Some w))"

section \<open>Resume state\<close>

record Forced =
  forced_stop :: usize
  forced_parameter :: usize

datatype Resume = Normal Key | ForcedUnwind Forced

definition resume_words :: "Resume \<Rightarrow> usize \<times> usize" where
  "resume_words self =
    (case self of
       Normal handler \<Rightarrow> (0, key_get handler)
     | ForcedUnwind forced \<Rightarrow> (forced_stop forced, forced_parameter forced))"

definition resume_write :: "Resume \<Rightarrow> usize \<Rightarrow> 'w world \<Rightarrow> 'w world" where
  "resume_write self exception w =
    w\<lparr>w_exception := (w_exception w)(exception :=
        private_write (resume_words self) (w_exception w exception))\<rparr>"

definition resume_read :: "usize \<Rightarrow> 'w world \<Rightarrow> Resume" where
  "resume_read exception w =
    (case private_words (w_exception w exception) of
       (word1, word2) \<Rightarrow>
         (case nonzero word1 of
            None \<Rightarrow> Normal (Key word2)
          | Some stop \<Rightarrow> ForcedUnwind \<lparr>forced_stop = stop, forced_parameter = word2\<rparr>))"

section \<open>The walk\<close>

record Walk =
  walk_cursor :: Cursor
  walk_exception :: usize
  walk_class :: ExceptionClass

definition walk_new :: "State \<Rightarrow> usize \<Rightarrow> ExceptionClass \<Rightarrow> Walk" where
  "walk_new state exception class =
    \<lparr>walk_cursor = cursor_new state, walk_exception = exception, walk_class = class\<rparr>"

text \<open>Images and memory are observed through the whole process state.\<close>

type_synonym 'w machine = "'w world unwinder"

definition walk_personality ::
    "'w machine \<Rightarrow> 'w routines \<Rightarrow> Cursor \<Rightarrow> usize \<Rightarrow> ExceptionClass \<Rightarrow> Info \<Rightarrow> Actions \<Rightarrow> 'w world
      \<Rightarrow> ((UnwindError + ReasonCode option) \<times> Cursor \<times> 'w world) option" where
  "walk_personality U R cursor exception class info actions w =
    (case info_personality U w info of
       Inl e \<Rightarrow> Some (Inl e, cursor, w)
     | Inr None \<Rightarrow> Some (Inr None, cursor, w)
     | Inr (Some address) \<Rightarrow>
         (case nonzero address of
            None \<Rightarrow> Some (Inl EAddress, cursor, w)
          | Some address \<Rightarrow>
              map_option (\<lambda>(reason, cursor, w). (Inr (Some reason), cursor, w))
                (with_callback (u_lib U) cursor (Some info) (\<lambda>callback.
                  r_personality R address protocol_version actions class exception callback w))))"

text \<open>\<open>match cursor.advance(..)\<close>: go on with the caller, or return.\<close>

definition after_advance :: "'r \<Rightarrow> 'w world \<Rightarrow> UnwindError + Cursor \<Rightarrow> (Cursor \<times> 'w world, 'r) flow" where
  "after_advance failed w next =
    (case next of Inl _ \<Rightarrow> Break failed | Inr cursor \<Rightarrow> Continue (cursor, w))"

lemma after_advance_simps [simp]:
  "after_advance failed w (Inl e) = Break failed"
  "after_advance failed w (Inr cursor) = Continue (cursor, w)"
  "after_advance failed w n = Break r \<longleftrightarrow> isl n \<and> r = failed"
  "after_advance failed w n = Continue s \<longleftrightarrow> (\<exists>c. n = Inr c \<and> s = (c, w))"
  by (auto simp: after_advance_def split: sum.splits)

text \<open>Phase one: \<open>Inr\<close> is the handler's frame, \<open>Inl\<close> the reason the search ends without one.\<close>

definition search_body ::
    "'w machine \<Rightarrow> 'w routines \<Rightarrow> usize \<Rightarrow> ExceptionClass \<Rightarrow> Cursor \<times> 'w world
      \<Rightarrow> (Cursor \<times> 'w world, (ReasonCode + Key) \<times> 'w world) flow option" where
  "search_body U R exception class s =
    (case s of (cursor, w) \<Rightarrow>
     case cursor_current U w cursor of
       Inl _ \<Rightarrow> Some (Break (Inl rc_fatal1, w))
     | Inr None \<Rightarrow> Some (Break (Inl rc_end, w))
     | Inr (Some info) \<Rightarrow>
         Option.bind (walk_personality U R cursor exception class info act_search w)
           (\<lambda>(reason, cursor, w).
             if reason = Inr None \<or> reason = Inr (Some rc_continue) then
               map_option (after_advance (Inl rc_fatal1, w) w) (cursor_advance U w cursor info)
             else if reason = Inr (Some rc_handler) then
               Some (Break (map_sum (\<lambda>_. rc_fatal1) id (cursor_key (u_lib U) cursor), w))
             else Some (Break (Inl rc_fatal1, w))))"

definition walk_search ::
    "'w machine \<Rightarrow> 'w routines \<Rightarrow> usize \<Rightarrow> ExceptionClass \<Rightarrow> Cursor \<Rightarrow> 'w world
      \<Rightarrow> ((ReasonCode + Key) \<times> 'w world) option" where
  "walk_search U R exception class cursor w =
    run_loop (search_body U R exception class) (cursor, w)"

text \<open>Adjusting the stack, checking the state and handing the registers over.\<close>

definition walk_install ::
    "'w machine \<Rightarrow> Cursor \<Rightarrow> Info \<Rightarrow> 'w world \<Rightarrow> 'w outcome" where
  "walk_install U cursor info w =
    (case info_args info of
       Inl _ \<Rightarrow> Returned rc_fatal2 w
     | Inr amount \<Rightarrow>
         (case cursor_adjust (u_lib U) cursor amount of
            Inl _ \<Rightarrow> Returned rc_fatal2 w
          | Inr cursor \<Rightarrow>
              (case state_install (cursor_state cursor) of
                 Inl _ \<Rightarrow> Returned rc_fatal2 w
               | Inr install \<Rightarrow> Transferred install w)))"

definition normal_actions :: "lib \<Rightarrow> bool \<Rightarrow> Actions" where
  "normal_actions L selected = (if selected then actions_or L act_cleanup act_handler else act_cleanup)"

definition normal_body ::
    "'w machine \<Rightarrow> 'w routines \<Rightarrow> usize \<Rightarrow> ExceptionClass \<Rightarrow> Key \<Rightarrow> Cursor \<times> 'w world
      \<Rightarrow> (Cursor \<times> 'w world, 'w outcome) flow option" where
  "normal_body U R exception class handler s =
    (case s of (cursor, w) \<Rightarrow>
     case cursor_current U w cursor of
       Inl _ \<Rightarrow> Some (Break (Returned rc_fatal2 w))
     | Inr None \<Rightarrow> Some (Break (Returned rc_fatal2 w))
     | Inr (Some info) \<Rightarrow>
         (case cursor_key (u_lib U) cursor of
            Inl _ \<Rightarrow> Some (Break (Returned rc_fatal2 w))
          | Inr key \<Rightarrow>
              (let selected = (key = handler)
               in Option.bind (walk_personality U R cursor exception class info
                      (normal_actions (u_lib U) selected) w)
                    (\<lambda>(reason, cursor, w).
                      if reason = Inr (Some rc_install) then
                        Some (Break (walk_install U cursor info w))
                      else if \<not> selected \<and> (reason = Inr None \<or> reason = Inr (Some rc_continue)) then
                        map_option (after_advance (Returned rc_fatal2 w) w) (cursor_advance U w cursor info)
                      else Some (Break (Returned rc_fatal2 w))))))"

definition walk_normal ::
    "'w machine \<Rightarrow> 'w routines \<Rightarrow> usize \<Rightarrow> ExceptionClass \<Rightarrow> Key \<Rightarrow> Cursor \<Rightarrow> 'w world
      \<Rightarrow> 'w outcome option" where
  "walk_normal U R exception class handler cursor w =
    run_loop (normal_body U R exception class handler) (cursor, w)"

text \<open>Forced unwinding: the stop function is asked at every frame and once more at the end.\<close>

definition stop_actions :: "lib \<Rightarrow> Info option \<Rightarrow> Actions" where
  "stop_actions L info =
    (case info of
       Some _ \<Rightarrow> actions_or L act_force act_cleanup
     | None \<Rightarrow> actions_or L (actions_or L act_force act_cleanup) act_end)"

definition force_body ::
    "'w machine \<Rightarrow> 'w routines \<Rightarrow> usize \<Rightarrow> ExceptionClass \<Rightarrow> Forced \<Rightarrow> Cursor \<times> 'w world
      \<Rightarrow> (Cursor \<times> 'w world, 'w outcome) flow option" where
  "force_body U R exception class forced s =
    (case s of (cursor, w) \<Rightarrow>
     case cursor_current U w cursor of
       Inl _ \<Rightarrow> Some (Break (Returned rc_fatal2 w))
     | Inr info \<Rightarrow>
         Option.bind (with_callback (u_lib U) cursor info (\<lambda>callback.
             r_stop R (forced_stop forced) protocol_version (stop_actions (u_lib U) info) class exception
               callback (forced_parameter forced) w)) (\<lambda>(stop_reason, cursor, w).
           if stop_reason \<noteq> rc_none then Some (Break (Returned rc_fatal2 w))
           else (case info of
                   None \<Rightarrow> Some (Break (Returned rc_end w))
                 | Some info \<Rightarrow>
                     Option.bind (walk_personality U R cursor exception class info
                         (actions_or (u_lib U) act_force act_cleanup) w)
                       (\<lambda>(reason, cursor, w).
                         if reason = Inr None \<or> reason = Inr (Some rc_continue) then
                           map_option (after_advance (Returned rc_fatal2 w) w) (cursor_advance U w cursor info)
                         else if reason = Inr (Some rc_install) then
                           Some (Break (walk_install U cursor info w))
                         else Some (Break (Returned rc_fatal2 w))))))"

definition walk_force ::
    "'w machine \<Rightarrow> 'w routines \<Rightarrow> usize \<Rightarrow> ExceptionClass \<Rightarrow> Forced \<Rightarrow> Cursor \<Rightarrow> 'w world
      \<Rightarrow> 'w outcome option" where
  "walk_force U R exception class forced cursor w =
    run_loop (force_body U R exception class forced) (cursor, w)"

section \<open>The Level I entry points\<close>

definition run_normal :: "'w machine \<Rightarrow> 'w routines \<Rightarrow> Walk \<Rightarrow> Key \<Rightarrow> 'w world \<Rightarrow> 'w outcome option" where
  "run_normal U R walk handler w =
    walk_normal U R (walk_exception walk) (walk_class walk) handler (walk_cursor walk) w"

definition run_force :: "'w machine \<Rightarrow> 'w routines \<Rightarrow> Walk \<Rightarrow> Forced \<Rightarrow> 'w world \<Rightarrow> 'w outcome option" where
  "run_force U R walk forced w =
    walk_force U R (walk_exception walk) (walk_class walk) forced (walk_cursor walk) w"

definition walk_begin :: "'w machine \<Rightarrow> 'w routines \<Rightarrow> State \<Rightarrow> usize \<Rightarrow> 'w world \<Rightarrow> 'w outcome option" where
  "walk_begin U R state exception w =
    (let class = exception_class (w_exception w exception)
     in Option.bind (walk_search U R exception class (walk_cursor (walk_new state exception class)) w)
          (\<lambda>(found, w). case found of
             Inl reason \<Rightarrow> Some (Returned reason w)
           | Inr handler \<Rightarrow>
               run_normal U R (walk_new state exception class) handler
                 (resume_write (Normal handler) exception w)))"

definition walk_raise :: "'w machine \<Rightarrow> 'w routines \<Rightarrow> State \<Rightarrow> usize \<Rightarrow> 'w world \<Rightarrow> 'w outcome option" where
  "walk_raise U R state exception w =
    (if exception = 0 then Some (Returned rc_fatal1 w) else walk_begin U R state exception w)"

definition walk_forced ::
    "'w machine \<Rightarrow> 'w routines \<Rightarrow> State \<Rightarrow> usize \<Rightarrow> usize \<Rightarrow> usize \<Rightarrow> 'w world \<Rightarrow> 'w outcome option" where
  "walk_forced U R state exception stop parameter w =
    (if exception = 0 then Some (Returned rc_fatal2 w)
     else
       (let class = exception_class (w_exception w exception);
            forced = \<lparr>forced_stop = stop, forced_parameter = parameter\<rparr>
        in run_force U R (walk_new state exception class) forced
             (resume_write (ForcedUnwind forced) exception w)))"

text \<open>A resumption that comes back is a protocol failure.\<close>

definition never_returns :: "'w outcome \<Rightarrow> 'w outcome" where
  "never_returns r = (case r of Returned _ _ \<Rightarrow> Trapped | _ \<Rightarrow> r)"

definition walk_resume :: "'w machine \<Rightarrow> 'w routines \<Rightarrow> State \<Rightarrow> usize \<Rightarrow> 'w world \<Rightarrow> 'w outcome option" where
  "walk_resume U R state exception w =
    (if exception = 0 then Some Trapped
     else
       (let class = exception_class (w_exception w exception)
        in map_option never_returns
             (case resume_read exception w of
                Normal handler \<Rightarrow> run_normal U R (walk_new state exception class) handler w
              | ForcedUnwind forced \<Rightarrow> run_force U R (walk_new state exception class) forced w)))"

definition walk_rethrow :: "'w machine \<Rightarrow> 'w routines \<Rightarrow> State \<Rightarrow> usize \<Rightarrow> 'w world \<Rightarrow> 'w outcome option" where
  "walk_rethrow U R state exception w =
    (if exception = 0 then Some (Returned rc_fatal2 w)
     else
       (case resume_read exception w of
          Normal _ \<Rightarrow> walk_begin U R state exception w
        | ForcedUnwind forced \<Rightarrow>
            run_force U R (walk_new state exception (exception_class (w_exception w exception))) forced w))"

definition trace_body ::
    "'w machine \<Rightarrow> 'w routines \<Rightarrow> usize \<Rightarrow> usize \<Rightarrow> Cursor \<times> 'w world
      \<Rightarrow> (Cursor \<times> 'w world, ReasonCode \<times> 'w world) flow option" where
  "trace_body U R visit parameter s =
    (case s of (cursor, w) \<Rightarrow>
     case cursor_current U w cursor of
       Inl _ \<Rightarrow> Some (Break (rc_fatal1, w))
     | Inr None \<Rightarrow> Some (Break (rc_end, w))
     | Inr (Some info) \<Rightarrow>
         Option.bind (with_callback (u_lib U) cursor (Some info) (\<lambda>callback.
           r_trace R visit callback parameter w)) (\<lambda>(reason, cursor, w).
             if reason = rc_none then
               map_option (after_advance (rc_fatal1, w) w) (cursor_advance U w cursor info)
             else Some (Break (rc_fatal1, w))))"

definition walk_trace ::
    "'w machine \<Rightarrow> 'w routines \<Rightarrow> State \<Rightarrow> usize \<Rightarrow> usize \<Rightarrow> 'w world \<Rightarrow> (ReasonCode \<times> 'w world) option" where
  "walk_trace U R state visit parameter w =
    run_loop (trace_body U R visit parameter) (cursor_new state, w)"

end
