(* ===== verification/RegisterFile.thy ===== *)
theory RegisterFile
  imports State
begin

text \<open>
  The contract of a register file, as the unwinder and its callbacks rely on it, and its
  interpretation on \<open>State\<close>.  A sequence of writes through the callback interface ignores the
  numbers that name no register, and the last write of a register counts.
\<close>

locale register_file =
  fixes named :: "'r \<Rightarrow> bool"
    and rd :: "'s \<Rightarrow> 'r \<Rightarrow> 'e + 'v"
    and wr :: "'s \<Rightarrow> 'r \<Rightarrow> 'v \<Rightarrow> 'e + 's"
    and clr :: "'s \<Rightarrow> 'r \<Rightarrow> 'e + 's"
  assumes wr_named: "(\<exists>s'. wr s r v = Inr s') \<longleftrightarrow> named r"
    and clr_named: "(\<exists>s'. clr s r = Inr s') \<longleftrightarrow> named r"
    and rd_wr_same: "wr s r v = Inr s' \<Longrightarrow> rd s' r = Inr v"
    and rd_wr_other: "wr s r v = Inr s' \<Longrightarrow> q \<noteq> r \<Longrightarrow> rd s' q = rd s q"
    and rd_clr_same: "clr s r = Inr s' \<Longrightarrow> rd s' r \<noteq> Inr v"
    and rd_clr_other: "clr s r = Inr s' \<Longrightarrow> q \<noteq> r \<Longrightarrow> rd s' q = rd s q"

text \<open>Writing without looking at the outcome: a write that fails changes nothing.\<close>

definition put_with :: "('s \<Rightarrow> 'r \<Rightarrow> 'v \<Rightarrow> 'e + 's) \<Rightarrow> 'r \<times> 'v \<Rightarrow> 's \<Rightarrow> 's" where
  "put_with wr rv s = (case wr s (fst rv) (snd rv) of Inr s' \<Rightarrow> s' | Inl _ \<Rightarrow> s)"

context register_file begin

lemma rd_put: "rd (put_with wr (r, v) s) q = (if q = r \<and> named r then Inr v else rd s q)"
proof (cases "wr s r v")
  case (Inl e)
  then have "\<not> named r" using wr_named[of s r v] by auto
  with Inl show ?thesis by (simp add: put_with_def)
next
  case (Inr s')
  then have "named r" using wr_named[of s r v] by auto
  with Inr show ?thesis using rd_wr_same[OF Inr] rd_wr_other[OF Inr, of q] by (auto simp: put_with_def)
qed

lemma rd_puts:
  "rd (fold (put_with wr) ws s) q =
    (case map_of (rev ws) q of Some v \<Rightarrow> if named q then Inr v else rd s q | None \<Rightarrow> rd s q)"
proof (induction ws rule: rev_induct)
  case Nil
  show ?case by simp
next
  case (snoc w ws)
  then show ?case by (cases w) (auto simp: rd_put split: option.splits)
qed

end

definition is_named :: "lib \<Rightarrow> u16 \<Rightarrow> bool" where
  "is_named L r \<longleftrightarrow> reg_named L r \<noteq> None"

lemma state_write_cases:
  "state_write L s r v = (case reg_named L r of None \<Rightarrow> Inl (ERegister r)
     | Some g \<Rightarrow> Inr (slot_set g (Some v) s))"
  "state_clear L s r = (case reg_named L r of None \<Rightarrow> Inl (ERegister r)
     | Some g \<Rightarrow> Inr (slot_set g None s))"
  by (simp_all add: state_write_def state_clear_def state_slot_def split: option.splits)

lemma state_read_cases:
  "state_read L s r = (case reg_named L r of None \<Rightarrow> Inl (ERegister r)
     | Some g \<Rightarrow> (case slot_get g s of None \<Rightarrow> Inl (EUnavailable r) | Some v \<Rightarrow> Inr v))"
  by (simp add: state_read_def split: option.splits)

context x86_laws begin

lemma read_slot:
  "state_read L s (x86_64 L g) =
    (case slot_get g s of None \<Rightarrow> Inl (EUnavailable (x86_64 L g)) | Some v \<Rightarrow> Inr v)"
  by (simp add: state_read_cases reg_named_of)

end

lemma state_slot_other:
  assumes "reg_named L r = Some g" "q \<noteq> r"
  shows "state_read L (slot_set g x s) q = state_read L s q"
  using reg_named_number[OF assms(1)] reg_named_number[of L q] assms(2)
  by (auto simp: state_read_cases split: option.splits)

interpretation st: register_file "is_named L" "state_read L" "state_write L" "state_clear L" for L
proof unfold_locales
  fix s s' :: State and r q :: u16 and v :: usize
  show "(\<exists>s'. state_write L s r v = Inr s') \<longleftrightarrow> is_named L r"
    "(\<exists>s'. state_clear L s r = Inr s') \<longleftrightarrow> is_named L r"
    by (auto simp: state_write_cases is_named_def split: option.splits)
  show "state_write L s r v = Inr s' \<Longrightarrow> state_read L s' r = Inr v"
    "state_clear L s r = Inr s' \<Longrightarrow> state_read L s' r \<noteq> Inr v"
    by (auto simp: state_write_cases state_read_cases split: option.splits)
  show "state_write L s r v = Inr s' \<Longrightarrow> q \<noteq> r \<Longrightarrow> state_read L s' q = state_read L s q"
    "state_clear L s r = Inr s' \<Longrightarrow> q \<noteq> r \<Longrightarrow> state_read L s' q = state_read L s q"
    by (auto simp: state_write_cases state_slot_other split: option.splits)
qed

section \<open>Installing a state\<close>

text \<open>The registers a landing pad needs, and the image of one.\<close>

definition required :: "reg list" where
  "required = [RAX, RDX, RBX, RBP, RSP, R12, R13, R14, R15, RA, MXCSR, FCW]"

fun registers_get :: "reg \<Rightarrow> Registers \<Rightarrow> usize" where
  "registers_get RAX i = reg_rax i" | "registers_get RDX i = reg_rdx i"
| "registers_get RCX i = reg_rcx i" | "registers_get RBX i = reg_rbx i"
| "registers_get RSI i = reg_rsi i" | "registers_get RDI i = reg_rdi i"
| "registers_get RBP i = reg_rbp i" | "registers_get RSP i = reg_rsp i"
| "registers_get R8 i = reg_r8 i" | "registers_get R9 i = reg_r9 i"
| "registers_get R10 i = reg_r10 i" | "registers_get R11 i = reg_r11 i"
| "registers_get R12 i = reg_r12 i" | "registers_get R13 i = reg_r13 i"
| "registers_get R14 i = reg_r14 i" | "registers_get R15 i = reg_r15 i"
| "registers_get RA i = reg_ra i" | "registers_get MXCSR i = reg_mxcsr i"
| "registers_get FCW i = reg_fcw i"

lemma state_install_Inl:
  "state_install s = Inl e \<longleftrightarrow> e = EInstall \<and> (\<exists>g\<in>set required. slot_get g s = None)"
  by (auto simp: state_install_def required_def split: option.splits)

lemma state_install_get:
  "state_install s = Inr i \<Longrightarrow> registers_get g i = unwrap_or_default (slot_get g s)"
  by (cases g) (auto simp: state_install_def split: option.splits)

text \<open>A capture gives every register a landing pad needs, except the two the personality sets.\<close>

lemma captured_required:
  "g \<in> set required \<Longrightarrow> slot_get g (captured r) = None \<longleftrightarrow> g = RAX \<or> g = RDX"
  by (cases g) (simp_all add: captured_def required_def)

lemma captured_get: "slot_get g (captured r) = Some v \<Longrightarrow> registers_get g r = v"
  by (cases g) (simp_all add: captured_def)

end
