(* ===== verification/SourceFacts.thy ===== *)
theory SourceFacts
  imports Cursor RegisterFile
begin

text \<open>
  What the reconstruction of a caller computes.  Each rule of a row has a value that depends on
  the callee's registers, the frame address and memory only; the caller's registers are the
  callee's with all the rules assigned at once.
\<close>

section \<open>The value of a rule\<close>

definition rule_value ::
    "'w unwinder \<Rightarrow> 'w \<Rightarrow> Info \<Rightarrow> State \<Rightarrow> usize \<Rightarrow> u16 \<Rightarrow> RegisterRule
      \<Rightarrow> (UnwindError + usize option) option" where
  "rule_value U w info registers cfa register rule =
    (let some = map_option (map_sum id Some) in
     case rule of
       Undefined \<Rightarrow> Some (Inr None)
     | SameValue \<Rightarrow> some (Some (state_read (u_lib U) registers register))
     | Offset offset \<Rightarrow> some (Some (info_register U w register (cfa + offset)))
     | ValOffset offset \<Rightarrow> Some (Inr (Some (cfa + offset)))
     | Register source \<Rightarrow> some (Some (state_read (u_lib U) registers source))
     | RuleExpression e \<Rightarrow> some (run_then (info_expr U w info registers e (Some cfa))
         (\<lambda>address. Some (info_register U w register address)))
     | ValExpression e \<Rightarrow> some (info_expr U w info registers e (Some cfa))
     | Architectural \<Rightarrow> Some (Inl EExpression)
     | Constant value \<Rightarrow> Some (Inr (Some value)))"

definition assign_slot :: "lib \<Rightarrow> State \<Rightarrow> u16 \<Rightarrow> usize option \<Rightarrow> UnwindError + State" where
  "assign_slot L caller register v =
    (case v of None \<Rightarrow> state_clear L caller register | Some x \<Rightarrow> state_write L caller register x)"

lemma run_then_map_Some:
  "run_then (map_option (map_sum id Some) r) f = run_then r (\<lambda>x. f (Some x))"
  by (auto simp: run_then_def split: option.splits sum.splits)

lemma run_then_assoc: "run_then (run_then r f) g = run_then r (\<lambda>x. run_then (f x) g)"
  by (auto simp: run_then_def split: option.splits sum.splits)

lemma apply_rule_value:
  "apply_rule U w info registers cfa caller register rule =
    run_then (rule_value U w info registers cfa register rule)
      (\<lambda>v. Some (assign_slot (u_lib U) caller register v))"
  by (cases rule)
     (simp_all add: apply_rule_def rule_value_def assign_slot_def run_then_map_Some run_then_assoc
        Let_def del: option.map)

lemma assign_slot_read:
  assumes "assign_slot L caller register v = Inr caller'"
  shows "state_read L caller' q =
    (if q = register then (case v of None \<Rightarrow> Inl (EUnavailable q) | Some x \<Rightarrow> Inr x)
     else state_read L caller q)"
proof -
  from assms obtain g where g: "reg_named L register = Some g" "caller' = slot_set g v caller"
    by (auto simp: assign_slot_def state_write_cases split: option.splits)
  then have "state_read L caller' register = (case v of None \<Rightarrow> Inl (EUnavailable register) | Some x \<Rightarrow> Inr x)"
    by (simp add: state_read_cases)
  with g show ?thesis by (auto simp: state_slot_other)
qed

text \<open>The rules take effect together, whatever their order, when no register has two of them.\<close>

lemma apply_rules_read:
  assumes "apply_rules U w info registers cfa caller rules = Some (Inr caller')"
    "distinct (map fst rules)"
  shows "state_read (u_lib U) caller' q =
    (case map_of rules q of
       None \<Rightarrow> state_read (u_lib U) caller q
     | Some rule \<Rightarrow> (case rule_value U w info registers cfa q rule of
         Some (Inr (Some x)) \<Rightarrow> Inr x | _ \<Rightarrow> Inl (EUnavailable q)))"
  using assms
proof (induction rules arbitrary: caller)
  case Nil
  then show ?case by simp
next
  case (Cons rr rules)
  obtain r rule where rr: "rr = (r, rule)" by fastforce
  from Cons.prems(1) obtain v mid where v: "rule_value U w info registers cfa r rule = Some (Inr v)"
    and mid: "assign_slot (u_lib U) caller r v = Inr mid"
    and rest: "apply_rules U w info registers cfa mid rules = Some (Inr caller')"
    by (auto simp: rr apply_rule_value run_then_assoc res_simps)
  have no: "map_of rules r = None" using Cons.prems(2) by (simp add: rr map_of_eq_None_iff)
  show ?case
    using Cons.IH[OF rest] Cons.prems(2) no v assign_slot_read[OF mid, of q]
    by (auto simp: rr split: option.splits)
qed

lemma info_caller_read:
  assumes "x86_laws (u_lib U)" "info_caller U w info registers = Some (Inr caller)"
    "distinct (map fst (row_registers (info_row info)))"
  shows "\<exists>cfa. info_cfa U w info registers = Some (Inr cfa) \<and>
    (\<forall>q. state_read (u_lib U) caller q =
      (case map_of (row_registers (info_row info)) q of
         Some rule \<Rightarrow> (case rule_value U w info registers cfa q rule of
           Some (Inr (Some x)) \<Rightarrow> Inr x | _ \<Rightarrow> Inl (EUnavailable q))
       | None \<Rightarrow> if q = x86_64 (u_lib U) RSP then Inr cfa
                 else if q = x86_64 (u_lib U) RA then Inl (EUnavailable q)
                 else state_read (u_lib U) registers q))"
proof -
  let ?L = "u_lib U"
  from assms(2) obtain cfa c1 c2 where cfa: "info_cfa U w info registers = Some (Inr cfa)"
    and w: "state_write ?L registers (x86_64 ?L RSP) cfa = Inr c1"
    and c: "state_clear ?L c1 (x86_64 ?L RA) = Inr c2"
    and r: "apply_rules U w info registers cfa c2 (row_registers (info_row info)) = Some (Inr caller)"
    by (auto simp: info_caller_def Let_def res_simps)
  have ne: "x86_64 ?L RSP \<noteq> x86_64 ?L RA" using x86_laws.x86_inj[OF assms(1)] by simp
  have "state_read ?L c2 q = (if q = x86_64 ?L RSP then Inr cfa
      else if q = x86_64 ?L RA then Inl (EUnavailable q) else state_read ?L registers q)" for q
    using assign_slot_read[of ?L c1 "x86_64 ?L RA" None c2 q]
      assign_slot_read[of ?L registers "x86_64 ?L RSP" "Some cfa" c1 q] w c ne
    by (auto simp: assign_slot_def)
  with apply_rules_read[OF r assms(3)] cfa show ?thesis by (auto split: option.splits)
qed

text \<open>The ABI's step is a lookup followed by an advance.\<close>

lemma cursor_step_split:
  "cursor_step U w c =
    run_then (Some (cursor_current U w c)) (\<lambda>info. case info of
       None \<Rightarrow> Some (Inr (None, c))
     | Some info \<Rightarrow>
         run_then (Some (cursor_stack (u_lib U) c)) (\<lambda>sp.
         run_then (cursor_advance U w c info) (\<lambda>c'.
           Some (Inr (Some \<lparr>frame_ip = info_instruction info, frame_sp = sp\<rparr>, c')))))"
  by (simp add: cursor_step_def cursor_current_def cursor_advance_def cursor_stack_def
        run_then_assoc cong: option.case_cong)

text \<open>A resolved frame never has more register rules than the inline storage holds.\<close>

lemma info_rules_bounded:
  assumes "cfi_laws (u_gimli U) inline_storage" "info_new U w state relation = Inr (Some info)"
  shows "length (row_registers (info_row info)) \<le> 192"
  using assms(2) cfi_laws.row_bounded[OF assms(1)]
  by (auto simp: info_new_def Let_def res_simps inline_storage_def split: option.split_asm if_split_asm prod.split_asm)

end
