(* ===== verification/RuntimeFacts.thy ===== *)
theory RuntimeFacts
  imports Runtime SourceFacts
begin

text \<open>
  Facts about the walk: the resume state, what a callback can change, the reason codes, the
  masks the routines are called with, and the two phases of a propagation as walks over the same
  list of frames.
\<close>

section \<open>Resume state\<close>

definition resumable :: "Resume \<Rightarrow> bool" where
  "resumable r = (case r of Normal _ \<Rightarrow> True | ForcedUnwind f \<Rightarrow> forced_stop f \<noteq> 0)"

lemma resume_read_write:
  "resumable r \<Longrightarrow> resume_read exception (resume_write r exception w) = r"
  by (cases r) (auto simp: resume_read_def resume_write_def resume_words_def resumable_def nonzero_def)

lemma resume_write_frame:
  "w_rest (resume_write r exception w) = w_rest w"
  "a \<noteq> exception \<Longrightarrow> w_exception (resume_write r exception w) a = w_exception w a"
  "exception_class (w_exception (resume_write r exception w) a) = exception_class (w_exception w a)"
  "exception_cleanup (w_exception (resume_write r exception w) a) = exception_cleanup (w_exception w a)"
  by (simp_all add: resume_write_def)

section \<open>Writes through a context\<close>

text \<open>The writes whose index is a register number.\<close>

definition decoded :: "writes \<Rightarrow> (u16 \<times> usize) list" where
  "decoded ws = List.map_filter (\<lambda>(index, value). map_option (\<lambda>r. (r, value)) (callback_decode index)) ws"

lemma callback_set_state:
  "callback_cursor (callback_set L cb index value) =
    (case callback_decode index of None \<Rightarrow> callback_cursor cb
     | Some r \<Rightarrow> (callback_cursor cb)\<lparr>cursor_state :=
         put_with (state_write L) (r, value) (cursor_state (callback_cursor cb))\<rparr>)"
  by (auto simp: callback_set_def cursor_write_def put_with_def split: option.splits sum.splits)

lemma callback_writes_cursor:
  "callback_cursor (callback_writes L ws cb) = (callback_cursor cb)\<lparr>cursor_state :=
    fold (put_with (state_write L)) (decoded ws) (cursor_state (callback_cursor cb))\<rparr>"
proof (induction ws arbitrary: cb)
  case Nil
  show ?case by (simp add: callback_writes_def decoded_def map_filter_simps)
next
  case (Cons iv ws)
  obtain i v where iv: "iv = (i, v)" by fastforce
  show ?case
    using Cons.IH[of "callback_set L cb i v"]
    by (cases "callback_decode i")
       (simp_all add: iv callback_writes_def decoded_def map_filter_simps callback_set_state)
qed

text \<open>Every register reads back the last value written to it, the others are untouched.\<close>

lemma callback_writes_read:
  "cursor_read L (callback_cursor (callback_writes L ws cb)) q =
    (case map_of (rev (decoded ws)) q of
       Some v \<Rightarrow> if is_named L q then Inr v else cursor_read L (callback_cursor cb) q
     | None \<Rightarrow> cursor_read L (callback_cursor cb) q)"
  by (simp add: cursor_read_def callback_writes_cursor st.rd_puts split: option.splits)

lemma callback_writes_relation [simp]:
  "cursor_relation (callback_cursor (callback_writes L ws cb)) = cursor_relation (callback_cursor cb)"
  by (simp add: callback_writes_cursor)

section \<open>What the physical walk depends on\<close>

definition same_view :: "'w unwinder \<Rightarrow> 'w \<Rightarrow> 'w \<Rightarrow> bool" where
  "same_view U w w' \<longleftrightarrow> u_image U w = u_image U w' \<and> u_read U w = u_read U w'"

lemma same_view_info:
  assumes "same_view U w w'"
  shows "info_new U w = info_new U w'" "info_personality U w = info_personality U w'"
    "info_caller U w = info_caller U w'" "info_lsda U w = info_lsda U w'"
proof -
  have r: "u_read U w = u_read U w'" and i: "u_image U w = u_image U w'"
    using assms by (simp_all add: same_view_def)
  show "info_new U w = info_new U w'" by (intro ext) (simp only: info_new_def i)
  have p: "pointer_transpose U w = pointer_transpose U w'"
    by (intro ext) (simp add: pointer_transpose_def info_pointer_def info_word_def r cong: option.case_cong Pointer.case_cong)
  show "info_personality U w = info_personality U w'" "info_lsda U w = info_lsda U w'"
    by (intro ext; simp add: info_personality_def info_lsda_def p)+
  have "expr_answer U w = expr_answer U w'" by (intro ext) (simp only: expr_answer_def r)
  then have "expr_body U w = expr_body U w'" by (intro ext) (simp only: expr_body_def)
  then have e: "info_expr U w = info_expr U w'"
    by (intro ext) (simp add: info_expr_def expr_loop_def)
  have reg: "info_register U w = info_register U w'"
    by (intro ext) (simp add: info_register_def r)
  have "apply_rules U w i s cfa c rules = apply_rules U w' i s cfa c rules" for i s cfa c rules
  proof (induction rules arbitrary: c)
    case (Cons rr rules)
    then show ?case by (cases rr) (simp only: apply_rules.simps apply_rule_def e reg)
  qed simp
  then show "info_caller U w = info_caller U w'"
    by (intro ext) (simp only: info_caller_def info_cfa_def e)
qed

lemma same_view_cursor:
  assumes "same_view U w w'"
  shows "cursor_current U w = cursor_current U w'" "cursor_advance U w = cursor_advance U w'"
  by (intro ext; simp add: cursor_current_def cursor_advance_def same_view_info[OF assms])+

section \<open>Reason codes\<close>

lemma map_sum_const: "map_sum (\<lambda>_. c) f x = Inl r \<longleftrightarrow> isl x \<and> r = c"
  by (cases x) auto

lemma search_reasons:
  assumes "walk_search U R exception class cursor w = Some (Inl reason, w')"
  shows "reason \<in> {rc_fatal1, rc_end}"
  using assms unfolding walk_search_def
proof (rule run_loop_invariant[where I = "\<lambda>_. True"])
  fix s
  assume "search_body U R exception class s = Some (Break (Inl reason, w'))"
  then show "reason \<in> {rc_fatal1, rc_end}"
    by (auto simp: search_body_def bind_eq_Some_conv map_sum_const
          split: prod.splits sum.split_asm option.split_asm if_splits)
qed simp_all

lemma install_reasons: "walk_install U cursor info w = Returned reason w' \<Longrightarrow> reason = rc_fatal2"
  by (auto simp: walk_install_def split: sum.splits)

lemma normal_reasons:
  assumes "walk_normal U R exception class handler cursor w = Some (Returned reason w')"
  shows "reason = rc_fatal2"
  using assms unfolding walk_normal_def
proof (rule run_loop_invariant[where I = "\<lambda>_. True"])
  fix s
  assume "normal_body U R exception class handler s = Some (Break (Returned reason w'))"
  then show "reason = rc_fatal2"
    by (auto simp: normal_body_def Let_def bind_eq_Some_conv dest: install_reasons
          split: prod.splits sum.split_asm option.split_asm if_splits)
qed simp_all

lemma raise_reasons:
  assumes "walk_raise U R state exception w = Some (Returned reason w')"
  shows "reason \<in> {rc_fatal1, rc_end, rc_fatal2}"
proof (cases "exception = 0")
  case True
  with assms show ?thesis by (simp add: walk_raise_def)
next
  case False
  with assms obtain found w1 where one: "walk_search U R exception (exception_class (w_exception w exception))
      (walk_cursor (walk_new state exception (exception_class (w_exception w exception)))) w = Some (found, w1)"
    and two: "(case found of Inl reason \<Rightarrow> Some (Returned reason w1)
      | Inr handler \<Rightarrow> run_normal U R (walk_new state exception (exception_class (w_exception w exception)))
          handler (resume_write (Normal handler) exception w1)) = Some (Returned reason w')"
    by (auto simp: walk_raise_def walk_begin_def Let_def bind_eq_Some_conv)
  show ?thesis
  proof (cases found)
    case (Inl e)
    with one two search_reasons show ?thesis by fastforce
  next
    case (Inr key)
    with two have "reason = rc_fatal2" by (auto simp: run_normal_def dest: normal_reasons)
    then show ?thesis by simp
  qed
qed

lemma force_reasons:
  assumes "walk_force U R exception class forced cursor w = Some (Returned reason w')"
  shows "reason \<in> {rc_fatal2, rc_end}"
  using assms unfolding walk_force_def
proof (rule run_loop_invariant[where I = "\<lambda>_. True"])
  fix s
  assume "force_body U R exception class forced s = Some (Break (Returned reason w'))"
  then show "reason \<in> {rc_fatal2, rc_end}"
    by (auto simp: force_body_def Let_def bind_eq_Some_conv dest: install_reasons
          split: prod.splits sum.split_asm option.split_asm if_splits)
qed simp_all

lemma trace_reasons:
  assumes "walk_trace U R state visit parameter w = Some (reason, w')"
  shows "reason \<in> {rc_fatal1, rc_end}"
  using assms unfolding walk_trace_def
proof (rule run_loop_invariant[where I = "\<lambda>_. True"])
  fix s
  assume "trace_body U R visit parameter s = Some (Break (reason, w'))"
  then show "reason \<in> {rc_fatal1, rc_end}"
    by (auto simp: trace_body_def Let_def bind_eq_Some_conv
          split: prod.splits sum.split_asm option.split_asm if_splits)
qed simp_all

section \<open>The masks\<close>

text \<open>Two sets of routines that answer the calls that satisfy \<open>P\<close> alike.\<close>

definition same_personality ::
    "(c_int \<Rightarrow> Actions \<Rightarrow> ExceptionClass \<Rightarrow> usize \<Rightarrow> Callback \<Rightarrow> bool) \<Rightarrow> 'w routines \<Rightarrow> 'w routines \<Rightarrow> bool" where
  "same_personality P R R' \<longleftrightarrow> (\<forall>a v acts cls e cb w. P v acts cls e cb \<longrightarrow>
    r_personality R a v acts cls e cb w = r_personality R' a v acts cls e cb w)"

lemma walk_personality_same:
  assumes "same_personality P R R'"
    "P protocol_version actions class exception \<lparr>callback_cursor = cursor, callback_frame = Some info\<rparr>"
  shows "walk_personality U R cursor exception class info actions w =
    walk_personality U R' cursor exception class info actions w"
  using assms by (auto simp: walk_personality_def same_personality_def with_callback_def Let_def
      split: sum.splits option.splits)

lemma search_masks:
  assumes "same_personality (\<lambda>v acts cls e cb. v = protocol_version \<and> acts = act_search \<and>
    cls = class \<and> e = exception \<and> callback_frame cb \<noteq> None) R R'"
  shows "walk_search U R exception class cursor w = walk_search U R' exception class cursor w"
proof -
  have "search_body U R exception class s = search_body U R' exception class s" for s
    unfolding search_body_def
    by (auto simp: walk_personality_same[OF assms] split: prod.splits sum.splits option.splits)
  then have "search_body U R exception class = search_body U R' exception class" by (rule ext)
  then show ?thesis by (simp add: walk_search_def)
qed

lemma normal_masks:
  assumes "same_personality (\<lambda>v acts cls e cb. v = protocol_version \<and>
    acts = normal_actions (u_lib U) (cursor_key (u_lib U) (callback_cursor cb) = Inr handler) \<and>
    cls = class \<and> e = exception \<and> callback_frame cb \<noteq> None) R R'"
  shows "walk_normal U R exception class handler cursor w = walk_normal U R' exception class handler cursor w"
proof -
  have "normal_body U R exception class handler s = normal_body U R' exception class handler s" for s
    unfolding normal_body_def Let_def
    by (auto simp: walk_personality_same[OF assms] split: prod.splits sum.splits option.splits)
  then have "normal_body U R exception class handler = normal_body U R' exception class handler" by (rule ext)
  then show ?thesis by (simp add: walk_normal_def)
qed

lemma force_masks:
  assumes "same_personality (\<lambda>v acts cls e cb. v = protocol_version \<and>
    acts = actions_or (u_lib U) act_force act_cleanup \<and>
    cls = class \<and> e = exception \<and> callback_frame cb \<noteq> None) R R'" "r_stop R = r_stop R'"
  shows "walk_force U R exception class forced cursor w = walk_force U R' exception class forced cursor w"
proof -
  have p: "walk_personality U R cursor exception class info (actions_or (u_lib U) act_force act_cleanup) w =
      walk_personality U R' cursor exception class info (actions_or (u_lib U) act_force act_cleanup) w"
    for cursor info w by (rule walk_personality_same[OF assms(1)]) simp
  have "force_body U R exception class forced s = force_body U R' exception class forced s" for s
    by (simp only: force_body_def p assms(2))
  then have "force_body U R exception class forced = force_body U R' exception class forced" by (rule ext)
  then show ?thesis by (simp add: walk_force_def)
qed

lemma resume_not_returned: "walk_resume U R state exception w \<noteq> Some (Returned reason w')"
proof -
  have "never_returns r \<noteq> Returned reason w'" for r :: "'a outcome"
    by (cases r) (simp_all add: never_returns_def)
  then show ?thesis
    by (auto simp: walk_resume_def Let_def map_option_case split: option.splits Resume.splits)
qed

end
