(* ===== verification/TwoPhase.thy ===== *)
theory TwoPhase
  imports RuntimeFacts
begin

text \<open>
  The traversals over a physical stack.  \<open>physical\<close> is the list of frames between two cursors;
  a frame is quiet when its personality lets the unwind pass without touching the context.  The
  locale \<open>visited_walk\<close> says that a loop body passes a good frame with an effect on the process,
  \<open>frame_walk\<close> that it does so with none; the interpretations are the bodies of the search, of
  phase two, of forced unwinding and of the backtrace.
\<close>

section \<open>Physical stacks\<close>

inductive physical :: "'w unwinder \<Rightarrow> 'w \<Rightarrow> Cursor \<Rightarrow> (Cursor \<times> Info) list \<Rightarrow> Cursor \<Rightarrow> bool"
  for U w where
  physical_here: "physical U w c [] c"
| physical_up:
    "cursor_current U w c = Inr (Some info) \<Longrightarrow> cursor_advance U w c info = Some (Inr c') \<Longrightarrow>
     physical U w c' fs d \<Longrightarrow> physical U w c ((c, info) # fs) d"

inductive_cases physical_ConsE: "physical U w c (f # fs) d"
inductive_simps physical_Nil [simp]: "physical U w c [] d"
inductive_simps physical_Cons: "physical U w c (f # fs) d"

text \<open>A process has one stack: the frames up to the end are determined by the innermost one.\<close>

lemma physical_unique:
  "physical U w c fs d \<Longrightarrow> cursor_current U w d = Inr None \<Longrightarrow>
    physical U w c fs' d' \<Longrightarrow> cursor_current U w d' = Inr None \<Longrightarrow> fs' = fs \<and> d' = d"
proof (induction arbitrary: fs' rule: physical.induct)
  case (physical_here c)
  then show ?case by (cases fs') (auto simp: physical_Cons)
next
  case (physical_up c info c' fs d)
  then show ?case by (cases fs') (auto simp: physical_Cons)
qed

lemma physical_same_view:
  "physical U w c fs d \<Longrightarrow> same_view U w w' \<Longrightarrow> physical U w' c fs d"
  by (induction rule: physical.induct) (auto intro: physical.intros simp: same_view_cursor)

text \<open>A loop body that passes a good frame with an effect on the process, and from then on sees the
  same stack.\<close>

locale visited_walk =
  fixes U :: "'w unwinder" and w :: 'w and body :: "Cursor \<times> 'w \<Rightarrow> (Cursor \<times> 'w, 'r) flow option"
    and good :: "Cursor \<times> Info \<Rightarrow> bool" and effect :: "Cursor \<times> Info \<Rightarrow> 'w \<Rightarrow> 'w" and P :: "'w \<Rightarrow> bool"
  assumes visits: "P v \<Longrightarrow> cursor_current U w c = Inr (Some info) \<Longrightarrow> good (c, info) \<Longrightarrow>
      cursor_advance U w c info = Some (Inr c') \<Longrightarrow>
      body (c, v) = Some (Continue (c', effect (c, info) v)) \<and> P (effect (c, info) v)"
begin

lemma visits_all:
  "physical U w c fs d \<Longrightarrow> list_all good fs \<Longrightarrow> P v \<Longrightarrow>
    (iterates body)\<^sup>*\<^sup>* (c, v) (d, fold effect fs v) \<and> P (fold effect fs v)"
proof (induction arbitrary: v rule: physical.induct)
  case (physical_up c info c' fs d)
  have v: "body (c, v) = Some (Continue (c', effect (c, info) v))" "P (effect (c, info) v)"
    using visits[OF physical_up.prems(2) physical_up.hyps(1) _ physical_up.hyps(2)] physical_up.prems(1) by simp_all
  then have "iterates body (c, v) (c', effect (c, info) v)" by (simp add: iterates_def)
  with physical_up.IH[OF _ v(2)] physical_up.prems(1) show ?case
    by (simp add: converse_rtranclp_into_rtranclp)
qed simp

lemma visit_result:
  assumes "physical U w c fs d" "list_all good fs" "P v"
  shows "run_loop body (c, v) = run_loop body (d, fold effect fs v)" "P (fold effect fs v)"
  using visits_all[OF assms] by (auto dest: run_loop_iterates)

end

text \<open>The walks that leave the process as it is.\<close>

locale frame_walk =
  fixes U :: "'w unwinder" and w :: 'w and body :: "Cursor \<times> 'w \<Rightarrow> (Cursor \<times> 'w, 'r) flow option"
    and good :: "Cursor \<times> Info \<Rightarrow> bool"
  assumes passes: "cursor_current U w c = Inr (Some info) \<Longrightarrow> good (c, info) \<Longrightarrow>
    cursor_advance U w c info = Some (Inr c') \<Longrightarrow> body (c, w) = Some (Continue (c', w))"

sublocale frame_walk \<subseteq> still: visited_walk U w body good "\<lambda>_ v. v" "\<lambda>v. v = w"
  by unfold_locales (auto simp: passes)

lemma fold_still: "fold (\<lambda>_ v. v) fs v = v"
  by (induction fs) simp_all

context frame_walk begin

lemma walk_result:
  "physical U w c fs d \<Longrightarrow> list_all good fs \<Longrightarrow> run_loop body (c, w) = run_loop body (d, w)"
  using still.visit_result(1)[of c fs d w] by (simp add: fold_still)

end

section \<open>Frames that let the unwind pass\<close>

definition quiet ::
    "'w machine \<Rightarrow> 'w routines \<Rightarrow> usize \<Rightarrow> ExceptionClass \<Rightarrow> Actions \<Rightarrow> 'w world \<Rightarrow> Cursor \<times> Info \<Rightarrow> bool" where
  "quiet U R exception class actions w f \<longleftrightarrow>
    (case f of (c, info) \<Rightarrow> \<exists>reason. (reason = Inr None \<or> reason = Inr (Some rc_continue)) \<and>
       walk_personality U R c exception class info actions w = Some (reason, c, w))"

definition unselected :: "lib \<Rightarrow> Key \<Rightarrow> Cursor \<times> Info \<Rightarrow> bool" where
  "unselected L handler f \<longleftrightarrow> (\<exists>key. cursor_key L (fst f) = Inr key \<and> key \<noteq> handler)"

definition stop_quiet ::
    "'w machine \<Rightarrow> 'w routines \<Rightarrow> usize \<Rightarrow> ExceptionClass \<Rightarrow> Forced \<Rightarrow> 'w world \<Rightarrow> Cursor \<Rightarrow> Info option \<Rightarrow> bool" where
  "stop_quiet U R exception class forced w c info \<longleftrightarrow>
    with_callback (u_lib U) c info (\<lambda>callback.
      r_stop R (forced_stop forced) protocol_version (stop_actions (u_lib U) info) class exception
        callback (forced_parameter forced) w) = Some (rc_none, c, w)"

definition trace_quiet ::
    "'w machine \<Rightarrow> 'w routines \<Rightarrow> usize \<Rightarrow> usize \<Rightarrow> 'w world \<Rightarrow> Cursor \<times> Info \<Rightarrow> bool" where
  "trace_quiet U R visit parameter w f \<longleftrightarrow>
    (case f of (c, info) \<Rightarrow> with_callback (u_lib U) c (Some info) (\<lambda>callback.
       r_trace R visit callback parameter w) = Some (rc_none, c, w))"

lemma reason_distinct [simp]:
  "rc_continue \<noteq> rc_install" "rc_continue \<noteq> rc_handler" "rc_install \<noteq> rc_continue"
  "rc_handler \<noteq> rc_continue" "rc_handler \<noteq> rc_install" "rc_install \<noteq> rc_handler"
  by (simp_all add: reason_defs)

interpretation search_walk: frame_walk U w "search_body U R exception cls"
    "quiet U R exception cls act_search w" for U :: "'w machine" and w and R and exception and cls
  by unfold_locales (auto simp: search_body_def quiet_def)

interpretation normal_walk: frame_walk U w "normal_body U R exception cls handler"
    "\<lambda>f. quiet U R exception cls act_cleanup w f \<and> unselected (u_lib U) handler f"
    for U :: "'w machine" and w and R and exception and cls and handler
  by unfold_locales (auto simp: normal_body_def quiet_def unselected_def normal_actions_def)

interpretation force_walk: frame_walk U w "force_body U R exception cls forced"
    "\<lambda>f. quiet U R exception cls (actions_or (u_lib U) act_force act_cleanup) w f \<and>
      stop_quiet U R exception cls forced w (fst f) (Some (snd f))"
    for U :: "'w machine" and w and R and exception and cls and forced
  by unfold_locales (auto simp: force_body_def quiet_def stop_quiet_def)

interpretation trace_walk: frame_walk U w "trace_body U R visit parameter"
    "trace_quiet U R visit parameter w" for U :: "'w machine" and w and R and visit and parameter
  by unfold_locales (auto simp: trace_body_def trace_quiet_def)

section \<open>The ends of the walks\<close>

lemma search_handler:
  assumes "cursor_current U w c = Inr (Some info)"
    "walk_personality U R c exception class info act_search w = Some (Inr (Some rc_handler), c', w')"
    "cursor_key (u_lib U) c' = Inr key"
  shows "walk_search U R exception class c w = Some (Inr key, w')"
  using assms by (simp add: walk_search_def run_loop_simps(3) search_body_def)

lemma search_end:
  assumes "cursor_current U w c = Inr None"
  shows "walk_search U R exception class c w = Some (Inl rc_end, w)"
  using assms by (simp add: walk_search_def run_loop_simps(3) search_body_def)

lemma normal_install:
  assumes "cursor_current U w c = Inr (Some info)" "cursor_key (u_lib U) c = Inr key"
    "walk_personality U R c exception class info (normal_actions (u_lib U) (key = handler)) w =
      Some (Inr (Some rc_install), c', w')"
  shows "walk_normal U R exception class handler c w = Some (walk_install U c' info w')"
  using assms by (simp add: walk_normal_def run_loop_simps(3) normal_body_def)

lemma force_end:
  assumes "cursor_current U w c = Inr None" "stop_quiet U R exception class forced w c None"
  shows "walk_force U R exception class forced c w = Some (Returned rc_end w)"
  using assms by (simp add: walk_force_def run_loop_simps(3) force_body_def stop_quiet_def)

section \<open>Both phases\<close>

text \<open>
  What a propagation that finds its handler looks like: quiet frames up to the handler's in both
  phases, keys that tell the handler's frame from those before it, a personality that answers
  HANDLER and then INSTALL.
\<close>

record 'w episode =
  ep_frames :: "(Cursor \<times> Info) list"
  ep_cursor :: Cursor
  ep_info :: Info
  ep_key :: Key
  ep_installed :: Cursor
  ep_world :: "'w world"

definition finds_handler ::
    "'w machine \<Rightarrow> 'w routines \<Rightarrow> State \<Rightarrow> usize \<Rightarrow> 'w world \<Rightarrow> 'w episode \<Rightarrow> bool" where
  "finds_handler U R state exception w e \<longleftrightarrow>
    (let class = exception_class (w_exception w exception);
         w2 = resume_write (Normal (ep_key e)) exception w
     in same_view U w w2 \<and>
        physical U w (cursor_new state) (ep_frames e) (ep_cursor e) \<and>
        cursor_current U w (ep_cursor e) = Inr (Some (ep_info e)) \<and>
        cursor_key (u_lib U) (ep_cursor e) = Inr (ep_key e) \<and>
        list_all (quiet U R exception class act_search w) (ep_frames e) \<and>
        walk_personality U R (ep_cursor e) exception class (ep_info e) act_search w =
          Some (Inr (Some rc_handler), ep_cursor e, w) \<and>
        list_all (\<lambda>f. quiet U R exception class act_cleanup w2 f \<and>
          unselected (u_lib U) (ep_key e) f) (ep_frames e) \<and>
        walk_personality U R (ep_cursor e) exception class (ep_info e)
          (actions_or (u_lib U) act_cleanup act_handler) w2 =
          Some (Inr (Some rc_install), ep_installed e, ep_world e))"

lemma raise_two_phase:
  assumes "finds_handler U R state exception w e" "exception \<noteq> 0"
  shows "walk_raise U R state exception w =
    Some (walk_install U (ep_installed e) (ep_info e) (ep_world e))"
proof -
  let ?cls = "exception_class (w_exception w exception)"
  let ?w2 = "resume_write (Normal (ep_key e)) exception w"
  note f = assms(1)[unfolded finds_handler_def Let_def]
  have sv: "same_view U w ?w2" using f by blast
  have one: "walk_search U R exception ?cls (cursor_new state) w = Some (Inr (ep_key e), w)"
    using search_walk.walk_result[of U w "cursor_new state" "ep_frames e" "ep_cursor e" R exception ?cls]
      search_handler[of U w "ep_cursor e" "ep_info e" R exception ?cls "ep_cursor e" w "ep_key e"] f
    by (simp add: walk_search_def)
  have "walk_normal U R exception ?cls (ep_key e) (cursor_new state) ?w2 =
      walk_normal U R exception ?cls (ep_key e) (ep_cursor e) ?w2"
    using normal_walk.walk_result[of U ?w2 "cursor_new state" "ep_frames e" "ep_cursor e" R exception
        ?cls "ep_key e"] f physical_same_view[OF _ sv]
    by (simp add: walk_normal_def)
  also have "\<dots> = Some (walk_install U (ep_installed e) (ep_info e) (ep_world e))"
    using f same_view_cursor(1)[OF sv]
    by (intro normal_install[where key = "ep_key e"]) (auto simp: normal_actions_def)
  finally show ?thesis
    using one assms(2) by (simp add: walk_raise_def walk_begin_def walk_new_def run_normal_def Let_def)
qed

lemma raise_unhandled:
  assumes "physical U w (cursor_new state) fs d" "cursor_current U w d = Inr None" "exception \<noteq> 0"
    "list_all (quiet U R exception (exception_class (w_exception w exception)) act_search w) fs"
  shows "walk_raise U R state exception w = Some (Returned rc_end w)"
  using search_walk.walk_result[OF assms(1,4)] search_end[OF assms(2)] assms(3)
  by (simp add: walk_raise_def walk_begin_def walk_new_def walk_search_def Let_def)

lemma no_writes [simp]: "callback_writes L [] callback = callback"
  by (simp add: callback_writes_def)

text \<open>Every frame lets the unwind pass and every call of the stop function, or of the function of a
  backtrace, has the effect, in any process that comes up; the walk sees the same stack in all.\<close>

definition stop_acts ::
    "'w machine \<Rightarrow> 'w routines \<Rightarrow> usize \<Rightarrow> ExceptionClass \<Rightarrow> Forced \<Rightarrow> ('w world \<Rightarrow> bool)
      \<Rightarrow> (Cursor \<times> Info \<Rightarrow> 'w world \<Rightarrow> 'w world) \<Rightarrow> Cursor \<times> Info \<Rightarrow> bool" where
  "stop_acts U R exception class forced P effect f \<longleftrightarrow>
    (\<forall>v. P v \<longrightarrow> P (effect f v) \<and>
      quiet U R exception class (actions_or (u_lib U) act_force act_cleanup) (effect f v) f \<and>
      with_callback (u_lib U) (fst f) (Some (snd f)) (\<lambda>callback.
        r_stop R (forced_stop forced) protocol_version (stop_actions (u_lib U) (Some (snd f))) class exception
          callback (forced_parameter forced) v) = Some (rc_none, fst f, effect f v))"

definition trace_acts ::
    "lib \<Rightarrow> 'w routines \<Rightarrow> usize \<Rightarrow> usize \<Rightarrow> ('w world \<Rightarrow> bool) \<Rightarrow> (Cursor \<times> Info \<Rightarrow> 'w world \<Rightarrow> 'w world)
      \<Rightarrow> Cursor \<times> Info \<Rightarrow> bool" where
  "trace_acts L R visit parameter P effect f \<longleftrightarrow>
    (\<forall>v. P v \<longrightarrow> P (effect f v) \<and>
      with_callback L (fst f) (Some (snd f)) (\<lambda>callback. r_trace R visit callback parameter v) =
        Some (rc_none, fst f, effect f v))"

interpretation stop_walk: visited_walk U w "force_body U R exception cls forced"
    "stop_acts U R exception cls forced (\<lambda>v. P v \<and> same_view U w v) effect" effect
    "\<lambda>v. P v \<and> same_view U w v"
    for U :: "'w machine" and w and R and exception and cls and forced and effect and P
proof unfold_locales
  fix v c info c'
  assume v: "P v \<and> same_view U w v"
    and at: "cursor_current U w c = Inr (Some info)" "cursor_advance U w c info = Some (Inr c')"
    and good: "stop_acts U R exception cls forced (\<lambda>v. P v \<and> same_view U w v) effect (c, info)"
  let ?v = "effect (c, info) v"
  have e: "P ?v \<and> same_view U w ?v"
    "quiet U R exception cls (actions_or (u_lib U) act_force act_cleanup) ?v (c, info)"
    "with_callback (u_lib U) c (Some info) (\<lambda>callback. r_stop R (forced_stop forced) protocol_version
      (stop_actions (u_lib U) (Some info)) cls exception callback (forced_parameter forced) v) = Some (rc_none, c, ?v)"
    using good v by (simp_all add: stop_acts_def)
  have "cursor_current U v c = Inr (Some info)" "cursor_advance U ?v c info = Some (Inr c')"
    using at same_view_cursor(1)[of U w v] same_view_cursor(2)[of U w ?v] v e(1) by simp_all
  with e show "force_body U R exception cls forced (c, v) = Some (Continue (c', ?v)) \<and> P ?v \<and> same_view U w ?v"
    by (auto simp: force_body_def quiet_def)
qed

interpretation visit_walk: visited_walk U w "trace_body U R visit parameter"
    "trace_acts (u_lib U) R visit parameter (\<lambda>v. P v \<and> same_view U w v) effect" effect "\<lambda>v. P v \<and> same_view U w v"
    for U :: "'w machine" and w and R and visit and parameter and effect and P
proof unfold_locales
  fix v c info c'
  assume v: "P v \<and> same_view U w v"
    and at: "cursor_current U w c = Inr (Some info)" "cursor_advance U w c info = Some (Inr c')"
    and good: "trace_acts (u_lib U) R visit parameter (\<lambda>v. P v \<and> same_view U w v) effect (c, info)"
  let ?v = "effect (c, info) v"
  have e: "P ?v \<and> same_view U w ?v"
    "with_callback (u_lib U) c (Some info) (\<lambda>callback. r_trace R visit callback parameter v) = Some (rc_none, c, ?v)"
    using good v by (simp_all add: trace_acts_def)
  have "cursor_current U v c = Inr (Some info)" "cursor_advance U ?v c info = Some (Inr c')"
    using at same_view_cursor(1)[of U w v] same_view_cursor(2)[of U w ?v] v e(1) by simp_all
  with e show "trace_body U R visit parameter (c, v) = Some (Continue (c', ?v)) \<and> P ?v \<and> same_view U w ?v"
    by (simp add: trace_body_def)
qed

lemma trace_to_end:
  assumes "physical U w (cursor_new state) fs d" "cursor_current U w d = Inr None" "P w"
    "list_all (trace_acts (u_lib U) R visit parameter (\<lambda>v. P v \<and> same_view U w v) effect) fs"
  shows "walk_trace U R state visit parameter w = Some (rc_end, fold effect fs w)"
proof -
  have w: "P w \<and> same_view U w w" using assms(3) by (simp add: same_view_def)
  note r = visit_walk.visit_result[where P = P and effect = effect, OF assms(1,4) w]
  have "cursor_current U (fold effect fs w) d = Inr None"
    using assms(2) r(2) same_view_cursor(1)[of U w "fold effect fs w"] by simp
  then show ?thesis using r(1) by (simp add: walk_trace_def run_loop_simps(3) trace_body_def)
qed

lemma forced_to_end:
  assumes "exception \<noteq> 0" "class = exception_class (w_exception w exception)"
    "forced = \<lparr>forced_stop = stop, forced_parameter = parameter\<rparr>"
    "w2 = resume_write (ForcedUnwind forced) exception w"
    "physical U w2 (cursor_new state) fs d" "cursor_current U w2 d = Inr None" "P w2"
    "list_all (stop_acts U R exception class forced (\<lambda>v. P v \<and> same_view U w2 v) effect) fs"
    "\<And>v. P v \<Longrightarrow> \<exists>c. with_callback (u_lib U) d None (\<lambda>callback. r_stop R stop protocol_version
      (stop_actions (u_lib U) None) class exception callback parameter v) = Some (rc_none, c, finish v)"
  shows "walk_forced U R state exception stop parameter w = Some (Returned rc_end (finish (fold effect fs w2)))"
proof -
  have w: "P w2 \<and> same_view U w2 w2" using assms(7) by (simp add: same_view_def)
  note r = stop_walk.visit_result[where P = P and effect = effect, OF assms(5,8) w]
  let ?v = "fold effect fs w2"
  have "cursor_current U ?v d = Inr None"
    using assms(6) r(2) same_view_cursor(1)[of U w2 ?v] by simp
  then have "force_body U R exception class forced (d, ?v) = Some (Break (Returned rc_end (finish ?v)))"
    using assms(9)[of ?v] r(2) by (auto simp: force_body_def assms(3))
  then have "walk_force U R exception class forced (cursor_new state) w2 = Some (Returned rc_end (finish ?v))"
    using r(1) by (simp add: walk_force_def run_loop_simps(3))
  then show ?thesis
    using assms(1-4) by (simp add: walk_forced_def run_force_def walk_new_def Let_def)
qed

section \<open>The search ends on a stack that grows\<close>

definition stack_pointer :: "lib \<Rightarrow> Cursor \<Rightarrow> usize" where
  "stack_pointer L c = ok_or_zero (cursor_stack L c)"

text \<open>Every routine and every expression comes back, and a caller's stack pointer lies above that
  of the frame it was reconstructed from.\<close>

definition stack_grows ::
    "'w machine \<Rightarrow> 'w routines \<Rightarrow> usize \<Rightarrow> ExceptionClass \<Rightarrow> Cursor \<times> 'w world \<Rightarrow> bool" where
  "stack_grows U R exception class start \<longleftrightarrow>
    (\<forall>c w info. (iterates (search_body U R exception class))\<^sup>*\<^sup>* start (c, w) \<longrightarrow>
      cursor_current U w c = Inr (Some info) \<longrightarrow>
      (\<exists>reason c1 w1. walk_personality U R c exception class info act_search w = Some (reason, c1, w1) \<and>
        (\<exists>r. cursor_advance U w1 c1 info = Some r \<and>
          (\<forall>c2. r = Inr c2 \<longrightarrow> stack_pointer (u_lib U) c < stack_pointer (u_lib U) c2))))"

definition search_measure :: "lib \<Rightarrow> Cursor \<times> 'w world \<Rightarrow> nat" where
  "search_measure L s = 2 ^ 64 - unat (stack_pointer L (fst s))"

interpretation search_loop: bounded_loop "search_body U R exception cls"
    "search_measure (u_lib U)"
    "\<lambda>s. stack_grows U R exception cls start \<and> (iterates (search_body U R exception cls))\<^sup>*\<^sup>* start s"
    for U :: "'w machine" and R and exception and cls and start
proof unfold_locales
  fix s s' :: "Cursor \<times> 'w world"
  assume I: "stack_grows U R exception cls start \<and> (iterates (search_body U R exception cls))\<^sup>*\<^sup>* start s"
  obtain c w where s: "s = (c, w)" by fastforce
  have g: "\<exists>reason c1 w1. walk_personality U R c exception cls info act_search w = Some (reason, c1, w1) \<and>
      (\<exists>r. cursor_advance U w1 c1 info = Some r \<and>
        (\<forall>c2. r = Inr c2 \<longrightarrow> stack_pointer (u_lib U) c < stack_pointer (u_lib U) c2))"
    if "cursor_current U w c = Inr (Some info)" for info
    using I that unfolding s stack_grows_def by blast
  show "search_body U R exception cls s \<noteq> None"
    using g unfolding s search_body_def by (force split: sum.splits option.splits)
  assume go: "search_body U R exception cls s = Some (Continue s')"
  then obtain info reason c1 w1 c2 where
      a: "cursor_current U w c = Inr (Some info)"
      "walk_personality U R c exception cls info act_search w = Some (reason, c1, w1)"
      "cursor_advance U w1 c1 info = Some (Inr c2)" "s' = (c2, w1)"
    by (auto simp: s search_body_def bind_eq_Some_conv split: sum.split_asm option.split_asm if_splits; blast)
  with g[OF a(1)] have "stack_pointer (u_lib U) c < stack_pointer (u_lib U) c2" by fastforce
  then have "search_measure (u_lib U) s' < search_measure (u_lib U) s"
    using a(4) unsigned_less[of "stack_pointer (u_lib U) c", where ?'a = nat]
    by (simp add: s search_measure_def word_less_nat_alt)
  moreover have "iterates (search_body U R exception cls) s s'" using go by (simp add: iterates_def)
  ultimately show "(stack_grows U R exception cls start \<and>
      (iterates (search_body U R exception cls))\<^sup>*\<^sup>* start s') \<and>
      search_measure (u_lib U) s' < search_measure (u_lib U) s"
    using I by (meson rtranclp.rtrancl_into_rtrancl)
qed

section \<open>What is transferred\<close>

text \<open>The registers handed to a landing pad: those of the frame, the stack pointer moved by the
  argument area.\<close>

lemma install_spec:
  assumes "x86_laws (u_lib U)"
  shows "walk_install U c info w =
    (if \<exists>g\<in>set required. slot_get g (cursor_state c) = None then Returned rc_fatal2 w
     else Transferred (projr (state_install (slot_set RSP
       (map_option (\<lambda>sp. sp + row_saved_args_size (info_row info)) (st_rsp (cursor_state c)))
       (cursor_state c)))) w)"
proof -
  let ?s = "cursor_state c"
  have n: "reg_named (u_lib U) (x86_64 (u_lib U) RSP) = Some RSP"
    by (rule x86_laws.reg_named_of[OF assms])
  show ?thesis
  proof (cases "st_rsp ?s")
    case None
    then have "\<exists>g\<in>set required. slot_get g ?s = None" by (auto simp: required_def)
    moreover have "cursor_adjust (u_lib U) c (row_saved_args_size (info_row info)) = Inl (EUnavailable (x86_64 (u_lib U) RSP))"
      using None n by (simp add: cursor_adjust_def state_adjust_def state_read_cases)
    ultimately show ?thesis by (simp add: walk_install_def info_args_def)
  next
    case (Some sp)
    let ?t = "slot_set RSP (Some (sp + row_saved_args_size (info_row info))) ?s"
    have adj: "cursor_adjust (u_lib U) c (row_saved_args_size (info_row info)) = Inr (c\<lparr>cursor_state := ?t\<rparr>)"
      using Some n by (simp add: cursor_adjust_def state_adjust_def state_read_cases state_write_cases)
    have miss: "(\<exists>g\<in>set required. slot_get g ?t = None) \<longleftrightarrow> (\<exists>g\<in>set required. slot_get g ?s = None)"
      using Some by (auto simp: required_def)
    show ?thesis
    proof (cases "state_install ?t")
      case (Inl e)
      with miss have "\<exists>g\<in>set required. slot_get g ?s = None" using state_install_Inl[of ?t e] by simp
      then show ?thesis using adj Inl by (simp add: walk_install_def info_args_def)
    next
      case (Inr regs)
      with miss have "\<not> (\<exists>g\<in>set required. slot_get g ?s = None)"
        using state_install_Inl[of ?t EInstall] by simp
      then show ?thesis using adj Inr Some by (simp add: walk_install_def info_args_def)
    qed
  qed
qed

lemma install_registers:
  assumes "x86_laws (u_lib U)" "walk_install U c info w = Transferred regs w'"
  shows "w' = w \<and> (\<forall>g\<in>set required. slot_get g (cursor_state c) \<noteq> None) \<and>
    (\<forall>g. registers_get g regs = unwrap_or_default (slot_get g (cursor_state c)) +
      (if g = RSP then row_saved_args_size (info_row info) else 0))"
proof -
  let ?s = "cursor_state c"
  let ?t = "slot_set RSP (map_option (\<lambda>sp. sp + row_saved_args_size (info_row info)) (st_rsp ?s)) ?s"
  from assms(2) have all: "\<forall>g\<in>set required. slot_get g ?s \<noteq> None" and w: "w' = w"
    and regs: "regs = projr (state_install ?t)"
    by (auto simp: install_spec[OF assms(1)] split: if_splits)
  then obtain sp where sp: "st_rsp ?s = Some sp" by (auto simp: required_def)
  have "\<not> (\<exists>g\<in>set required. slot_get g ?t = None)" using all sp by (auto simp del: slot_set.simps)
  then obtain i where i: "state_install ?t = Inr i"
    using state_install_Inl[of ?t] by (cases "state_install ?t") auto
  have "registers_get g i = unwrap_or_default (slot_get g ?t)" for g
    by (rule state_install_get[OF i])
  with all w regs i sp show ?thesis by (simp del: slot_set.simps)
qed

end
