(* ===== verification/Example.thy ===== *)
theory Example
  imports TwoPhase
begin

text \<open>
  A concrete process for the witnesses: two frames, the inner one without a personality, the
  outer one with a personality that handles every exception, and a DWARF reader that finds their
  rows.  The inner frame's return address is saved below its frame address; the outer one is the
  end of the stack.
\<close>

lemma ref_numbers:
  "reg_named lib_ref 0 = Some RAX" "reg_named lib_ref 1 = Some RDX"
  "reg_named lib_ref 7 = Some RSP" "reg_named lib_ref 16 = Some RA"
  "x86_64 lib_ref RAX = 0" "x86_64 lib_ref RDX = 1"
  "x86_64 lib_ref RSP = 7" "x86_64 lib_ref RA = 16"
  using ref.reg_named_of[of RAX] ref.reg_named_of[of RDX] ref.reg_named_of[of RSP]
    ref.reg_named_of[of RA]
  by (simp_all add: lib_ref_sel)

definition ex_row :: "(u16 \<times> RegisterRule) list \<Rightarrow> Row" where
  "ex_row rules = \<lparr>row_cfa = RegisterAndOffset 7 8, row_registers = rules, row_saved_args_size = 0\<rparr>"

definition ex_gimli :: gimli where
  "ex_gimli = \<lparr>
    base_default = BaseAddresses 0, base_set_eh_frame = (\<lambda>_ b. b), base_set_text = (\<lambda>_ b. b),
    base_set_got = (\<lambda>_ b. b),
    fde_for_address = (\<lambda>_ _ a. Inr (Fde (if a < 0x2000 then 4 else 5))),
    unwind_info_for_address = (\<lambda>_ _ _ f _. Inr (ex_row
      (if f = Fde 4 then [(16, Offset (- 8))] else [(16, Undefined)]))),
    section_unwind_info = (\<lambda>_ _ _ a. Inr (ex_row
      (if a < 0x2000 then [(16, Offset (- 8))] else [(16, Undefined)]))),
    is_signal_trampoline = (\<lambda>_. False),
    initial_address = (\<lambda>f. if f = Fde 4 then 0x1000 else 0x2000),
    fde_lsda = (\<lambda>_. None),
    fde_personality = (\<lambda>f. if f = Fde 4 then None else Some (Direct 0x5000)),
    expression_get = (\<lambda>_ _. Inr (Expression 0)),
    evaluation_new = (\<lambda>_ _. Evaluation 0),
    evaluate = (\<lambda>e. Inr (e, Complete)),
    resume_with_memory = (\<lambda>e _. Inr (e, Complete)),
    resume_with_register = (\<lambda>e _. Inr (e, Complete)),
    resume_with_call_frame_cfa = (\<lambda>e _. Inr (e, Complete)),
    resume_with_relocated_address = (\<lambda>e _. Inr (e, Complete)),
    as_result = (\<lambda>_. []),
    to_u64 = (\<lambda>_ _. Inr 0)\<rparr>"

interpretation ex_cfi: cfi_laws ex_gimli inline_storage
  by unfold_locales (auto simp: ex_gimli_def ex_row_def inline_storage_def)

definition ex_image :: Image where
  "ex_image = \<lparr>image_eh_frame = [], image_bases = BaseAddresses 0, image_start = 0x1000,
    image_end = 0x3000, image_data = None\<rparr>"

definition ex_machine :: "'w machine" where
  "ex_machine = \<lparr>u_lib = lib_ref, u_gimli = ex_gimli,
    u_image = (\<lambda>_ a. if image_contains ex_image a then Some ex_image else None),
    u_read = (\<lambda>_ a n. if a = 0x7000 \<and> n = 8 then Some 0x2001 else if a = 0x6ff8 \<and> n = 8 then Some 0x1001 else None)\<rparr>"

definition ex_routines :: "'w routines" where
  "ex_routines = \<lparr>
    r_personality = (\<lambda>a v acts cls e cb w.
      if acts = act_search then Some (rc_handler, [], w)
      else if acts = Actions 6 then Some (rc_install, [(0, e), (1, 0), (16, 0x2100)], w)
      else Some (rc_continue, [], w)),
    r_stop = (\<lambda>a v acts cls e cb p w. Some (rc_none, [], w)),
    r_trace = (\<lambda>a cb p w. Some (rc_none, [], w)),
    r_cleanup = (\<lambda>a r e w. Some w)\<rparr>"

text \<open>The same without a handler: every personality lets the unwind pass.\<close>

definition ex_passing :: "'w routines" where
  "ex_passing = ex_routines\<lparr>r_personality := (\<lambda>a v acts cls e cb w. Some (rc_continue, [], w))\<rparr>"

definition ex_state :: State where
  "ex_state = captured (registers_zeroed\<lparr>reg_rsp := 0x7000, reg_ra := 0x1001\<rparr>)"

definition ex_world :: "unit world" where
  "ex_world = \<lparr>w_exception = (\<lambda>_. exception_new (ExceptionClass 0) None), w_rest = ()\<rparr>"

definition ex_info :: "nat \<Rightarrow> usize \<Rightarrow> Info" where
  "ex_info n ip = \<lparr>info_image = ex_image, info_fde = Fde n,
    info_row = ex_row (if n = 4 then [(16, Offset (- 8))] else [(16, Undefined)]),
    info_instruction = ip\<rparr>"

definition ex_frame :: "usize \<Rightarrow> usize option \<Rightarrow> Cursor" where
  "ex_frame sp ra = cursor_new (slot_set RSP (Some sp) (slot_set RA ra ex_state))"

section \<open>The walk over its frames\<close>

lemma ex_sel:
  "u_lib ex_machine = lib_ref" "u_gimli ex_machine = ex_gimli"
  by (simp_all add: ex_machine_def)

lemma ex_same_view: "same_view ex_machine w w'"
  by (simp add: same_view_def ex_machine_def)

lemma ex_start: "cursor_new ex_state = ex_frame 0x7000 (Some 0x1001)"
  by (simp add: ex_frame_def ex_state_def captured_def registers_zeroed_def)

lemma ex_current:
  "cursor_current ex_machine w (ex_frame sp (Some 0x1001)) = Inr (Some (ex_info 4 0x1000))"
  "cursor_current ex_machine w (ex_frame sp (Some 0x2001)) = Inr (Some (ex_info 5 0x2000))"
  "cursor_current ex_machine w (ex_frame sp None) = Inr None"
  by (simp_all add: cursor_current_def info_new_def ex_frame_def cursor_new_def state_ip_def
      checked_sub_def ex_machine_def image_contains_def ex_image_def ex_gimli_def cfi_row_def
      ex_info_def)

lemma ex_read: "state_read lib_ref (cursor_state (ex_frame sp ra)) 7 = Inr sp"
  by (simp add: state_read_cases ref_numbers ex_frame_def cursor_new_def)

lemma ex_key: "cursor_key lib_ref (ex_frame sp ra) = Inr (Key sp)"
  using ex_read by (simp add: cursor_key_def state_stack_def ref_numbers)
    (simp add: ex_frame_def cursor_new_def relation_before_def)

lemma ex_advance:
  "cursor_advance ex_machine w (ex_frame 0x7000 ra) (ex_info 4 ip) = Some (Inr (ex_frame 0x7008 (Some 0x2001)))"
  "cursor_advance ex_machine w (ex_frame sp ra) (ex_info 5 ip) = Some (Inr (ex_frame (sp + 8) None))"
  "cursor_advance ex_machine w (ex_frame 0x6ff8 ra) (ex_info 4 ip) = Some (Inr (ex_frame 0x7000 (Some 0x1001)))"
  using ex_read[of "0x7000" ra] ex_read[of sp ra] ex_read[of "0x6ff8" ra]
  by (simp_all add: cursor_advance_def info_caller_def info_cfa_def ex_info_def ex_row_def ex_sel
      state_write_cases ref_numbers apply_rule_def info_register_def state_width_def ex_machine_def
      next_relation_def info_signal_def ex_gimli_def)
     (simp_all add: ex_frame_def cursor_new_def slot_set_swap)

lemma ex_personality:
  "info_personality ex_machine w (ex_info 4 ip) = Inr None"
  "info_personality ex_machine w (ex_info 5 ip) = Inr (Some 0x5000)"
  by (simp_all add: info_personality_def ex_sel ex_gimli_def ex_info_def pointer_transpose_def
      info_pointer_def)

lemma ex_physical:
  "physical ex_machine w (ex_frame 0x7000 (Some 0x1001)) [(ex_frame 0x7000 (Some 0x1001), ex_info 4 0x1000)]
    (ex_frame 0x7008 (Some 0x2001))"
  by (rule physical_up[OF ex_current(1) ex_advance(1) physical_here])

lemma ex_physical_all:
  "physical ex_machine w (ex_frame 0x7000 (Some 0x1001))
    [(ex_frame 0x7000 (Some 0x1001), ex_info 4 0x1000), (ex_frame 0x7008 (Some 0x2001), ex_info 5 0x2000)]
    (ex_frame 0x7010 None)"
  using physical_up[OF ex_current(2) ex_advance(2) physical_here, of w "0x7008"]
  by (intro physical_up[OF ex_current(1) ex_advance(1)]) simp

end
