(* ===== verification/UnwindProps.thy ===== *)
theory UnwindProps
  imports Example
begin

text \<open>
  The properties of the physical unwinder and of the Level I runtime, with witnesses on the
  process of theory \<open>Example\<close>.
\<close>

section \<open>Registers and callers\<close>

text \<open>What a routine writes through its context is what it reads back: the last value written
  under a register's number, for the numbers that name a register; every other register and the
  relation of the instruction pointer are untouched.\<close>

theorem context_writes_read:
  "cursor_read L (callback_cursor (callback_writes L ws cb)) q =
    (case map_of (rev (decoded ws)) q of
       Some v \<Rightarrow> if is_named L q then Inr v else cursor_read L (callback_cursor cb) q
     | None \<Rightarrow> cursor_read L (callback_cursor cb) q) \<and>
   cursor_relation (callback_cursor (callback_writes L ws cb)) = cursor_relation (callback_cursor cb)"
  by (simp add: callback_writes_read)

text \<open>C11. A transfer of control happens only when every register the ABI needs is available; the
  registers transferred are then those of the frame, the unavailable volatile ones zero, with the
  stack pointer moved by the size of the argument area.\<close>

theorem install_complete:
  assumes "x86_laws (u_lib U)" "walk_install U c info w = Transferred regs w'"
  shows "w' = w \<and> (\<forall>g\<in>set required. slot_get g (cursor_state c) \<noteq> None) \<and>
    (\<forall>g. registers_get g regs = unwrap_or_default (slot_get g (cursor_state c)) +
      (if g = RSP then row_saved_args_size (info_row info) else 0))"
  by (rule install_registers[OF assms])

definition ex_landing :: Cursor where
  "ex_landing = (ex_frame 0x7008 (Some 0x2100))\<lparr>cursor_state :=
    slot_set RAX (Some 0x9000) (slot_set RDX (Some 0) (cursor_state (ex_frame 0x7008 (Some 0x2100))))\<rparr>"

definition ex_transfer :: Registers where
  "ex_transfer = registers_zeroed\<lparr>reg_rax := 0x9000, reg_rsp := 0x7008, reg_ra := 0x2100\<rparr>"

lemma ex_landing_state:
  "cursor_state ex_landing = ex_state\<lparr>st_rax := Some 0x9000, st_rdx := Some 0, st_rsp := Some 0x7008,
    st_ra := Some 0x2100\<rparr>"
  by (simp add: ex_landing_def ex_frame_def cursor_new_def)

lemma ex_install:
  "walk_install ex_machine ex_landing (ex_info 5 0x2000) w = Transferred ex_transfer w"
  by (subst install_spec)
     (simp_all add: ex_sel ref.x86_laws_axioms ex_landing_state required_def ex_state_def captured_def
       registers_zeroed_def ex_info_def ex_row_def state_install_def ex_transfer_def)

theorem install_complete_witness:
  "registers_get RSP ex_transfer = 0x7008 \<and> slot_get RBX (cursor_state ex_landing) \<noteq> None"
  using install_complete[OF _ ex_install] ref.x86_laws_axioms
  by (simp add: ex_sel required_def ex_landing_state ex_info_def ex_row_def)

text \<open>C5. The caller's registers are the callee's under a simultaneous assignment: every rule of the
  row is evaluated in the callee's registers and at the same frame address, the stack pointer is
  that address, the return address is lost unless a rule restores it, and a register without a
  rule keeps its value.\<close>

theorem caller_simultaneous:
  assumes "x86_laws (u_lib U)" "info_caller U w info registers = Some (Inr caller)"
    "distinct (map fst (row_registers (info_row info)))"
  shows "\<exists>cfa. info_cfa U w info registers = Some (Inr cfa) \<and>
    (\<forall>q. state_read (u_lib U) caller q =
      (case map_of (row_registers (info_row info)) q of
         Some rule \<Rightarrow> (case rule_value U w info registers cfa q rule of
           Some (Inr (Some x)) \<Rightarrow> Inr x | _ \<Rightarrow> Inl (EUnavailable q))
       | None \<Rightarrow> if q = x86_64 (u_lib U) RSP then Inr cfa
                 else if q = x86_64 (u_lib U) RA then Inl (EUnavailable q)
                 else state_read (u_lib U) registers q))"
  by (rule info_caller_read[OF assms])

lemma ex_caller:
  "info_caller ex_machine w (ex_info 4 0x1000) ex_state =
    Some (Inr (cursor_state (ex_frame 0x7008 (Some 0x2001))))"
proof -
  have "cursor_state (ex_frame 0x7000 (Some 0x1001)) = ex_state"
    by (simp add: ex_start[symmetric] cursor_new_def)
  then show ?thesis
    using ex_advance(1)[of w "Some 0x1001" "0x1000"]
    by (auto simp: cursor_advance_def res_simps dest: arg_cong[where f = cursor_state])
qed

theorem caller_simultaneous_witness:
  "\<exists>cfa. info_cfa ex_machine ex_world (ex_info 4 0x1000) ex_state = Some (Inr cfa) \<and>
    state_read lib_ref (cursor_state (ex_frame 0x7008 (Some 0x2001))) 7 = Inr cfa"
proof -
  have "x86_laws (u_lib ex_machine)" using ref.x86_laws_axioms by (simp add: ex_sel)
  from caller_simultaneous[OF this ex_caller, of ex_world] obtain cfa where
    cfa: "info_cfa ex_machine ex_world (ex_info 4 0x1000) ex_state = Some (Inr cfa)" and
    "\<forall>q. state_read lib_ref (cursor_state (ex_frame 0x7008 (Some 0x2001))) q =
      (case map_of (row_registers (info_row (ex_info 4 0x1000))) q of
         Some rule \<Rightarrow> (case rule_value ex_machine ex_world (ex_info 4 0x1000) ex_state cfa q rule of
           Some (Inr (Some x)) \<Rightarrow> Inr x | _ \<Rightarrow> Inl (EUnavailable q))
       | None \<Rightarrow> if q = x86_64 lib_ref RSP then Inr cfa
                 else if q = x86_64 lib_ref RA then Inl (EUnavailable q)
                 else state_read lib_ref ex_state q)"
    by (auto simp: ex_info_def ex_row_def ex_sel)
  from this(2)[THEN spec, of 7] cfa show ?thesis
    by (simp add: ex_info_def ex_row_def ref_numbers)
qed

text \<open>A step of the public cursor is a lookup of the current frame followed by an advance past
  it, and reports that frame's instruction and stack pointer; at the end of the stack it changes
  nothing.\<close>

theorem step_is_lookup_and_advance:
  "cursor_step U w c =
    run_then (Some (cursor_current U w c)) (\<lambda>info. case info of
       None \<Rightarrow> Some (Inr (None, c))
     | Some info \<Rightarrow>
         run_then (Some (cursor_stack (u_lib U) c)) (\<lambda>sp.
         run_then (cursor_advance U w c info) (\<lambda>c'.
           Some (Inr (Some \<lparr>frame_ip = info_instruction info, frame_sp = sp\<rparr>, c')))))"
  by (rule cursor_step_split)

section \<open>The runtime\<close>

text \<open>Resume state survives in the exception's private words, whatever was there before, as long
  as a forced unwind has a stop function; the class and the cleanup function of the exception and
  all other exceptions are untouched.\<close>

theorem resume_roundtrip:
  assumes "resumable r"
  shows "resume_read exception (resume_write r exception w) = r \<and>
    w_rest (resume_write r exception w) = w_rest w \<and>
    exception_class (w_exception (resume_write r exception w) a) = exception_class (w_exception w a) \<and>
    exception_cleanup (w_exception (resume_write r exception w) a) = exception_cleanup (w_exception w a) \<and>
    (a \<noteq> exception \<longrightarrow> w_exception (resume_write r exception w) a = w_exception w a)"
  using assms by (simp add: resume_read_write resume_write_frame)

theorem resume_roundtrip_witness:
  "resume_read 0x9000 (resume_write (ForcedUnwind \<lparr>forced_stop = 1, forced_parameter = 2\<rparr>) 0x9000 ex_world) =
    ForcedUnwind \<lparr>forced_stop = 1, forced_parameter = 2\<rparr>"
  using resume_roundtrip[of "ForcedUnwind \<lparr>forced_stop = 1, forced_parameter = 2\<rparr>" "0x9000" ex_world]
  by (simp add: resumable_def)

text \<open>The search phase calls personalities only with the SEARCH action, the protocol version, the
  exception's own class and address and a frame: it cannot tell apart routines that agree on
  those calls.\<close>

theorem search_only_searches:
  assumes "same_personality (\<lambda>v acts cls e cb. v = protocol_version \<and> acts = act_search \<and>
    cls = class \<and> e = exception \<and> callback_frame cb \<noteq> None) R R'"
  shows "walk_search U R exception class cursor w = walk_search U R' exception class cursor w"
  by (rule search_masks[OF assms])

definition ex_search_only :: "unit routines" where
  "ex_search_only = ex_routines\<lparr>r_personality := (\<lambda>a v acts cls e cb w.
    if acts = act_search then r_personality ex_routines a v acts cls e cb w else None)\<rparr>"

theorem search_only_searches_witness:
  "walk_search ex_machine ex_routines 0x9000 (ExceptionClass 0) (cursor_new ex_state) ex_world =
    walk_search ex_machine ex_search_only 0x9000 (ExceptionClass 0) (cursor_new ex_state) ex_world"
  by (rule search_only_searches) (simp add: same_personality_def ex_search_only_def)

text \<open>C1. A propagation whose search finds a handler ends in the landing pad of that very frame: the
  frames before it are passed in both phases, the frame is asked again with CLEANUP and HANDLER,
  and the cursor that its personality leaves behind is installed, with the frame's key saved in
  the exception.\<close>

theorem two_phase_reaches_handler:
  assumes "finds_handler U R state exception w e" "exception \<noteq> 0"
  shows "walk_raise U R state exception w =
    Some (walk_install U (ep_installed e) (ep_info e) (ep_world e))"
  by (rule raise_two_phase[OF assms])

definition ex_installed_world :: "'w world \<Rightarrow> 'w world" where
  "ex_installed_world w = resume_write (Normal (Key 0x7008)) 0x9000 w"

definition ex_episode :: "'w world \<Rightarrow> 'w episode" where
  "ex_episode w = \<lparr>ep_frames = [(ex_frame 0x7000 (Some 0x1001), ex_info 4 0x1000)],
    ep_cursor = ex_frame 0x7008 (Some 0x2001), ep_info = ex_info 5 0x2000, ep_key = Key 0x7008,
    ep_installed = ex_landing, ep_world = ex_installed_world w\<rparr>"

lemma ex_writes:
  "callback_cursor (callback_writes lib_ref [(0, 0x9000), (1, 0), (16, 0x2100)]
    \<lparr>callback_cursor = ex_frame 0x7008 (Some 0x2001), callback_frame = f\<rparr>) = ex_landing"
  by (simp add: callback_writes_def callback_set_def callback_decode_def cursor_write_def
      state_write_cases ref_numbers ex_landing_def ex_frame_def cursor_new_def)

lemma ex_calls:
  "walk_personality ex_machine ex_routines (ex_frame 0x7008 (Some 0x2001)) 0x9000 cls (ex_info 5 0x2000)
    act_search w = Some (Inr (Some rc_handler), ex_frame 0x7008 (Some 0x2001), w)"
  "walk_personality ex_machine ex_routines (ex_frame 0x7008 (Some 0x2001)) 0x9000 cls (ex_info 5 0x2000)
    (Actions 6) w = Some (Inr (Some rc_install), ex_landing, w)"
  by (simp_all add: walk_personality_def ex_personality nonzero_def with_callback_def ex_routines_def
      callback_writes_def[of _ "[]"] ex_sel ex_writes act_search_def)

lemma ex_handler_mask: "actions_or lib_ref act_cleanup act_handler = Actions 6"
  by (simp add: ref.actions_or_eq action_defs)

lemma ex_quiet: "quiet ex_machine R e cls acts w (c, ex_info 4 ip)"
  by (simp add: quiet_def walk_personality_def ex_personality)

lemma ex_finds: "finds_handler ex_machine ex_routines ex_state 0x9000 w (ex_episode w)"
  using ex_physical[of w] ex_calls[of _ w] ex_calls(2)[of _ "ex_installed_world w"]
  by (simp add: finds_handler_def ex_episode_def ex_start ex_current ex_sel ex_key ex_quiet
      unselected_def ex_handler_mask ex_installed_world_def[symmetric] ex_same_view)

lemma ex_raise:
  "walk_raise ex_machine ex_routines ex_state 0x9000 w = Some (Transferred ex_transfer (ex_installed_world w))"
  using raise_two_phase[OF ex_finds, of w] by (simp add: ex_episode_def ex_install)

theorem two_phase_reaches_handler_witness:
  "walk_raise ex_machine ex_routines ex_state 0x9000 ex_world =
    Some (Transferred ex_transfer (ex_installed_world ex_world))"
  using two_phase_reaches_handler[OF ex_finds[of ex_world]]
  by (simp add: ex_episode_def ex_install)

text \<open>C10. The masks of phase two, as numbers: a personality is called with CLEANUP and HANDLER (6) at the
  frame that phase one selected and with CLEANUP alone (2) at every other, the protocol version, the
  exception's class and address and a frame, so phase two cannot tell apart routines that agree on
  those calls.  These calls are made: what a personality leaves behind that answers the mask of its
  frame with INSTALL is installed, and at the selected frame, asked with 6, CONTINUE is an error
  where at any other frame, asked with 2, it lets the walk go on to the caller.\<close>

theorem handler_only_at_selected_frame:
  assumes "bits_laws (u_lib U)"
  shows "(same_personality (\<lambda>v acts cls e cb. v = 1 \<and>
        acts = (if cursor_key (u_lib U) (callback_cursor cb) = Inr handler then Actions 6 else Actions 2) \<and>
        cls = class \<and> e = exception \<and> callback_frame cb \<noteq> None) R R' \<longrightarrow>
      walk_normal U R exception class handler cursor w = walk_normal U R' exception class handler cursor w) \<and>
    (cursor_current U w cursor = Inr (Some info) \<and> cursor_key (u_lib U) cursor = Inr key \<longrightarrow>
      (walk_personality U R cursor exception class info (if key = handler then Actions 6 else Actions 2) w =
          Some (Inr (Some rc_install), cursor', w') \<longrightarrow>
        walk_normal U R exception class handler cursor w = Some (walk_install U cursor' info w')) \<and>
      (key = handler \<and> walk_personality U R cursor exception class info (Actions 6) w =
          Some (Inr (Some rc_continue), cursor', w') \<longrightarrow>
        walk_normal U R exception class handler cursor w = Some (Returned rc_fatal2 w')) \<and>
      (key \<noteq> handler \<and> walk_personality U R cursor exception class info (Actions 2) w =
          Some (Inr (Some rc_continue), cursor', w') \<and> cursor_advance U w' cursor' info = Some (Inr caller) \<longrightarrow>
        walk_normal U R exception class handler cursor w = walk_normal U R exception class handler caller w'))"
proof -
  have mask: "normal_actions (u_lib U) selected = (if selected then Actions 6 else Actions 2)" for selected
    by (simp add: normal_actions_def bits_laws.actions_or_eq[OF assms] action_defs)
  show ?thesis
    using normal_masks[of U handler "class" exception R R' cursor w]
    by (auto simp: mask protocol_version_def walk_normal_def run_loop_simps(2,3) normal_body_def)
qed

definition ex_masked :: "unit routines" where
  "ex_masked = ex_routines\<lparr>r_personality := (\<lambda>a v acts cls e cb w.
    if acts = (if cursor_key lib_ref (callback_cursor cb) = Inr (Key 0x7008) then Actions 6 else Actions 2)
    then r_personality ex_routines a v acts cls e cb w else None)\<rparr>"

lemma ex_masked_call:
  "walk_personality ex_machine ex_masked (ex_frame 0x7008 (Some 0x2001)) 0x9000 cls (ex_info 5 0x2000)
    (Actions 6) w = Some (Inr (Some rc_install), ex_landing, w)"
  using ex_calls(2)[of cls w]
  by (simp add: walk_personality_def ex_personality nonzero_def with_callback_def ex_masked_def ex_sel ex_key)

theorem handler_only_at_selected_frame_witness:
  "walk_normal ex_machine ex_routines 0x9000 (ExceptionClass 0) (Key 0x7008) (cursor_new ex_state) ex_world =
      walk_normal ex_machine ex_masked 0x9000 (ExceptionClass 0) (Key 0x7008) (cursor_new ex_state) ex_world \<and>
    walk_normal ex_machine ex_masked 0x9000 (ExceptionClass 0) (Key 0x7008) (ex_frame 0x7008 (Some 0x2001)) ex_world =
      Some (Transferred ex_transfer ex_world)"
proof -
  have "walk_normal ex_machine ex_masked 0x9000 (ExceptionClass 0) (Key 0x7008) (ex_frame 0x7008 (Some 0x2001)) ex_world =
      Some (walk_install ex_machine ex_landing (ex_info 5 0x2000) ex_world)"
    using handler_only_at_selected_frame[of ex_machine "Key 0x7008" "ExceptionClass 0" "0x9000" ex_masked ex_masked
        "ex_frame 0x7008 (Some 0x2001)" ex_world "ex_info 5 0x2000" "Key 0x7008" ex_landing ex_world]
    by (simp add: ex_sel ref.bits_laws_axioms ex_current ex_key ex_masked_call)
  moreover have "same_personality (\<lambda>v acts cls e cb. v = 1 \<and>
      acts = (if cursor_key (u_lib ex_machine) (callback_cursor cb) = Inr (Key 0x7008) then Actions 6 else Actions 2) \<and>
      cls = ExceptionClass 0 \<and> e = 0x9000 \<and> callback_frame cb \<noteq> None) ex_routines ex_masked"
    by (simp add: same_personality_def ex_masked_def ex_sel)
  then have "walk_normal ex_machine ex_routines 0x9000 (ExceptionClass 0) (Key 0x7008) (cursor_new ex_state) ex_world =
      walk_normal ex_machine ex_masked 0x9000 (ExceptionClass 0) (Key 0x7008) (cursor_new ex_state) ex_world"
    using handler_only_at_selected_frame[of ex_machine "Key 0x7008" "ExceptionClass 0" "0x9000" ex_routines ex_masked]
    by (simp add: ex_sel ref.bits_laws_axioms)
  ultimately show ?thesis by (simp add: ex_install)
qed

text \<open>C21. When every frame lets the search pass and the stack ends, raising returns END_OF_STACK, no
  cleanup has run and the exception is untouched.\<close>

theorem unhandled_returns_end:
  assumes "physical U w (cursor_new state) fs d" "cursor_current U w d = Inr None" "exception \<noteq> 0"
    "list_all (quiet U R exception (exception_class (w_exception w exception)) act_search w) fs"
  shows "walk_raise U R state exception w = Some (Returned rc_end w)"
  by (rule raise_unhandled[OF assms])

abbreviation ex_stack :: "(Cursor \<times> Info) list" where
  "ex_stack \<equiv> [(ex_frame 0x7000 (Some 0x1001), ex_info 4 0x1000), (ex_frame 0x7008 (Some 0x2001), ex_info 5 0x2000)]"

lemma ex_passing_quiet:
  "quiet ex_machine ex_passing e cls acts w (ex_frame sp ra, ex_info 5 ip)"
  by (simp add: quiet_def walk_personality_def ex_personality nonzero_def with_callback_def
      ex_passing_def callback_writes_def)

theorem unhandled_returns_end_witness:
  "walk_raise ex_machine ex_passing ex_state 0x9000 ex_world = Some (Returned rc_end ex_world)"
  by (rule unhandled_returns_end[where d = "ex_frame 0x7010 None" and fs = ex_stack])
     (use ex_physical_all[of ex_world] in \<open>simp_all add: ex_start ex_current ex_quiet ex_passing_quiet\<close>)

lemma rethrow_reasons:
  assumes "walk_rethrow U R state exception w = Some (Returned reason w')"
  shows "reason \<in> (case resume_read exception w of
    Normal _ \<Rightarrow> {rc_fatal1, rc_end, rc_fatal2} | ForcedUnwind _ \<Rightarrow> {rc_fatal2, rc_end})"
proof (cases "exception = 0")
  case True
  with assms show ?thesis by (auto simp: walk_rethrow_def split: Resume.split)
next
  case False
  with assms show ?thesis
    using raise_reasons[of U R state exception w reason w']
    by (cases "resume_read exception w")
       (auto simp: walk_rethrow_def walk_raise_def run_force_def dest: force_reasons)
qed

text \<open>C24. The reason codes of every entry that returns one: raising an exception returns only with
  FATAL_PHASE1, END_OF_STACK or FATAL_PHASE2, a forced unwind only with FATAL_PHASE2 or
  END_OF_STACK, a rethrow with what a raise returns, or a forced unwind where the exception is under
  one, a backtrace only with FATAL_PHASE1 or END_OF_STACK, and a resumption never returns.\<close>

theorem reason_codes:
  "(walk_raise U R state exception w = Some (Returned reason w') \<longrightarrow>
      reason \<in> {rc_fatal1, rc_end, rc_fatal2}) \<and>
   (walk_forced U R state exception stop parameter w = Some (Returned reason w') \<longrightarrow>
      reason \<in> {rc_fatal2, rc_end}) \<and>
   (walk_rethrow U R state exception w = Some (Returned reason w') \<longrightarrow>
      reason \<in> (case resume_read exception w of
        Normal _ \<Rightarrow> {rc_fatal1, rc_end, rc_fatal2} | ForcedUnwind _ \<Rightarrow> {rc_fatal2, rc_end})) \<and>
   (walk_trace U R state visit parameter w = Some (reason, w') \<longrightarrow> reason \<in> {rc_fatal1, rc_end}) \<and>
   walk_resume U R state exception w \<noteq> Some (Returned reason w')"
proof (intro conjI impI)
  assume "walk_raise U R state exception w = Some (Returned reason w')"
  then show "reason \<in> {rc_fatal1, rc_end, rc_fatal2}" by (rule raise_reasons)
next
  assume "walk_forced U R state exception stop parameter w = Some (Returned reason w')"
  then show "reason \<in> {rc_fatal2, rc_end}"
    by (auto simp: walk_forced_def run_force_def Let_def dest: force_reasons split: if_splits)
next
  assume "walk_rethrow U R state exception w = Some (Returned reason w')"
  then show "reason \<in> (case resume_read exception w of
      Normal _ \<Rightarrow> {rc_fatal1, rc_end, rc_fatal2} | ForcedUnwind _ \<Rightarrow> {rc_fatal2, rc_end})"
    by (rule rethrow_reasons)
next
  assume "walk_trace U R state visit parameter w = Some (reason, w')"
  then show "reason \<in> {rc_fatal1, rc_end}" by (rule trace_reasons)
next
  show "walk_resume U R state exception w \<noteq> Some (Returned reason w')" by (rule resume_not_returned)
qed

text \<open>A rethrow of an exception that no frame handles returns END_OF_STACK, one of an exception under a
  forced unwind, whose stop function refuses, FATAL_PHASE2.\<close>

definition ex_refusing :: "unit routines" where
  "ex_refusing = ex_passing\<lparr>r_stop := (\<lambda>a v acts cls e cb p w. Some (rc_continue, [], w))\<rparr>"

lemma ex_rethrown:
  "walk_rethrow ex_machine ex_passing ex_state 0x9000 ex_world = Some (Returned rc_end ex_world)"
  "walk_rethrow ex_machine ex_refusing ex_state 0x9000
      (resume_write (ForcedUnwind \<lparr>forced_stop = 1, forced_parameter = 2\<rparr>) 0x9000 ex_world) =
    Some (Returned rc_fatal2 (resume_write (ForcedUnwind \<lparr>forced_stop = 1, forced_parameter = 2\<rparr>) 0x9000 ex_world))"
proof -
  have "walk_raise ex_machine ex_passing ex_state 0x9000 ex_world = Some (Returned rc_end ex_world)"
    by (rule raise_unhandled[where d = "ex_frame 0x7010 None" and fs = ex_stack])
       (use ex_physical_all[of ex_world] in \<open>simp_all add: ex_start ex_current ex_quiet ex_passing_quiet\<close>)
  then show "walk_rethrow ex_machine ex_passing ex_state 0x9000 ex_world = Some (Returned rc_end ex_world)"
    by (simp add: walk_rethrow_def walk_raise_def resume_read_def ex_world_def exception_new_def private_words_def nonzero_def)
  show "walk_rethrow ex_machine ex_refusing ex_state 0x9000
      (resume_write (ForcedUnwind \<lparr>forced_stop = 1, forced_parameter = 2\<rparr>) 0x9000 ex_world) =
    Some (Returned rc_fatal2 (resume_write (ForcedUnwind \<lparr>forced_stop = 1, forced_parameter = 2\<rparr>) 0x9000 ex_world))"
    by (simp add: walk_rethrow_def resume_read_write resumable_def run_force_def walk_new_def walk_force_def
        run_loop_simps(3) force_body_def ex_start ex_current with_callback_def ex_refusing_def reason_defs)
qed

theorem reason_codes_witness:
  "walk_rethrow ex_machine ex_passing ex_state 0x9000 ex_world = Some (Returned rc_end ex_world) \<and>
    rc_end \<in> {rc_fatal1, rc_end, rc_fatal2} \<and>
    walk_rethrow ex_machine ex_refusing ex_state 0x9000
        (resume_write (ForcedUnwind \<lparr>forced_stop = 1, forced_parameter = 2\<rparr>) 0x9000 ex_world) \<noteq>
      Some (Returned rc_fatal1 ex_world)"
  using ex_rethrown reason_codes[of ex_machine ex_passing ex_state "0x9000" ex_world rc_end ex_world]
    reason_codes[of ex_machine ex_refusing ex_state "0x9000"
      "resume_write (ForcedUnwind \<lparr>forced_stop = 1, forced_parameter = 2\<rparr>) 0x9000 ex_world" rc_fatal1 ex_world]
  by (auto simp: resume_read_write resumable_def reason_defs)

text \<open>C22. A forced unwind asks its stop function at every frame, in order and once each, with FORCE and
  CLEANUP, and once more beyond the last frame with END added; when all let it pass it returns
  END_OF_STACK, and the process is as those calls leave it, one after the other, with the stop
  function recorded in the exception.\<close>

theorem forced_unwind_visits_all:
  assumes "exception \<noteq> 0" "class = exception_class (w_exception w exception)"
    "forced = \<lparr>forced_stop = stop, forced_parameter = parameter\<rparr>"
    "w2 = resume_write (ForcedUnwind forced) exception w"
    "physical U w2 (cursor_new state) fs d" "cursor_current U w2 d = Inr None" "P w2"
    "list_all (stop_acts U R exception class forced (\<lambda>v. P v \<and> same_view U w2 v) effect) fs"
    "\<And>v. P v \<Longrightarrow> \<exists>c. with_callback (u_lib U) d None (\<lambda>callback. r_stop R stop protocol_version
      (stop_actions (u_lib U) None) class exception callback parameter v) = Some (rc_none, c, finish v)"
  shows "walk_forced U R state exception stop parameter w = Some (Returned rc_end (finish (fold effect fs w2)))"
  by (rule forced_to_end[OF assms])

text \<open>In particular, a stop function that does nothing leaves the process as it is.\<close>

lemma forced_unwind_still:
  assumes "exception \<noteq> 0" "class = exception_class (w_exception w exception)"
    "forced = \<lparr>forced_stop = stop, forced_parameter = parameter\<rparr>"
    "w2 = resume_write (ForcedUnwind forced) exception w"
    "physical U w2 (cursor_new state) fs d" "cursor_current U w2 d = Inr None"
    "list_all (\<lambda>f. quiet U R exception class (actions_or (u_lib U) act_force act_cleanup) w2 f \<and>
      stop_quiet U R exception class forced w2 (fst f) (Some (snd f))) fs"
    "stop_quiet U R exception class forced w2 d None"
  shows "walk_forced U R state exception stop parameter w = Some (Returned rc_end w2)"
proof -
  have "list_all (stop_acts U R exception class forced (\<lambda>v. v = w2 \<and> same_view U w2 v) (\<lambda>_ v. v)) fs"
    using assms(7) by (auto simp: list_all_iff stop_acts_def stop_quiet_def)
  from forced_to_end[where finish = "\<lambda>v. v", OF assms(1-6) refl this] show ?thesis
    using assms(3,8) by (auto simp: stop_quiet_def fold_still)
qed

text \<open>A stop function that keeps a record of what it is asked.\<close>

definition ex_asking :: "(Actions \<times> usize) list routines" where
  "ex_asking = ex_passing\<lparr>r_stop := (\<lambda>a v acts cls e cb p w.
    Some (rc_none, [], w\<lparr>w_rest := w_rest w @ [(acts, callback_pc cb)]\<rparr>))\<rparr>"

definition ex_unasked :: "(Actions \<times> usize) list world" where
  "ex_unasked = \<lparr>w_exception = w_exception ex_world, w_rest = []\<rparr>"

lemma ex_asking_quiet:
  "quiet ex_machine ex_asking e cls acts w (ex_frame sp ra, ex_info 5 ip)"
  by (simp add: quiet_def walk_personality_def ex_personality nonzero_def with_callback_def ex_asking_def
      ex_passing_def)

lemma ex_pc: "callback_pc \<lparr>callback_cursor = ex_frame sp ra, callback_frame = info\<rparr> = (case ra of Some ip \<Rightarrow> ip | None \<Rightarrow> 0)"
  by (simp add: callback_pc_def cursor_ip_def state_ip_def ex_frame_def cursor_new_def split: option.split)

theorem forced_unwind_visits_all_witness:
  "\<exists>w. walk_forced ex_machine ex_asking ex_state 0x9000 0x6000 5 ex_unasked = Some (Returned rc_end w) \<and>
    w_rest w = [(Actions 10, 0x1001), (Actions 10, 0x2001), (Actions 26, 0)]"
proof -
  have acts: "stop_actions lib_ref (Some info) = Actions 10" "stop_actions lib_ref None = Actions 26" for info
    by (simp_all add: stop_actions_def ref.actions_or_eq action_defs)
  let ?ask = "\<lambda>f v. v\<lparr>w_rest := w_rest v @ [(Actions 10, callback_pc \<lparr>callback_cursor = fst f, callback_frame = Some (snd f)\<rparr>)]\<rparr>"
  have "walk_forced ex_machine ex_asking ex_state 0x9000 0x6000 5 ex_unasked = Some (Returned rc_end
      ((\<lambda>v. v\<lparr>w_rest := w_rest v @ [(Actions 26, 0)]\<rparr>) (fold ?ask ex_stack
        (resume_write (ForcedUnwind \<lparr>forced_stop = 0x6000, forced_parameter = 5\<rparr>) 0x9000 ex_unasked))))"
    by (rule forced_unwind_visits_all[OF _ refl refl refl, where d = "ex_frame 0x7010 None" and P = "\<lambda>_. True"])
       (use ex_physical_all in \<open>simp_all add: ex_start ex_current ex_sel acts stop_acts_def ex_same_view
         ex_asking_quiet ex_quiet with_callback_def ex_pc\<close>, simp_all add: ex_asking_def ex_pc)
  then show ?thesis by (simp add: ex_pc resume_write_def ex_unasked_def)
qed

text \<open>C19. On a stack that grows from frame to frame, with routines and expressions that come back,
  the search comes back.\<close>

theorem search_returns:
  assumes "stack_grows U R exception class (cursor, w)"
  shows "\<exists>r. walk_search U R exception class cursor w = Some r"
  unfolding walk_search_def using assms by (intro search_loop.loop_returns) blast

lemma ex_pass_calls:
  "walk_personality ex_machine ex_passing c e cls (ex_info 4 ip) acts w = Some (Inr None, c, w)"
  "walk_personality ex_machine ex_passing c e cls (ex_info 5 ip) acts w = Some (Inr (Some rc_continue), c, w)"
  by (simp_all add: walk_personality_def ex_personality nonzero_def with_callback_def
      ex_passing_def callback_writes_def)

lemma ex_reachable:
  assumes "(iterates (search_body ex_machine ex_passing e cls))\<^sup>*\<^sup>* (ex_frame 0x7000 (Some 0x1001), w) s"
  shows "s \<in> {(ex_frame 0x7000 (Some 0x1001), w), (ex_frame 0x7008 (Some 0x2001), w), (ex_frame 0x7010 None, w)}"
  using assms
proof (induction rule: rtranclp_induct)
  case (step s t)
  from step.IH have "s = (ex_frame 0x7000 (Some 0x1001), w) \<or> s = (ex_frame 0x7008 (Some 0x2001), w) \<or>
    s = (ex_frame 0x7010 None, w)" by blast
  then show ?case
    using step.hyps(2)
    by (elim disjE) (auto simp: iterates_def search_body_def ex_current ex_advance ex_pass_calls)
qed simp

lemma ex_grows: "stack_grows ex_machine ex_passing e cls (ex_frame 0x7000 (Some 0x1001), w)"
proof -
  have sp: "stack_pointer (u_lib ex_machine) (ex_frame sp ra) = sp" for sp ra
    using ex_read by (simp add: stack_pointer_def cursor_stack_def state_stack_def ex_sel ref_numbers ok_or_zero_def)
  show ?thesis
    unfolding stack_grows_def
    by (auto dest!: ex_reachable simp: ex_current ex_advance ex_pass_calls sp)
qed

theorem search_returns_witness:
  "\<exists>r. walk_search ex_machine ex_passing 0x9000 (ExceptionClass 0) (cursor_new ex_state) ex_world = Some r"
  unfolding ex_start by (rule search_returns) (rule ex_grows)

end
