(* ===== verification/Propagation.thy ===== *)
theory Propagation
  imports TwoPhase
begin

text \<open>
  A whole propagation: the walk transfers to a landing pad, the compiled code there runs its
  cleanups and calls \<open>_Unwind_Resume\<close>, the walk continues above the frame it came from, until the
  code at a landing pad keeps control.  The compiled code is a parameter: what it does to the
  process from the registers it is entered with, and the state and exception it resumes with.
  \<open>passes\<close> describes the stretch of frames between two landing pads; the locale
  \<open>resumed_walk\<close> says that resuming goes on with the same loop, in phase two of a propagation as
  in a forced unwind.
\<close>

section \<open>Landing pads\<close>

datatype 'w landing = Resumes State usize "'w world" | Settles "'w world"

type_synonym 'w code = "Registers \<Rightarrow> 'w world \<Rightarrow> 'w landing option"

text \<open>How a propagation ends, with the registers of the landing pads that resumed, in order.\<close>

datatype 'w ending = Caught Registers "'w world" | GaveBack ReasonCode "'w world" | Stuck

definition propagate_body ::
    "'w machine \<Rightarrow> 'w routines \<Rightarrow> 'w code \<Rightarrow> 'w outcome \<times> Registers list
      \<Rightarrow> ('w outcome \<times> Registers list, 'w ending \<times> Registers list) flow option" where
  "propagate_body U R land s =
    (case s of (out, pads) \<Rightarrow>
     case out of
       Returned reason w \<Rightarrow> Some (Break (GaveBack reason w, pads))
     | Trapped \<Rightarrow> Some (Break (Stuck, pads))
     | Transferred regs w \<Rightarrow>
         Option.bind (land regs w) (\<lambda>l. case l of
             Settles w' \<Rightarrow> Some (Break (Caught regs w', pads))
           | Resumes state exception w' \<Rightarrow>
               map_option (\<lambda>out. Continue (out, pads @ [regs])) (walk_resume U R state exception w')))"

definition propagate ::
    "'w machine \<Rightarrow> 'w routines \<Rightarrow> 'w code \<Rightarrow> 'w outcome \<Rightarrow> ('w ending \<times> Registers list) option" where
  "propagate U R land out = run_loop (propagate_body U R land) (out, [])"

section \<open>An exception is given back only before any cleanup\<close>

lemma propagate_continues:
  assumes "propagate_body U R land s = Some (Continue s')"
  shows "fst s' \<noteq> Returned reason w"
proof (cases "fst s")
  case (Transferred regs v)
  with assms show ?thesis
    by (cases "land regs v"; cases "the (land regs v)")
       (auto simp: propagate_body_def resume_not_returned split: prod.split_asm)
qed (use assms in \<open>auto simp: propagate_body_def split: prod.split_asm\<close>)

lemma propagate_breaks:
  assumes "propagate_body U R land s = Some (Break (GaveBack reason w, pads))"
  shows "s = (Returned reason w, pads)"
proof (cases "fst s")
  case (Transferred regs v)
  with assms show ?thesis
    by (cases "land regs v"; cases "the (land regs v)") (auto simp: propagate_body_def split: prod.split_asm)
qed (use assms in \<open>auto simp: propagate_body_def split: prod.split_asm\<close>)

lemma propagate_given_back:
  assumes "propagate U R land out = Some (GaveBack reason w, pads)"
  shows "out = Returned reason w \<and> pads = []"
proof (rule run_loop_invariant[OF assms[unfolded propagate_def],
      where I = "\<lambda>s. s = (out, []) \<or> (\<forall>reason w. fst s \<noteq> Returned reason w)"])
  fix s s'
  assume "propagate_body U R land s = Some (Continue s')"
  then show "s' = (out, []) \<or> (\<forall>reason w. fst s' \<noteq> Returned reason w)"
    by (blast dest: propagate_continues)
next
  fix s
  assume "s = (out, []) \<or> (\<forall>reason w. fst s \<noteq> Returned reason w)"
    "propagate_body U R land s = Some (Break (GaveBack reason w, pads))"
  then show "out = Returned reason w \<and> pads = []"
    by (auto dest!: propagate_breaks)
qed simp

section \<open>Stretches of frames\<close>

inductive passes ::
    "'w machine \<Rightarrow> (Cursor \<times> 'w world \<Rightarrow> (Cursor \<times> 'w world, 'w outcome) flow option)
      \<Rightarrow> ('w world \<Rightarrow> Cursor \<times> Info \<Rightarrow> bool) \<Rightarrow> ('w world \<Rightarrow> bool) \<Rightarrow> usize \<Rightarrow> 'w code
      \<Rightarrow> State \<Rightarrow> 'w world \<Rightarrow> Registers list \<Rightarrow> Registers \<Rightarrow> 'w world \<Rightarrow> bool"
  for U body good mine exception land where
  passes_last:
    "physical U w (cursor_new s) fs d \<Longrightarrow> list_all (good w) fs \<Longrightarrow>
     body (d, w) = Some (Break (Transferred regs w')) \<Longrightarrow>
     passes U body good mine exception land s w [] regs w'"
| passes_cleanup:
    "physical U w (cursor_new s) fs d \<Longrightarrow> list_all (good w) fs \<Longrightarrow>
     body (d, w) = Some (Break (Transferred pad w1)) \<Longrightarrow>
     land pad w1 = Some (Resumes s2 exception w2) \<Longrightarrow> mine w2 \<Longrightarrow>
     passes U body good mine exception land s2 w2 pads regs w' \<Longrightarrow>
     passes U body good mine exception land s w (pad # pads) regs w'"

locale resumed_walk =
  fixes U :: "'w machine" and R :: "'w routines" and exception :: usize
    and body :: "Cursor \<times> 'w world \<Rightarrow> (Cursor \<times> 'w world, 'w outcome) flow option"
    and good :: "'w world \<Rightarrow> Cursor \<times> Info \<Rightarrow> bool" and mine :: "'w world \<Rightarrow> bool"
  assumes walks_frames: "frame_walk U w body (good w)"
    and resumes: "mine w \<Longrightarrow>
      walk_resume U R s exception w = map_option never_returns (run_loop body (cursor_new s, w))"
begin

lemma stretch:
  assumes "physical U w (cursor_new s) fs d" "list_all (good w) fs"
    "body (d, w) = Some (Break (Transferred regs w'))"
  shows "run_loop body (cursor_new s, w) = Some (Transferred regs w')"
  using frame_walk.walk_result[OF walks_frames assms(1,2)] assms(3) by (simp add: run_loop_simps(3))

lemma propagates:
  assumes "passes U body good mine exception land s w pads regs w'" "land regs w' = Some (Settles w'')"
  shows "\<exists>out. run_loop body (cursor_new s, w) = Some out \<and> never_returns out = out \<and>
    (\<forall>before. run_loop (propagate_body U R land) (out, before) = Some (Caught regs w'', before @ pads))"
  using assms
proof (induction rule: passes.induct)
  case (passes_last w s fs d regs w')
  then have "run_loop (propagate_body U R land) (Transferred regs w', before) =
      Some (Caught regs w'', before @ [])" for before
    by (simp add: run_loop_simps(3) propagate_body_def)
  with stretch[OF passes_last.hyps] show ?case by (force simp: never_returns_def)
next
  case (passes_cleanup w s fs d pad w1 s2 w2 pads regs w')
  from passes_cleanup.IH[OF passes_cleanup.prems] obtain out where
    out: "run_loop body (cursor_new s2, w2) = Some out" "never_returns out = out"
    "\<And>before. run_loop (propagate_body U R land) (out, before) = Some (Caught regs w'', before @ pads)"
    by blast
  then have "walk_resume U R s2 exception w2 = Some out"
    using resumes[OF passes_cleanup.hyps(5)] by simp
  then have "propagate_body U R land (Transferred pad w1, before) = Some (Continue (out, before @ [pad]))" for before
    using passes_cleanup.hyps(4) by (simp add: propagate_body_def)
  then have "run_loop (propagate_body U R land) (Transferred pad w1, before) =
      Some (Caught regs w'', before @ pad # pads)" for before
    using out(3)[of "before @ [pad]"] by (simp add: run_loop_simps(2))
  with stretch[OF passes_cleanup.hyps(1-3)] show ?case by (force simp: never_returns_def)
qed

end

section \<open>Phase two and forced unwinding\<close>

text \<open>The exception is still the one being propagated, to the same handler or under the same stop
  function.\<close>

definition in_flight :: "usize \<Rightarrow> ExceptionClass \<Rightarrow> Resume \<Rightarrow> 'w world \<Rightarrow> bool" where
  "in_flight exception class resume w \<longleftrightarrow>
    exception \<noteq> 0 \<and> exception_class (w_exception w exception) = class \<and> resume_read exception w = resume"

definition passed_over ::
    "'w machine \<Rightarrow> 'w routines \<Rightarrow> usize \<Rightarrow> ExceptionClass \<Rightarrow> Key \<Rightarrow> 'w world \<Rightarrow> Cursor \<times> Info \<Rightarrow> bool" where
  "passed_over U R exception class handler w f \<longleftrightarrow>
    quiet U R exception class act_cleanup w f \<and> unselected (u_lib U) handler f"

definition stop_passed ::
    "'w machine \<Rightarrow> 'w routines \<Rightarrow> usize \<Rightarrow> ExceptionClass \<Rightarrow> Forced \<Rightarrow> 'w world \<Rightarrow> Cursor \<times> Info \<Rightarrow> bool" where
  "stop_passed U R exception class forced w f \<longleftrightarrow>
    quiet U R exception class (actions_or (u_lib U) act_force act_cleanup) w f \<and>
    stop_quiet U R exception class forced w (fst f) (Some (snd f))"

interpretation normal_resumed: resumed_walk U R exception "normal_body U R exception cls handler"
    "passed_over U R exception cls handler" "in_flight exception cls (Normal handler)"
    for U :: "'w machine" and R and exception and cls and handler
proof unfold_locales
  show "normal_body U R exception cls handler (c, w) = Some (Continue (c', w))"
    if "cursor_current U w c = Inr (Some info)" "passed_over U R exception cls handler w (c, info)"
      "cursor_advance U w c info = Some (Inr c')" for w c info c'
    using normal_walk.passes[OF that(1) _ that(3)] that(2) by (simp add: passed_over_def)
  show "walk_resume U R s exception w =
      map_option never_returns (run_loop (normal_body U R exception cls handler) (cursor_new s, w))"
    if "in_flight exception cls (Normal handler) w" for w s
    using that by (auto simp: in_flight_def walk_resume_def run_normal_def walk_normal_def walk_new_def Let_def)
qed

interpretation forced_resumed: resumed_walk U R exception "force_body U R exception cls forced"
    "stop_passed U R exception cls forced" "in_flight exception cls (ForcedUnwind forced)"
    for U :: "'w machine" and R and exception and cls and forced
proof unfold_locales
  show "force_body U R exception cls forced (c, w) = Some (Continue (c', w))"
    if "cursor_current U w c = Inr (Some info)" "stop_passed U R exception cls forced w (c, info)"
      "cursor_advance U w c info = Some (Inr c')" for w c info c'
    using force_walk.passes[OF that(1) _ that(3)] that(2) by (simp add: stop_passed_def)
  show "walk_resume U R s exception w =
      map_option never_returns (run_loop (force_body U R exception cls forced) (cursor_new s, w))"
    if "in_flight exception cls (ForcedUnwind forced) w" for w s
    using that by (auto simp: in_flight_def walk_resume_def run_force_def walk_force_def walk_new_def Let_def)
qed

text \<open>The frames at which a walk lands.\<close>

lemma cleanup_lands:
  assumes "cursor_current U w c = Inr (Some info)" "cursor_key (u_lib U) c = Inr key"
    "walk_personality U R c exception class info (normal_actions (u_lib U) (key = handler)) w =
      Some (Inr (Some rc_install), c', w')" "walk_install U c' info w' = Transferred regs w'"
  shows "normal_body U R exception class handler (c, w) = Some (Break (Transferred regs w'))"
  using assms by (simp add: normal_body_def)

lemma force_lands:
  assumes "cursor_current U w c = Inr (Some info)" "stop_quiet U R exception class forced w c (Some info)"
    "walk_personality U R c exception class info (actions_or (u_lib U) act_force act_cleanup) w =
      Some (Inr (Some rc_install), c', w')" "walk_install U c' info w' = Transferred regs w'"
  shows "force_body U R exception class forced (c, w) = Some (Break (Transferred regs w'))"
  using assms by (simp add: force_body_def stop_quiet_def)

end
