(* ===== verification/PropagationProps.thy ===== *)
theory PropagationProps
  imports Propagation UnwindProps
begin

text \<open>
  The properties of a whole propagation, with witnesses on two frames that both have a
  personality: the inner frame cleans up and resumes, the outer one keeps control.
\<close>

section \<open>A process with a cleanup\<close>

definition cl_machine :: "'w machine" where
  "cl_machine = ex_machine\<lparr>u_gimli := ex_gimli\<lparr>fde_personality := (\<lambda>_. Some (Direct 0x5000))\<rparr>\<rparr>"

definition cl_personality :: "Actions \<Rightarrow> usize \<Rightarrow> usize \<Rightarrow> ReasonCode \<times> writes" where
  "cl_personality actions ip e =
    (if actions = act_search then (if ip < 0x2000 then rc_continue else rc_handler, [])
     else if ip = 0x1000 then (rc_install, [(0, e), (1, 0), (16, 0x1100)])
     else if ip < 0x2000 then (rc_continue, [])
     else (rc_install, [(0, e), (1, 0), (16, 0x2100)]))"

definition cl_routines :: "'w routines" where
  "cl_routines = ex_routines\<lparr>r_personality := (\<lambda>a v acts cls e cb w.
    case callback_frame cb of
      None \<Rightarrow> None
    | Some info \<Rightarrow> (case cl_personality acts (info_instruction info) e of (r, ws) \<Rightarrow> Some (r, ws, w)))\<rparr>"

text \<open>The landing pad at \<open>0x1100\<close> runs a destructor and calls \<open>_Unwind_Resume\<close>, returning to \<open>0x1105\<close>.\<close>

definition cl_resumed :: State where
  "cl_resumed = captured (registers_zeroed\<lparr>reg_rsp := 0x7000, reg_ra := 0x1105\<rparr>)"

definition cl_code :: "'w code" where
  "cl_code regs w = Some (if reg_ra regs = 0x1100 then Resumes cl_resumed 0x9000 w else Settles w)"

definition cl_pad :: Registers where
  "cl_pad = registers_zeroed\<lparr>reg_rax := 0x9000, reg_rsp := 0x7000, reg_ra := 0x1100\<rparr>"

section \<open>Both ways of propagating\<close>

text \<open>C2. Propagation of an exception with a handler: when the search finds the handler, and from each
  landing pad that runs a cleanup and resumes phase two goes on over frames that let it pass, then
  raising and resuming together run the landing pads in the order of the frames, each exactly
  once, and end at the code that keeps control.\<close>

theorem propagation_runs_cleanups:
  assumes "exception \<noteq> 0" "class = exception_class (w_exception w exception)"
    "walk_search U R exception class (cursor_new s) w = Some (Inr handler, w1)"
    "passes U (normal_body U R exception class handler) (passed_over U R exception class handler)
      (in_flight exception class (Normal handler)) exception land s
      (resume_write (Normal handler) exception w1) pads regs w'"
    "land regs w' = Some (Settles w'')"
  shows "\<exists>out. walk_raise U R s exception w = Some out \<and>
    propagate U R land out = Some (Caught regs w'', pads)"
proof -
  obtain out where out: "run_loop (normal_body U R exception class handler)
      (cursor_new s, resume_write (Normal handler) exception w1) = Some out"
    "run_loop (propagate_body U R land) (out, []) = Some (Caught regs w'', pads)"
    using normal_resumed.propagates[OF assms(4,5)] by fastforce
  then have "walk_raise U R s exception w = Some out"
    using assms(1-3)
    by (simp add: walk_raise_def walk_begin_def walk_new_def run_normal_def walk_normal_def Let_def)
  with out(2) show ?thesis by (simp add: propagate_def)
qed

text \<open>C23. Propagation of a forced unwind: the same, with the stop function agreeing at every frame
  passed; a landing pad that resumes continues under the stop function recorded in the exception.\<close>

theorem forced_unwind_runs_cleanups:
  assumes "exception \<noteq> 0" "class = exception_class (w_exception w exception)"
    "forced = \<lparr>forced_stop = stop, forced_parameter = parameter\<rparr>"
    "passes U (force_body U R exception class forced) (stop_passed U R exception class forced)
      (in_flight exception class (ForcedUnwind forced)) exception land s
      (resume_write (ForcedUnwind forced) exception w) pads regs w'"
    "land regs w' = Some (Settles w'')"
  shows "\<exists>out. walk_forced U R s exception stop parameter w = Some out \<and>
    propagate U R land out = Some (Caught regs w'', pads)"
proof -
  obtain out where out: "run_loop (force_body U R exception class forced)
      (cursor_new s, resume_write (ForcedUnwind forced) exception w) = Some out"
    "run_loop (propagate_body U R land) (out, []) = Some (Caught regs w'', pads)"
    using forced_resumed.propagates[OF assms(4,5)] by fastforce
  then have "walk_forced U R s exception stop parameter w = Some out"
    using assms(1-3) by (simp add: walk_forced_def walk_new_def run_force_def walk_force_def Let_def)
  with out(2) show ?thesis by (simp add: propagate_def)
qed

text \<open>C20. An exception is given back to the code that raised it only by the first walk: once a landing
  pad has been entered no resumption returns, whatever the compiled code and the routines do.\<close>

theorem given_back_before_cleanups:
  assumes "Option.bind (walk_raise U R s exception w) (propagate U R land) = Some (ending, pads)"
  shows "(\<exists>reason w'. ending = GaveBack reason w' \<and> pads = [] \<and>
      walk_raise U R s exception w = Some (Returned reason w')) \<or>
    (\<forall>reason w'. ending \<noteq> GaveBack reason w' \<and> walk_raise U R s exception w \<noteq> Some (Returned reason w'))"
proof -
  from assms obtain out where out: "walk_raise U R s exception w = Some out"
    "propagate U R land out = Some (ending, pads)"
    by (auto simp: bind_eq_Some_conv)
  show ?thesis
  proof (cases out)
    case (Returned reason w')
    with out show ?thesis by (simp add: propagate_def run_loop_simps(3) propagate_body_def)
  qed (use out in \<open>auto dest: propagate_given_back\<close>)
qed

section \<open>Witnesses\<close>

lemma cl_sel: "u_lib cl_machine = lib_ref" "u_gimli cl_machine = ex_gimli\<lparr>fde_personality := (\<lambda>_. Some (Direct 0x5000))\<rparr>"
  by (simp_all add: cl_machine_def ex_machine_def)

lemma cl_current:
  "cursor_current cl_machine w (ex_frame sp (Some 0x1001)) = Inr (Some (ex_info 4 0x1000))"
  "cursor_current cl_machine w (ex_frame sp (Some 0x1105)) = Inr (Some (ex_info 4 0x1104))"
  "cursor_current cl_machine w (ex_frame sp (Some 0x2001)) = Inr (Some (ex_info 5 0x2000))"
  by (simp_all add: cursor_current_def info_new_def ex_frame_def cursor_new_def state_ip_def
      checked_sub_def cl_machine_def ex_machine_def image_contains_def ex_image_def ex_gimli_def cfi_row_def
      ex_info_def)

lemma cl_advance:
  "cursor_advance cl_machine w (ex_frame 0x7000 ra) (ex_info 4 ip) = Some (Inr (ex_frame 0x7008 (Some 0x2001)))"
  using ex_advance(1)[of w ra ip]
  by (simp add: cursor_advance_def info_caller_def info_cfa_def ex_info_def ex_row_def ex_sel cl_sel
      apply_rule_def info_register_def cl_machine_def next_relation_def info_signal_def)

definition cl_landing :: "usize \<Rightarrow> usize \<Rightarrow> Cursor" where
  "cl_landing sp ip = (ex_frame sp (Some ip))\<lparr>cursor_state :=
    slot_set RAX (Some 0x9000) (slot_set RDX (Some 0) (cursor_state (ex_frame sp (Some ip))))\<rparr>"

lemma cl_writes:
  "callback_cursor (callback_writes lib_ref [(0, 0x9000), (1, 0), (16, ip)]
    \<lparr>callback_cursor = ex_frame sp (Some ra), callback_frame = f\<rparr>) = cl_landing sp ip"
  by (simp add: callback_writes_def callback_set_def callback_decode_def cursor_write_def
      state_write_cases ref_numbers cl_landing_def ex_frame_def cursor_new_def)

lemma cl_calls:
  "walk_personality cl_machine cl_routines c 0x9000 cls (ex_info 4 0x1000) act_search w =
    Some (Inr (Some rc_continue), c, w)"
  "walk_personality cl_machine cl_routines c 0x9000 cls (ex_info 5 0x2000) act_search w =
    Some (Inr (Some rc_handler), c, w)"
  "acts \<noteq> act_search \<Longrightarrow> walk_personality cl_machine cl_routines c 0x9000 cls (ex_info 4 0x1104) acts w =
    Some (Inr (Some rc_continue), c, w)"
  "acts \<noteq> act_search \<Longrightarrow> walk_personality cl_machine cl_routines (ex_frame sp (Some ra)) 0x9000 cls
    (ex_info 4 0x1000) acts w = Some (Inr (Some rc_install), cl_landing sp 0x1100, w)"
  "acts \<noteq> act_search \<Longrightarrow> walk_personality cl_machine cl_routines (ex_frame sp (Some ra)) 0x9000 cls
    (ex_info 5 0x2000) acts w = Some (Inr (Some rc_install), cl_landing sp 0x2100, w)"
  by (simp_all add: walk_personality_def info_personality_def cl_sel pointer_transpose_def
      info_pointer_def nonzero_def with_callback_def cl_routines_def cl_personality_def ex_info_def
      callback_writes_def[of _ "[]"] cl_writes)

lemma cl_landing_state:
  "cursor_state (cl_landing sp ip) = ex_state\<lparr>st_rax := Some 0x9000, st_rdx := Some 0, st_rsp := Some sp,
    st_ra := Some ip\<rparr>"
  by (simp add: cl_landing_def ex_frame_def cursor_new_def)

lemma cl_install:
  "walk_install cl_machine (cl_landing sp ip) (ex_info n a) w =
    Transferred (registers_zeroed\<lparr>reg_rax := 0x9000, reg_rsp := sp, reg_ra := ip\<rparr>) w"
  by (subst install_spec)
     (simp_all add: cl_sel ref.x86_laws_axioms cl_landing_state required_def ex_state_def captured_def
       registers_zeroed_def ex_info_def ex_row_def state_install_def)

lemma cl_resumed_start: "cursor_new cl_resumed = ex_frame 0x7000 (Some 0x1105)"
  by (simp add: cl_resumed_def ex_frame_def ex_state_def captured_def registers_zeroed_def)

lemma cl_masks:
  "normal_actions lib_ref selected \<noteq> act_search" "actions_or lib_ref act_force act_cleanup \<noteq> act_search"
  by (simp_all add: normal_actions_def ref.actions_or_eq action_defs)

lemma cl_physical:
  "physical cl_machine w (ex_frame 0x7000 (Some 0x1105)) [(ex_frame 0x7000 (Some 0x1105), ex_info 4 0x1104)]
    (ex_frame 0x7008 (Some 0x2001))"
  by (rule physical_up[OF cl_current(2) cl_advance physical_here])

lemma cl_normal_body:
  "normal_body cl_machine cl_routines 0x9000 cls handler (ex_frame sp (Some 0x1001), w) =
    Some (Break (Transferred (registers_zeroed\<lparr>reg_rax := 0x9000, reg_rsp := sp, reg_ra := 0x1100\<rparr>) w))"
  "normal_body cl_machine cl_routines 0x9000 cls handler (ex_frame sp (Some 0x2001), w) =
    Some (Break (Transferred (registers_zeroed\<lparr>reg_rax := 0x9000, reg_rsp := sp, reg_ra := 0x2100\<rparr>) w))"
  by (rule cleanup_lands[OF cl_current(1) _ _ cl_install] cleanup_lands[OF cl_current(3) _ _ cl_install],
      simp_all add: cl_sel ex_key cl_calls cl_masks)+

lemma cl_stop: "stop_quiet cl_machine cl_routines e cls forced w c info"
  by (simp add: stop_quiet_def with_callback_def cl_routines_def ex_routines_def callback_writes_def)

lemma cl_force_body:
  "force_body cl_machine cl_routines 0x9000 cls forced (ex_frame sp (Some 0x1001), w) =
    Some (Break (Transferred (registers_zeroed\<lparr>reg_rax := 0x9000, reg_rsp := sp, reg_ra := 0x1100\<rparr>) w))"
  "force_body cl_machine cl_routines 0x9000 cls forced (ex_frame sp (Some 0x2001), w) =
    Some (Break (Transferred (registers_zeroed\<lparr>reg_rax := 0x9000, reg_rsp := sp, reg_ra := 0x2100\<rparr>) w))"
  by (rule force_lands[OF cl_current(1) _ _ cl_install] force_lands[OF cl_current(3) _ _ cl_install],
      simp_all add: cl_sel cl_calls cl_masks cl_stop)+

abbreviation cl_class :: ExceptionClass where
  "cl_class \<equiv> exception_class (w_exception ex_world 0x9000)"

lemma cl_search:
  "walk_search cl_machine cl_routines 0x9000 cls (cursor_new ex_state) w = Some (Inr (Key 0x7008), w)"
  using search_handler[OF cl_current(3) cl_calls(2)] ex_key[of "0x7008" "Some 0x2001"]
  by (simp add: walk_search_def ex_start run_loop_simps(2) search_body_def cl_current(1) cl_calls(1)
      cl_advance cl_sel)

lemma cl_pad_code: "cl_code cl_pad w = Some (Resumes cl_resumed 0x9000 w)"
  by (simp add: cl_code_def cl_pad_def)

lemma cl_end_code: "cl_code ex_transfer w = Some (Settles w)"
  by (simp add: cl_code_def ex_transfer_def)

lemma cl_quiet: "acts \<noteq> act_search \<Longrightarrow> quiet cl_machine cl_routines 0x9000 cls acts w (c, ex_info 4 0x1104)"
  by (simp add: quiet_def cl_calls)

lemma cl_passes:
  assumes "\<And>sp. body (ex_frame sp (Some 0x1001), w) =
      Some (Break (Transferred (registers_zeroed\<lparr>reg_rax := 0x9000, reg_rsp := sp, reg_ra := 0x1100\<rparr>) w))"
    "\<And>sp. body (ex_frame sp (Some 0x2001), w) =
      Some (Break (Transferred (registers_zeroed\<lparr>reg_rax := 0x9000, reg_rsp := sp, reg_ra := 0x2100\<rparr>) w))"
    "mine w" "good w (ex_frame 0x7000 (Some 0x1105), ex_info 4 0x1104)"
  shows "passes cl_machine body good mine 0x9000 cl_code ex_state w [cl_pad] ex_transfer w"
proof (rule passes_cleanup[where fs = "[]" and d = "ex_frame 0x7000 (Some 0x1001)"])
  show "passes cl_machine body good mine 0x9000 cl_code cl_resumed w [] ex_transfer w"
    using assms(2)[of "0x7008"] assms(4) cl_physical
    by (intro passes_last[where fs = "[(ex_frame 0x7000 (Some 0x1105), ex_info 4 0x1104)]"])
       (auto simp: cl_resumed_start ex_transfer_def)
qed (simp_all add: assms(1,3) cl_pad_code ex_start cl_pad_def[symmetric])

theorem propagation_runs_cleanups_witness:
  "\<exists>out. walk_raise cl_machine cl_routines ex_state 0x9000 ex_world = Some out \<and>
    propagate cl_machine cl_routines cl_code out =
      Some (Caught ex_transfer (resume_write (Normal (Key 0x7008)) 0x9000 ex_world), [cl_pad])"
proof (rule propagation_runs_cleanups)
  show "passes cl_machine (normal_body cl_machine cl_routines 0x9000 cl_class (Key 0x7008))
      (passed_over cl_machine cl_routines 0x9000 cl_class (Key 0x7008))
      (in_flight 0x9000 cl_class (Normal (Key 0x7008))) 0x9000 cl_code ex_state
      (resume_write (Normal (Key 0x7008)) 0x9000 ex_world) [cl_pad] ex_transfer
      (resume_write (Normal (Key 0x7008)) 0x9000 ex_world)"
    by (rule cl_passes)
       (simp_all add: cl_normal_body in_flight_def resume_read_write resumable_def resume_write_frame(3)
         passed_over_def unselected_def cl_quiet ex_key cl_sel action_defs)
qed (simp_all add: cl_search cl_end_code)

theorem forced_unwind_runs_cleanups_witness:
  "\<exists>out. walk_forced cl_machine cl_routines ex_state 0x9000 0x6000 7 ex_world = Some out \<and>
    propagate cl_machine cl_routines cl_code out =
      Some (Caught ex_transfer (resume_write (ForcedUnwind \<lparr>forced_stop = 0x6000, forced_parameter = 7\<rparr>)
        0x9000 ex_world), [cl_pad])"
proof (rule forced_unwind_runs_cleanups)
  let ?f = "\<lparr>forced_stop = 0x6000, forced_parameter = 7\<rparr>"
  show "passes cl_machine (force_body cl_machine cl_routines 0x9000 cl_class ?f)
      (stop_passed cl_machine cl_routines 0x9000 cl_class ?f)
      (in_flight 0x9000 cl_class (ForcedUnwind ?f)) 0x9000 cl_code ex_state
      (resume_write (ForcedUnwind ?f) 0x9000 ex_world) [cl_pad] ex_transfer
      (resume_write (ForcedUnwind ?f) 0x9000 ex_world)"
    by (rule cl_passes)
       (simp_all add: cl_force_body in_flight_def resume_read_write resumable_def resume_write_frame(3)
         stop_passed_def cl_stop cl_quiet cl_sel cl_masks)
qed (simp_all add: cl_end_code)

theorem given_back_before_cleanups_witness:
  "\<exists>reason w'. GaveBack rc_end ex_world = GaveBack reason w' \<and> ([] :: Registers list) = [] \<and>
    walk_raise ex_machine ex_passing ex_state 0x9000 ex_world = Some (Returned reason w')"
proof -
  have "walk_raise ex_machine ex_passing ex_state 0x9000 ex_world = Some (Returned rc_end ex_world)"
    by (rule raise_unhandled[where d = "ex_frame 0x7010 None" and fs = ex_stack])
       (use ex_physical_all[of ex_world] in \<open>simp_all add: ex_start ex_current ex_quiet ex_passing_quiet\<close>)
  then have "Option.bind (walk_raise ex_machine ex_passing ex_state 0x9000 ex_world)
      (propagate ex_machine ex_passing cl_code) = Some (GaveBack rc_end ex_world, [])"
    by (simp add: propagate_def run_loop_simps(3) propagate_body_def)
  from given_back_before_cleanups[OF this] show ?thesis by blast
qed

end
