(* ===== verification/Personality.thy ===== *)
theory Personality
  imports Abi Flow
begin

text \<open>
  The crate \<open>desenredo-personality\<close>: the typed view of a callback (\<open>context.rs\<close>), the
  decoding of a raw personality call into a phase, and its dispatch (\<open>protocol.rs\<close>), and the
  LSDA source (\<open>source.rs\<close>).

  A personality is linked against the \<open>_Unwind_*\<close> functions of some unwinder; they are the
  record \<open>level1\<close>, over a type \<open>'c\<close> of contexts.  A borrowed context is its value and an
  operation that mutates it returns the new one.  A policy may change the process state \<open>'w\<close>
  and may fail to come back (\<open>None\<close>).
\<close>

section \<open>The unwinder's interface\<close>

record 'c level1 =
  l1_ip_info :: "'c \<Rightarrow> usize \<times> c_int"
  l1_start :: "'c \<Rightarrow> usize"
  l1_text :: "'c \<Rightarrow> usize"
  l1_data :: "'c \<Rightarrow> usize"
  l1_cfa :: "'c \<Rightarrow> usize"
  l1_lsda :: "'c \<Rightarrow> usize"
  l1_get_gr :: "'c \<Rightarrow> c_int \<Rightarrow> usize"
  l1_set_gr :: "'c \<Rightarrow> c_int \<Rightarrow> usize \<Rightarrow> 'c"
  l1_set_ip :: "'c \<Rightarrow> usize \<Rightarrow> 'c"

section \<open>Contexts\<close>

record InstructionPointer =
  ip_address :: usize
  ip_before_instruction :: bool

definition ip_site :: "InstructionPointer \<Rightarrow> usize" where
  "ip_site self =
    (if ip_address self = 0 \<or> ip_before_instruction self then ip_address self
     else ip_address self - 1)"

definition frame_ip_info :: "'c level1 \<Rightarrow> 'c \<Rightarrow> InstructionPointer" where
  "frame_ip_info A c =
    (case l1_ip_info A c of (address, before) \<Rightarrow>
       \<lparr>ip_address = address, ip_before_instruction = (before \<noteq> 0)\<rparr>)"

text \<open>\<open>NonNull::new\<close> of the language-specific data pointer.\<close>

definition frame_lsda :: "'c level1 \<Rightarrow> 'c \<Rightarrow> usize option" where
  "frame_lsda A c = nonzero (l1_lsda A c)"

datatype LandingPad = LandingPad (landing_address: usize)

datatype Selector = Selector (selector_raw: isize)

text \<open>\<open>CleanupFrame::install\<close>: the exception, the selector and the landing pad, in that order.\<close>

definition cleanup_install ::
    "lib \<Rightarrow> 'c level1 \<Rightarrow> 'c \<Rightarrow> LandingPad \<Rightarrow> usize \<Rightarrow> Selector \<Rightarrow> 'c" where
  "cleanup_install L A raw landing_pad exception selector =
    (let exception_register = ucast (x86_64 L RAX);
         selector_register = ucast (x86_64 L RDX);
         raw = l1_set_gr A raw exception_register exception;
         raw = l1_set_gr A raw selector_register (selector_raw selector)
     in l1_set_ip A raw (landing_address landing_pad))"

section \<open>The protocol\<close>

datatype ProtocolError = UnsupportedVersion | NullException | NullContext | UnknownActions
  | MissingPhase | InvalidCombination | ClassMismatch

record 'c Search =
  search_frame :: 'c
  search_exception :: usize
  search_class :: ExceptionClass

record 'c Cleanup =
  cleanup_frame :: 'c
  cleanup_exception :: usize
  cleanup_class :: ExceptionClass
  cleanup_forced :: bool

record 'c Handler =
  handler_frame :: 'c
  handler_exception :: usize
  handler_class :: ExceptionClass

datatype SearchDecision = SearchContinue | HandlerFound | SearchFatal

datatype 'c CleanupDecision = CleanupContinue | CleanupInstall 'c | CleanupFatal

datatype 'c HandlerDecision = HandlerInstall 'c | HandlerFatal

datatype 'c Invocation = SearchCall "'c Search" | CleanupCall "'c Cleanup" | HandlerCall "'c Handler"

record ('c, 'w) policy =
  p_search :: "'c Search \<Rightarrow> 'w \<Rightarrow> (SearchDecision \<times> 'w) option"
  p_cleanup :: "'c Cleanup \<Rightarrow> 'w \<Rightarrow> ('c CleanupDecision \<times> 'w) option"
  p_handler :: "'c Handler \<Rightarrow> 'w \<Rightarrow> ('c HandlerDecision \<times> 'w) option"

text \<open>
  \<open>decode\<close>, its match tried in order.  \<open>heap\<close> gives the exception headers; a null pointer is
  zero, a null context \<open>None\<close>.
\<close>

definition decode ::
    "lib \<Rightarrow> (usize \<Rightarrow> Exception) \<Rightarrow> c_int \<Rightarrow> Actions \<Rightarrow> ExceptionClass \<Rightarrow> usize \<Rightarrow> 'c option
      \<Rightarrow> ProtocolError + 'c Invocation" where
  "decode L heap version actions class exception context =
    (let header_class = (if exception = 0 then None else Some (exception_class (heap exception)));
         class_matches = (header_class = Some class);
         search = actions_has L actions act_search;
         cleanup = actions_has L actions act_cleanup;
         handler = actions_has L actions act_handler;
         forced = actions_has L actions act_force
     in if version \<noteq> 1 then Inl UnsupportedVersion
        else if exception = 0 then Inl NullException
        else (case context of
            None \<Rightarrow> Inl NullContext
          | Some context \<Rightarrow>
              if \<not> class_matches then Inl ClassMismatch
              else if \<not> actions_known L actions then Inl UnknownActions
              else if \<not> search \<and> \<not> cleanup then Inl MissingPhase
              else if search \<and> cleanup then Inl InvalidCombination
              else if search \<and> \<not> cleanup \<and> forced then Inl InvalidCombination
              else if search \<and> \<not> cleanup \<and> handler \<and> \<not> forced then Inl InvalidCombination
              else if search \<and> \<not> cleanup \<and> \<not> handler \<and> \<not> forced then
                Inr (SearchCall \<lparr>search_frame = context, search_exception = exception,
                  search_class = class\<rparr>)
              else if \<not> search \<and> cleanup \<and> handler \<and> forced then Inl InvalidCombination
              else if \<not> search \<and> cleanup \<and> handler \<and> \<not> forced then
                Inr (HandlerCall \<lparr>handler_frame = context, handler_exception = exception,
                  handler_class = class\<rparr>)
              else Inr (CleanupCall \<lparr>cleanup_frame = context, cleanup_exception = exception,
                  cleanup_class = class, cleanup_forced = forced\<rparr>)))"

text \<open>\<open>dispatch\<close>: the reason, the context as the policy leaves it, and the process state.\<close>

definition dispatch ::
    "lib \<Rightarrow> ('c, 'w) policy \<Rightarrow> (usize \<Rightarrow> Exception) \<Rightarrow> c_int \<Rightarrow> Actions \<Rightarrow> ExceptionClass \<Rightarrow> usize
      \<Rightarrow> 'c option \<Rightarrow> 'w \<Rightarrow> (ReasonCode \<times> 'c option \<times> 'w) option" where
  "dispatch L P heap version actions class exception context w =
    (case decode L heap version actions class exception context of
       Inr (SearchCall call) \<Rightarrow>
         map_option (\<lambda>(decision, w). (case decision of
             SearchContinue \<Rightarrow> rc_continue
           | HandlerFound \<Rightarrow> rc_handler
           | SearchFatal \<Rightarrow> rc_fatal1, context, w)) (p_search P call w)
     | Inr (CleanupCall call) \<Rightarrow>
         map_option (\<lambda>(decision, w). case decision of
             CleanupContinue \<Rightarrow> (rc_continue, context, w)
           | CleanupInstall context \<Rightarrow> (rc_install, Some context, w)
           | CleanupFatal \<Rightarrow> (rc_fatal2, context, w)) (p_cleanup P call w)
     | Inr (HandlerCall call) \<Rightarrow>
         map_option (\<lambda>(decision, w). case decision of
             HandlerInstall context \<Rightarrow> (rc_install, Some context, w)
           | HandlerFatal \<Rightarrow> (rc_fatal2, context, w)) (p_handler P call w)
     | Inl _ \<Rightarrow>
         Some (if actions_has L actions act_cleanup then rc_fatal2 else rc_fatal1, context, w))"

section \<open>The LSDA source\<close>

text \<open>A slice is its address and its bytes; the error of \<open>bytes\<close> carries nothing that is used.\<close>

record 'c source =
  s_bytes :: "'c \<Rightarrow> unit + (usize \<times> bytes) option"
  s_text :: "'c \<Rightarrow> usize option"
  s_data :: "'c \<Rightarrow> usize option"

section \<open>Facts about decoding\<close>

context bits_laws begin

lemma decode_masks:
  assumes "e \<noteq> 0" "exception_class (heap e) = cls"
  shows "decode L heap 1 act_search cls e (Some c) =
      Inr (SearchCall \<lparr>search_frame = c, search_exception = e, search_class = cls\<rparr>)"
    "decode L heap 1 act_cleanup cls e (Some c) =
      Inr (CleanupCall \<lparr>cleanup_frame = c, cleanup_exception = e, cleanup_class = cls, cleanup_forced = False\<rparr>)"
    "decode L heap 1 (actions_or L act_cleanup act_handler) cls e (Some c) =
      Inr (HandlerCall \<lparr>handler_frame = c, handler_exception = e, handler_class = cls\<rparr>)"
    "decode L heap 1 (actions_or L act_force act_cleanup) cls e (Some c) =
      Inr (CleanupCall \<lparr>cleanup_frame = c, cleanup_exception = e, cleanup_class = cls, cleanup_forced = True\<rparr>)"
  using assms by (simp_all add: decode_def has_iff known_iff actions_or_eq action_defs)

text \<open>What a decoded call says about the mask it came from.\<close>

lemma decode_phase:
  assumes "decode L heap version actions cls e context = Inr call"
  shows "version = 1 \<and> e \<noteq> 0 \<and> exception_class (heap e) = cls \<and> actions_known L actions \<and>
    (\<exists>c. context = Some c \<and>
      (case call of
         SearchCall s \<Rightarrow> s = \<lparr>search_frame = c, search_exception = e, search_class = cls\<rparr> \<and>
           actions_has L actions act_search \<and> \<not> actions_has L actions act_cleanup \<and>
           \<not> actions_has L actions act_handler \<and> \<not> actions_has L actions act_force
       | CleanupCall s \<Rightarrow> s = \<lparr>cleanup_frame = c, cleanup_exception = e, cleanup_class = cls,
             cleanup_forced = actions_has L actions act_force\<rparr> \<and>
           actions_has L actions act_cleanup \<and> \<not> actions_has L actions act_search \<and>
           \<not> actions_has L actions act_handler
       | HandlerCall s \<Rightarrow> s = \<lparr>handler_frame = c, handler_exception = e, handler_class = cls\<rparr> \<and>
           actions_has L actions act_cleanup \<and> actions_has L actions act_handler \<and>
           \<not> actions_has L actions act_search \<and> \<not> actions_has L actions act_force))"
  using assms by (auto simp: decode_def Let_def split: if_splits option.splits)

end

end
