(* ===== verification/RustPolicy.thy ===== *)
theory RustPolicy
  imports Personality SiteFacts
begin

text \<open>
  The crate \<open>desenredo-rust\<close>: the meaning of a call site in rustc's tables (\<open>action.rs\<close>), the
  personality policy over it (\<open>personality.rs\<close>) and the class of Rust panics (\<open>class.rs\<close>).
\<close>

section \<open>Classification\<close>

datatype Pad = Pad (pad_addr: usize)

datatype RustAction = RustNone | RustCleanup Pad | RustCatch Pad | RustFilter Pad | RustTerminate

datatype ActionError = ActionParse LsdaError | ActionChain | ActionLanding

definition pad_new :: "usize \<Rightarrow> ActionError + Pad" where
  "pad_new addr = ok_or ActionLanding (map_option Pad (nonzero addr))"

text \<open>The first record of the chain decides.\<close>

definition rust_chain :: "lib \<Rightarrow> Lsda \<Rightarrow> Pad \<Rightarrow> Action \<Rightarrow> ActionError + RustAction" where
  "rust_chain L lsda pad action =
    and_then (map_err ActionParse (lsda_chain L lsda action)) (\<lambda>chain.
      case fst (chain_next L chain) of
        None \<Rightarrow> Inl ActionChain
      | Some (Inl error) \<Rightarrow> Inl (ActionParse error)
      | Some (Inr kind) \<Rightarrow>
          (case kind of
             Table.Cleanup \<Rightarrow> Inr (RustCleanup pad)
           | Catch _ \<Rightarrow> Inr (RustCatch pad)
           | Filter _ \<Rightarrow> Inr (RustFilter pad)))"

definition rust_scan :: "lib \<Rightarrow> Lsda \<Rightarrow> usize \<Rightarrow> (ActionError + RustAction) option" where
  "rust_scan L lsda pc =
    run_then (map_option (map_err ActionParse) (lsda_site L lsda pc)) (\<lambda>site.
      case site of
        None \<Rightarrow> Some (Inr RustTerminate)
      | Some target_site \<Rightarrow>
          (case site_landing target_site of
             None \<Rightarrow> Some (Inr RustNone)
           | Some addr \<Rightarrow>
               Some (and_then (pad_new addr) (\<lambda>pad.
                 case site_action target_site of
                   None \<Rightarrow> Inr (RustCleanup pad)
                 | Some action \<Rightarrow> rust_chain L lsda pad action))))"

section \<open>The policy\<close>

text \<open>The bases of one frame's LSDA.\<close>

definition frame_bases :: "'c level1 \<Rightarrow> 'c source \<Rightarrow> 'c \<Rightarrow> usize \<Rightarrow> Bases" where
  "frame_bases A S frame origin =
    (let bases = bases_new origin (l1_start A frame);
         bases = (case s_text S frame of Some text \<Rightarrow> bases_with_text bases text | None \<Rightarrow> bases)
     in case s_data S frame of Some data \<Rightarrow> bases_with_data bases data | None \<Rightarrow> bases)"

text \<open>Native byte order of the x86_64 target.\<close>

definition rust_endian :: Endian where
  "rust_endian = Little"

definition rust_action ::
    "lib \<Rightarrow> 'c level1 \<Rightarrow> 'c source \<Rightarrow> 'c \<Rightarrow> (unit + RustAction) option" where
  "rust_action L A S frame =
    (let lsda_origin = frame_lsda A frame;
         data = s_bytes S frame;
         are_aligned = (case (lsda_origin, data) of
             (Some ori, Inr (Some (address, _))) \<Rightarrow> ori = address
           | _ \<Rightarrow> True)
     in case (lsda_origin, data, are_aligned) of
          (None, Inr None, True) \<Rightarrow> Some (Inr RustNone)
        | (Some ori, Inr (Some (_, bytes)), True) \<Rightarrow>
            (case lsda_new L bytes (frame_bases A S frame ori) rust_endian of
               Inr lsda \<Rightarrow> map_option (map_err (\<lambda>_. ())) (rust_scan L lsda (ip_site (frame_ip_info A frame)))
             | Inl _ \<Rightarrow> Some (Inl ()))
        | _ \<Rightarrow> Some (Inl ()))"

definition rust_install :: "lib \<Rightarrow> 'c level1 \<Rightarrow> 'c \<Rightarrow> usize \<Rightarrow> Pad \<Rightarrow> 'c" where
  "rust_install L A frame exception pad =
    cleanup_install L A frame (LandingPad (pad_addr pad)) exception (Selector 0)"

definition rust_search ::
    "lib \<Rightarrow> 'c level1 \<Rightarrow> 'c source \<Rightarrow> 'c Search \<Rightarrow> SearchDecision option" where
  "rust_search L A S call =
    map_option (\<lambda>action. case action of
        Inr RustNone \<Rightarrow> SearchContinue
      | Inr (RustCleanup _) \<Rightarrow> SearchContinue
      | Inr (RustCatch _) \<Rightarrow> HandlerFound
      | Inr (RustFilter _) \<Rightarrow> HandlerFound
      | Inr RustTerminate \<Rightarrow> SearchFatal
      | Inl _ \<Rightarrow> SearchFatal) (rust_action L A S (search_frame call))"

definition rust_cleanup ::
    "lib \<Rightarrow> 'c level1 \<Rightarrow> 'c source \<Rightarrow> 'c Cleanup \<Rightarrow> 'c CleanupDecision option" where
  "rust_cleanup L A S call =
    (let frame = cleanup_frame call;
         install = (\<lambda>pad. CleanupInstall (rust_install L A frame (cleanup_exception call) pad))
     in map_option (\<lambda>action. case action of
            Inr RustNone \<Rightarrow> CleanupContinue
          | Inr (RustFilter pad) \<Rightarrow> if cleanup_forced call then CleanupContinue else install pad
          | Inr (RustCleanup pad) \<Rightarrow> install pad
          | Inr (RustCatch pad) \<Rightarrow> install pad
          | Inr RustTerminate \<Rightarrow> CleanupFatal
          | Inl _ \<Rightarrow> CleanupFatal) (rust_action L A S frame))"

definition rust_handler ::
    "lib \<Rightarrow> 'c level1 \<Rightarrow> 'c source \<Rightarrow> 'c Handler \<Rightarrow> 'c HandlerDecision option" where
  "rust_handler L A S call =
    (let frame = handler_frame call;
         install = (\<lambda>pad. HandlerInstall (rust_install L A frame (handler_exception call) pad))
     in map_option (\<lambda>action. case action of
            Inr (RustCatch pad) \<Rightarrow> install pad
          | Inr (RustFilter pad) \<Rightarrow> install pad
          | _ \<Rightarrow> HandlerFatal) (rust_action L A S frame))"

text \<open>The policy keeps no state of its own.\<close>

definition rust_policy :: "lib \<Rightarrow> 'c level1 \<Rightarrow> 'c source \<Rightarrow> ('c, 'w) policy" where
  "rust_policy L A S =
    \<lparr>p_search = (\<lambda>call w. map_option (\<lambda>d. (d, w)) (rust_search L A S call)),
     p_cleanup = (\<lambda>call w. map_option (\<lambda>d. (d, w)) (rust_cleanup L A S call)),
     p_handler = (\<lambda>call w. map_option (\<lambda>d. (d, w)) (rust_handler L A S call))\<rparr>"

section \<open>The class of Rust panics\<close>

text \<open>\<open>u64::from_ne_bytes\<close> on the little-endian target, of the bytes of \<open>MOZ\0RUST\<close>.\<close>

definition rust_class_bytes :: bytes where
  "rust_class_bytes = [0x4d, 0x4f, 0x5a, 0x00, 0x52, 0x55, 0x53, 0x54]"

definition rust_class :: ExceptionClass where
  "rust_class = ExceptionClass (from_le_bytes rust_class_bytes)"

end
