(* ===== verification/CxxPolicy.thy ===== *)
theory CxxPolicy
  imports RustPolicy
begin

text \<open>
  The C++ personality policy, \<open>desenredo-cxx/src/personality.rs\<close>.  Matching a clause against
  the exception is the runtime's; it is the parameter \<open>'e matcher\<close>, which may change the process
  state.
\<close>

section \<open>Clauses\<close>

datatype CxxPad = CxxPad (cxx_pad_addr: usize)

record CatchClause =
  catch_index :: TypeIndex
  catch_target :: Target

datatype Clause = ClauseCatch CatchClause | ClauseFilter FilterIndex

datatype Stage = StageSearch | StageHandler

datatype CxxAction = CxxNone | CxxCleanup CxxPad | CxxHandler CxxPad Selector | CxxTerminate

datatype CxxError = CxxParse LsdaError | CxxLanding | CxxTypes | CxxSelector

datatype 'e Failure = Metadata CxxError | Match 'e

type_synonym ('e, 'w) matcher =
  "Stage \<Rightarrow> usize \<Rightarrow> ExceptionClass \<Rightarrow> Lsda \<Rightarrow> Clause \<Rightarrow> Selector \<Rightarrow> 'w \<Rightarrow> (('e + bool) \<times> 'w) option"

definition cxx_pad_new :: "usize \<Rightarrow> CxxError + CxxPad" where
  "cxx_pad_new addr = ok_or CxxLanding (map_option CxxPad (nonzero addr))"

definition clause_catch :: "lib \<Rightarrow> Lsda \<Rightarrow> TypeIndex \<Rightarrow> CxxError + Clause" where
  "clause_catch L lsda index =
    and_then (ok_or CxxTypes (lsda_types lsda)) (\<lambda>types.
    and_then (map_err CxxParse (types_get L types lsda index)) (\<lambda>target.
      Inr (ClauseCatch \<lparr>catch_index = index, catch_target = target\<rparr>)))"

definition isize_try_from :: "usize \<Rightarrow> isize option" where
  "isize_try_from w = (if unat w < 2 ^ 63 then Some w else None)"

definition checked_neg :: "isize \<Rightarrow> isize option" where
  "checked_neg x = (if sint x = - (2 ^ 63) then None else Some (- x))"

definition clause_selector :: "Clause \<Rightarrow> CxxError + Selector" where
  "clause_selector self =
    (case self of
       ClauseCatch catch \<Rightarrow>
         and_then (ok_or CxxSelector (isize_try_from (type_raw (catch_index catch)))) (\<lambda>value.
           Inr (Selector value))
     | ClauseFilter index \<Rightarrow>
         and_then (ok_or CxxSelector (isize_try_from (filter_raw index))) (\<lambda>value.
         and_then (ok_or CxxSelector (checked_neg value)) (\<lambda>value.
           Inr (Selector value))))"

definition clause_test ::
    "('e, 'w) matcher \<Rightarrow> Clause \<Rightarrow> Stage \<Rightarrow> usize \<Rightarrow> ExceptionClass \<Rightarrow> Lsda \<Rightarrow> 'w
      \<Rightarrow> (('e Failure + Selector option) \<times> 'w) option" where
  "clause_test M self stage exception class lsda w =
    (case clause_selector self of
       Inl e \<Rightarrow> Some (Inl (Metadata e), w)
     | Inr selector \<Rightarrow>
         map_option (\<lambda>(matched, w).
             (case matched of
                Inl e \<Rightarrow> Inl (Match e)
              | Inr matched \<Rightarrow> Inr (if matched then Some selector else None), w))
           (M stage exception class lsda self selector w))"

section \<open>Cleanup\<close>

text \<open>The loop over the chain: it breaks at the first malformed record.\<close>

definition clean_body :: "lib \<Rightarrow> Chain \<times> bool \<Rightarrow> (Chain \<times> bool, LsdaError + bool) flow option" where
  "clean_body L s =
    (case s of (chain, cleanup) \<Rightarrow>
     case chain_next L chain of
       (None, _) \<Rightarrow> Some (Break (Inr cleanup))
     | (Some (Inl error), _) \<Rightarrow> Some (Break (Inl error))
     | (Some (Inr kind), chain) \<Rightarrow>
         Some (Continue (chain, if kind = Table.Cleanup then True else cleanup)))"

definition cxx_clean :: "lib \<Rightarrow> Lsda \<Rightarrow> usize \<Rightarrow> (CxxError + CxxAction) option" where
  "cxx_clean L lsda pc =
    run_then (map_option (map_err CxxParse) (lsda_site L lsda pc)) (\<lambda>site.
      case site of
        None \<Rightarrow> Some (Inr CxxTerminate)
      | Some site \<Rightarrow>
          (case site_landing site of
             None \<Rightarrow> Some (Inr CxxNone)
           | Some addr \<Rightarrow>
               run_then (Some (cxx_pad_new addr)) (\<lambda>pad.
                 case site_action site of
                   None \<Rightarrow> Some (Inr (CxxCleanup pad))
                 | Some action \<Rightarrow>
                     run_then (Some (map_err CxxParse (lsda_chain L lsda action))) (\<lambda>chain.
                     run_then (map_option (map_err CxxParse) (run_loop (clean_body L) (chain, False)))
                       (\<lambda>cleanup. Some (Inr (if cleanup then CxxCleanup pad else CxxNone)))))))"

section \<open>Handlers\<close>

text \<open>What one record of the chain contributes.\<close>

definition scan_kind ::
    "lib \<Rightarrow> ('e, 'w) matcher \<Rightarrow> Stage \<Rightarrow> Lsda \<Rightarrow> usize \<Rightarrow> ExceptionClass \<Rightarrow> LsdaError + Kind \<Rightarrow> 'w
      \<Rightarrow> (('e Failure + Selector option) \<times> 'w) option" where
  "scan_kind L M stage lsda exception class kind w =
    (case kind of
       Inl error \<Rightarrow> Some (Inl (Metadata (CxxParse error)), w)
     | Inr Table.Cleanup \<Rightarrow> Some (Inr None, w)
     | Inr (Catch index) \<Rightarrow>
         (case clause_catch L lsda index of
            Inl e \<Rightarrow> Some (Inl (Metadata e), w)
          | Inr clause \<Rightarrow> clause_test M clause stage exception class lsda w)
     | Inr (Filter index) \<Rightarrow> clause_test M (ClauseFilter index) stage exception class lsda w)"

definition scan_body ::
    "lib \<Rightarrow> ('e, 'w) matcher \<Rightarrow> Stage \<Rightarrow> Lsda \<Rightarrow> usize \<Rightarrow> ExceptionClass \<Rightarrow> CxxPad
      \<Rightarrow> Chain \<times> bool \<times> 'w \<Rightarrow> (Chain \<times> bool \<times> 'w, ('e Failure + CxxAction) \<times> 'w) flow option" where
  "scan_body L M stage lsda exception class pad s =
    (case s of (chain, cleanup, w) \<Rightarrow>
     case chain_next L chain of
       (None, _) \<Rightarrow> Some (Break (Inr (if cleanup then CxxCleanup pad else CxxNone), w))
     | (Some kind, chain) \<Rightarrow>
         map_option (\<lambda>(outcome, w). case outcome of
             Inr (Some selector) \<Rightarrow> Break (Inr (CxxHandler pad selector), w)
           | Inr None \<Rightarrow> Continue (chain, if kind = Inr Table.Cleanup then True else cleanup, w)
           | Inl error \<Rightarrow> Break (Inl error, w))
           (scan_kind L M stage lsda exception class kind w))"

definition cxx_scan ::
    "lib \<Rightarrow> ('e, 'w) matcher \<Rightarrow> Stage \<Rightarrow> Lsda \<Rightarrow> usize \<Rightarrow> usize \<Rightarrow> ExceptionClass \<Rightarrow> 'w
      \<Rightarrow> (('e Failure + CxxAction) \<times> 'w) option" where
  "cxx_scan L M stage lsda pc exception class w =
    Option.bind (lsda_site L lsda pc) (\<lambda>site.
      case site of
        Inl error \<Rightarrow> Some (Inl (Metadata (CxxParse error)), w)
      | Inr None \<Rightarrow> Some (Inr CxxTerminate, w)
      | Inr (Some site) \<Rightarrow>
          (case site_landing site of
             None \<Rightarrow> Some (Inr CxxNone, w)
           | Some addr \<Rightarrow>
               (case cxx_pad_new addr of
                  Inl e \<Rightarrow> Some (Inl (Metadata e), w)
                | Inr pad \<Rightarrow>
                    (case site_action site of
                       None \<Rightarrow> Some (Inr (CxxCleanup pad), w)
                     | Some action \<Rightarrow>
                         (case lsda_chain L lsda action of
                            Inl error \<Rightarrow> Some (Inl (Metadata (CxxParse error)), w)
                          | Inr chain \<Rightarrow>
                              run_loop (scan_body L M stage lsda exception class pad)
                                (chain, False, w))))))"

definition cxx_find_handler ::
    "lib \<Rightarrow> ('e, 'w) matcher \<Rightarrow> Lsda \<Rightarrow> usize \<Rightarrow> usize \<Rightarrow> ExceptionClass \<Rightarrow> 'w
      \<Rightarrow> (('e Failure + CxxAction) \<times> 'w) option" where
  "cxx_find_handler L M lsda pc exception class w = cxx_scan L M StageSearch lsda pc exception class w"

definition cxx_restore_handler ::
    "lib \<Rightarrow> ('e, 'w) matcher \<Rightarrow> Lsda \<Rightarrow> usize \<Rightarrow> usize \<Rightarrow> ExceptionClass \<Rightarrow> 'w
      \<Rightarrow> (('e Failure + CxxAction) \<times> 'w) option" where
  "cxx_restore_handler L M lsda pc exception class w = cxx_scan L M StageHandler lsda pc exception class w"

section \<open>The policy\<close>

definition cxx_endian :: Endian where
  "cxx_endian = Little"

definition cxx_lsda :: "lib \<Rightarrow> 'c level1 \<Rightarrow> 'c source \<Rightarrow> 'c \<Rightarrow> unit + Lsda option" where
  "cxx_lsda L A S frame =
    (let lsda_origin = frame_lsda A frame;
         data = s_bytes S frame;
         are_aligned = (case (lsda_origin, data) of
             (Some ori, Inr (Some (address, _))) \<Rightarrow> ori = address
           | _ \<Rightarrow> True)
     in case (lsda_origin, data, are_aligned) of
          (None, Inr None, True) \<Rightarrow> Inr None
        | (Some ori, Inr (Some (_, bytes)), True) \<Rightarrow>
            and_then (map_err (\<lambda>_. ()) (lsda_new L bytes (frame_bases A S frame ori) cxx_endian))
              (\<lambda>lsda. Inr (Some lsda))
        | _ \<Rightarrow> Inl ())"

definition cxx_install :: "lib \<Rightarrow> 'c level1 \<Rightarrow> 'c \<Rightarrow> usize \<Rightarrow> CxxPad \<Rightarrow> Selector \<Rightarrow> 'c" where
  "cxx_install L A frame exception pad selector =
    cleanup_install L A frame (LandingPad (cxx_pad_addr pad)) exception selector"

definition cxx_search ::
    "lib \<Rightarrow> 'c level1 \<Rightarrow> 'c source \<Rightarrow> ('e, 'w) matcher \<Rightarrow> 'c Search \<Rightarrow> 'w \<Rightarrow> (SearchDecision \<times> 'w) option" where
  "cxx_search L A S M call w =
    (case cxx_lsda L A S (search_frame call) of
       Inr None \<Rightarrow> Some (SearchContinue, w)
     | Inl _ \<Rightarrow> Some (SearchFatal, w)
     | Inr (Some lsda) \<Rightarrow>
         map_option (\<lambda>(action, w). (case action of
             Inr CxxNone \<Rightarrow> SearchContinue
           | Inr (CxxCleanup _) \<Rightarrow> SearchContinue
           | Inr (CxxHandler _ _) \<Rightarrow> HandlerFound
           | Inr CxxTerminate \<Rightarrow> SearchFatal
           | Inl _ \<Rightarrow> SearchFatal, w))
           (cxx_find_handler L M lsda (ip_site (frame_ip_info A (search_frame call)))
             (search_exception call) (search_class call) w))"

definition cxx_cleanup ::
    "lib \<Rightarrow> 'c level1 \<Rightarrow> 'c source \<Rightarrow> 'c Cleanup \<Rightarrow> 'w \<Rightarrow> ('c CleanupDecision \<times> 'w) option" where
  "cxx_cleanup L A S call w =
    (case cxx_lsda L A S (cleanup_frame call) of
       Inr None \<Rightarrow> Some (CleanupContinue, w)
     | Inl _ \<Rightarrow> Some (CleanupFatal, w)
     | Inr (Some lsda) \<Rightarrow>
         map_option (\<lambda>action. (case action of
             Inr CxxNone \<Rightarrow> CleanupContinue
           | Inr (CxxCleanup pad) \<Rightarrow>
               CleanupInstall (cxx_install L A (cleanup_frame call) (cleanup_exception call) pad (Selector 0))
           | Inr (CxxHandler _ _) \<Rightarrow> CleanupFatal
           | Inr CxxTerminate \<Rightarrow> CleanupFatal
           | Inl _ \<Rightarrow> CleanupFatal, w))
           (cxx_clean L lsda (ip_site (frame_ip_info A (cleanup_frame call)))))"

definition cxx_handler ::
    "lib \<Rightarrow> 'c level1 \<Rightarrow> 'c source \<Rightarrow> ('e, 'w) matcher \<Rightarrow> 'c Handler \<Rightarrow> 'w \<Rightarrow> ('c HandlerDecision \<times> 'w) option" where
  "cxx_handler L A S M call w =
    (case cxx_lsda L A S (handler_frame call) of
       Inr (Some lsda) \<Rightarrow>
         map_option (\<lambda>(action, w). (case action of
             Inr (CxxHandler pad selector) \<Rightarrow>
               HandlerInstall (cxx_install L A (handler_frame call) (handler_exception call) pad selector)
           | _ \<Rightarrow> HandlerFatal, w))
           (cxx_restore_handler L M lsda (ip_site (frame_ip_info A (handler_frame call)))
             (handler_exception call) (handler_class call) w)
     | _ \<Rightarrow> Some (HandlerFatal, w))"

definition cxx_policy :: "lib \<Rightarrow> 'c level1 \<Rightarrow> 'c source \<Rightarrow> ('e, 'w) matcher \<Rightarrow> ('c, 'w) policy" where
  "cxx_policy L A S M =
    \<lparr>p_search = cxx_search L A S M, p_cleanup = cxx_cleanup L A S, p_handler = cxx_handler L A S M\<rparr>"

end
