(* ===== verification/Level1.thy ===== *)
theory Level1
  imports RustPolicy TwoPhase
begin

text \<open>
  The two sides of the Level I interface put together: the runtime's context functions as the
  \<open>level1\<close> record that a personality is linked against, and an exported personality as a
  routine of the runtime.  A context is the callback with the writes made through it so far.
\<close>

section \<open>The contract of a context\<close>

text \<open>
  What a personality relies on: a register written through the context reads back, the others
  stay, and setting the instruction pointer is a write of the return-address register.
\<close>

locale landing_context =
  fixes L :: lib and A :: "'c level1" and view :: "'c \<Rightarrow> u16 \<Rightarrow> 'e + usize"
  assumes set_gr: "is_named L r \<Longrightarrow> view (l1_set_gr A c (ucast r) v) q = (if q = r then Inr v else view c q)"
    and set_ip: "is_named L (x86_64 L RA) \<Longrightarrow>
      view (l1_set_ip A c v) q = (if q = x86_64 L RA then Inr v else view c q)"
begin

lemma installed:
  assumes "x86_laws L"
  shows "view (cleanup_install L A c pad e sel) q =
    (if q = x86_64 L RA then Inr (landing_address pad)
     else if q = x86_64 L RDX then Inr (selector_raw sel)
     else if q = x86_64 L RAX then Inr e else view c q)"
proof -
  have n: "is_named L (x86_64 L g)" for g by (simp add: is_named_def x86_laws.reg_named_of[OF assms])
  show ?thesis using n by (simp add: cleanup_install_def Let_def set_ip set_gr)
qed

end

section \<open>The runtime's context functions\<close>

type_synonym context_state = "Callback \<times> writes"

definition runtime_level1 :: "'w machine \<Rightarrow> 'w world \<Rightarrow> context_state level1" where
  "runtime_level1 U w = (let L = u_lib U; ra = ucast (x86_64 L RA) in
    \<lparr>l1_ip_info = (\<lambda>(cb, ws). case context_info (Some cb) True of
        (address, stored) \<Rightarrow> (address, case stored of Some flag \<Rightarrow> flag | None \<Rightarrow> 0)),
     l1_start = (\<lambda>(cb, ws). context_start (u_gimli U) (Some cb)),
     l1_text = (\<lambda>(cb, ws). context_text (Some cb)),
     l1_data = (\<lambda>(cb, ws). context_data (Some cb)),
     l1_cfa = (\<lambda>(cb, ws). context_cfa L (Some cb)),
     l1_lsda = (\<lambda>(cb, ws). context_lsda U w (Some cb)),
     l1_get_gr = (\<lambda>(cb, ws) index. context_reg L (Some cb) index),
     l1_set_gr = (\<lambda>(cb, ws) index value. (callback_set L cb index value, ws @ [(index, value)])),
     l1_set_ip = (\<lambda>(cb, ws) value. (callback_set L cb ra value, ws @ [(ra, value)]))\<rparr>)"

definition context_view :: "lib \<Rightarrow> context_state \<Rightarrow> u16 \<Rightarrow> UnwindError + usize" where
  "context_view L c q = cursor_read L (callback_cursor (fst c)) q"

lemma decode_number [simp]: "callback_decode (ucast (r :: u16)) = Some r"
proof -
  have lt: "uint r < 2 ^ 16" using unsigned_less[of r, where ?'a = int] by simp
  then have lt': "uint r < 2 ^ 31" by simp
  have ge: "- (2 ^ 31) \<le> uint r" by (rule order_trans[of _ 0]) simp_all
  have "sint (ucast r :: c_int) = uint r"
    using signed_take_bit_int_eq_self[OF ge lt'] by (simp add: signed_ucast_eq)
  with lt show ?thesis by (simp add: callback_decode_def)
qed

lemma context_set_view:
  "is_named L r \<Longrightarrow> cursor_read L (callback_cursor (callback_set L cb (ucast r) v)) q =
    (if q = r then Inr v else cursor_read L (callback_cursor cb) q)"
  by (simp add: callback_set_state cursor_read_def st.rd_put)

interpretation rt: landing_context "u_lib U" "runtime_level1 U w" "context_view (u_lib U)"
    for U :: "'w machine" and w
  by unfold_locales
     (auto simp: runtime_level1_def Let_def context_view_def context_set_view split: prod.splits)

text \<open>The callback always is what its writes make of the one the routine was called with.\<close>

lemma install_writes:
  "cleanup_install (u_lib U) (runtime_level1 U w) (cb, []) pad e sel =
    (let ws = [(ucast (x86_64 (u_lib U) RAX), e), (ucast (x86_64 (u_lib U) RDX), selector_raw sel),
               (ucast (x86_64 (u_lib U) RA), landing_address pad)]
     in (callback_writes (u_lib U) ws cb, ws))"
  by (simp add: cleanup_install_def runtime_level1_def callback_writes_def Let_def)

section \<open>A personality as a routine\<close>

text \<open>\<open>export_personality!\<close>: the exported symbol dispatches to the policy.\<close>

definition personality_routine ::
    "'w machine \<Rightarrow> (context_state level1 \<Rightarrow> (context_state, 'w world) policy)
      \<Rightarrow> c_int \<Rightarrow> Actions \<Rightarrow> ExceptionClass \<Rightarrow> usize \<Rightarrow> Callback \<Rightarrow> 'w world
      \<Rightarrow> (ReasonCode \<times> writes \<times> 'w world) option" where
  "personality_routine U P version actions class exception callback w =
    map_option (\<lambda>(reason, context, w). (reason, case context of Some c \<Rightarrow> snd c | None \<Rightarrow> [], w))
      (dispatch (u_lib U) (P (runtime_level1 U w)) (w_exception w) version actions class exception
        (Some (callback, [])) w)"

end
