(* ===== verification/PolicyFacts.thy ===== *)
theory PolicyFacts
  imports CxxPolicy Level1
begin

text \<open>
  Facts about the two policies: what they make of a chain of action records, the agreement of
  search and handler phase, and what a landing pad finds in the registers.
\<close>

section \<open>The first record of a chain\<close>

fun rust_meaning :: "Pad \<Rightarrow> Kind \<Rightarrow> RustAction" where
  "rust_meaning pad Table.Cleanup = RustCleanup pad"
| "rust_meaning pad (Catch _) = RustCatch pad"
| "rust_meaning pad (Filter _) = RustFilter pad"

text \<open>The meaning of the site that covers a program counter, given the chains of its actions.\<close>

definition rust_site_meaning :: "(Action \<Rightarrow> Kind list) \<Rightarrow> Site option \<Rightarrow> RustAction" where
  "rust_site_meaning kinds site =
    (case site of
       None \<Rightarrow> RustTerminate
     | Some s \<Rightarrow>
         (case site_landing s of
            None \<Rightarrow> RustNone
          | Some addr \<Rightarrow>
              (case site_action s of
                 None \<Rightarrow> RustCleanup (Pad addr)
               | Some a \<Rightarrow> rust_meaning (Pad addr) (hd (kinds a)))))"

text \<open>The actions of a table: every action starts a chain of well-formed records that ends.\<close>

definition actions_ok :: "lib \<Rightarrow> bytes \<Rightarrow> nat \<Rightarrow> (Action \<Rightarrow> Kind list) \<Rightarrow> Site list \<Rightarrow> bool" where
  "actions_ok L whole floor kinds sites \<longleftrightarrow>
    (\<forall>s\<in>set sites. \<forall>a. site_action s = Some a \<longrightarrow>
      follows L whole floor (floor + unat (action_raw a) - 1) (kinds a))"

lemma drain_first:
  "drain next s = Some (x # xs) \<Longrightarrow> fst (next s) = Some x \<and> drain next (snd (next s)) = Some xs"
  by (subst (asm) drain.simps) (auto simp: bind_eq_Some_conv split: option.splits)

lemma drain_none: "drain next s = Some [] \<Longrightarrow> fst (next s) = None"
  by (subst (asm) drain.simps) (auto simp: bind_eq_Some_conv split: option.splits)

lemma follows_nonempty: "follows L whole floor off ks \<Longrightarrow> ks \<noteq> []"
  by (cases rule: follows.cases) auto

context nom_laws begin

text \<open>A chain that ends can be started.\<close>

lemma lsda_chain_ok:
  assumes "lsda_wf L l" "action_raw a \<noteq> 0"
    "follows L (lsda_bytes l) (unat (lsda_action_offset l))
      (unat (lsda_action_offset l) + unat (action_raw a) - 1) ks"
  shows "\<exists>c. lsda_chain L l a = Inr c"
proof -
  let ?o = "lsda_action_offset l" and ?r = "action_raw a"
  have ok: "slice_ok (lsda_bytes l)" using assms(1) by (simp add: lsda_wf_def)
  have nz: "1 \<le> ?r" "0 < unat ?r" using assms(2) by (simp_all add: word_le_nat_alt Suc_le_eq unat_gt_0)
  have lt: "unat ?o + unat ?r - 1 < length (lsda_bytes l)" using follows_range[OF assms(3)] by simp
  have r: "unat (?r - 1) = unat ?r - 1" using nz(1) by (simp add: unat_sub_exact)
  with lt nz(2) ok have small: "unat ?o + unat (?r - 1) < 2 ^ 64" by (simp add: slice_ok_def)
  then have sum: "unat (?o + (?r - 1)) = unat ?o + unat ?r - 1"
    using r nz(2) by (subst unat_add_exact) simp_all
  with lt ok have in_range: "?o + (?r - 1) < len_of (lsda_bytes l)"
    by (simp add: word_less_nat_alt unat_len_of)
  have "checked_sub ?r 1 = Some (?r - 1)" using nz(1) by (simp add: checked_sub_def)
  moreover have "checked_add ?o (?r - 1) = Some (?o + (?r - 1))" using small by (simp add: checked_add_def)
  ultimately show ?thesis
    unfolding lsda_chain_def Let_def using in_range sum lt by (simp add: take_bytes_eq)
qed

text \<open>The chain behind an action, when its records are well formed.\<close>

lemma lsda_chain_drains:
  assumes "lsda_wf L l" "action_raw a \<noteq> 0"
    "follows L (lsda_bytes l) (unat (lsda_action_offset l))
      (unat (lsda_action_offset l) + unat (action_raw a) - 1) ks"
  shows "\<exists>c. lsda_chain L l a = Inr c \<and> drain (chain_next L) c = Some (map Inr ks)"
proof -
  obtain c where c: "lsda_chain L l a = Inr c" using lsda_chain_ok[OF assms] by blast
  with lsda_chain_exact[OF assms(1) c, of ks] assms(3) show ?thesis by blast
qed

lemma rust_chain_first:
  assumes "lsda_wf L l" "action_raw a \<noteq> 0"
    "follows L (lsda_bytes l) (unat (lsda_action_offset l))
      (unat (lsda_action_offset l) + unat (action_raw a) - 1) ks"
  shows "rust_chain L l pad a = Inr (rust_meaning pad (hd ks))"
proof -
  obtain c where c: "lsda_chain L l a = Inr c" "drain (chain_next L) c = Some (map Inr ks)"
    using lsda_chain_drains[OF assms] by blast
  obtain k ks' where ks: "ks = k # ks'" using follows_nonempty[OF assms(3)] by (cases ks) auto
  have "fst (chain_next L c) = Some (Inr k)"
    using c(2) drain_first[of "chain_next L" c] by (auto simp: ks)
  then show ?thesis by (cases k) (simp_all add: rust_chain_def c ks)
qed

end

context lsda_laws begin

lemma encoded_parts:
  assumes enc: "\<forall>s\<in>set sites. encodable (bases_function bases) s" and "sites_ok sites"
    "bases_function bases \<le> pc"
    and ok: "slice_ok (encode_lsda (bases_function bases) sites actions)"
    and whole: "whole = encode_lsda (bases_function bases) sites actions"
  obtains l where "lsda_new L whole bases endian = Inr l" "lsda_wf L l" "lsda_bytes l = whole"
    "length whole - length actions = unat (lsda_action_offset l)"
    "lsda_site L l pc = Some (Inr (List.find (covers (pc - bases_function bases)) sites))"
proof -
  from encode_lsda_read[OF enc ok] obtain l where
      new: "lsda_new L whole bases endian = Inr l" and b: "lsda_bases l = bases" and wf: "lsda_wf L l"
    and dr: "drop (unat (lsda_action_offset l)) (lsda_bytes l) = actions"
    and ds: "drain (sites_next L) (lsda_sites l) = Some (map Inr sites)"
    unfolding whole by blast
  have bytes: "lsda_bytes l = whole" using new by (rule lsda_new_parts) simp
  have "unat (lsda_action_offset l) \<le> length whole" using wf bytes by (auto simp: lsda_wf_def)
  then have "length whole - length actions = unat (lsda_action_offset l)"
    using arg_cong[OF dr, of length] bytes by simp
  with that[OF new wf bytes] lsda_site_find[OF ds assms(2)] assms(3) b show thesis by simp
qed

lemma rust_scan_encoded:
  assumes enc: "\<forall>s\<in>set sites. encodable (bases_function bases) s" and "sites_ok sites"
    "bases_function bases \<le> pc"
    and ok: "slice_ok (encode_lsda (bases_function bases) sites actions)"
    and whole: "whole = encode_lsda (bases_function bases) sites actions"
    and act: "actions_ok L whole (length whole - length actions) kinds sites"
  shows "\<exists>l. lsda_new L whole bases endian = Inr l \<and>
    rust_scan L l pc = Some (Inr (rust_site_meaning kinds
      (List.find (covers (pc - bases_function bases)) sites)))"
proof -
  let ?f = "List.find (covers (pc - bases_function bases)) sites"
  obtain l where new: "lsda_new L whole bases endian = Inr l" and wf: "lsda_wf L l"
    and bytes: "lsda_bytes l = whole"
    and floor: "length whole - length actions = unat (lsda_action_offset l)"
    and site: "lsda_site L l pc = Some (Inr ?f)"
    by (rule encoded_parts[OF assms(1-5)])
  have mem: "s \<in> set sites" if "?f = Some s" for s
    using that by (auto simp: find_Some_iff)
  have "rust_scan L l pc = Some (Inr (rust_site_meaning kinds ?f))"
  proof (cases ?f)
    case None
    then show ?thesis by (simp add: rust_scan_def site rust_site_meaning_def)
  next
    case (Some s)
    note s = enc[THEN bspec, OF mem[OF Some]]
    have pad: "addr \<noteq> 0" if "site_landing s = Some addr" for addr
      using s that by (auto simp: encodable_def)
    have chain: "rust_chain L l p a = Inr (rust_meaning p (hd (kinds a)))" if "site_action s = Some a" for a p
      using act mem[OF Some] s that
      by (intro rust_chain_first[OF wf]) (simp_all add: actions_ok_def bytes floor encodable_def)
    show ?thesis
      using Some pad chain
      by (auto simp: rust_scan_def site rust_site_meaning_def pad_new_def nonzero_def split: option.splits)
  qed
  with new show ?thesis by blast
qed

end

section \<open>Both phases agree\<close>

lemma rust_phases:
  "rust_search L A S \<lparr>search_frame = c, search_exception = e, search_class = cls\<rparr> = Some HandlerFound \<longleftrightarrow>
    (\<exists>c'. rust_handler L A S \<lparr>handler_frame = c, handler_exception = e, handler_class = cls\<rparr> =
      Some (HandlerInstall c'))"
proof (cases "rust_action L A S c")
  case (Some r)
  then show ?thesis
  proof (cases r)
    case (Inr a)
    with Some show ?thesis by (cases a) (simp_all add: rust_search_def rust_handler_def)
  qed (simp add: rust_search_def rust_handler_def)
qed (simp add: rust_search_def rust_handler_def)

section \<open>C++ chains\<close>

lemma clean_loop:
  "drain (chain_next L) c = Some (map Inr ks) \<Longrightarrow>
    run_loop (clean_body L) (c, b) = Some (Inr (b \<or> Table.Cleanup \<in> set ks))"
proof (induction ks arbitrary: c b)
  case Nil
  then have "fst (chain_next L c) = None" using drain_none[of "chain_next L" c] by simp
  then have "clean_body L (c, b) = Some (Break (Inr b))"
    by (cases "chain_next L c") (simp add: clean_body_def)
  then show ?case by (simp add: run_loop_simps)
next
  case (Cons k ks)
  obtain c' where n: "chain_next L c = (Some (Inr k), c')" and d: "drain (chain_next L) c' = Some (map Inr ks)"
    using drain_first[of "chain_next L" c "Inr k" "map Inr ks"] Cons.prems
    by (cases "chain_next L c") auto
  let ?b = "if k = Table.Cleanup then True else b"
  have "clean_body L (c, b) = Some (Continue (c', ?b))" by (simp add: clean_body_def n)
  then show ?case using Cons.IH[OF d, of ?b] by (auto simp: run_loop_simps)
qed

text \<open>
  Scanning a chain of kinds: the first clause that matches wins, a clause that cannot be tested
  ends the scan, and a cleanup record counts only when nothing matches.
\<close>

fun scan_kinds :: "(Kind \<Rightarrow> 'e Failure + Selector option) \<Rightarrow> CxxPad \<Rightarrow> bool \<Rightarrow> Kind list
    \<Rightarrow> 'e Failure + CxxAction" where
  "scan_kinds t pad cleanup [] = Inr (if cleanup then CxxCleanup pad else CxxNone)"
| "scan_kinds t pad cleanup (k # ks) =
    (case t k of
       Inl error \<Rightarrow> Inl error
     | Inr (Some selector) \<Rightarrow> Inr (CxxHandler pad selector)
     | Inr None \<Rightarrow> scan_kinds t pad (cleanup \<or> k = Table.Cleanup) ks)"

text \<open>A matcher that answers a clause without changing the process state.\<close>

definition answers ::
    "lib \<Rightarrow> ('e, 'w) matcher \<Rightarrow> Stage \<Rightarrow> Lsda \<Rightarrow> usize \<Rightarrow> ExceptionClass \<Rightarrow> 'w
      \<Rightarrow> (Kind \<Rightarrow> 'e Failure + Selector option) \<Rightarrow> Kind list \<Rightarrow> bool" where
  "answers L M stage lsda exception class w t ks \<longleftrightarrow>
    (\<forall>k\<in>set ks. scan_kind L M stage lsda exception class (Inr k) w = Some (t k, w))"

lemma scan_loop:
  "drain (chain_next L) c = Some (map Inr ks) \<Longrightarrow> answers L M stage lsda exception cls w t ks \<Longrightarrow>
    run_loop (scan_body L M stage lsda exception cls pad) (c, b, w) = Some (scan_kinds t pad b ks, w)"
proof (induction ks arbitrary: c b)
  case Nil
  then have "fst (chain_next L c) = None" using drain_none[of "chain_next L" c] by simp
  then have "scan_body L M stage lsda exception cls pad (c, b, w) =
      Some (Break (Inr (if b then CxxCleanup pad else CxxNone), w))"
    by (cases "chain_next L c") (simp add: scan_body_def)
  then show ?case by (simp add: run_loop_simps)
next
  case (Cons k ks)
  obtain c' where n: "chain_next L c = (Some (Inr k), c')" and d: "drain (chain_next L) c' = Some (map Inr ks)"
    using drain_first[of "chain_next L" c "Inr k" "map Inr ks"] Cons.prems
    by (cases "chain_next L c") auto
  have t: "scan_kind L M stage lsda exception cls (Inr k) w = Some (t k, w)"
    and rest: "answers L M stage lsda exception cls w t ks"
    using Cons.prems(2) by (simp_all add: answers_def)
  show ?case
  proof (cases "t k")
    case (Inl e)
    then have "scan_body L M stage lsda exception cls pad (c, b, w) = Some (Break (Inl e, w))"
      by (simp add: scan_body_def n t)
    then show ?thesis by (simp add: run_loop_simps Inl)
  next
    case (Inr s)
    show ?thesis
    proof (cases s)
      case None
      then have "scan_body L M stage lsda exception cls pad (c, b, w) =
          Some (Continue (c', (b \<or> k = Table.Cleanup), w))"
        by (auto simp: scan_body_def n t Inr)
      then show ?thesis using Cons.IH[OF d rest] by (simp add: run_loop_simps Inr None)
    next
      case (Some sel)
      then have "scan_body L M stage lsda exception cls pad (c, b, w) =
          Some (Break (Inr (CxxHandler pad sel), w))"
        by (simp add: scan_body_def n t Inr)
      then show ?thesis by (simp add: run_loop_simps Inr Some)
    qed
  qed
qed

text \<open>One site of a parsed table, with a landing pad and a well-formed chain of actions.\<close>

definition site_chain :: "lib \<Rightarrow> Lsda \<Rightarrow> usize \<Rightarrow> usize \<Rightarrow> Kind list \<Rightarrow> bool" where
  "site_chain L l pc addr ks \<longleftrightarrow> lsda_wf L l \<and> addr \<noteq> 0 \<and>
    (\<exists>s a. lsda_site L l pc = Some (Inr (Some s)) \<and> site_landing s = Some addr \<and>
      site_action s = Some a \<and> action_raw a \<noteq> 0 \<and>
      follows L (lsda_bytes l) (unat (lsda_action_offset l))
        (unat (lsda_action_offset l) + unat (action_raw a) - 1) ks)"

context nom_laws begin

lemma site_chain_drains:
  assumes "site_chain L l pc addr ks"
  obtains s a c where "lsda_site L l pc = Some (Inr (Some s))" "site_landing s = Some addr"
    "cxx_pad_new addr = Inr (CxxPad addr)" "pad_new addr = Inr (Pad addr)"
    "site_action s = Some a" "lsda_chain L l a = Inr c"
    "drain (chain_next L) c = Some (map Inr ks)"
  using assms lsda_chain_drains
  by (fastforce simp: site_chain_def cxx_pad_new_def pad_new_def nonzero_def)

lemma cxx_clean_chain:
  assumes "site_chain L l pc addr ks"
  shows "cxx_clean L l pc =
    Some (Inr (if Table.Cleanup \<in> set ks then CxxCleanup (CxxPad addr) else CxxNone))"
  by (rule site_chain_drains[OF assms]) (simp add: cxx_clean_def clean_loop)

lemma cxx_scan_chain:
  assumes "site_chain L l pc addr ks" "answers L M stage l exception cls w t ks"
  shows "cxx_scan L M stage l pc exception cls w = Some (scan_kinds t (CxxPad addr) False ks, w)"
  by (rule site_chain_drains[OF assms(1)]) (simp add: cxx_scan_def scan_loop[OF _ assms(2)])

end

context lsda_laws begin

text \<open>Written tables have such sites.\<close>

lemma encoded_site_chain:
  assumes "\<forall>s\<in>set sites. encodable (bases_function bases) s" "sites_ok sites"
    "bases_function bases \<le> pc" "slice_ok (encode_lsda (bases_function bases) sites actions)"
    "whole = encode_lsda (bases_function bases) sites actions"
    "actions_ok L whole (length whole - length actions) kinds sites"
    "List.find (covers (pc - bases_function bases)) sites = Some s"
    "site_landing s = Some addr" "site_action s = Some a"
  shows "\<exists>l. lsda_new L whole bases endian = Inr l \<and> site_chain L l pc addr (kinds a)"
proof -
  obtain l where l: "lsda_new L whole bases endian = Inr l" "lsda_wf L l" "lsda_bytes l = whole"
    "length whole - length actions = unat (lsda_action_offset l)"
    "lsda_site L l pc = Some (Inr (List.find (covers (pc - bases_function bases)) sites))"
    by (rule encoded_parts[OF assms(1-5)])
  have s: "s \<in> set sites" using assms(7) by (auto simp: find_Some_iff)
  with l assms(1,6-9) have "site_chain L l pc addr (kinds a)"
    by (auto simp: site_chain_def actions_ok_def encodable_def)
  with l(1) show ?thesis by blast
qed

end

text \<open>What the reference scan finds, in terms of the list of kinds.\<close>

lemma scan_kinds_handler:
  "scan_kinds t pad b ks = Inr (CxxHandler pad sel) \<longleftrightarrow>
    (\<exists>pre k post. ks = pre @ k # post \<and> t k = Inr (Some sel) \<and> (\<forall>k'\<in>set pre. t k' = Inr None))"
proof (induction ks arbitrary: b)
  case (Cons k ks)
  show ?case
  proof (cases "t k = Inr None")
    case True
    have "(\<exists>pre k' post. k # ks = pre @ k' # post \<and> t k' = Inr (Some sel) \<and> (\<forall>k''\<in>set pre. t k'' = Inr None)) \<longleftrightarrow>
        (\<exists>pre k' post. ks = pre @ k' # post \<and> t k' = Inr (Some sel) \<and> (\<forall>k''\<in>set pre. t k'' = Inr None))"
      (is "?l \<longleftrightarrow> ?r")
    proof
      assume ?l
      then obtain pre k' post where "k # ks = pre @ k' # post" "t k' = Inr (Some sel)"
        "\<forall>k''\<in>set pre. t k'' = Inr None" by blast
      with True show ?r by (cases pre) auto
    next
      assume ?r
      then obtain pre k' post where "ks = pre @ k' # post" "t k' = Inr (Some sel)"
        "\<forall>k''\<in>set pre. t k'' = Inr None" by blast
      with True show ?l by (intro exI[of _ "k # pre"]) auto
    qed
    with Cons.IH True show ?thesis by simp
  next
    case False
    then have "(\<exists>pre k' post. k # ks = pre @ k' # post \<and> t k' = Inr (Some sel) \<and> (\<forall>k''\<in>set pre. t k'' = Inr None)) \<longleftrightarrow>
        t k = Inr (Some sel)"
      by (auto simp: Cons_eq_append_conv intro: exI[of _ "[]"])
    with False show ?thesis by (auto split: sum.splits option.splits)
  qed
qed simp

lemma scan_kinds_pad: "scan_kinds t pad b ks = Inr (CxxHandler p sel) \<Longrightarrow> p = pad"
  by (induction ks arbitrary: b) (auto split: if_splits sum.split_asm option.split_asm)

lemma scan_kinds_none:
  "\<forall>k\<in>set ks. t k = Inr None \<Longrightarrow> scan_kinds t pad b ks =
    Inr (if b \<or> Table.Cleanup \<in> set ks then CxxCleanup pad else CxxNone)"
  by (induction ks arbitrary: b) auto

section \<open>Selectors\<close>

lemma unat_positive: "unat (x :: i64) < 2 ^ 63 \<longleftrightarrow> 0 \<le> sint x"
proof -
  have u: "uint x < 2 ^ 64" "0 \<le> uint x" using unsigned_less[of x, where ?'a = int] by simp_all
  have "uint x < 2 ^ 63 \<longleftrightarrow> 0 \<le> sint x"
  proof (cases "uint x < 2 ^ 63")
    case True
    have "- (2 ^ 63) \<le> uint x" by (rule order_trans[OF _ u(2)]) simp
    from signed_take_bit_int_eq_self[OF this True] have "sint x = uint x" by (simp add: sint_uint)
    with True show ?thesis by simp
  next
    case False
    let ?y = "uint x - 2 ^ 64"
    have y: "- (2 ^ 63) \<le> ?y" "?y < 0" "?y < 2 ^ 63" using False u by simp_all
    have "of_int ?y = x" by simp
    then have "sint x = sint (of_int ?y :: i64)" by (simp only:)
    also have "\<dots> = signed_take_bit 63 ?y" by (subst signed_of_int) simp
    also have "\<dots> = ?y" by (rule signed_take_bit_int_eq_self[OF y(1,3)])
    finally show ?thesis using False y(2) by simp
  qed
  moreover have "unat x < 2 ^ 63 \<longleftrightarrow> uint x < 2 ^ 63"
    using of_nat_less_iff[of "unat x" "2 ^ 63", where ?'a = int]
    by (simp only: uint_nat of_nat_power of_nat_numeral)
  ultimately show ?thesis by (simp only:)
qed

lemma sint_minus_exact:
  assumes "sint (x :: i64) \<noteq> - (2 ^ 63)"
  shows "sint (- x) = - sint x"
proof -
  have "- (2 ^ 63) \<le> sint x" "sint x < 2 ^ 63" using sint_ge[of x] sint_lt[of x] by simp_all
  then have "- (2 ^ 63) \<le> - sint x" "- sint x < 2 ^ 63" using assms by linarith+
  from signed_take_bit_int_eq_self[OF this] show ?thesis by (simp add: sint_word_ariths)
qed

text \<open>The selector is the signed index of the action record.\<close>

lemma selector_of_kind:
  "kind_new index = Inr (Catch t) \<Longrightarrow>
    clause_selector (ClauseCatch \<lparr>catch_index = t, catch_target = g\<rparr>) = Inr (Selector index)"
  "kind_new index = Inr (Filter f) \<Longrightarrow> sint index \<noteq> - (2 ^ 63) \<Longrightarrow>
    clause_selector (ClauseFilter f) = Inr (Selector index)"
proof -
  show "kind_new index = Inr (Catch t) \<Longrightarrow>
      clause_selector (ClauseCatch \<lparr>catch_index = t, catch_target = g\<rparr>) = Inr (Selector index)"
    using unat_positive[of index]
    by (auto simp: kind_new_eq clause_selector_def isize_try_from_def split: if_splits)
  assume k: "kind_new index = Inr (Filter f)" and m: "sint index \<noteq> - (2 ^ 63)"
  from k have f: "f = FilterIndex (- index)" and neg: "sint index < 0"
    by (auto simp: kind_new_eq split: if_splits)
  have s: "sint (- index) = - sint index" by (rule sint_minus_exact[OF m])
  have "unat (- index) < 2 ^ 63" using s neg unat_positive[of "- index"] by simp
  moreover have "sint (- index) \<noteq> - (2 ^ 63)" using s neg by simp
  ultimately show "clause_selector (ClauseFilter f) = Inr (Selector index)"
    by (simp add: f clause_selector_def isize_try_from_def checked_neg_def)
qed

end
