(* ===== verification/PolicyProps.thy ===== *)
theory PolicyProps
  imports PolicyFacts UnwindProps LsdaProps
begin

text \<open>
  The properties of the personality layer: the protocol, the Rust and the C++ policy, and the
  landing of a Rust handler through the runtime.
\<close>

section \<open>Landing through the runtime\<close>

lemma rust_handler_routine:
  assumes "bits_laws (u_lib U)" "exception \<noteq> 0" "exception_class (w_exception w exception) = cls"
    "rust_action (u_lib U) (runtime_level1 U w) (S (runtime_level1 U w)) (cb, []) = Some (Inr action)"
    "action = RustCatch pad \<or> action = RustFilter pad"
  shows "personality_routine U (\<lambda>A. rust_policy (u_lib U) A (S A)) protocol_version
      (actions_or (u_lib U) act_cleanup act_handler) cls exception cb w =
    Some (rc_install, [(ucast (x86_64 (u_lib U) RAX), exception), (ucast (x86_64 (u_lib U) RDX), 0),
      (ucast (x86_64 (u_lib U) RA), pad_addr pad)], w)"
proof -
  let ?L = "u_lib U"
  have d: "decode ?L (w_exception w) 1 (actions_or ?L act_cleanup act_handler) cls exception (Some (cb, [])) =
      Inr (HandlerCall \<lparr>handler_frame = (cb, []), handler_exception = exception, handler_class = cls\<rparr>)"
    by (rule bits_laws.decode_masks(3)[OF assms(1,2)]) (rule assms(3))
  have h: "rust_handler ?L (runtime_level1 U w) (S (runtime_level1 U w))
      \<lparr>handler_frame = (cb, []), handler_exception = exception, handler_class = cls\<rparr> =
      Some (HandlerInstall (rust_install ?L (runtime_level1 U w) (cb, []) exception pad))"
    using assms(4,5) by (auto simp: rust_handler_def)
  have i: "snd (rust_install ?L (runtime_level1 U w) (cb, []) exception pad) =
      [(ucast (x86_64 ?L RAX), exception), (ucast (x86_64 ?L RDX), 0), (ucast (x86_64 ?L RA), pad_addr pad)]"
    by (simp add: rust_install_def install_writes Let_def)
  show ?thesis
    unfolding personality_routine_def dispatch_def protocol_version_def d
    by (simp add: rust_policy_def h i)
qed

lemma rust_handler_walk:
  assumes "bits_laws (u_lib U)" "x86_laws (u_lib U)" "exception \<noteq> 0"
    "exception_class (w_exception w exception) = cls"
    "info_personality U w info = Inr (Some a)" "a \<noteq> 0"
    "\<And>v acts cls e cb. r_personality R a v acts cls e cb w =
      personality_routine U (\<lambda>A. rust_policy (u_lib U) A (S A)) v acts cls e cb w"
    "rust_action (u_lib U) (runtime_level1 U w) (S (runtime_level1 U w)) (\<lparr>callback_cursor = c, callback_frame = Some info\<rparr>, []) =
      Some (Inr action)" "action = RustCatch pad \<or> action = RustFilter pad"
  shows "\<exists>c'. walk_personality U R c exception cls info (actions_or (u_lib U) act_cleanup act_handler) w =
      Some (Inr (Some rc_install), c', w) \<and>
    (\<forall>g. state_read (u_lib U) (cursor_state c') (x86_64 (u_lib U) g) =
      (if g = RA then Inr (pad_addr pad) else if g = RDX then Inr 0 else if g = RAX then Inr exception
       else state_read (u_lib U) (cursor_state c) (x86_64 (u_lib U) g)))"
proof -
  let ?cb = "\<lparr>callback_cursor = c, callback_frame = Some info\<rparr>"
  let ?L = "u_lib U"
  let ?ws = "[(ucast (x86_64 ?L RAX), exception), (ucast (x86_64 ?L RDX), 0), (ucast (x86_64 ?L RA), pad_addr pad)]"
  have r: "personality_routine U (\<lambda>A. rust_policy ?L A (S A)) protocol_version (actions_or ?L act_cleanup act_handler)
      cls exception ?cb w = Some (rc_install, ?ws, w)"
    by (rule rust_handler_routine[where S = S, OF assms(1,3,4,8,9)])
  have w: "walk_personality U R c exception cls info (actions_or ?L act_cleanup act_handler) w =
      Some (Inr (Some rc_install), callback_cursor (callback_writes ?L ?ws ?cb), w)"
    using assms(5,6,7) r by (simp add: walk_personality_def nonzero_def with_callback_def)
  have v: "context_view ?L (cleanup_install ?L (runtime_level1 U w) (?cb, []) (LandingPad (pad_addr pad))
      exception (Selector 0)) q = (if q = x86_64 ?L RA then Inr (pad_addr pad)
        else if q = x86_64 ?L RDX then Inr 0 else if q = x86_64 ?L RAX then Inr exception
        else context_view ?L (?cb, []) q)" for q
    using rt.installed[where U = U and w = w, OF assms(2), of "(?cb, [])" "LandingPad (pad_addr pad)" exception "Selector 0" q]
    by simp
  have inj: "x86_64 ?L g = x86_64 ?L h \<longleftrightarrow> g = h" for g h by (rule x86_laws.x86_inj[OF assms(2)])
  have "state_read ?L (cursor_state (callback_cursor (callback_writes ?L ?ws ?cb))) (x86_64 ?L g) =
      (if g = RA then Inr (pad_addr pad) else if g = RDX then Inr 0 else if g = RAX then Inr exception
       else state_read ?L (cursor_state c) (x86_64 ?L g))" for g
    using v[of "x86_64 ?L g"] inj
    by (simp add: install_writes Let_def context_view_def cursor_read_def)
  with w show ?thesis by blast
qed

section \<open>The protocol\<close>

text \<open>The calls the walk makes are well formed: with the exception's own class, each of its masks
  is decoded into the phase it is meant for, a forced cleanup as such, and none is rejected.\<close>

theorem walk_calls_are_accepted:
  assumes "bits_laws L" "e \<noteq> 0" "exception_class (heap e) = cls"
  shows "decode L heap protocol_version act_search cls e (Some c) =
      Inr (SearchCall \<lparr>search_frame = c, search_exception = e, search_class = cls\<rparr>) \<and>
    decode L heap protocol_version (normal_actions L selected) cls e (Some c) =
      (if selected
       then Inr (HandlerCall \<lparr>handler_frame = c, handler_exception = e, handler_class = cls\<rparr>)
       else Inr (CleanupCall \<lparr>cleanup_frame = c, cleanup_exception = e, cleanup_class = cls,
         cleanup_forced = False\<rparr>)) \<and>
    decode L heap protocol_version (actions_or L act_force act_cleanup) cls e (Some c) =
      Inr (CleanupCall \<lparr>cleanup_frame = c, cleanup_exception = e, cleanup_class = cls, cleanup_forced = True\<rparr>)"
  by (simp add: protocol_version_def normal_actions_def bits_laws.decode_masks[where heap = heap, OF assms])

theorem walk_calls_are_accepted_witness:
  "decode lib_ref (w_exception ex_world) 1 (normal_actions lib_ref True) (ExceptionClass 0) 0x9000 (Some ()) =
    Inr (HandlerCall \<lparr>handler_frame = (), handler_exception = 0x9000, handler_class = ExceptionClass 0\<rparr>)"
  using walk_calls_are_accepted[OF ref.bits_laws_axioms, of "0x9000" "w_exception ex_world" "ExceptionClass 0" "()" True]
  by (simp add: ex_world_def exception_new_def protocol_version_def)

text \<open>A call that is accepted is coherent: the version is 1, the pointers are not null, the class
  is the header's, the mask holds known bits only and names exactly one phase, and a handler call
  is neither a search nor forced.\<close>

theorem accepted_calls_are_coherent:
  assumes "bits_laws L" "decode L heap version actions cls e context = Inr call"
  shows "version = 1 \<and> e \<noteq> 0 \<and> exception_class (heap e) = cls \<and> actions_known L actions \<and>
    (\<exists>c. context = Some c \<and>
      (case call of
         SearchCall s \<Rightarrow> s = \<lparr>search_frame = c, search_exception = e, search_class = cls\<rparr> \<and>
           actions_has L actions act_search \<and> \<not> actions_has L actions act_cleanup \<and>
           \<not> actions_has L actions act_handler \<and> \<not> actions_has L actions act_force
       | CleanupCall s \<Rightarrow> s = \<lparr>cleanup_frame = c, cleanup_exception = e, cleanup_class = cls,
             cleanup_forced = actions_has L actions act_force\<rparr> \<and>
           actions_has L actions act_cleanup \<and> \<not> actions_has L actions act_search \<and>
           \<not> actions_has L actions act_handler
       | HandlerCall s \<Rightarrow> s = \<lparr>handler_frame = c, handler_exception = e, handler_class = cls\<rparr> \<and>
           actions_has L actions act_cleanup \<and> actions_has L actions act_handler \<and>
           \<not> actions_has L actions act_search \<and> \<not> actions_has L actions act_force))"
  by (rule bits_laws.decode_phase[OF assms])

theorem accepted_calls_are_coherent_witness:
  "actions_known lib_ref (Actions 0x12) \<and> actions_has lib_ref (Actions 0x12) act_cleanup"
proof -
  have "decode lib_ref (w_exception ex_world) 1 (Actions 0x12) (ExceptionClass 0) 0x9000 (Some ()) =
      Inr (CleanupCall \<lparr>cleanup_frame = (), cleanup_exception = 0x9000, cleanup_class = ExceptionClass 0,
        cleanup_forced = False\<rparr>)"
    by (simp add: decode_def ref.has_iff ref.known_iff action_defs ex_world_def exception_new_def)
  from accepted_calls_are_coherent[OF ref.bits_laws_axioms this] show ?thesis by simp
qed

text \<open>The reason a dispatched personality returns belongs to the phase of the mask, malformed
  calls included: CONTINUE, INSTALL or FATAL_PHASE2 when the mask asks for cleanup, CONTINUE,
  HANDLER or FATAL_PHASE1 otherwise; and the context is changed only together with INSTALL.\<close>

theorem dispatch_reason_fits_phase:
  assumes "bits_laws L" "dispatch L P heap version actions cls e context w = Some (reason, context', w')"
  shows "(if actions_has L actions act_cleanup then reason \<in> {rc_continue, rc_install, rc_fatal2}
     else reason \<in> {rc_continue, rc_handler, rc_fatal1}) \<and> (reason \<noteq> rc_install \<longrightarrow> context' = context)"
proof (cases "decode L heap version actions cls e context")
  case (Inl e)
  with assms(2) show ?thesis by (auto simp: dispatch_def reason_defs split: if_splits)
next
  case (Inr call)
  note phase = bits_laws.decode_phase[OF assms(1) Inr]
  show ?thesis
  proof (cases call)
    case (SearchCall s)
    with assms(2) Inr obtain d where
      "reason = (case d of SearchContinue \<Rightarrow> rc_continue | HandlerFound \<Rightarrow> rc_handler | SearchFatal \<Rightarrow> rc_fatal1)"
      "context' = context" by (auto simp: dispatch_def)
    with phase SearchCall show ?thesis by (cases d) auto
  next
    case (CleanupCall s)
    with assms(2) Inr obtain d w1 where
      "(case d of CleanupContinue \<Rightarrow> (rc_continue, context, w1)
         | CleanupInstall c \<Rightarrow> (rc_install, Some c, w1) | CleanupFatal \<Rightarrow> (rc_fatal2, context, w1)) =
       (reason, context', w')" by (auto simp: dispatch_def)
    with phase CleanupCall show ?thesis by (cases d) auto
  next
    case (HandlerCall s)
    with assms(2) Inr obtain d w1 where
      "(case d of HandlerInstall c \<Rightarrow> (rc_install, Some c, w1) | HandlerFatal \<Rightarrow> (rc_fatal2, context, w1)) =
       (reason, context', w')" by (auto simp: dispatch_def)
    with phase HandlerCall show ?thesis by (cases d) auto
  qed
qed

definition ex_policy :: "(nat, unit) policy" where
  "ex_policy = \<lparr>p_search = (\<lambda>_ w. Some (HandlerFound, w)), p_cleanup = (\<lambda>_ w. Some (CleanupContinue, w)),
    p_handler = (\<lambda>c w. Some (HandlerInstall (Suc (handler_frame c)), w))\<rparr>"

theorem dispatch_reason_fits_phase_witness:
  "\<exists>reason context. dispatch lib_ref ex_policy (w_exception ex_world) 1 (Actions 6) (ExceptionClass 0) 0x9000
      (Some 3) () = Some (reason, context, ()) \<and> reason \<in> {rc_continue, rc_install, rc_fatal2}"
proof -
  have "actions_has lib_ref (Actions 6) act_cleanup" by (simp add: ref.has_iff action_defs)
  moreover have "dispatch lib_ref ex_policy (w_exception ex_world) 1 (Actions 6) (ExceptionClass 0) 0x9000
      (Some 3) () = Some (rc_install, Some 4, ())"
    by (simp add: dispatch_def decode_def ref.has_iff ref.known_iff action_defs ex_world_def
        exception_new_def ex_policy_def)
  ultimately show ?thesis
    using dispatch_reason_fits_phase[OF ref.bits_laws_axioms, of ex_policy "w_exception ex_world" 1
        "Actions 6" "ExceptionClass 0" "0x9000" "Some 3" "()" rc_install "Some 4" "()"] by auto
qed

end
