(* ===== verification/Memory.thy ===== *)
theory Memory
  imports Prelude
begin

text \<open>
  The byte-addressed memory the naked functions of \<open>arch/x86_64\<close> work on: little-endian words at
  64-bit addresses that wrap around.
\<close>

type_synonym memory = "u64 \<Rightarrow> u8"

definition to_le_bytes :: "'w::len word \<Rightarrow> bytes" where
  "to_le_bytes w = map (\<lambda>i. ucast (drop_bit (8 * i) w)) [0..<LENGTH('w) div 8]"

definition mem_bytes :: "memory \<Rightarrow> u64 \<Rightarrow> nat \<Rightarrow> bytes" where
  "mem_bytes m a n = map (\<lambda>i. m (a + of_nat i)) [0..<n]"

definition mem_get :: "memory \<Rightarrow> u64 \<Rightarrow> 'w::len word" where
  "mem_get m a = from_le_bytes (mem_bytes m a (LENGTH('w) div 8))"

definition mem_put :: "memory \<Rightarrow> u64 \<Rightarrow> 'w::len word \<Rightarrow> memory" where
  "mem_put m a v x =
    (if unat (x - a) < LENGTH('w) div 8 then to_le_bytes v ! unat (x - a) else m x)"

text \<open>Two ranges of bytes that do not meet.\<close>

definition apart :: "u64 \<Rightarrow> nat \<Rightarrow> u64 \<Rightarrow> nat \<Rightarrow> bool" where
  "apart a n b k \<longleftrightarrow> n \<le> unat (b - a) \<and> k \<le> unat (a - b)"

section \<open>Words in memory\<close>

lemma unat_index: "i < 2 ^ 64 \<Longrightarrow> unat (of_nat i :: u64) = i"
  by (simp add: unat_of_nat)

lemma length_to_le_bytes [simp]: "length (to_le_bytes (w :: 'w::len word)) = LENGTH('w) div 8"
  by (simp add: to_le_bytes_def)

lemma length_mem_bytes [simp]: "length (mem_bytes m a n) = n"
  by (simp add: mem_bytes_def)

lemma le_nat_to_le_bytes:
  assumes "8 dvd LENGTH('w::len)"
  shows "le_nat (to_le_bytes (w :: 'w word)) = unat w"
proof -
  obtain k where k: "LENGTH('w) = 8 * k" using assms by (rule dvdE)
  have "(256 :: nat) ^ k = 2 ^ LENGTH('w)" by (simp add: k power_mult)
  then show ?thesis
    using unsigned_less[of w, where ?'a = nat] by (simp add: to_le_bytes_def le_nat_digits k)
qed

lemma from_to_le_bytes: "8 dvd LENGTH('w::len) \<Longrightarrow> from_le_bytes (to_le_bytes (w :: 'w word)) = w"
  by (simp add: from_le_bytes_def le_nat_to_le_bytes)

text \<open>The bytes of a stored word, seen through a read at the same address of at least its size.\<close>

lemma mem_bytes_put:
  assumes "LENGTH('w::len) div 8 \<le> n" "n < 2 ^ 64"
  shows "mem_bytes (mem_put m a (v :: 'w word)) a n = to_le_bytes v @ drop (LENGTH('w) div 8) (mem_bytes m a n)"
proof (rule nth_equalityI)
  fix i assume "i < length (mem_bytes (mem_put m a v) a n)"
  then have "i < n" by simp
  then have "unat (of_nat i :: u64) = i" using assms(2) by (simp add: unat_index)
  then show "mem_bytes (mem_put m a v) a n ! i = (to_le_bytes v @ drop (LENGTH('w) div 8) (mem_bytes m a n)) ! i"
    using \<open>i < n\<close> by (simp add: mem_bytes_def mem_put_def nth_append)
qed (use assms in simp)

lemma mem_get_put [simp]:
  assumes "8 dvd LENGTH('w::len)" "LENGTH('w) div 8 < 2 ^ 64"
  shows "mem_get (mem_put m a (v :: 'w word)) a = v"
  using assms mem_bytes_put[of "LENGTH('w) div 8", where ?'w = 'w and m = m and a = a and v = v]
  by (simp add: mem_get_def from_to_le_bytes)

text \<open>A store leaves every range apart from it alone.\<close>

lemma apart_offset:
  assumes "apart a n b k" "i < k"
  shows "n \<le> unat (b + of_nat i - a)"
proof (cases "b = a")
  case True
  with assms show ?thesis by (simp add: apart_def)
next
  case False
  let ?d = "b - a"
  have "unat (a - b) + unat ?d = 2 ^ 64"
    using False unat_sub_if'[of b a] unat_sub_if'[of a b] unsigned_less[of a, where ?'a = nat]
      unsigned_less[of b, where ?'a = nat]
    by (simp add: word_unat_eq_iff split: if_splits)
  then have "unat ?d + i < 2 ^ 64" using assms by (simp add: apart_def)
  moreover have "i < 2 ^ 64" using calculation by simp
  ultimately have "unat (?d + of_nat i) = unat ?d + i"
    by (subst unat_add_exact) (simp_all add: unat_index)
  moreover have "b + of_nat i - a = ?d + of_nat i" by simp
  moreover have "n \<le> unat ?d" using assms(1) by (simp only: apart_def)
  ultimately show ?thesis by (simp only: trans_le_add1)
qed

lemma mem_bytes_put_apart:
  "apart a (LENGTH('w::len) div 8) b k \<Longrightarrow> mem_bytes (mem_put m a (v :: 'w word)) b k = mem_bytes m b k"
  using apart_offset[of a "LENGTH('w) div 8" b k]
  by (auto simp: mem_bytes_def mem_put_def simp flip: not_le)

lemma mem_get_put_apart:
  "apart a (LENGTH('v::len) div 8) b (LENGTH('w::len) div 8) \<Longrightarrow>
    (mem_get (mem_put m a (v :: 'v word)) b :: 'w word) = mem_get m b"
  by (simp add: mem_get_def mem_bytes_put_apart)

lemma unat_mem_get: "unat (mem_get m a :: u64) = le_nat (mem_bytes m a 8)"
  using le_nat_bound[of "mem_bytes m a 8"] by (simp add: mem_get_def from_le_bytes_def unat_of_nat)

text \<open>A narrow word stored over a zeroed wide one, and the low half of a wide one.\<close>

lemma le_nat_zeros: "le_nat (replicate k 0) = 0"
  by (induction k) simp_all

lemma to_le_bytes_zero: "to_le_bytes (0 :: 'w::len word) = replicate (LENGTH('w) div 8) 0"
  by (simp add: to_le_bytes_def map_replicate_const)

lemma mem_get_narrow_put:
  assumes "(mem_get m a :: u64) = 0" "8 dvd LENGTH('w::len)" "LENGTH('w) \<le> 64"
  shows "(mem_get (mem_put m a (v :: 'w word)) a :: u64) = ucast v"
proof -
  let ?k = "LENGTH('w) div 8"
  let ?rest = "drop ?k (mem_bytes m a 8)"
  have k: "?k \<le> 8" using assms(3) div_le_mono[of "LENGTH('w)" 64 8] by simp
  have "le_nat (mem_bytes m a 8) = 0" using unat_mem_get[of m a] assms(1) by simp
  then have "le_nat (take ?k (mem_bytes m a 8) @ ?rest) = 0" by simp
  then have "le_nat ?rest = 0" by (simp only: le_nat_append add_is_0) simp
  then have "le_nat (mem_bytes (mem_put m a v) a 8) = unat v"
    using k by (simp add: mem_bytes_put le_nat_append le_nat_to_le_bytes[OF assms(2)])
  moreover have "unat v < 2 ^ 64"
    using unsigned_less[of v, where ?'a = nat] power_increasing[OF assms(3), of "2 :: nat"]
    by (simp only: less_le_trans)
  ultimately show ?thesis
    by (simp add: word_unat_eq_iff unat_mem_get unsigned_ucast_eq take_bit_eq_mod)
qed

lemma mem_get_low:
  assumes "8 dvd LENGTH('w::len)" "LENGTH('w) \<le> 64"
  shows "(mem_get m a :: 'w word) = ucast (mem_get m a :: u64)"
proof -
  let ?k = "LENGTH('w) div 8"
  have "?k \<le> 8" using assms(2) div_le_mono[of "LENGTH('w)" 64 8] by simp
  then have t: "mem_bytes m a ?k = take ?k (mem_bytes m a 8)" by (simp add: mem_bytes_def take_map)
  obtain j where j: "LENGTH('w) = 8 * j" using assms(1) by (rule dvdE)
  let ?n = "le_nat (mem_bytes m a 8)"
  have len: "length (take ?k (mem_bytes m a 8)) = ?k" using \<open>?k \<le> 8\<close> by simp
  have "?n = le_nat (take ?k (mem_bytes m a 8)) + 256 ^ ?k * le_nat (drop ?k (mem_bytes m a 8))"
    using le_nat_append[of "take ?k (mem_bytes m a 8)" "drop ?k (mem_bytes m a 8)"] len
    by (simp only: append_take_drop_id)
  moreover have "le_nat (take ?k (mem_bytes m a 8)) < 256 ^ ?k"
    using le_nat_bound[of "take ?k (mem_bytes m a 8)"] by (simp only: len)
  ultimately have "?n mod 256 ^ ?k = le_nat (take ?k (mem_bytes m a 8))" by simp
  moreover have "(256 :: nat) ^ ?k = 2 ^ LENGTH('w)" by (simp add: j power_mult)
  ultimately have "le_nat (mem_bytes m a ?k) = ?n mod 2 ^ LENGTH('w)" by (simp only: t)
  then have "unat (mem_get m a :: 'w word) = ?n mod 2 ^ LENGTH('w)"
    by (simp add: mem_get_def from_le_bytes_def unat_of_nat)
  then show ?thesis by (simp add: word_unat_eq_iff unsigned_ucast_eq take_bit_eq_mod unat_mem_get)
qed

section \<open>Writing inside a range only\<close>

lemma apart_sym: "apart a n b k \<longleftrightarrow> apart b k a n"
  by (auto simp: apart_def)

definition unchanged_outside :: "u64 \<Rightarrow> nat \<Rightarrow> memory \<Rightarrow> memory \<Rightarrow> bool" where
  "unchanged_outside a n m m' \<longleftrightarrow> (\<forall>b k. apart a n b k \<longrightarrow> mem_bytes m' b k = mem_bytes m b k)"

lemma unchanged_refl [simp]: "unchanged_outside a n m m"
  by (simp add: unchanged_outside_def)

lemma unchanged_get:
  "unchanged_outside a n m m' \<Longrightarrow> apart a n b (LENGTH('w::len) div 8) \<Longrightarrow> (mem_get m' b :: 'w word) = mem_get m b"
  by (simp add: unchanged_outside_def mem_get_def)

lemma unchanged_trans:
  "unchanged_outside a n m m' \<Longrightarrow> unchanged_outside a n m' m'' \<Longrightarrow> unchanged_outside a n m m''"
  by (simp add: unchanged_outside_def)

lemma apart_inside:
  assumes "apart a n b k" "unat (x - a) + i \<le> n" "0 < i"
  shows "apart x i b k"
proof -
  have n: "n \<le> unat (b - a)" "k \<le> unat (a - b)" using assms(1) by (simp_all add: apart_def)
  have ab: "a \<noteq> b" using n(1) assms(2,3) by auto
  have "unat (a - b) + unat (b - a) = 2 ^ 64"
    using ab unat_sub_if'[of b a] unat_sub_if'[of a b] unsigned_less[of a, where ?'a = nat]
      unsigned_less[of b, where ?'a = nat]
    by (simp add: word_unat_eq_iff split: if_splits)
  then have "unat (x - a) + unat (a - b) < 2 ^ 64" using n(1) assms(2,3) by linarith
  then have "unat (x - a + (a - b)) = unat (x - a) + unat (a - b)"
    by (intro unat_add_exact) simp
  moreover have "x - a + (a - b) = x - b" by simp
  ultimately have 1: "k \<le> unat (x - b)" using n(2) by simp
  have "x - a \<le> b - a" using n(1) assms(2) by (simp add: word_le_nat_alt)
  then have "unat (b - a - (x - a)) = unat (b - a) - unat (x - a)" by (rule unat_sub_exact)
  moreover have "b - a - (x - a) = b - x" by simp
  ultimately have "i \<le> unat (b - x)" using n(1) assms(2) by simp
  with 1 show ?thesis by (simp add: apart_def)
qed

lemma unchanged_put:
  assumes "unchanged_outside a n m m'" "unat (x - a) + LENGTH('w::len) div 8 \<le> n" "8 \<le> LENGTH('w)"
  shows "unchanged_outside a n m (mem_put m' x (v :: 'w word))"
proof -
  have "0 < LENGTH('w) div 8" using assms(3) div_le_mono[of 8 "LENGTH('w)" 8] by simp
  then show ?thesis
    using assms(1,2) apart_inside[of a n _ _ x "LENGTH('w) div 8"]
    by (simp add: unchanged_outside_def mem_bytes_put_apart)
qed

lemma unchanged_wider:
  assumes "unchanged_outside a n m m'" "unat (a - c) + n \<le> k" "0 < n"
  shows "unchanged_outside c k m m'"
  using assms(1) apart_inside[OF _ assms(2,3)] by (simp add: unchanged_outside_def)

end
