(* ===== verification/Linked.thy ===== *)
theory Linked
  imports Memory Source Personality
begin

text \<open>
  The unwind authority of one statically linked executable (\<open>examples/no-std-linux/src/image.rs\<close>):
  an \<open>Unwinder\<close> that knows one image and reads memory directly, and a \<open>Source\<close> that bounds the
  LSDA of a frame by the exception table.  The symbols of the linker script are parameters.
\<close>

record link =
  text_first :: usize
  text_past :: usize
  eh_first :: usize
  eh_past :: usize
  lsda_first :: usize
  lsda_past :: usize

definition link_text :: "link \<Rightarrow> usize \<times> usize" where
  "link_text K = (text_first K, text_past K)"

text \<open>The suffix of the range that starts at a pointer into it, as its address and bytes.\<close>

definition bound :: "memory \<Rightarrow> usize \<Rightarrow> usize \<Rightarrow> usize \<Rightarrow> unit + (usize \<times> bytes)" where
  "bound m address first past =
    (if first \<le> address \<and> address < past \<and> first \<le> past
     then Inr (address, mem_bytes m address (unat (past - address))) else Inl ())"

definition linked_bytes :: "link \<Rightarrow> memory \<Rightarrow> 'c level1 \<Rightarrow> 'c \<Rightarrow> unit + (usize \<times> bytes) option" where
  "linked_bytes K m A frame =
    (case frame_lsda A frame of
       None \<Rightarrow> Inr None
     | Some ori \<Rightarrow> map_sum id Some (bound m ori (lsda_first K) (lsda_past K)))"

text \<open>The text and data bases are left to the trait's defaults.\<close>

definition linked_source :: "link \<Rightarrow> memory \<Rightarrow> 'c level1 \<Rightarrow> 'c source" where
  "linked_source K m A = \<lparr>s_bytes = linked_bytes K m A, s_text = (\<lambda>_. None), s_data = (\<lambda>_. None)\<rparr>"

definition linked_image :: "gimli \<Rightarrow> link \<Rightarrow> memory \<Rightarrow> usize \<Rightarrow> Image option" where
  "linked_image G K m address =
    (case link_text K of (first, past) \<Rightarrow>
       (case (first \<le> address \<and> address < past, checked_sub (eh_past K) (eh_first K)) of
          (True, Some span) \<Rightarrow>
            image_new G (eh_first K) (mem_bytes m (eh_first K) (unat span)) first past
        | _ \<Rightarrow> None))"

definition linked_read :: "memory \<Rightarrow> usize \<Rightarrow> u8 \<Rightarrow> u64 option" where
  "linked_read m address width =
    (if width = 1 then Some (ucast (mem_get m address :: u8))
     else if width = 2 then Some (ucast (mem_get m address :: u16))
     else if width = 4 then Some (ucast (mem_get m address :: u32))
     else if width = 8 then Some (mem_get m address)
     else None)"

definition linked_unwinder :: "lib \<Rightarrow> gimli \<Rightarrow> link \<Rightarrow> ('w \<Rightarrow> memory) \<Rightarrow> 'w unwinder" where
  "linked_unwinder L G K mem = \<lparr>u_lib = L, u_gimli = G, u_image = (\<lambda>w. linked_image G K (mem w)),
    u_read = (\<lambda>w. linked_read (mem w))\<rparr>"

section \<open>Facts\<close>

lemma bound_Inr:
  "bound m address first past = Inr (a, bs) \<longleftrightarrow>
    first \<le> address \<and> address < past \<and> a = address \<and> bs = mem_bytes m address (unat (past - address))"
  by (auto simp: bound_def)

lemma bound_inside:
  assumes "bound m address first past = Inr (a, bs)"
  shows "unat first \<le> unat a \<and> 0 < length bs \<and> unat a + length bs = unat past"
proof -
  from assms have b: "first \<le> a" "a < past" "bs = mem_bytes m a (unat (past - a))"
    by (auto simp: bound_Inr)
  then have "unat (past - a) = unat past - unat a" by (simp add: unat_sub order_less_imp_le)
  with b show ?thesis by (simp add: word_le_nat_alt word_less_nat_alt)
qed

lemma linked_bytes_Inr:
  "linked_bytes K m A frame = Inr (Some (a, bs)) \<longleftrightarrow>
    frame_lsda A frame = Some a \<and> bound m a (lsda_first K) (lsda_past K) = Inr (a, bs)"
  by (auto simp: linked_bytes_def bound_def split: option.splits)

lemma linked_bytes_None: "linked_bytes K m A frame = Inr None \<longleftrightarrow> frame_lsda A frame = None"
  by (auto simp: linked_bytes_def bound_def split: option.splits)

lemma linked_image_Some:
  assumes "linked_image G K m address = Some i"
  shows "image_start i = text_first K \<and> image_end i = text_past K \<and> image_contains i address \<and>
    image_eh_frame i = mem_bytes m (eh_first K) (unat (eh_past K) - unat (eh_first K)) \<and> image_data i = None"
  using assms
  by (auto simp: linked_image_def link_text_def image_new_def image_contains_def checked_sub_def
      unat_sub split: if_splits bool.splits option.splits)

lemma linked_read_width: "linked_read m address width \<noteq> None \<longleftrightarrow> width \<in> {1, 2, 4, 8}"
  by (auto simp: linked_read_def)

end
