(* ===== verification/ProcessPolicy.thy ===== *)
theory ProcessPolicy
  imports Level1 Linked
begin

text \<open>
  The personality of the example process (\<open>examples/no-std-linux/src/runtime.rs\<close>): the language item
  the compiler's frames name, which dispatches every call to the Rust policy over the linked image.
\<close>

definition rust_eh_personality ::
    "'w machine \<Rightarrow> link \<Rightarrow> ('w world \<Rightarrow> memory)
      \<Rightarrow> c_int \<Rightarrow> Actions \<Rightarrow> ExceptionClass \<Rightarrow> usize \<Rightarrow> Callback \<Rightarrow> 'w world
      \<Rightarrow> (ReasonCode \<times> writes \<times> 'w world) option" where
  "rust_eh_personality U K mem version actions class exception context w =
    personality_routine U (\<lambda>A. rust_policy (u_lib U) A (linked_source K (mem w) A))
      version actions class exception context w"

end
