(* ===== verification/LandingProps.thy ===== *)
theory LandingProps
  imports PolicyProps ProcessPolicy
begin

text \<open>
  The properties of the two personality policies: what they make of encoded tables, and a Rust
  handler's way from its table through the runtime into the machine registers.
\<close>

section \<open>Exception classes\<close>

text \<open>The vendor and the language of a class and the class itself determine each other, and the
  test for C++ is that the language half is \<open>C++\0\<close>.\<close>

theorem class_parts_roundtrip:
  "class_vendor (class_join v l) = v \<and> class_language (class_join v l) = l \<and>
   class_join (class_vendor c) (class_language c) = c \<and>
   (class_cxx c \<longleftrightarrow> class_language c = language_cxx)"
  by (simp add: parts_join join_parts class_cxx_def language_cxx_def)
     (cases "class_language c", simp)

text \<open>The class of Rust panics is built from the bytes in native order, so on the little-endian
  target its vendor and language halves are the bytes of \<open>MOZ\0RUST\<close> reversed: it is not the
  class joined from \<open>MOZ\0\<close> and \<open>RUST\<close>, and not a C++ class.\<close>

theorem rust_class_reversed:
  "class_join (class_vendor rust_class) (class_language rust_class) = rust_class \<and>
   vendor_bytes (class_vendor rust_class) @ language_bytes (class_language rust_class) = rev rust_class_bytes \<and>
   rust_class \<noteq> class_join (Vendor 0x4d 0x4f 0x5a 0) (Language 0x52 0x55 0x53 0x54) \<and> \<not> class_cxx rust_class"
proof -
  have bits: "class_bits rust_class = from_be_bytes (rev rust_class_bytes)"
    by (simp add: rust_class_def from_be_bytes_def from_le_bytes_def)
  have be: "to_be_bytes (class_bits rust_class) = rev rust_class_bytes"
    by (simp add: bits to_be_from_be_bytes rust_class_bytes_def)
  then have parts: "class_vendor rust_class = Vendor 0x54 0x53 0x55 0x52"
    "class_language rust_class = Language 0 0x5a 0x4f 0x4d"
    by (simp_all add: class_vendor_def class_language_def Let_def rust_class_bytes_def)
  then have "class_vendor rust_class \<noteq> class_vendor (class_join (Vendor 0x4d 0x4f 0x5a 0) (Language 0x52 0x55 0x53 0x54))"
    by (simp add: parts_join)
  then show ?thesis using parts using join_parts[of rust_class] by (auto simp: rust_class_bytes_def class_cxx_def)
qed

section \<open>The Rust policy\<close>

text \<open>C14. On a written table the Rust policy does what the site that covers the program counter says:
  no site terminates, no landing pad continues, no action is a cleanup, and otherwise the first
  record of the action chain decides.\<close>

theorem rust_table_meaning:
  assumes "lsda_laws L" "\<forall>s\<in>set sites. encodable (bases_function bases) s" "sites_ok sites"
    "bases_function bases \<le> pc" "slice_ok (encode_lsda (bases_function bases) sites actions)"
    "whole = encode_lsda (bases_function bases) sites actions"
    "actions_ok L whole (length whole - length actions) kinds sites"
  shows "\<exists>l. lsda_new L whole bases endian = Inr l \<and>
    rust_scan L l pc = Some (Inr (rust_site_meaning kinds
      (List.find (covers (pc - bases_function bases)) sites)))"
  by (rule lsda_laws.rust_scan_encoded[OF assms])

abbreviation ex_table :: bytes where
  "ex_table \<equiv> encode_lsda 0x1000 [sample_site] [1, 0]"

lemma ex_table_ok:
  "slice_ok ex_table" "encodable 0x1000 sample_site" "sites_ok [sample_site]" "covers 0x12 sample_site"
  by (simp_all add: slice_ok_def encode_lsda_def encode_table_def encode_site_def encode_word_def
      sample_site_def uleb_encode.simps encodable_def sites_ok_def covers_def)

lemma ex_table_length: "0 < length ex_table" "length ex_table < 2 ^ 16"
  by (simp_all add: encode_lsda_def encode_table_def encode_site_def encode_word_def sample_site_def uleb_encode.simps)

lemma ex_table_actions:
  "actions_ok lib_ref ex_table (length ex_table - length [1, 0 :: u8]) (\<lambda>_. [Catch (TypeIndex 1)]) [sample_site]"
proof -
  obtain xs :: bytes where t: "ex_table = xs @ [1, 0]" by (simp add: encode_lsda_def)
  have "follows lib_ref (xs @ [1, 0]) (length xs) (length xs) [Catch (TypeIndex 1)]"
    by (rule follows_last[where link = "[0]" and index = 1 and rest = "[]"])
       (simp_all add: ref.sleb_octet leb_signed_def payload_def kind_new_eq)
  then show ?thesis unfolding t by (simp add: actions_ok_def sample_site_def)
qed

lemma ex_table_find: "List.find (covers (0x1012 - 0x1000)) [sample_site] = Some sample_site"
  using ex_table_ok(4) by simp

lemma ex_table_meaning:
  "rust_site_meaning (\<lambda>_. [Catch (TypeIndex 1)]) (Some sample_site) = RustCatch (Pad 0x1020)"
  by (simp add: rust_site_meaning_def sample_site_def)

lemma ex_table_assms:
  "\<forall>s\<in>set [sample_site]. encodable (bases_function (bases_new b 0x1000)) s"
  "bases_function (bases_new b 0x1000) \<le> (0x1012 :: usize)"
  "bases_function (bases_new b 0x1000) = 0x1000"
  using ex_table_ok(2) by simp_all

lemma ex_table_scan:
  "\<exists>l. lsda_new lib_ref ex_table (bases_new b 0x1000) endian = Inr l \<and>
    rust_scan lib_ref l 0x1012 = Some (Inr (RustCatch (Pad 0x1020)))"
  using lsda_laws.rust_scan_encoded[OF ref.lsda_laws_axioms ex_table_assms(1)[of b] ex_table_ok(3)
      ex_table_assms(2)[of b], where whole = ex_table and endian = endian and
      kinds = "\<lambda>_. [Catch (TypeIndex 1)]" and actions = "[1, 0]"]
    ex_table_ok(1) ex_table_actions
  unfolding ex_table_assms(3) ex_table_find ex_table_meaning by blast

theorem rust_table_meaning_witness:
  "\<exists>l. rust_scan lib_ref l 0x1012 = Some (Inr (RustCatch (Pad 0x1020)))"
  using rust_table_meaning[OF ref.lsda_laws_axioms ex_table_assms(1)[of 0] ex_table_ok(3) ex_table_assms(2)[of 0],
      where whole = ex_table and endian = Little and kinds = "\<lambda>_. [Catch (TypeIndex 1)]" and actions = "[1, 0]"]
    ex_table_ok(1) ex_table_actions
  unfolding ex_table_assms(3) ex_table_find ex_table_meaning by blast

text \<open>The two phases of the Rust policy agree: the search phase claims a frame exactly when the
  handler phase, asked for the same context, exception and class, lands in it.\<close>

theorem rust_phases_agree:
  "rust_search L A S \<lparr>search_frame = c, search_exception = e, search_class = cls\<rparr> = Some HandlerFound \<longleftrightarrow>
    (\<exists>c'. rust_handler L A S \<lparr>handler_frame = c, handler_exception = e, handler_class = cls\<rparr> =
      Some (HandlerInstall c'))"
  by (rule rust_phases)

text \<open>C7. A Rust handler through the runtime: asked for the selected frame, the exported Rust
  personality reads the frame's table from the linked image and has the landing installed, and the
  machine image transferred holds the exception in RAX, zero in RDX, the landing pad as return
  address, and the frame's own value in every other register, the stack pointer past the argument
  area.\<close>

theorem rust_handler_lands:
  assumes "bits_laws (u_lib U)" "x86_laws (u_lib U)" "exception \<noteq> 0"
    "exception_class (w_exception w exception) = cls"
    "info_personality U w info = Inr (Some a)" "a \<noteq> 0"
    "r_personality R a = rust_eh_personality U K mem"
    "rust_action (u_lib U) (runtime_level1 U w) (linked_source K (mem w) (runtime_level1 U w))
      (\<lparr>callback_cursor = c, callback_frame = Some info\<rparr>, []) =
      Some (Inr action)" "action = RustCatch pad \<or> action = RustFilter pad"
    "\<forall>g\<in>set required - {RAX, RDX, RA}. slot_get g (cursor_state c) \<noteq> None"
  shows "\<exists>c' regs. walk_personality U R c exception cls info (actions_or (u_lib U) act_cleanup act_handler) w =
      Some (Inr (Some rc_install), c', w) \<and> walk_install U c' info w = Transferred regs w \<and>
    (\<forall>g. registers_get g regs =
      (if g = RA then pad_addr pad else if g = RDX then 0 else if g = RAX then exception
       else unwrap_or_default (slot_get g (cursor_state c)) +
         (if g = RSP then row_saved_args_size (info_row info) else 0)))"
proof -
  have a: "r_personality R a v acts cls e cb w =
      personality_routine U (\<lambda>A. rust_policy (u_lib U) A (linked_source K (mem w) A)) v acts cls e cb w"
    for v acts cls e cb
    by (simp add: assms(7) rust_eh_personality_def)
  obtain c' where c': "walk_personality U R c exception cls info (actions_or (u_lib U) act_cleanup act_handler) w =
      Some (Inr (Some rc_install), c', w)"
    "\<forall>g. state_read (u_lib U) (cursor_state c') (x86_64 (u_lib U) g) =
      (if g = RA then Inr (pad_addr pad) else if g = RDX then Inr 0 else if g = RAX then Inr exception
       else state_read (u_lib U) (cursor_state c) (x86_64 (u_lib U) g))"
    using rust_handler_walk[where S = "linked_source K (mem w)", OF assms(1-6) a assms(8,9)] by blast
  have slot: "slot_get g (cursor_state c') =
      (if g = RA then Some (pad_addr pad) else if g = RDX then Some 0 else if g = RAX then Some exception
       else slot_get g (cursor_state c))" for g
    using c'(2)[rule_format, of g]
    by (auto simp: x86_laws.read_slot[OF assms(2)] split: option.split_asm if_split_asm option.split)
  then have "\<not> (\<exists>g\<in>set required. slot_get g (cursor_state c') = None)" using assms(10) by auto
  then obtain regs where r: "walk_install U c' info w = Transferred regs w"
    by (simp add: install_spec[OF assms(2)])
  from install_registers[OF assms(2) r] slot have "registers_get g regs =
      (if g = RA then pad_addr pad else if g = RDX then 0 else if g = RAX then exception
       else unwrap_or_default (slot_get g (cursor_state c)) +
         (if g = RSP then row_saved_args_size (info_row info) else 0))" for g
    by simp
  with c'(1) r show ?thesis by blast
qed

text \<open>A process whose exception table is the encoded one at \<open>0x8000\<close>.\<close>

definition ex_rust_machine :: "unit machine" where
  "ex_rust_machine = ex_machine\<lparr>u_gimli := ex_gimli\<lparr>fde_lsda := (\<lambda>_. Some (Direct 0x8000)),
    fde_personality := (\<lambda>_. Some (Direct 0x5000))\<rparr>\<rparr>"

definition ex_link :: link where
  "ex_link = \<lparr>text_first = 0x1000, text_past = 0x3000, eh_first = 0, eh_past = 0, lsda_first = 0x8000,
    lsda_past = 0x8000 + of_nat (length ex_table)\<rparr>"

definition ex_memory :: memory where
  "ex_memory a = ex_table ! unat (a - 0x8000)"

definition ex_rust_routines :: "unit routines" where
  "ex_rust_routines = ex_routines\<lparr>r_personality := (\<lambda>a. rust_eh_personality ex_rust_machine ex_link (\<lambda>_. ex_memory))\<rparr>"

abbreviation ex_call_frame :: Cursor where
  "ex_call_frame \<equiv> ex_frame 0x7008 (Some 0x1013)"

abbreviation ex_call_callback :: Callback where
  "ex_call_callback \<equiv> \<lparr>callback_cursor = ex_call_frame, callback_frame = Some (ex_info 4 0x1012)\<rparr>"

lemma ex_rust_sel:
  "u_lib ex_rust_machine = lib_ref"
  "r_personality ex_rust_routines a = rust_eh_personality ex_rust_machine ex_link (\<lambda>_. ex_memory)"
  "info_personality ex_rust_machine w i = Inr (Some 0x5000)"
  by (simp_all add: ex_rust_machine_def ex_machine_def ex_rust_routines_def info_personality_def
      pointer_transpose_def info_pointer_def)

lemma ex_call_site:
  "frame_lsda (runtime_level1 ex_rust_machine w) (ex_call_callback, []) = Some 0x8000"
  "l1_start (runtime_level1 ex_rust_machine w) (ex_call_callback, []) = 0x1000"
  "ip_site (frame_ip_info (runtime_level1 ex_rust_machine w) (ex_call_callback, [])) = 0x1012"
  by (simp_all add: frame_lsda_def runtime_level1_def context_lsda_def context_frame_def info_lsda_def
      pointer_transpose_def info_pointer_def nonzero_def ex_rust_machine_def ex_info_def
      context_start_def info_start_def ex_gimli_def ok_or_zero_def ip_site_def frame_ip_info_def
      context_info_def callback_pc_def cursor_ip_def state_ip_def ex_frame_def cursor_new_def
      relation_before_def Let_def)

lemma ex_table_read:
  "s_bytes (linked_source ex_link ex_memory (runtime_level1 ex_rust_machine w)) (ex_call_callback, []) =
    Inr (Some (0x8000, ex_table))"
proof -
  have n: "0 < length ex_table" "length ex_table < 2 ^ 16" by (rule ex_table_length)+
  have past: "unat (0x8000 + of_nat (length ex_table) :: u64) = 0x8000 + length ex_table"
    using n by (simp add: unat_word_ariths unat_of_nat)
  have "mem_bytes ex_memory 0x8000 (length ex_table) = ex_table"
    using n by (intro nth_equalityI) (simp_all add: mem_bytes_def ex_memory_def unat_of_nat)
  moreover have "(0x8000 :: u64) < 0x8000 + of_nat (length ex_table)"
    using n past by (simp add: word_less_nat_alt)
  ultimately show ?thesis
    using n by (simp add: linked_source_def linked_bytes_Inr ex_call_site bound_Inr ex_link_def unat_of_nat)
qed

lemma ex_call_action:
  "rust_action lib_ref (runtime_level1 ex_rust_machine w)
    (linked_source ex_link ex_memory (runtime_level1 ex_rust_machine w)) (ex_call_callback, []) =
    Some (Inr (RustCatch (Pad 0x1020)))"
proof -
  obtain l where l: "lsda_new lib_ref ex_table (bases_new 0x8000 0x1000) Little = Inr l"
    "rust_scan lib_ref l 0x1012 = Some (Inr (RustCatch (Pad 0x1020)))"
    using ex_table_scan[of "0x8000" Little] by blast
  have "frame_bases (runtime_level1 ex_rust_machine w)
      (linked_source ex_link ex_memory (runtime_level1 ex_rust_machine w)) (ex_call_callback, []) 0x8000 =
      bases_new 0x8000 0x1000"
    by (simp add: frame_bases_def ex_call_site linked_source_def)
  then show ?thesis
    by (simp add: rust_action_def ex_call_site ex_table_read l rust_endian_def)
qed

lemma ex_call_registers:
  "\<forall>g\<in>set required - {RAX, RDX, RA}. slot_get g (cursor_state ex_call_frame) \<noteq> None"
  by (auto simp: required_def ex_frame_def cursor_new_def ex_state_def captured_def)

theorem rust_handler_lands_witness:
  "\<exists>c' regs. walk_personality ex_rust_machine ex_rust_routines ex_call_frame 0x9000 (ExceptionClass 0)
      (ex_info 4 0x1012) (actions_or lib_ref act_cleanup act_handler) ex_world =
      Some (Inr (Some rc_install), c', ex_world) \<and>
    walk_install ex_rust_machine c' (ex_info 4 0x1012) ex_world = Transferred regs ex_world \<and>
    registers_get RA regs = 0x1020 \<and> registers_get RAX regs = 0x9000"
proof -
  have cls: "exception_class (w_exception ex_world 0x9000) = ExceptionClass 0"
    by (simp add: ex_world_def exception_new_def)
  note t = rust_handler_lands[of ex_rust_machine "0x9000" ex_world "ExceptionClass 0" "ex_info 4 0x1012"
      "0x5000" ex_rust_routines ex_link "\<lambda>_. ex_memory" ex_call_frame "RustCatch (Pad 0x1020)" "Pad 0x1020",
      unfolded ex_rust_sel, OF ref.bits_laws_axioms ref.x86_laws_axioms _ cls]
  obtain c' regs where r: "walk_personality ex_rust_machine ex_rust_routines ex_call_frame 0x9000 (ExceptionClass 0)
      (ex_info 4 0x1012) (actions_or lib_ref act_cleanup act_handler) ex_world =
      Some (Inr (Some rc_install), c', ex_world)"
    "walk_install ex_rust_machine c' (ex_info 4 0x1012) ex_world = Transferred regs ex_world"
    "\<forall>g. registers_get g regs =
      (if g = RA then pad_addr (Pad 0x1020) else if g = RDX then 0 else if g = RAX then 0x9000
       else unwrap_or_default (slot_get g (cursor_state ex_call_frame)) +
         (if g = RSP then row_saved_args_size (info_row (ex_info 4 0x1012)) else 0))"
    using t[OF _ refl _ refl ex_call_action _ ex_call_registers] by auto
  from r(3)[rule_format, of RA] r(3)[rule_format, of RAX]
  have "registers_get RA regs = 0x1020" "registers_get RAX regs = 0x9000"
    by (simp_all only: if_True if_False reg.distinct refl Pad.sel)
  with r(1,2) show ?thesis by blast
qed

section \<open>The C++ policy\<close>

text \<open>C16. In the cleanup phase a C++ frame lands exactly when its whole action chain, and not only its
  first record, contains a cleanup record.\<close>

theorem cxx_cleanup_exact:
  assumes "nom_laws L" "site_chain L l pc addr ks"
  shows "cxx_clean L l pc =
    Some (Inr (if Table.Cleanup \<in> set ks then CxxCleanup (CxxPad addr) else CxxNone))"
  by (rule nom_laws.cxx_clean_chain[OF assms])

text \<open>C15. A C++ frame has a handler exactly when some clause of its chain matches, and the clause is the
  first that matches or fails, with its selector; when no clause matches, the scan of either phase
  says what the cleanup phase says.\<close>

theorem cxx_first_match:
  assumes "nom_laws L" "site_chain L l pc addr ks" "answers L M stage l exception cls w t ks"
  shows "(cxx_scan L M stage l pc exception cls w = Some (Inr (CxxHandler p sel), w) \<longleftrightarrow>
      p = CxxPad addr \<and>
      (\<exists>pre k post. ks = pre @ k # post \<and> t k = Inr (Some sel) \<and> (\<forall>k'\<in>set pre. t k' = Inr None))) \<and>
    ((\<forall>k\<in>set ks. t k = Inr None) \<longrightarrow>
      (\<exists>a. cxx_clean L l pc = Some (Inr a) \<and>
        cxx_scan L M stage l pc exception cls w = Some (Inr a, w)))"
proof -
  note scan = nom_laws.cxx_scan_chain[OF assms] and clean = nom_laws.cxx_clean_chain[OF assms(1,2)]
  have "scan_kinds t (CxxPad addr) False ks = Inr (CxxHandler p sel) \<longleftrightarrow> p = CxxPad addr \<and>
      (\<exists>pre k post. ks = pre @ k # post \<and> t k = Inr (Some sel) \<and> (\<forall>k'\<in>set pre. t k' = Inr None))"
    using scan_kinds_handler[of t "CxxPad addr" False ks sel] scan_kinds_pad[of t "CxxPad addr" False ks p sel]
    by blast
  then show ?thesis by (simp add: scan clean scan_kinds_none)
qed

text \<open>The selector a landing pad receives is the signed index of the action record that matched:
  positive for a catch clause, negative for an exception specification, for every index but the
  least one.\<close>

theorem selector_is_signed_index:
  assumes "kind_new index = Inr k" "sint index \<noteq> - (2 ^ 63)"
  shows "(\<forall>t g. k = Catch t \<longrightarrow> clause_selector (ClauseCatch \<lparr>catch_index = t, catch_target = g\<rparr>) =
      Inr (Selector index)) \<and>
    (\<forall>f. k = Filter f \<longrightarrow> clause_selector (ClauseFilter f) = Inr (Selector index))"
  using selector_of_kind[of index] assms by simp

text \<open>A table whose action is a chain of two records: an exception specification, then a cleanup.\<close>

abbreviation ex_filter_table :: bytes where
  "ex_filter_table \<equiv> encode_lsda 0x1000 [sample_site] [0x7f, 1, 0, 0]"

abbreviation ex_kinds :: "Kind list" where
  "ex_kinds \<equiv> [Filter (FilterIndex 1), Table.Cleanup]"

lemma ex_filter_follows: "follows lib_ref (xs @ [0x7f, 1, 0, 0]) (length xs) (length xs) ex_kinds"
proof (rule follows_link[where link = "[1, 0, 0]" and index = "- 1" and rest = "[0, 0]" and delta = 1
    and next_off = "length xs + 2"])
  show "follows lib_ref (xs @ [0x7f, 1, 0, 0]) (length xs) (length xs + 2) [Table.Cleanup]"
    by (rule follows_last[where link = "[0]" and index = 0 and rest = "[]"])
       (simp_all add: ref.sleb_octet leb_signed_def payload_def kind_new_eq)
qed (simp_all add: ref.sleb_octet leb_signed_def payload_def kind_new_eq)

lemma ex_filter_chain: "\<exists>l. site_chain lib_ref l 0x1012 0x1020 ex_kinds"
proof -
  obtain xs :: bytes where t: "ex_filter_table = xs @ [0x7f, 1, 0, 0]" by (simp add: encode_lsda_def)
  have ok: "slice_ok ex_filter_table"
    by (simp add: slice_ok_def encode_lsda_def encode_table_def encode_site_def encode_word_def
        sample_site_def uleb_encode.simps)
  have act: "actions_ok lib_ref ex_filter_table (length ex_filter_table - length [0x7f, 1, 0, 0 :: u8])
      (\<lambda>_. ex_kinds) [sample_site]"
    unfolding t using ex_filter_follows[of xs] by (simp add: actions_ok_def sample_site_def)
  have site: "site_landing sample_site = Some 0x1020" "site_action sample_site = Some (Action 1)"
    by (simp_all add: sample_site_def)
  from lsda_laws.encoded_site_chain[OF ref.lsda_laws_axioms ex_table_assms(1)[of 0] ex_table_ok(3)
      ex_table_assms(2)[of 0], unfolded ex_table_assms(3), OF ok refl act ex_table_find site]
  show ?thesis by blast
qed

theorem cxx_cleanup_exact_witness:
  "\<exists>l. cxx_clean lib_ref l 0x1012 = Some (Inr (CxxCleanup (CxxPad 0x1020)))"
  using ex_filter_chain cxx_cleanup_exact[OF ref.nom_laws_axioms, of _ "0x1012" "0x1020" ex_kinds] by auto

text \<open>A matcher that matches every clause.\<close>

definition ex_matcher :: "(unit, unit) matcher" where
  "ex_matcher stage exception cls lsda clause selector w = Some (Inr True, w)"

definition ex_answer :: "Kind \<Rightarrow> unit Failure + Selector option" where
  "ex_answer k = Inr (if k = Table.Cleanup then None else Some (Selector (- 1)))"

lemma ex_answers: "answers lib_ref ex_matcher stage l e cls () ex_answer ex_kinds"
  by (simp add: answers_def scan_kind_def clause_test_def clause_selector_def isize_try_from_def
      checked_neg_def ex_matcher_def ex_answer_def)

theorem cxx_first_match_witness:
  "\<exists>l. cxx_scan lib_ref ex_matcher StageSearch l 0x1012 0x9000 (ExceptionClass 0) () =
    Some (Inr (CxxHandler (CxxPad 0x1020) (Selector (- 1))), ())"
proof -
  obtain l where l: "site_chain lib_ref l 0x1012 0x1020 ex_kinds" using ex_filter_chain by blast
  have "\<exists>pre k post. ex_kinds = pre @ k # post \<and> ex_answer k = Inr (Some (Selector (- 1))) \<and>
      (\<forall>k'\<in>set pre. ex_answer k' = Inr None)"
    by (rule exI[of _ "[]"]) (simp add: ex_answer_def)
  with cxx_first_match[OF ref.nom_laws_axioms l ex_answers, of StageSearch "0x9000" "ExceptionClass 0"
      "CxxPad 0x1020" "Selector (- 1)"] show ?thesis by blast
qed

theorem selector_is_signed_index_witness:
  "clause_selector (ClauseFilter (FilterIndex 1)) = Inr (Selector (- 1))"
  using selector_is_signed_index[of "- 1" "Filter (FilterIndex 1)"] by (simp add: kind_new_eq)

end
