(* ===== verification/Machine.thy ===== *)
theory Machine
  imports Memory RegisterFile
begin

text \<open>
  The fragment of an x86_64 processor that the naked functions of \<open>arch/x86_64/registers.rs\<close> and
  \<open>arch/x86_64/entry.rs\<close> are written for: straight-line code in AT&T order of operands, calls by
  symbol, and the transport of registers through an image in memory.  Status flags other than the
  direction flag are not read by this code and are left out; page faults and the fault of
  \<open>ldmxcsr\<close> on reserved bits are not modelled.
\<close>

section \<open>The processor\<close>

text \<open>The general registers are named by \<open>reg\<close>; \<open>RA\<close>, \<open>MXCSR\<close> and \<open>FCW\<close> are fields of the
  image only, the processor has \<open>cpu_rip\<close>, \<open>cpu_mxcsr\<close> and \<open>cpu_fcw\<close>.\<close>

record cpu =
  cpu_gpr :: "reg \<Rightarrow> u64"
  cpu_rip :: u64
  cpu_mxcsr :: u32
  cpu_fcw :: u16
  cpu_df :: bool
  cpu_mem :: memory

text \<open>The functions called by symbol: the capture and the continuation of a trampoline.\<close>

datatype symbol = Capture | Next

text \<open>A memory operand is a displacement and a base; \<open>Call\<close> carries the address that follows it.\<close>

datatype instr =
    MovImm u64 u64 reg | Store reg u64 reg | Load u64 reg reg | MovReg reg reg | Lea u64 reg reg
  | SubImm u64 reg | AddImm u64 reg | Stmxcsr u64 reg | Fnstcw u64 reg | Ldmxcsr u64 reg | Fldcw u64 reg
  | Push reg | Cld | Call symbol u64 | Ret | Ud2

definition set_gpr :: "reg \<Rightarrow> u64 \<Rightarrow> cpu \<Rightarrow> cpu" where
  "set_gpr r v s = s\<lparr>cpu_gpr := (cpu_gpr s)(r := v)\<rparr>"

definition put_mem :: "u64 \<Rightarrow> 'w::len word \<Rightarrow> cpu \<Rightarrow> cpu" where
  "put_mem a v s = s\<lparr>cpu_mem := mem_put (cpu_mem s) a v\<rparr>"

definition push_word :: "u64 \<Rightarrow> cpu \<Rightarrow> cpu" where
  "push_word v s = (let top = cpu_gpr s RSP - 8 in put_mem top v (set_gpr RSP top s))"

text \<open>The effect of an instruction that control falls through.\<close>

fun plain :: "instr \<Rightarrow> cpu \<Rightarrow> cpu" where
  "plain (MovImm v d b) s = put_mem (cpu_gpr s b + d) v s"
| "plain (Store r d b) s = put_mem (cpu_gpr s b + d) (cpu_gpr s r) s"
| "plain (Load d b r) s = set_gpr r (mem_get (cpu_mem s) (cpu_gpr s b + d)) s"
| "plain (MovReg a r) s = set_gpr r (cpu_gpr s a) s"
| "plain (Lea d b r) s = set_gpr r (cpu_gpr s b + d) s"
| "plain (SubImm v r) s = set_gpr r (cpu_gpr s r - v) s"
| "plain (AddImm v r) s = set_gpr r (cpu_gpr s r + v) s"
| "plain (Stmxcsr d b) s = put_mem (cpu_gpr s b + d) (cpu_mxcsr s) s"
| "plain (Fnstcw d b) s = put_mem (cpu_gpr s b + d) (cpu_fcw s) s"
| "plain (Ldmxcsr d b) s = s\<lparr>cpu_mxcsr := mem_get (cpu_mem s) (cpu_gpr s b + d)\<rparr>"
| "plain (Fldcw d b) s = s\<lparr>cpu_fcw := mem_get (cpu_mem s) (cpu_gpr s b + d)\<rparr>"
| "plain (Push r) s = push_word (cpu_gpr s r) s"
| "plain Cld s = s\<lparr>cpu_df := False\<rparr>"
| "plain _ s = s"

definition return_pop :: "cpu \<Rightarrow> cpu" where
  "return_pop s = set_gpr RSP (cpu_gpr s RSP + 8) (s\<lparr>cpu_rip := mem_get (cpu_mem s) (cpu_gpr s RSP)\<rparr>)"

text \<open>
  A called function takes the processor at its first instruction, the return address on the stack,
  to the processor when control leaves it, \<open>None\<close> when it never does.  Control comes back when it
  leaves to the return address; otherwise it has gone elsewhere for good.
\<close>

type_synonym callees = "symbol \<Rightarrow> cpu \<Rightarrow> cpu option"

datatype leaving = Falls cpu | Leaves cpu | Stops

fun exec :: "callees \<Rightarrow> instr list \<Rightarrow> cpu \<Rightarrow> leaving option" where
  "exec F [] s = Some (Falls s)"
| "exec F (Ret # code) s = Some (Leaves (return_pop s))"
| "exec F (Ud2 # code) s = Some Stops"
| "exec F (Call f back # code) s =
    Option.bind (F f (push_word back s)) (\<lambda>s'.
      if cpu_rip s' = back then exec F code s' else Some (Leaves s'))"
| "exec F (i # code) s = exec F code (plain i s)"

section \<open>The image in memory\<close>

text \<open>\<open>offset_of!\<close> of the \<open>repr(C)\<close> image: nineteen words in the order of the fields.\<close>

fun field_index :: "reg \<Rightarrow> nat" where
  "field_index RAX = 0" | "field_index RDX = 1" | "field_index RCX = 2" | "field_index RBX = 3"
| "field_index RSI = 4" | "field_index RDI = 5" | "field_index RBP = 6" | "field_index RSP = 7"
| "field_index R8 = 8" | "field_index R9 = 9" | "field_index R10 = 10" | "field_index R11 = 11"
| "field_index R12 = 12" | "field_index R13 = 13" | "field_index R14 = 14" | "field_index R15 = 15"
| "field_index RA = 16" | "field_index MXCSR = 17" | "field_index FCW = 18"

definition field_offset :: "reg \<Rightarrow> u64" where
  "field_offset g = of_nat (8 * field_index g)"

definition image_size :: nat where
  "image_size = 152"

text \<open>\<open>Registers::take\<close>: the image moved out of memory.\<close>

definition registers_take :: "memory \<Rightarrow> u64 \<Rightarrow> Registers" where
  "registers_take m p = (let word = (\<lambda>g. mem_get m (p + field_offset g)) in
    \<lparr>reg_rax = word RAX, reg_rdx = word RDX, reg_rcx = word RCX, reg_rbx = word RBX,
     reg_rsi = word RSI, reg_rdi = word RDI, reg_rbp = word RBP, reg_rsp = word RSP,
     reg_r8 = word R8, reg_r9 = word R9, reg_r10 = word R10, reg_r11 = word R11,
     reg_r12 = word R12, reg_r13 = word R13, reg_r14 = word R14, reg_r15 = word R15,
     reg_ra = word RA, reg_mxcsr = word MXCSR, reg_fcw = word FCW\<rparr>)"

lemma registers_take_get: "registers_get g (registers_take m p) = mem_get m (p + field_offset g)"
  by (cases g) (simp_all add: registers_take_def Let_def)

lemma registers_eqI: "(\<And>g. registers_get g a = registers_get g b) \<Longrightarrow> a = b"
proof -
  assume e: "\<And>g. registers_get g a = registers_get g b"
  show ?thesis
    using e[of RAX] e[of RDX] e[of RCX] e[of RBX] e[of RSI] e[of RDI] e[of RBP] e[of RSP] e[of R8]
      e[of R9] e[of R10] e[of R11] e[of R12] e[of R13] e[of R14] e[of R15] e[of RA] e[of MXCSR] e[of FCW]
    by (cases a, cases b) simp
qed

text \<open>The fields lie apart, and inside the image.\<close>

lemma field_index_inj: "field_index g = field_index h \<longleftrightarrow> g = h"
  by (cases g; cases h) simp_all

lemma field_index_less: "field_index g < 19"
  by (cases g) simp_all

lemma unat_field_offset: "unat (field_offset g) = 8 * field_index g"
  using field_index_less[of g] by (simp only: field_offset_def unat_of_nat) simp

lemma fields_apart:
  assumes "g \<noteq> h" "n \<le> 8" "k \<le> 8"
  shows "apart (p + field_offset g) n (p + field_offset h) k"
proof -
  have ne: "field_index g \<noteq> field_index h" using assms(1) by (simp add: field_index_inj)
  have d: "8 \<le> unat (field_offset h - field_offset g)" if "field_index g \<noteq> field_index h" for g h
    using that field_index_less[of g] field_index_less[of h]
    by (simp add: unat_sub_if' unat_field_offset) arith
  have "8 \<le> unat (field_offset h - field_offset g)" "8 \<le> unat (field_offset g - field_offset h)"
    using d[OF ne] d[OF ne[symmetric]] by blast+
  moreover have "p + field_offset h - (p + field_offset g) = field_offset h - field_offset g"
    "p + field_offset g - (p + field_offset h) = field_offset g - field_offset h" by simp_all
  ultimately show ?thesis using assms(2,3) by (simp only: apart_def) simp
qed

lemma field_apart:
  assumes "apart a n p image_size" "k \<le> 8"
  shows "apart a n (p + field_offset g) k"
proof -
  have off: "n \<le> unat (p + field_offset g - a)"
    using apart_offset[OF assms(1), of "8 * field_index g"] field_index_less[of g]
    by (simp add: field_offset_def image_size_def)
  have far: "152 \<le> unat (a - p)" using assms(1) by (simp add: apart_def image_size_def)
  then have "unat (field_offset g) \<le> unat (a - p)"
    using field_index_less[of g] by (simp add: unat_field_offset)
  then have "unat (a - p - field_offset g) = unat (a - p) - 8 * field_index g"
    by (simp add: unat_sub_exact word_le_nat_alt unat_field_offset)
  moreover have "a - (p + field_offset g) = a - p - field_offset g" by simp
  ultimately have "unat (a - (p + field_offset g)) = unat (a - p) - 8 * field_index g" by (simp only:)
  then have "8 \<le> unat (a - (p + field_offset g))"
    using far field_index_less[of g] by linarith
  with off assms(2) show ?thesis by (simp add: apart_def)
qed

section \<open>Stores into the image\<close>

lemma field_put:
  "registers_get h (registers_take (mem_put m (p + field_offset g) (v :: u64)) p) =
    (if h = g then v else registers_get h (registers_take m p))"
  using fields_apart[of g h 8 8 p] by (auto simp: registers_take_get mem_get_put_apart)

lemma field_put_narrow:
  assumes "8 dvd LENGTH('w::len)" "LENGTH('w) \<le> 64" "registers_get g (registers_take m p) = 0"
  shows "registers_get h (registers_take (mem_put m (p + field_offset g) (v :: 'w word)) p) =
    (if h = g then ucast v else registers_get h (registers_take m p))"
proof -
  have "LENGTH('w) div 8 \<le> 8" using assms(2) div_le_mono[of "LENGTH('w)" 64 8] by simp
  then show ?thesis
    using fields_apart[of g h "LENGTH('w) div 8" 8 p] mem_get_narrow_put[OF _ assms(1,2)] assms(3)
    by (auto simp: registers_take_get mem_get_put_apart)
qed

lemma image_put_apart:
  assumes "apart a (LENGTH('w::len) div 8) p image_size"
  shows "registers_take (mem_put m a (v :: 'w word)) p = registers_take m p"
  by (rule registers_eqI) (simp add: registers_take_get mem_get_put_apart[OF field_apart[OF assms]])

end
