(* ===== verification/Entry.thy ===== *)
theory Entry
  imports Machine Runtime
begin

text \<open>
  The naked functions: capture and transfer of \<open>arch/x86_64/registers.rs\<close> and the Level I entry
  trampolines of \<open>arch/x86_64/entry.rs\<close>, instruction by instruction, with the Rust functions
  the trampolines continue in.
\<close>

section \<open>Capture and transfer\<close>

text \<open>\<open>Registers::entry\<close>: the image at \<open>rdi\<close>, the entry stack pointer in \<open>rsi\<close>.\<close>

definition entry_code :: "instr list" where
  "entry_code = [
    MovImm 0 (field_offset RAX) RDI, MovImm 0 (field_offset RDX) RDI, MovImm 0 (field_offset RCX) RDI,
    MovImm 0 (field_offset RSI) RDI, MovImm 0 (field_offset RDI) RDI, MovImm 0 (field_offset R8) RDI,
    MovImm 0 (field_offset R9) RDI, MovImm 0 (field_offset R10) RDI, MovImm 0 (field_offset R11) RDI,
    Store RBX (field_offset RBX) RDI, Store RBP (field_offset RBP) RDI,
    Store R12 (field_offset R12) RDI, Store R13 (field_offset R13) RDI,
    Store R14 (field_offset R14) RDI, Store R15 (field_offset R15) RDI,
    Lea 8 RSI RAX, Store RAX (field_offset RSP) RDI,
    Load 0 RSI RAX, Store RAX (field_offset RA) RDI,
    MovImm 0 (field_offset MXCSR) RDI, MovImm 0 (field_offset FCW) RDI,
    Stmxcsr (field_offset MXCSR) RDI, Fnstcw (field_offset FCW) RDI, Ret]"

text \<open>\<open>Registers::save\<close>: the image at \<open>rdi\<close>, the caller's state at the call itself.\<close>

definition save_code :: "instr list" where
  "save_code = [
    Store RBX (field_offset RBX) RDI, Store RBP (field_offset RBP) RDI,
    Store R12 (field_offset R12) RDI, Store R13 (field_offset R13) RDI,
    Store R14 (field_offset R14) RDI, Store R15 (field_offset R15) RDI,
    Lea 8 RSP RAX, Store RAX (field_offset RSP) RDI,
    Load 0 RSP RAX, Store RAX (field_offset RA) RDI,
    Stmxcsr (field_offset MXCSR) RDI, Fnstcw (field_offset FCW) RDI, Ret]"

text \<open>\<open>Registers::jump\<close>: the stack first, the return address pushed on it, \<open>rdi\<close> last.\<close>

definition jump_code :: "instr list" where
  "jump_code = [
    Load (field_offset RSP) RDI RSP, Ldmxcsr (field_offset MXCSR) RDI, Fldcw (field_offset FCW) RDI,
    Load (field_offset RA) RDI RAX, Push RAX,
    Load (field_offset RAX) RDI RAX, Load (field_offset RDX) RDI RDX, Load (field_offset RCX) RDI RCX,
    Load (field_offset RBX) RDI RBX, Load (field_offset RSI) RDI RSI, Load (field_offset RBP) RDI RBP,
    Load (field_offset R8) RDI R8, Load (field_offset R9) RDI R9, Load (field_offset R10) RDI R10,
    Load (field_offset R11) RDI R11, Load (field_offset R12) RDI R12, Load (field_offset R13) RDI R13,
    Load (field_offset R14) RDI R14, Load (field_offset R15) RDI R15, Load (field_offset RDI) RDI RDI,
    Cld, Ret]"

section \<open>Entry trampolines\<close>

definition entry_first :: u64 where "entry_first = of_nat image_size"
definition entry_second :: u64 where "entry_second = entry_first + 8"
definition entry_third :: u64 where "entry_third = entry_second + 8"
definition entry_pad :: u64 where "entry_pad = entry_third + 8"
definition entry_stack :: u64 where "entry_stack = entry_pad + 8"

text \<open>\<open>raise\<close>; the parameters are the addresses that follow the two calls.\<close>

definition raise_code :: "u64 \<Rightarrow> u64 \<Rightarrow> instr list" where
  "raise_code back back' = [
    SubImm entry_stack RSP, Store RDI entry_first RSP, Lea entry_stack RSP RSI, MovReg RSP RDI,
    Call Capture back, Load entry_first RSP RSI, MovReg RSP RDI, Call Next back',
    AddImm entry_stack RSP, Ret]"

definition force_code :: "u64 \<Rightarrow> u64 \<Rightarrow> instr list" where
  "force_code back back' = [
    SubImm entry_stack RSP, Store RDI entry_first RSP, Store RSI entry_second RSP,
    Store RDX entry_third RSP, Lea entry_stack RSP RSI, MovReg RSP RDI, Call Capture back,
    Load entry_third RSP RCX, Load entry_second RSP RDX, Load entry_first RSP RSI, MovReg RSP RDI,
    Call Next back', AddImm entry_stack RSP, Ret]"

definition resume_code :: "u64 \<Rightarrow> u64 \<Rightarrow> instr list" where
  "resume_code back back' = [
    SubImm entry_stack RSP, Store RDI entry_first RSP, Lea entry_stack RSP RSI, MovReg RSP RDI,
    Call Capture back, Load entry_first RSP RSI, MovReg RSP RDI, Call Next back', Ud2]"

definition rethrow_code :: "u64 \<Rightarrow> u64 \<Rightarrow> instr list" where
  "rethrow_code back back' = [
    SubImm entry_stack RSP, Store RDI entry_first RSP, Lea entry_stack RSP RSI, MovReg RSP RDI,
    Call Capture back, Load entry_first RSP RSI, MovReg RSP RDI, Call Next back',
    AddImm entry_stack RSP, Ret]"

definition trace_code :: "u64 \<Rightarrow> u64 \<Rightarrow> instr list" where
  "trace_code back back' = [
    SubImm entry_stack RSP, Store RDI entry_first RSP, Store RSI entry_second RSP,
    Lea entry_stack RSP RSI, MovReg RSP RDI, Call Capture back,
    Load entry_second RSP RDX, Load entry_first RSP RSI, MovReg RSP RDI, Call Next back',
    AddImm entry_stack RSP, Ret]"

text \<open>The trampolines linked against the capture and a continuation.\<close>

definition linked :: "(cpu \<Rightarrow> cpu option) \<Rightarrow> callees" where
  "linked next f s =
    (case f of
       Capture \<Rightarrow> (case exec (\<lambda>_ _. None) entry_code s of Some (Leaves s') \<Rightarrow> Some s' | _ \<Rightarrow> None)
     | Next \<Rightarrow> next s)"

section \<open>The continuations in Rust\<close>

definition entry_state :: "memory \<Rightarrow> u64 \<Rightarrow> State" where
  "entry_state m registers = captured (registers_take m registers)"

definition dispatch_raise ::
    "'w machine \<Rightarrow> 'w routines \<Rightarrow> memory \<Rightarrow> u64 \<Rightarrow> usize \<Rightarrow> 'w world \<Rightarrow> 'w outcome option" where
  "dispatch_raise U R m registers exception w = walk_raise U R (entry_state m registers) exception w"

definition dispatch_force ::
    "'w machine \<Rightarrow> 'w routines \<Rightarrow> memory \<Rightarrow> u64 \<Rightarrow> usize \<Rightarrow> usize \<Rightarrow> usize \<Rightarrow> 'w world
      \<Rightarrow> 'w outcome option" where
  "dispatch_force U R m registers exception stop parameter w =
    walk_forced U R (entry_state m registers) exception stop parameter w"

definition dispatch_resume ::
    "'w machine \<Rightarrow> 'w routines \<Rightarrow> memory \<Rightarrow> u64 \<Rightarrow> usize \<Rightarrow> 'w world \<Rightarrow> 'w outcome option" where
  "dispatch_resume U R m registers exception w = walk_resume U R (entry_state m registers) exception w"

definition dispatch_rethrow ::
    "'w machine \<Rightarrow> 'w routines \<Rightarrow> memory \<Rightarrow> u64 \<Rightarrow> usize \<Rightarrow> 'w world \<Rightarrow> 'w outcome option" where
  "dispatch_rethrow U R m registers exception w = walk_rethrow U R (entry_state m registers) exception w"

definition dispatch_trace ::
    "'w machine \<Rightarrow> 'w routines \<Rightarrow> memory \<Rightarrow> u64 \<Rightarrow> usize \<Rightarrow> usize \<Rightarrow> 'w world
      \<Rightarrow> (ReasonCode \<times> 'w world) option" where
  "dispatch_trace U R m registers visit parameter w =
    walk_trace U R (entry_state m registers) visit parameter w"

end
