(* ===== verification/EntryFacts.thy ===== *)
theory EntryFacts
  imports Entry
begin

text \<open>
  What the naked functions do: a capture writes the image of the caller and nothing else, a
  transfer loads every register of an image, and a trampoline hands its arguments and the
  captured caller to the Rust function it continues in.
\<close>

section \<open>Capture\<close>

text \<open>What a call preserves, as the callee's caller sees it right after the call returns.\<close>

definition abi_image :: "cpu \<Rightarrow> u64 \<Rightarrow> Registers" where
  "abi_image s stack = \<lparr>reg_rax = 0, reg_rdx = 0, reg_rcx = 0, reg_rbx = cpu_gpr s RBX, reg_rsi = 0,
    reg_rdi = 0, reg_rbp = cpu_gpr s RBP, reg_rsp = stack + 8, reg_r8 = 0, reg_r9 = 0, reg_r10 = 0,
    reg_r11 = 0, reg_r12 = cpu_gpr s R12, reg_r13 = cpu_gpr s R13, reg_r14 = cpu_gpr s R14,
    reg_r15 = cpu_gpr s R15, reg_ra = mem_get (cpu_mem s) stack, reg_mxcsr = ucast (cpu_mxcsr s),
    reg_fcw = ucast (cpu_fcw s)\<rparr>"

lemmas cpu_steps = set_gpr_def put_mem_def push_word_def return_pop_def Let_def

lemma image_inside: "n \<le> 8 \<Longrightarrow> unat (field_offset g) + n \<le> image_size"
  using field_index_less[of g] by (simp add: unat_field_offset image_size_def)

lemma unchanged_put_field:
  "unchanged_outside p image_size m m' \<Longrightarrow> LENGTH('w::len) div 8 \<le> 8 \<Longrightarrow> 8 \<le> LENGTH('w) \<Longrightarrow>
    unchanged_outside p image_size m (mem_put m' (p + field_offset g) (v :: 'w word))"
  using image_inside[of "LENGTH('w) div 8" g] by (intro unchanged_put) simp_all

lemma image_read_apart: "apart p image_size a 8 \<Longrightarrow> n \<le> 8 \<Longrightarrow> apart (p + field_offset g) n a 8"
  using field_apart[of a 8 p n g] by (simp add: apart_sym)

lemma image_get_apart:
  "apart p image_size a 8 \<Longrightarrow> LENGTH('w::len) div 8 \<le> 8 \<Longrightarrow>
    (mem_get (mem_put m (p + field_offset g) (v :: 'w word)) a :: u64) = mem_get m a"
  by (rule mem_get_put_apart) (simp add: image_read_apart)

lemma entry_exec:
  assumes "apart (cpu_gpr s RDI) image_size (cpu_gpr s RSI) 8" "apart (cpu_gpr s RDI) image_size (cpu_gpr s RSP) 8"
  shows "\<exists>m. exec F entry_code s = Some (Leaves (return_pop
      (set_gpr RAX (mem_get (cpu_mem s) (cpu_gpr s RSI)) s\<lparr>cpu_mem := m\<rparr>))) \<and>
    registers_take m (cpu_gpr s RDI) = abi_image s (cpu_gpr s RSI) \<and>
    unchanged_outside (cpu_gpr s RDI) image_size (cpu_mem s) m"
proof -
  let ?m0 = "cpu_mem s" and ?p = "cpu_gpr s RDI" and ?w = "\<lambda>g m v. mem_put m (cpu_gpr s RDI + field_offset g) v"
  define m1 where "m1 = fold (\<lambda>g m. ?w g m (0 :: u64)) [RAX, RDX, RCX, RSI, RDI, R8, R9, R10, R11] ?m0"
  define m2 where "m2 = fold (\<lambda>g m. ?w g m (cpu_gpr s g)) [RBX, RBP, R12, R13, R14, R15] m1"
  define m3 where "m3 = ?w RSP m2 (cpu_gpr s RSI + 8)"
  define m4 where "m4 = ?w RA m3 (mem_get ?m0 (cpu_gpr s RSI) :: u64)"
  define m5 where "m5 = ?w FCW (?w MXCSR m4 (0 :: u64)) (0 :: u64)"
  define m6 where "m6 = ?w FCW (?w MXCSR m5 (cpu_mxcsr s)) (cpu_fcw s)"
  have a: "(mem_get m3 (cpu_gpr s RSI) :: u64) = mem_get ?m0 (cpu_gpr s RSI)"
    by (simp add: m3_def m2_def m1_def image_get_apart[OF assms(1)])
  have run: "exec F entry_code s = Some (Leaves (return_pop
      (set_gpr RAX (mem_get m3 (cpu_gpr s RSI)) s\<lparr>cpu_mem := ?w FCW (?w MXCSR (?w FCW (?w MXCSR
        (?w RA m3 (mem_get m3 (cpu_gpr s RSI) :: u64)) (0 :: u64)) (0 :: u64)) (cpu_mxcsr s)) (cpu_fcw s)\<rparr>)))"
    by (simp add: entry_code_def set_gpr_def put_mem_def m1_def m2_def m3_def)
  have un: "unchanged_outside ?p image_size ?m0 m6"
    by (simp add: m6_def m5_def m4_def m3_def m2_def m1_def unchanged_put_field)
  have "registers_get g (registers_take m6 ?p) = registers_get g (abi_image s (cpu_gpr s RSI))" for g
    by (cases g; simp add: m6_def m5_def m4_def m3_def m2_def m1_def field_put field_put_narrow
          del: registers_get.simps; simp add: abi_image_def)
  then have "registers_take m6 ?p = abi_image s (cpu_gpr s RSI)" by (rule registers_eqI)
  with un run show ?thesis by (intro exI[of _ m6]) (simp add: a m4_def m5_def m6_def)
qed

text \<open>What \<open>save\<close> leaves in memory.\<close>

definition saved_memory :: "cpu \<Rightarrow> memory" where
  "saved_memory s = (let p = cpu_gpr s RDI;
      m = fold (\<lambda>g m. mem_put m (p + field_offset g) (cpu_gpr s g)) [RBX, RBP, R12, R13, R14, R15] (cpu_mem s);
      m = mem_put m (p + field_offset RSP) (cpu_gpr s RSP + 8);
      m = mem_put m (p + field_offset RA) (mem_get (cpu_mem s) (cpu_gpr s RSP) :: u64)
    in mem_put (mem_put m (p + field_offset MXCSR) (cpu_mxcsr s)) (p + field_offset FCW) (cpu_fcw s))"

lemma save_run:
  assumes "apart (cpu_gpr s RDI) image_size (cpu_gpr s RSP) 8"
  shows "exec F save_code s = Some (Leaves (return_pop
      (set_gpr RAX (mem_get (cpu_mem s) (cpu_gpr s RSP)) s\<lparr>cpu_mem := saved_memory s\<rparr>))) \<and>
    unchanged_outside (cpu_gpr s RDI) image_size (cpu_mem s) (saved_memory s)"
proof
  show "unchanged_outside (cpu_gpr s RDI) image_size (cpu_mem s) (saved_memory s)"
    by (simp add: saved_memory_def Let_def unchanged_put_field)
  show "exec F save_code s = Some (Leaves (return_pop
      (set_gpr RAX (mem_get (cpu_mem s) (cpu_gpr s RSP)) s\<lparr>cpu_mem := saved_memory s\<rparr>)))"
    by (simp add: save_code_def set_gpr_def put_mem_def saved_memory_def Let_def image_get_apart[OF assms])
qed

lemma saved_memory_field:
  assumes "g \<in> {RBX, RBP, R12, R13, R14, R15, RSP, RA}"
  shows "registers_get g (registers_take (saved_memory s) (cpu_gpr s RDI)) =
    registers_get g (abi_image s (cpu_gpr s RSP))"
  using assms
  by (auto simp: saved_memory_def Let_def field_put registers_take_get mem_get_put_apart fields_apart
      simp del: registers_get.simps, simp_all add: abi_image_def)

lemma save_exec:
  assumes "apart (cpu_gpr s RDI) image_size (cpu_gpr s RSP) 8"
    "registers_take (cpu_mem s) (cpu_gpr s RDI) = registers_zeroed"
  shows "\<exists>m. exec F save_code s = Some (Leaves (return_pop
      (set_gpr RAX (mem_get (cpu_mem s) (cpu_gpr s RSP)) s\<lparr>cpu_mem := m\<rparr>))) \<and>
    registers_take m (cpu_gpr s RDI) = abi_image s (cpu_gpr s RSP) \<and>
    unchanged_outside (cpu_gpr s RDI) image_size (cpu_mem s) m"
proof -
  have z: "registers_get g (registers_take (cpu_mem s) (cpu_gpr s RDI)) = 0" for g
    unfolding assms(2) by (cases g) (simp_all add: registers_zeroed_def)
  have "registers_get g (registers_take (saved_memory s) (cpu_gpr s RDI)) =
      registers_get g (abi_image s (cpu_gpr s RSP))" for g
    by (cases g; simp add: saved_memory_def Let_def field_put field_put_narrow z
          del: registers_get.simps; simp add: abi_image_def)
  then have "registers_take (saved_memory s) (cpu_gpr s RDI) = abi_image s (cpu_gpr s RSP)" by (rule registers_eqI)
  with save_run[OF assms(1)] show ?thesis by (intro exI[of _ "saved_memory s"]) simp
qed

section \<open>Transfer\<close>

text \<open>The image must lie apart from the word below the stack pointer it installs.\<close>

lemma jump_exec:
  assumes r: "registers_take (cpu_mem s) (cpu_gpr s RDI) = r"
    and a: "apart (reg_rsp r - 8) 8 (cpu_gpr s RDI) image_size"
  shows "\<exists>s'. exec F jump_code s = Some (Leaves s') \<and>
    (\<forall>g. g \<notin> {RA, MXCSR, FCW} \<longrightarrow> cpu_gpr s' g = registers_get g r) \<and>
    cpu_rip s' = reg_ra r \<and> cpu_mxcsr s' = ucast (reg_mxcsr r) \<and> cpu_fcw s' = ucast (reg_fcw r) \<and>
    \<not> cpu_df s' \<and> cpu_mem s' = mem_put (cpu_mem s) (reg_rsp r - 8) (reg_ra r)"
proof -
  let ?p = "cpu_gpr s RDI"
  let ?m = "mem_put (cpu_mem s) (reg_rsp r - 8) (reg_ra r)"
  have f: "mem_get (cpu_mem s) (?p + field_offset g) = registers_get g r" for g
    using registers_take_get[of g "cpu_mem s" ?p] by (simp add: r)
  have "registers_take ?m ?p = r" using image_put_apart[where ?'w = 64, of "reg_rsp r - 8" ?p] a r by simp
  then have f': "mem_get ?m (?p + field_offset g) = registers_get g r" for g
    using registers_take_get[of g ?m ?p] by simp
  have n: "(mem_get (cpu_mem s) (?p + field_offset MXCSR) :: u32) = ucast (reg_mxcsr r)"
    "(mem_get (cpu_mem s) (?p + field_offset FCW) :: u16) = ucast (reg_fcw r)"
    using f[of MXCSR] f[of FCW] mem_get_low[where ?'w = 32] mem_get_low[where ?'w = 16] by simp_all
  define t where "t = fold (\<lambda>g s. set_gpr g (registers_get g r) s)
    [RAX, RDX, RCX, RBX, RSI, RBP, R8, R9, R10, R11, R12, R13, R14, R15, RDI]
    (s\<lparr>cpu_mxcsr := ucast (reg_mxcsr r), cpu_fcw := ucast (reg_fcw r), cpu_mem := ?m,
      cpu_gpr := (cpu_gpr s)(RSP := reg_rsp r - 8)\<rparr>)"
  have "exec F jump_code s = Some (Leaves (return_pop (t\<lparr>cpu_df := False\<rparr>)))"
    by (simp add: jump_code_def set_gpr_def put_mem_def push_word_def Let_def f n f' t_def)
  moreover have "cpu_gpr (return_pop (t\<lparr>cpu_df := False\<rparr>)) g = registers_get g r" if "g \<notin> {RA, MXCSR, FCW}" for g
    using that by (cases g) (simp_all add: return_pop_def t_def set_gpr_def)
  moreover have "cpu_rip (return_pop (t\<lparr>cpu_df := False\<rparr>)) = reg_ra r"
    "cpu_mxcsr (return_pop (t\<lparr>cpu_df := False\<rparr>)) = ucast (reg_mxcsr r)"
    "cpu_fcw (return_pop (t\<lparr>cpu_df := False\<rparr>)) = ucast (reg_fcw r)"
    "\<not> cpu_df (return_pop (t\<lparr>cpu_df := False\<rparr>))" "cpu_mem (return_pop (t\<lparr>cpu_df := False\<rparr>)) = ?m"
    by (simp_all add: return_pop_def t_def set_gpr_def)
  ultimately show ?thesis by blast
qed

section \<open>Trampolines\<close>

lemma entry_sizes:
  "entry_first = 152" "entry_second = 160" "entry_third = 168" "entry_pad = 176" "entry_stack = 184"
  by (simp_all add: entry_first_def entry_second_def entry_third_def entry_pad_def entry_stack_def image_size_def)

lemma frame_apart:
  "apart b image_size (b + 184) 8" "apart b image_size (b - 8) 8" "apart (b - 8) 8 (b + 184) 8"
  "apart (b - 8) 160 (b + 184) 8" "apart (b - 8) 160 (b + 152) 8" "apart (b - 8) 160 (b + 160) 8"
  "apart (b - 8) 160 (b + 168) 8"
  by (simp_all add: apart_def image_size_def)

text \<open>The call of the capture, with the image at the stack pointer.\<close>

lemma capture_call:
  assumes "cpu_gpr s RDI = b" "cpu_gpr s RSI = b + 184" "cpu_gpr s RSP = b"
  shows "\<exists>m. linked next Capture (push_word back s) = Some (s\<lparr>cpu_rip := back, cpu_mem := m,
      cpu_gpr := (cpu_gpr s)(RAX := mem_get (cpu_mem s) (b + 184))\<rparr>) \<and>
    registers_take m b = abi_image s (b + 184) \<and> unchanged_outside (b - 8) 160 (cpu_mem s) m"
proof -
  let ?t = "push_word back s"
  have t: "cpu_gpr ?t = (cpu_gpr s)(RSP := b - 8)" "cpu_mem ?t = mem_put (cpu_mem s) (b - 8) back"
    "cpu_mxcsr ?t = cpu_mxcsr s" "cpu_fcw ?t = cpu_fcw s"
    by (simp_all add: cpu_steps assms)
  have ra: "(mem_get (cpu_mem ?t) (b + 184) :: u64) = mem_get (cpu_mem s) (b + 184)"
    unfolding t(2) by (rule mem_get_put_apart) (simp add: frame_apart)
  obtain m where m: "exec (\<lambda>_ _. None) entry_code ?t = Some (Leaves (return_pop
      (set_gpr RAX (mem_get (cpu_mem ?t) (b + 184)) ?t\<lparr>cpu_mem := m\<rparr>)))"
    "registers_take m b = abi_image ?t (b + 184)" "unchanged_outside b image_size (cpu_mem ?t) m"
    using entry_exec[of ?t "\<lambda>_ _. None"] by (auto simp: t assms frame_apart)
  have "(mem_get m (b - 8) :: u64) = mem_get (cpu_mem ?t) (b - 8)"
    by (rule unchanged_get[OF m(3)]) (simp add: frame_apart)
  then have ret: "mem_get m (b - 8) = back" by (simp add: t)
  have "abi_image ?t (b + 184) = abi_image s (b + 184)" by (simp add: abi_image_def t(1,3,4) ra)
  moreover have "unchanged_outside (b - 8) 160 (cpu_mem s) m"
  proof (rule unchanged_trans)
    show "unchanged_outside (b - 8) 160 (cpu_mem s) (cpu_mem ?t)"
      unfolding t(2) by (intro unchanged_put unchanged_refl) simp_all
    show "unchanged_outside (b - 8) 160 (cpu_mem ?t) m"
      by (rule unchanged_wider[OF m(3)]) (simp_all add: image_size_def)
  qed
  moreover have "return_pop (set_gpr RAX (mem_get (cpu_mem ?t) (b + 184)) ?t\<lparr>cpu_mem := m\<rparr>) =
      s\<lparr>cpu_rip := back, cpu_mem := m, cpu_gpr := (cpu_gpr s)(RAX := mem_get (cpu_mem s) (b + 184))\<rparr>"
    by (rule cpu.equality) (simp_all add: ra ra[unfolded t(2)] return_pop_def set_gpr_def t ret,
      simp_all add: cpu_steps assms fun_eq_iff)
  ultimately show ?thesis using m(1,2) by (intro exI[of _ m]) (simp add: linked_def)
qed

text \<open>
  What a continuation finds: the image of the trampoline's caller, as the caller sees it after the
  call, at the first argument; the trampoline's own return address on a stack aligned for the call;
  the preserved registers and the memory outside the trampoline's frame untouched.
\<close>

definition hands_over :: "cpu \<Rightarrow> u64 \<Rightarrow> cpu \<Rightarrow> bool" where
  "hands_over s back s1 \<longleftrightarrow> (let b = cpu_gpr s RSP - entry_stack in
    cpu_gpr s1 RDI = b \<and> cpu_gpr s1 RSP = b - 8 \<and> mem_get (cpu_mem s1) (b - 8) = back \<and>
    registers_take (cpu_mem s1) b = abi_image s (cpu_gpr s RSP) \<and>
    (\<forall>g\<in>{RBX, RBP, R12, R13, R14, R15}. cpu_gpr s1 g = cpu_gpr s g) \<and>
    cpu_mxcsr s1 = cpu_mxcsr s \<and> cpu_fcw s1 = cpu_fcw s \<and> cpu_df s1 = cpu_df s \<and>
    unchanged_outside (b - 8) 192 (cpu_mem s) (cpu_mem s1))"

definition same_preserved :: "cpu \<Rightarrow> cpu \<Rightarrow> bool" where
  "same_preserved s s' \<longleftrightarrow> (\<forall>g\<in>{RBX, RBP, R12, R13, R14, R15}. cpu_gpr s' g = cpu_gpr s g) \<and>
    cpu_mxcsr s' = cpu_mxcsr s \<and> cpu_fcw s' = cpu_fcw s \<and> cpu_df s' = cpu_df s"

lemma hands_over_call:
  assumes "cpu_gpr s RSP = b + 184" "unchanged_outside (b - 8) 192 (cpu_mem s) (cpu_mem s0)"
    "same_preserved s s0" "registers_take m b = abi_image s0 (b + 184)"
    "unchanged_outside (b - 8) 160 (cpu_mem s0) m" "cpu_mem s2 = m" "cpu_gpr s2 RDI = b" "cpu_gpr s2 RSP = b"
    "same_preserved s s2"
  shows "hands_over s back' (push_word back' s2)"
proof -
  have ra: "(mem_get (cpu_mem s0) (b + 184) :: u64) = mem_get (cpu_mem s) (b + 184)"
    by (rule unchanged_get[OF assms(2)]) (simp add: apart_def)
  then have img: "abi_image s0 (b + 184) = abi_image s (b + 184)"
    using assms(3) by (simp add: abi_image_def same_preserved_def)
  have un: "unchanged_outside (b - 8) 192 (cpu_mem s0) m"
    by (rule unchanged_wider[OF assms(5)]) simp_all
  have "registers_take (mem_put m (b - 8) back') b = registers_take m b"
    by (rule image_put_apart) (simp add: apart_def image_size_def)
  moreover have "unchanged_outside (b - 8) 192 (cpu_mem s) (mem_put m (b - 8) back')"
    using unchanged_trans[OF assms(2) un] by (intro unchanged_put) simp_all
  moreover have "b + 184 - entry_stack = b" by (simp add: entry_sizes)
  ultimately show ?thesis
    using assms(1,4,6-9) img by (simp add: hands_over_def Let_def cpu_steps same_preserved_def)
qed

text \<open>Code that control falls through.\<close>

fun straight :: "instr \<Rightarrow> bool" where
  "straight (Call _ _) = False" | "straight Ret = False" | "straight Ud2 = False" | "straight _ = True"

lemma exec_straight:
  "list_all straight xs \<Longrightarrow> exec F (xs @ ys) s = exec F ys (fold plain xs s)"
proof (induction xs arbitrary: s)
  case (Cons i xs)
  then have "exec F ((i # xs) @ ys) s = exec F (xs @ ys) (plain i s)" by (cases i) simp_all
  with Cons show ?case by simp
qed simp

text \<open>
  The five trampolines share a shape: they set up the frame, call the capture, load the arguments,
  and call the continuation.
\<close>

definition captured_at :: "cpu \<Rightarrow> u64 \<Rightarrow> memory \<Rightarrow> u64 \<Rightarrow> cpu" where
  "captured_at s0 back m b = s0\<lparr>cpu_rip := back, cpu_mem := m,
    cpu_gpr := (cpu_gpr s0)(RAX := mem_get (cpu_mem s0) (b + 184))\<rparr>"

lemma trampoline:
  assumes "list_all straight pre" "list_all straight mid" "cpu_gpr s RSP = b + 184" "s0 = fold plain pre s"
    "cpu_gpr s0 RDI = b" "cpu_gpr s0 RSI = b + 184" "cpu_gpr s0 RSP = b" "same_preserved s s0"
    "unchanged_outside (b - 8) 192 (cpu_mem s) (cpu_mem s0)"
    "\<And>m. cpu_mem (fold plain mid (captured_at s0 back m b)) = m \<and>
      cpu_gpr (fold plain mid (captured_at s0 back m b)) RDI = b \<and>
      cpu_gpr (fold plain mid (captured_at s0 back m b)) RSP = b \<and>
      same_preserved s (fold plain mid (captured_at s0 back m b))"
    "\<And>m. unchanged_outside (b - 8) 160 (cpu_mem s0) m \<Longrightarrow>
      Q (push_word back' (fold plain mid (captured_at s0 back m b)))"
  shows "\<exists>s1. hands_over s back' s1 \<and> Q s1 \<and>
    exec (linked next) (pre @ Call Capture back # mid @ Call Next back' # post) s =
      Option.bind (next s1) (\<lambda>s2. if cpu_rip s2 = back' then exec (linked next) post s2 else Some (Leaves s2))"
proof -
  obtain m where m: "linked next Capture (push_word back s0) = Some (captured_at s0 back m b)"
    "registers_take m b = abi_image s0 (b + 184)" "unchanged_outside (b - 8) 160 (cpu_mem s0) m"
    using capture_call[OF assms(5-7), of "next" "back"] unfolding captured_at_def by blast
  have "exec (linked next) (pre @ Call Capture back # mid @ Call Next back' # post) s =
      exec (linked next) (Call Capture back # mid @ Call Next back' # post) s0"
    by (simp only: exec_straight[OF assms(1)] assms(4))
  also have "\<dots> = exec (linked next) (mid @ Call Next back' # post) (captured_at s0 back m b)"
    by (simp add: m(1)) (simp add: captured_at_def)
  also have "\<dots> = Option.bind (next (push_word back' (fold plain mid (captured_at s0 back m b))))
        (\<lambda>s2. if cpu_rip s2 = back' then exec (linked next) post s2 else Some (Leaves s2))"
    unfolding exec_straight[OF assms(2)] by (simp add: linked_def)
  finally show ?thesis
    using m(3) hands_over_call[OF assms(3,9,8) m(2,3)] assms(10)[of m] assms(11)[OF m(3)] by blast
qed

text \<open>How a trampoline that returns ends once its continuation is left.\<close>

definition epilogue :: "u64 \<Rightarrow> cpu option \<Rightarrow> leaving option" where
  "epilogue back left = Option.bind left (\<lambda>s2. if cpu_rip s2 = back
    then Some (Leaves (return_pop (set_gpr RSP (cpu_gpr s2 RSP + entry_stack) s2))) else Some (Leaves s2))"

lemma epilogue_exec:
  "Option.bind left (\<lambda>s2. if cpu_rip s2 = back then exec F [AddImm entry_stack RSP, Ret] s2 else Some (Leaves s2)) =
    epilogue back left"
  by (simp add: epilogue_def cong: if_cong)

lemma saved_slot:
  "unchanged_outside (b - 8) 160 m0 m \<Longrightarrow> a \<in> {b + 152, b + 160, b + 168} \<Longrightarrow>
    (mem_get m a :: u64) = mem_get m0 a"
  by (auto elim!: unchanged_get simp: frame_apart)

lemma slots_apart:
  "apart (b + 152) 8 (b + 160) 8" "apart (b + 160) 8 (b + 152) 8" "apart (b + 152) 8 (b + 168) 8"
  "apart (b + 168) 8 (b + 152) 8" "apart (b + 160) 8 (b + 168) 8" "apart (b + 168) 8 (b + 160) 8"
  by (simp_all add: apart_def)

text \<open>The frame: the stack pointer moves down, the arguments are stored above the image.\<close>

lemma mid_frame:
  assumes "cpu_gpr s0 RSP = b" "same_preserved s s0"
    "mid \<in> {[Load entry_first RSP RSI, MovReg RSP RDI],
      [Load entry_second RSP RDX, Load entry_first RSP RSI, MovReg RSP RDI],
      [Load entry_third RSP RCX, Load entry_second RSP RDX, Load entry_first RSP RSI, MovReg RSP RDI]}"
  shows "cpu_mem (fold plain mid (captured_at s0 back m b)) = m \<and>
      cpu_gpr (fold plain mid (captured_at s0 back m b)) RDI = b \<and>
      cpu_gpr (fold plain mid (captured_at s0 back m b)) RSP = b \<and>
      same_preserved s (fold plain mid (captured_at s0 back m b))"
  using assms by (auto simp: captured_at_def cpu_steps same_preserved_def)

lemma one_argument:
  "\<exists>s1. hands_over s back' s1 \<and> cpu_gpr s1 RSI = cpu_gpr s RDI \<and>
    exec (linked next) ([SubImm entry_stack RSP, Store RDI entry_first RSP, Lea entry_stack RSP RSI, MovReg RSP RDI] @
      Call Capture back # [Load entry_first RSP RSI, MovReg RSP RDI] @ Call Next back' # post) s =
      Option.bind (next s1) (\<lambda>s2. if cpu_rip s2 = back' then exec (linked next) post s2 else Some (Leaves s2))"
proof -
  define b where "b = cpu_gpr s RSP - 184"
  let ?pre = "[SubImm entry_stack RSP, Store RDI entry_first RSP,
    Lea entry_stack RSP RSI, MovReg RSP RDI]"
  let ?mid = "[Load entry_first RSP RSI, MovReg RSP RDI]"
  define s0 where "s0 = fold plain ?pre s"
  have e: "cpu_gpr s RSP = b + 184" by (simp add: b_def)
  have s0: "cpu_gpr s0 RDI = b" "cpu_gpr s0 RSI = b + 184" "cpu_gpr s0 RSP = b" "same_preserved s s0"
    and mem: "cpu_mem s0 = mem_put (cpu_mem s) (b + 152) (cpu_gpr s RDI)"
    by (simp_all add: s0_def cpu_steps e entry_sizes same_preserved_def)
  have un: "unchanged_outside (b - 8) 192 (cpu_mem s) (cpu_mem s0)"
    unfolding mem by (intro unchanged_put unchanged_refl) simp_all
  have arg: "cpu_gpr (push_word back' (fold plain ?mid (captured_at s0 back m b))) RSI = cpu_gpr s RDI"
    if "unchanged_outside (b - 8) 160 (cpu_mem s0) m" for m
    using saved_slot[OF that, of "b + 152"] s0(3) mem by (simp add: captured_at_def cpu_steps entry_sizes)
  show ?thesis
    by (rule trampoline[where Q = "\<lambda>s1. cpu_gpr s1 RSI = cpu_gpr s RDI" and pre = ?pre and mid = ?mid,
        OF _ _ e s0_def s0 un mid_frame[OF s0(3,4)] arg]) simp_all
qed

lemma raise_exec:
  "\<exists>s1. hands_over s back' s1 \<and> cpu_gpr s1 RSI = cpu_gpr s RDI \<and>
    exec (linked next) (raise_code back back') s = epilogue back' (next s1)"
  using one_argument[of s back' "next" "back" "[AddImm entry_stack RSP, Ret]"]
  unfolding raise_code_def append.simps epilogue_exec .

lemma rethrow_exec:
  "\<exists>s1. hands_over s back' s1 \<and> cpu_gpr s1 RSI = cpu_gpr s RDI \<and>
    exec (linked next) (rethrow_code back back') s = epilogue back' (next s1)"
  using one_argument[of s back' "next" "back" "[AddImm entry_stack RSP, Ret]"]
  unfolding rethrow_code_def append.simps epilogue_exec .

lemma resume_exec:
  "\<exists>s1. hands_over s back' s1 \<and> cpu_gpr s1 RSI = cpu_gpr s RDI \<and>
    exec (linked next) (resume_code back back') s =
      Option.bind (next s1) (\<lambda>s2. Some (if cpu_rip s2 = back' then Stops else Leaves s2))"
proof -
  have p: "(\<lambda>s2. if cpu_rip s2 = back' then exec (linked next) [Ud2] s2 else Some (Leaves s2)) =
      (\<lambda>s2. Some (if cpu_rip s2 = back' then Stops else Leaves s2))" by auto
  show ?thesis
    using one_argument[of s back' "next" "back" "[Ud2]"] unfolding resume_code_def append.simps p .
qed

lemma force_exec:
  "\<exists>s1. hands_over s back' s1 \<and> (cpu_gpr s1 RSI = cpu_gpr s RDI \<and> cpu_gpr s1 RDX = cpu_gpr s RSI \<and>
    cpu_gpr s1 RCX = cpu_gpr s RDX) \<and>
    exec (linked next) (force_code back back') s = epilogue back' (next s1)"
proof -
  define b where "b = cpu_gpr s RSP - 184"
  let ?pre = "[SubImm entry_stack RSP, Store RDI entry_first RSP, Store RSI entry_second RSP,
    Store RDX entry_third RSP, Lea entry_stack RSP RSI, MovReg RSP RDI]"
  let ?mid = "[Load entry_third RSP RCX, Load entry_second RSP RDX, Load entry_first RSP RSI, MovReg RSP RDI]"
  define s0 where "s0 = fold plain ?pre s"
  have e: "cpu_gpr s RSP = b + 184" by (simp add: b_def)
  have s0: "cpu_gpr s0 RDI = b" "cpu_gpr s0 RSI = b + 184" "cpu_gpr s0 RSP = b" "same_preserved s s0"
    and mem: "cpu_mem s0 = mem_put (mem_put (mem_put (cpu_mem s) (b + 152) (cpu_gpr s RDI)) (b + 160) (cpu_gpr s RSI))
      (b + 168) (cpu_gpr s RDX)"
    by (simp_all add: s0_def cpu_steps e entry_sizes same_preserved_def)
  have un: "unchanged_outside (b - 8) 192 (cpu_mem s) (cpu_mem s0)"
    unfolding mem by (intro unchanged_put unchanged_refl) simp_all
  have arg: "cpu_gpr (push_word back' (fold plain ?mid (captured_at s0 back m b))) RSI = cpu_gpr s RDI \<and>
      cpu_gpr (push_word back' (fold plain ?mid (captured_at s0 back m b))) RDX = cpu_gpr s RSI \<and>
      cpu_gpr (push_word back' (fold plain ?mid (captured_at s0 back m b))) RCX = cpu_gpr s RDX"
    if "unchanged_outside (b - 8) 160 (cpu_mem s0) m" for m
    using saved_slot[OF that] s0(3) mem
    by (simp add: captured_at_def cpu_steps entry_sizes mem_get_put_apart slots_apart)
  show ?thesis
    unfolding force_code_def epilogue_exec[of _ _ "linked next", symmetric]
    by (rule trampoline[where Q = "\<lambda>s1. cpu_gpr s1 RSI = cpu_gpr s RDI \<and> cpu_gpr s1 RDX = cpu_gpr s RSI \<and>
        cpu_gpr s1 RCX = cpu_gpr s RDX" and pre = ?pre and mid = ?mid,
        OF _ _ e s0_def s0 un mid_frame[OF s0(3,4)] arg, unfolded append.simps]) simp_all
qed

lemma trace_exec:
  "\<exists>s1. hands_over s back' s1 \<and> (cpu_gpr s1 RSI = cpu_gpr s RDI \<and> cpu_gpr s1 RDX = cpu_gpr s RSI) \<and>
    exec (linked next) (trace_code back back') s = epilogue back' (next s1)"
proof -
  define b where "b = cpu_gpr s RSP - 184"
  let ?pre = "[SubImm entry_stack RSP, Store RDI entry_first RSP, Store RSI entry_second RSP,
    Lea entry_stack RSP RSI, MovReg RSP RDI]"
  let ?mid = "[Load entry_second RSP RDX, Load entry_first RSP RSI, MovReg RSP RDI]"
  define s0 where "s0 = fold plain ?pre s"
  have e: "cpu_gpr s RSP = b + 184" by (simp add: b_def)
  have s0: "cpu_gpr s0 RDI = b" "cpu_gpr s0 RSI = b + 184" "cpu_gpr s0 RSP = b" "same_preserved s s0"
    and mem: "cpu_mem s0 = mem_put (mem_put (cpu_mem s) (b + 152) (cpu_gpr s RDI)) (b + 160) (cpu_gpr s RSI)"
    by (simp_all add: s0_def cpu_steps e entry_sizes same_preserved_def)
  have un: "unchanged_outside (b - 8) 192 (cpu_mem s) (cpu_mem s0)"
    unfolding mem by (intro unchanged_put unchanged_refl) simp_all
  have arg: "cpu_gpr (push_word back' (fold plain ?mid (captured_at s0 back m b))) RSI = cpu_gpr s RDI \<and>
      cpu_gpr (push_word back' (fold plain ?mid (captured_at s0 back m b))) RDX = cpu_gpr s RSI"
    if "unchanged_outside (b - 8) 160 (cpu_mem s0) m" for m
    using saved_slot[OF that] s0(3) mem
    by (simp add: captured_at_def cpu_steps entry_sizes mem_get_put_apart slots_apart)
  show ?thesis
    unfolding trace_code_def epilogue_exec[of _ _ "linked next", symmetric]
    by (rule trampoline[where Q = "\<lambda>s1. cpu_gpr s1 RSI = cpu_gpr s RDI \<and> cpu_gpr s1 RDX = cpu_gpr s RSI"
        and pre = ?pre and mid = ?mid,
        OF _ _ e s0_def s0 un mid_frame[OF s0(3,4)] arg, unfolded append.simps]) simp_all
qed

end
