(* ===== verification/MachineProps.thy ===== *)
theory MachineProps
  imports EntryFacts UnwindProps
begin

text \<open>
  The properties of the naked functions, and the whole of a raise on the processor: trampoline,
  capture, walk, and return or transfer.
\<close>

section \<open>Images in memory\<close>

definition image_store :: "u64 \<Rightarrow> Registers \<Rightarrow> memory \<Rightarrow> memory" where
  "image_store p r m = fold (\<lambda>g m. mem_put m (p + field_offset g) (registers_get g r)) reg_order m"

lemma image_store_take: "registers_take (image_store p r m) p = r"
proof (rule registers_eqI)
  show "registers_get g (registers_take (image_store p r m) p) = registers_get g r" for g
    by (cases g) (simp_all add: image_store_def reg_order_def field_put del: registers_get.simps)
qed

definition ex_cpu :: cpu where
  "ex_cpu = \<lparr>cpu_gpr = (\<lambda>g. if g = RDI then 0x9000 else if g = RSP then 0x7008 else 0), cpu_rip = 0x4000,
    cpu_mxcsr = 0x1f80, cpu_fcw = 0x37f, cpu_df = False, cpu_mem = (\<lambda>_. 0)\<rparr>"

section \<open>Capture and transfer\<close>

text \<open>C18. Every entry trampoline calls its Rust continuation with the image of its own caller, as that
  caller is after the call, the arguments in order, and the preserved registers and all memory
  outside the trampoline's frame untouched; when the continuation returns, the trampoline
  returns to the caller, and the one of a resumption stops.\<close>

theorem trampolines_hand_over:
  "(\<exists>s1. hands_over s back' s1 \<and> cpu_gpr s1 RSI = cpu_gpr s RDI \<and>
      exec (linked next) (raise_code back back') s = epilogue back' (next s1)) \<and>
   (\<exists>s1. hands_over s back' s1 \<and> (cpu_gpr s1 RSI = cpu_gpr s RDI \<and> cpu_gpr s1 RDX = cpu_gpr s RSI \<and>
      cpu_gpr s1 RCX = cpu_gpr s RDX) \<and>
      exec (linked next) (force_code back back') s = epilogue back' (next s1)) \<and>
   (\<exists>s1. hands_over s back' s1 \<and> cpu_gpr s1 RSI = cpu_gpr s RDI \<and>
      exec (linked next) (resume_code back back') s =
        Option.bind (next s1) (\<lambda>s2. Some (if cpu_rip s2 = back' then Stops else Leaves s2))) \<and>
   (\<exists>s1. hands_over s back' s1 \<and> cpu_gpr s1 RSI = cpu_gpr s RDI \<and>
      exec (linked next) (rethrow_code back back') s = epilogue back' (next s1)) \<and>
   (\<exists>s1. hands_over s back' s1 \<and> (cpu_gpr s1 RSI = cpu_gpr s RDI \<and> cpu_gpr s1 RDX = cpu_gpr s RSI) \<and>
      exec (linked next) (trace_code back back') s = epilogue back' (next s1))"
  by (intro conjI raise_exec force_exec resume_exec rethrow_exec trace_exec)

text \<open>The frame of the trampolines keeps the stack aligned: entered with the stack pointer eight
  below a multiple of sixteen, as the ABI has it, the continuation is called with the stack pointer
  at a multiple of sixteen.\<close>

theorem trampoline_alignment:
  assumes "hands_over s back s1" "unat (cpu_gpr s RSP) mod 16 = 8"
  shows "unat (cpu_gpr s1 RSP + 8) mod 16 = 0"
proof -
  have "cpu_gpr s1 RSP + 8 = cpu_gpr s RSP - 184"
    using assms(1) by (simp add: hands_over_def Let_def entry_sizes)
  moreover have "unat (cpu_gpr s RSP - 184) mod 16 = 0"
    using assms(2) by (simp add: unat_sub_if') presburger
  ultimately show ?thesis by (simp only:)
qed

theorem trampoline_alignment_witness:
  "\<exists>s1. hands_over ex_cpu 0x500 s1 \<and> unat (cpu_gpr s1 RSP + 8) mod 16 = 0"
proof -
  obtain s1 where "hands_over ex_cpu 0x500 s1" using raise_exec[of ex_cpu "0x500"] by blast
  with trampoline_alignment[OF this] show ?thesis by (auto simp: ex_cpu_def)
qed

text \<open>A transfer loads the processor with exactly the image: every general register, the control
  words, and control at the image's return address; the direction flag is clear and memory
  changes only in the word below the new stack pointer.\<close>

theorem transfer_installs:
  assumes "registers_take (cpu_mem s) (cpu_gpr s RDI) = r"
    "apart (reg_rsp r - 8) 8 (cpu_gpr s RDI) image_size"
  shows "\<exists>s'. exec F jump_code s = Some (Leaves s') \<and>
    (\<forall>g. g \<notin> {RA, MXCSR, FCW} \<longrightarrow> cpu_gpr s' g = registers_get g r) \<and>
    cpu_rip s' = reg_ra r \<and> cpu_mxcsr s' = ucast (reg_mxcsr r) \<and> cpu_fcw s' = ucast (reg_fcw r) \<and>
    \<not> cpu_df s' \<and> cpu_mem s' = mem_put (cpu_mem s) (reg_rsp r - 8) (reg_ra r)"
  by (rule jump_exec[OF assms])

definition ex_image_registers :: Registers where
  "ex_image_registers = registers_zeroed\<lparr>reg_rsp := 0x8000, reg_ra := 0x4242, reg_rbx := 7\<rparr>"

definition ex_loaded :: cpu where
  "ex_loaded = ex_cpu\<lparr>cpu_mem := image_store 0x9000 ex_image_registers (\<lambda>_. 0)\<rparr>"

theorem transfer_installs_witness:
  "\<exists>s'. exec (\<lambda>_ _. None) jump_code ex_loaded = Some (Leaves s') \<and> cpu_rip s' = 0x4242 \<and>
    cpu_gpr s' RSP = 0x8000 \<and> cpu_gpr s' RBX = 7"
proof -
  have l: "registers_take (cpu_mem ex_loaded) (cpu_gpr ex_loaded RDI) = ex_image_registers"
    "apart (reg_rsp ex_image_registers - 8) 8 (cpu_gpr ex_loaded RDI) image_size"
    by (simp_all add: ex_loaded_def ex_cpu_def image_store_take apart_def image_size_def)
       (simp_all add: ex_image_registers_def)
  obtain s' where s': "exec (\<lambda>_ _. None) jump_code ex_loaded = Some (Leaves s')"
    "\<forall>g. g \<notin> {RA, MXCSR, FCW} \<longrightarrow> cpu_gpr s' g = registers_get g ex_image_registers"
    "cpu_rip s' = reg_ra ex_image_registers"
    using transfer_installs[OF l, of "\<lambda>_ _. None"] by blast
  from s'(2)[rule_format, of RSP] s'(2)[rule_format, of RBX] s'(3)
  have "cpu_gpr s' RSP = 0x8000" "cpu_gpr s' RBX = 7" "cpu_rip s' = 0x4242"
    by (simp_all add: ex_image_registers_def)
  with s'(1) show ?thesis by blast
qed

lemma narrow_back:
  "ucast (ucast (x :: u32) :: u64) = x" "ucast (ucast (y :: u16) :: u64) = y"
  by (rule bit_word_eqI, simp add: bit_simps)+

text \<open>C17. Capture and transfer are inverse: the state captured at a trampoline, completed with the two
  landing registers, is always installable, and transferring to it resumes the trampoline's caller
  right after its call, with its preserved registers, control words and stack.\<close>

theorem capture_transfer_roundtrip:
  "\<exists>r. state_install (slot_set RAX (Some x) (slot_set RDX (Some y) (captured (abi_image s (cpu_gpr s RSP))))) = Inr r \<and>
    (\<forall>t. registers_take (cpu_mem t) (cpu_gpr t RDI) = r \<and> apart (cpu_gpr s RSP) 8 (cpu_gpr t RDI) image_size \<longrightarrow>
      (\<exists>t'. exec F jump_code t = Some (Leaves t') \<and>
        cpu_rip t' = mem_get (cpu_mem s) (cpu_gpr s RSP) \<and> cpu_gpr t' RSP = cpu_gpr s RSP + 8 \<and>
        (\<forall>g\<in>{RBX, RBP, R12, R13, R14, R15}. cpu_gpr t' g = cpu_gpr s g) \<and>
        cpu_mxcsr t' = cpu_mxcsr s \<and> cpu_fcw t' = cpu_fcw s \<and> cpu_gpr t' RAX = x \<and> cpu_gpr t' RDX = y))"
proof -
  let ?i = "abi_image s (cpu_gpr s RSP)"
  let ?r = "?i\<lparr>reg_rax := x, reg_rdx := y\<rparr>"
  have i: "state_install (slot_set RAX (Some x) (slot_set RDX (Some y) (captured ?i))) = Inr ?r"
    by (simp add: state_install_def captured_def abi_image_def)
  have "\<exists>t'. exec F jump_code t = Some (Leaves t') \<and>
        cpu_rip t' = mem_get (cpu_mem s) (cpu_gpr s RSP) \<and> cpu_gpr t' RSP = cpu_gpr s RSP + 8 \<and>
        (\<forall>g\<in>{RBX, RBP, R12, R13, R14, R15}. cpu_gpr t' g = cpu_gpr s g) \<and>
        cpu_mxcsr t' = cpu_mxcsr s \<and> cpu_fcw t' = cpu_fcw s \<and> cpu_gpr t' RAX = x \<and> cpu_gpr t' RDX = y"
    if t: "registers_take (cpu_mem t) (cpu_gpr t RDI) = ?r" "apart (cpu_gpr s RSP) 8 (cpu_gpr t RDI) image_size" for t
  proof -
    have "apart (reg_rsp ?r - 8) 8 (cpu_gpr t RDI) image_size" using t(2) by (simp add: abi_image_def)
    from jump_exec[OF t(1) this, of F] show ?thesis by (auto simp: abi_image_def narrow_back)
  qed
  with i show ?thesis by (intro exI[of _ ?r]) blast
qed

theorem capture_transfer_roundtrip_witness:
  "\<exists>t t'. exec (\<lambda>_ _. None) jump_code t = Some (Leaves t') \<and> cpu_gpr t' RSP = 0x7010 \<and>
    cpu_gpr t' RAX = 0x9000 \<and> cpu_mxcsr t' = 0x1f80"
proof -
  obtain r where r: "\<forall>t. registers_take (cpu_mem t) (cpu_gpr t RDI) = r \<and>
      apart (cpu_gpr ex_cpu RSP) 8 (cpu_gpr t RDI) image_size \<longrightarrow>
      (\<exists>t'. exec (\<lambda>_ _. None) jump_code t = Some (Leaves t') \<and>
        cpu_rip t' = mem_get (cpu_mem ex_cpu) (cpu_gpr ex_cpu RSP) \<and> cpu_gpr t' RSP = cpu_gpr ex_cpu RSP + 8 \<and>
        (\<forall>g\<in>{RBX, RBP, R12, R13, R14, R15}. cpu_gpr t' g = cpu_gpr ex_cpu g) \<and>
        cpu_mxcsr t' = cpu_mxcsr ex_cpu \<and> cpu_fcw t' = cpu_fcw ex_cpu \<and> cpu_gpr t' RAX = 0x9000 \<and> cpu_gpr t' RDX = 0)"
    using capture_transfer_roundtrip[of "0x9000" 0 ex_cpu "\<lambda>_ _. None"] by blast
  let ?t = "ex_cpu\<lparr>cpu_mem := image_store 0x9000 r (\<lambda>_. 0)\<rparr>"
  have "registers_take (cpu_mem ?t) (cpu_gpr ?t RDI) = r" "apart (cpu_gpr ex_cpu RSP) 8 (cpu_gpr ?t RDI) image_size"
    by (simp_all add: ex_cpu_def image_store_take apart_def image_size_def)
  with r obtain t' where "exec (\<lambda>_ _. None) jump_code ?t = Some (Leaves t')" "cpu_gpr t' RSP = cpu_gpr ex_cpu RSP + 8"
    "cpu_gpr t' RAX = 0x9000" "cpu_mxcsr t' = cpu_mxcsr ex_cpu" by blast
  then show ?thesis by (intro exI[of _ ?t] exI[of _ t']) (simp add: ex_cpu_def)
qed

section \<open>A raise on the processor\<close>

text \<open>
  How a continuation in Rust leaves, given what it computes: a returned reason is in the low half
  of \<open>rax\<close>, the ABI's registers and the trampoline's return address preserved; a transfer goes
  through the naked function with the image somewhere apart from its new stack; a trap and a walk
  that does not come back never leave.
\<close>

definition leaves_as :: "'w outcome option \<Rightarrow> cpu \<Rightarrow> cpu option \<Rightarrow> bool" where
  "leaves_as outcome s1 left \<longleftrightarrow>
    (case outcome of
       Some (Returned reason w) \<Rightarrow> (\<exists>s2. left = Some s2 \<and> cpu_rip s2 = mem_get (cpu_mem s1) (cpu_gpr s1 RSP) \<and>
         cpu_gpr s2 RSP = cpu_gpr s1 RSP + 8 \<and> ucast (cpu_gpr s2 RAX) = reason_raw reason \<and> same_preserved s1 s2 \<and>
         (mem_get (cpu_mem s2) (cpu_gpr s1 RSP + 192) :: u64) = mem_get (cpu_mem s1) (cpu_gpr s1 RSP + 192))
     | Some (Transferred regs w) \<Rightarrow> (\<exists>t s2. registers_take (cpu_mem t) (cpu_gpr t RDI) = regs \<and>
         apart (reg_rsp regs - 8) 8 (cpu_gpr t RDI) image_size \<and>
         exec (\<lambda>_ _. None) jump_code t = Some (Leaves s2) \<and> left = Some s2)
     | _ \<Rightarrow> left = None)"

lemma landing_left:
  assumes "leaves_as (Some (Transferred regs w)) s1 left"
  shows "\<exists>s2. left = Some s2 \<and> cpu_rip s2 = reg_ra regs \<and>
    (\<forall>g. g \<notin> {RA, MXCSR, FCW} \<longrightarrow> cpu_gpr s2 g = registers_get g regs)"
proof -
  obtain t s2 where t: "registers_take (cpu_mem t) (cpu_gpr t RDI) = regs"
    "apart (reg_rsp regs - 8) 8 (cpu_gpr t RDI) image_size"
    "exec (\<lambda>_ _. None) jump_code t = Some (Leaves s2)" "left = Some s2"
    using assms by (auto simp: leaves_as_def)
  with jump_exec[OF t(1,2), of "\<lambda>_ _. None"] show ?thesis by auto
qed

text \<open>The epilogue of a trampoline whose continuation came back above the trampoline's frame.\<close>

lemma epilogue_returns:
  assumes "cpu_gpr s RSP = e" "cpu_gpr s2 RSP = e - 184" "cpu_rip s2 = back"
    "(mem_get (cpu_mem s2) e :: u64) = mem_get (cpu_mem s) e" "same_preserved s s1" "same_preserved s1 s2"
  shows "\<exists>s'. epilogue back (Some s2) = Some (Leaves s') \<and> cpu_rip s' = mem_get (cpu_mem s) e \<and>
    cpu_gpr s' RSP = e + 8 \<and> cpu_gpr s' RAX = cpu_gpr s2 RAX \<and> same_preserved s s'"
  using assms
  by (intro exI[of _ "return_pop (set_gpr RSP (cpu_gpr s2 RSP + entry_stack) s2)"])
     (simp add: epilogue_def cpu_steps entry_sizes same_preserved_def)

text \<open>C6. A raise on the processor refines the walk: entered through its trampoline, the unwinder walks
  from the state of the raising caller; when the walk returns a reason, the caller gets it in
  \<open>rax\<close> with its registers and stack as after any call; when the walk transfers, control is at the
  landing pad with the image's registers; and otherwise control never comes back.\<close>

theorem raise_on_processor:
  assumes "\<And>s1. hands_over s back' s1 \<Longrightarrow> cpu_gpr s1 RSI = cpu_gpr s RDI \<Longrightarrow>
    leaves_as (dispatch_raise U R (cpu_mem s1) (cpu_gpr s1 RDI) (cpu_gpr s1 RSI) w) s1 (next s1)"
  shows "case walk_raise U R (captured (abi_image s (cpu_gpr s RSP))) (cpu_gpr s RDI) w of
      Some (Returned reason w') \<Rightarrow>
        \<exists>s'. exec (linked next) (raise_code back back') s = Some (Leaves s') \<and>
          cpu_rip s' = mem_get (cpu_mem s) (cpu_gpr s RSP) \<and> cpu_gpr s' RSP = cpu_gpr s RSP + 8 \<and>
          ucast (cpu_gpr s' RAX) = reason_raw reason \<and> same_preserved s s'
    | Some (Transferred regs w') \<Rightarrow> reg_ra regs \<noteq> back' \<longrightarrow>
        (\<exists>s'. exec (linked next) (raise_code back back') s = Some (Leaves s') \<and> cpu_rip s' = reg_ra regs \<and>
          (\<forall>g. g \<notin> {RA, MXCSR, FCW} \<longrightarrow> cpu_gpr s' g = registers_get g regs))
    | _ \<Rightarrow> exec (linked next) (raise_code back back') s = None"
proof -
  let ?e = "cpu_gpr s RSP"
  obtain s1 where s1: "hands_over s back' s1" "cpu_gpr s1 RSI = cpu_gpr s RDI"
    "exec (linked next) (raise_code back back') s = epilogue back' (next s1)"
    using raise_exec by blast
  have h: "cpu_gpr s1 RSP = ?e - 192" "mem_get (cpu_mem s1) (?e - 192) = back'"
    "registers_take (cpu_mem s1) (cpu_gpr s1 RDI) = abi_image s ?e" "same_preserved s s1"
    "unchanged_outside (?e - 192) 192 (cpu_mem s) (cpu_mem s1)"
    using s1(1) by (simp_all add: hands_over_def Let_def entry_sizes same_preserved_def diff_diff_eq)
  have ra: "(mem_get (cpu_mem s1) ?e :: u64) = mem_get (cpu_mem s) ?e"
    by (rule unchanged_get[OF h(5)]) (simp add: apart_def)
  let ?o = "walk_raise U R (captured (abi_image s ?e)) (cpu_gpr s RDI) w"
  have o: "leaves_as ?o s1 (next s1)"
    using assms[OF s1(1,2)] by (simp add: dispatch_raise_def entry_state_def h(3) s1(2))
  show ?thesis
  proof (cases ?o)
    case None
    with o s1(3) show ?thesis by (simp add: leaves_as_def epilogue_def)
  next
    case (Some out)
    show ?thesis
    proof (cases out)
      case (Returned reason w')
      with o Some obtain s2 where s2: "next s1 = Some s2" "cpu_rip s2 = back'" "cpu_gpr s2 RSP = ?e - 184"
        "ucast (cpu_gpr s2 RAX) = reason_raw reason" "same_preserved s1 s2"
        "(mem_get (cpu_mem s2) ?e :: u64) = mem_get (cpu_mem s) ?e"
        by (auto simp: leaves_as_def h ra)
      from epilogue_returns[OF refl s2(3,2,6) h(4) s2(5)] s2(1,4) show ?thesis
        by (auto simp: Some Returned s1(3))
    next
      case (Transferred regs w')
      with landing_left[of regs w' s1 "next s1"] o Some show ?thesis
        by (auto simp: Transferred s1(3) epilogue_def)
    next
      case Trapped
      with o Some s1(3) show ?thesis by (simp add: leaves_as_def epilogue_def)
    qed
  qed
qed

text \<open>A caller whose raise nobody handles, and a continuation that returns END_OF_STACK.\<close>

definition ex_raiser :: cpu where
  "ex_raiser = ex_cpu\<lparr>cpu_gpr := (\<lambda>g. if g = RDI then 0x9000 else if g = RSP then 0x6ff8 else 0),
    cpu_mxcsr := 0, cpu_fcw := 0, cpu_mem := mem_put (\<lambda>_. 0) 0x6ff8 (0x1001 :: u64)\<rparr>"

definition ex_next :: "cpu \<Rightarrow> cpu option" where
  "ex_next s1 = Some (set_gpr RAX 5 (return_pop s1))"

lemma ex_raiser_state: "captured (abi_image ex_raiser (cpu_gpr ex_raiser RSP)) = ex_state"
  by (simp add: captured_def abi_image_def ex_raiser_def ex_state_def registers_zeroed_def)

lemma ex_raiser_end:
  "walk_raise ex_machine ex_passing (captured (abi_image ex_raiser (cpu_gpr ex_raiser RSP)))
    (cpu_gpr ex_raiser RDI) ex_world = Some (Returned rc_end ex_world)"
  unfolding ex_raiser_state
  by (rule raise_unhandled[where d = "ex_frame 0x7010 None" and fs = ex_stack])
     (use ex_physical_all[of ex_world] in
       \<open>simp_all add: ex_start ex_current ex_quiet ex_passing_quiet ex_raiser_def\<close>)

theorem raise_on_processor_witness:
  "\<exists>s'. exec (linked ex_next) (raise_code 0x400 0x500) ex_raiser = Some (Leaves s') \<and>
    cpu_rip s' = 0x1001 \<and> cpu_gpr s' RSP = 0x7000 \<and> ucast (cpu_gpr s' RAX) = reason_raw rc_end"
proof -
  have l: "leaves_as (dispatch_raise ex_machine ex_passing (cpu_mem s1) (cpu_gpr s1 RDI) (cpu_gpr s1 RSI) ex_world)
      s1 (ex_next s1)"
    if "hands_over ex_raiser 0x500 s1" "cpu_gpr s1 RSI = cpu_gpr ex_raiser RDI" for s1
  proof -
    have "registers_take (cpu_mem s1) (cpu_gpr s1 RDI) = abi_image ex_raiser (cpu_gpr ex_raiser RSP)"
      using that(1) by (simp add: hands_over_def Let_def)
    then have "dispatch_raise ex_machine ex_passing (cpu_mem s1) (cpu_gpr s1 RDI) (cpu_gpr s1 RSI) ex_world =
        Some (Returned rc_end ex_world)"
      using ex_raiser_end that(2) by (simp add: dispatch_raise_def entry_state_def)
    then show ?thesis
      by (simp add: leaves_as_def ex_next_def cpu_steps same_preserved_def rc_end_def)
  qed
  have v: "mem_get (cpu_mem ex_raiser) (cpu_gpr ex_raiser RSP) = (0x1001 :: u64)" "cpu_gpr ex_raiser RSP + 8 = 0x7000"
    by (simp_all add: ex_raiser_def)
  from raise_on_processor[of ex_raiser "0x500" ex_machine ex_passing ex_world ex_next "0x400", OF l]
  have "\<exists>s'. exec (linked ex_next) (raise_code 0x400 0x500) ex_raiser = Some (Leaves s') \<and>
      cpu_rip s' = mem_get (cpu_mem ex_raiser) (cpu_gpr ex_raiser RSP) \<and> cpu_gpr s' RSP = cpu_gpr ex_raiser RSP + 8 \<and>
      ucast (cpu_gpr s' RAX) = reason_raw rc_end \<and> same_preserved ex_raiser s'"
    by (simp only: ex_raiser_end option.case outcome.case)
  then show ?thesis unfolding v by blast
qed

end
