(* ===== verification/Panic.thy ===== *)
theory Panic
  imports Runtime RustPolicy
begin

text \<open>
  The crate \<open>desenredo-panic\<close>: the packet that carries a Rust panic, its ownership between the
  raising code, the unwinder and the catch, and the hooks that never return (\<open>object.rs\<close>,
  \<open>runtime.rs\<close>).  The header of a packet is an exception header of the world; behind it lie the
  canary, readable in every Rust panic packet, and what only the owning crate may touch.  Freeing
  what is not a live box of this crate is undefined behaviour, the outer \<open>None\<close>.
\<close>

section \<open>Packets\<close>

record 'p Packet =
  packet_unwind :: Exception
  packet_canary :: usize
  packet_payload :: 'p
  packet_lost :: usize

text \<open>The words behind the headers, and the trailing fields of the live boxes of this crate.\<close>

record 'p heap =
  heap_canary :: "usize \<Rightarrow> usize"
  heap_box :: "usize \<Rightarrow> ('p \<times> usize) option"

text \<open>A process with such a heap, whatever else there is to it.\<close>

type_synonym ('p, 'z) heap_world = "('p, 'z) heap_scheme world"

text \<open>
  What a copy of the crate is linked with: the addresses of its canary, of \<open>Packet::cleanup\<close> and
  of the runtime's two hooks, and the allocator.
\<close>

record ('p, 'z) panic_env =
  env_canary :: usize
  env_cleanup :: usize
  env_lost :: usize
  env_foreign :: usize
  env_alloc :: "('p, 'z) heap_world \<Rightarrow> usize"

definition packet_new :: "('p, 'z) panic_env \<Rightarrow> 'p \<Rightarrow> 'p Packet" where
  "packet_new env content =
    \<lparr>packet_unwind = exception_new rust_class (Some (env_cleanup env)), packet_canary = env_canary env,
     packet_payload = content, packet_lost = env_lost env\<rparr>"

definition box_into_raw ::
    "('p, 'z) panic_env \<Rightarrow> 'p Packet \<Rightarrow> ('p, 'z) heap_world \<Rightarrow> usize \<times> ('p, 'z) heap_world" where
  "box_into_raw env packet w =
    (let a = env_alloc env w; h = w_rest w in
     (a, \<lparr>w_exception = (w_exception w)(a := packet_unwind packet),
          w_rest = h\<lparr>heap_canary := (heap_canary h)(a := packet_canary packet),
            heap_box := (heap_box h)(a \<mapsto> (packet_payload packet, packet_lost packet))\<rparr>\<rparr>))"

definition box_from_raw ::
    "usize \<Rightarrow> ('p, 'z) heap_world \<Rightarrow> ('p Packet \<times> ('p, 'z) heap_world) option" where
  "box_from_raw a w = (let h = w_rest w in
    map_option (\<lambda>(content, lost).
        (\<lparr>packet_unwind = w_exception w a, packet_canary = heap_canary h a, packet_payload = content,
          packet_lost = lost\<rparr>, w\<lparr>w_rest := h\<lparr>heap_box := (heap_box h)(a := None)\<rparr>\<rparr>))
      (heap_box h a))"

section \<open>Raising\<close>

text \<open>How an operation ends: with a value, in a hook, at a landing pad, or in a trap.\<close>

datatype ('a, 'w) finish = Value 'a "'w world" | Hooked usize "'w world" | Landed Registers "'w world" | Crashed

record Raise =
  raise_reason :: ReasonCode
  raise_packet :: usize

text \<open>The error of \<open>raise\<close>, which never succeeds: the packet the unwinder gave back.\<close>

definition panic_raise ::
    "('p, 'z) panic_env \<Rightarrow> (usize \<Rightarrow> ('p, 'z) heap_world \<Rightarrow> ('p, 'z) heap_scheme outcome option)
      \<Rightarrow> 'p \<Rightarrow> ('p, 'z) heap_world \<Rightarrow> (Raise, ('p, 'z) heap_scheme) finish option" where
  "panic_raise env raise_exception content w =
    (case box_into_raw env (packet_new env content) w of (packet, w) \<Rightarrow>
       map_option (\<lambda>out. case out of
           Returned reason w \<Rightarrow> Value \<lparr>raise_reason = reason, raise_packet = packet\<rparr> w
         | Transferred regs w \<Rightarrow> Landed regs w
         | Trapped \<Rightarrow> Crashed) (raise_exception packet w))"

definition raise_drop :: "Raise \<Rightarrow> ('p, 'z) heap_world \<Rightarrow> ('p, 'z) heap_world option" where
  "raise_drop self w = map_option snd (box_from_raw (raise_packet self) w)"

definition panic_start ::
    "('p, 'z) panic_env \<Rightarrow> (usize \<Rightarrow> ('p, 'z) heap_world \<Rightarrow> ('p, 'z) heap_scheme outcome option)
      \<Rightarrow> 'p \<Rightarrow> ('p, 'z) heap_world \<Rightarrow> (Raise, ('p, 'z) heap_scheme) finish option" where
  "panic_start env raise_exception content w =
    map_option (\<lambda>f. case f of Value _ w \<Rightarrow> Hooked (env_lost env) w | _ \<Rightarrow> f)
      (panic_raise env raise_exception content w)"

text \<open>\<open>Packet::cleanup\<close>: a packet deleted by the unwinder is freed and its own hook called.\<close>

definition packet_cleanup :: "usize \<Rightarrow> ('p, 'z) heap_world \<Rightarrow> (unit, ('p, 'z) heap_scheme) finish option" where
  "packet_cleanup exception w =
    map_option (\<lambda>(packet, w). Hooked (packet_lost packet) w) (box_from_raw exception w)"

section \<open>Catching\<close>

datatype CatchError = CatchForeign | CatchRust

definition panic_take ::
    "('p, 'z) panic_env \<Rightarrow> usize \<Rightarrow> ('p, 'z) heap_world \<Rightarrow> ((CatchError + 'p) \<times> ('p, 'z) heap_world) option" where
  "panic_take env exception w =
    (if exception_class (w_exception w exception) \<noteq> rust_class then Some (Inl CatchForeign, w)
     else if heap_canary (w_rest w) exception \<noteq> env_canary env then Some (Inl CatchRust, w)
     else map_option (\<lambda>(packet, w). (Inr (packet_payload packet), w)) (box_from_raw exception w))"

definition panic_catch ::
    "('p, 'z) panic_env \<Rightarrow> ('p, 'z) heap_scheme routines \<Rightarrow> usize \<Rightarrow> ('p, 'z) heap_world
      \<Rightarrow> ('p, ('p, 'z) heap_scheme) finish option" where
  "panic_catch env R exception w =
    Option.bind (panic_take env exception w) (\<lambda>(content, w).
      case content of
        Inr content \<Rightarrow> Some (Value content w)
      | Inl CatchForeign \<Rightarrow> map_option (\<lambda>w. Hooked (env_foreign env) w) (delete_exception R exception w)
      | Inl CatchRust \<Rightarrow> Some (Hooked (env_foreign env) w))"

end
