(* ===== verification/PanicFacts.thy ===== *)
theory PanicFacts
  imports Panic TwoPhase
begin

text \<open>
  What a traversal leaves alone: a condition on the process that every routine called through an
  address and the writes of the resume state preserve holds after the traversal.  The condition
  used here is that a panic packet is live, with its class, cleanup function, canary and payload.
\<close>

section \<open>Invariants of the process across a traversal\<close>

definition routines_keep :: "'w routines \<Rightarrow> ('w world \<Rightarrow> bool) \<Rightarrow> bool" where
  "routines_keep R I \<longleftrightarrow>
    (\<forall>a v acts cls e cb w reason ws w'. I w \<longrightarrow>
      r_personality R a v acts cls e cb w = Some (reason, ws, w') \<longrightarrow> I w') \<and>
    (\<forall>a v acts cls e cb p w reason ws w'. I w \<longrightarrow>
      r_stop R a v acts cls e cb p w = Some (reason, ws, w') \<longrightarrow> I w')"

lemma routines_keepD:
  "routines_keep R I \<Longrightarrow> I w \<Longrightarrow> r_personality R a v acts cls e cb w = Some (reason, ws, w') \<Longrightarrow> I w'"
  "routines_keep R I \<Longrightarrow> I w \<Longrightarrow> r_stop R a v acts cls e cb p w = Some (reason, ws, w') \<Longrightarrow> I w'"
  unfolding routines_keep_def by (blast, metis)

fun ends_in :: "('w world \<Rightarrow> bool) \<Rightarrow> 'w outcome \<Rightarrow> bool" where
  "ends_in I (Returned reason w) \<longleftrightarrow> I w"
| "ends_in I (Transferred regs w) \<longleftrightarrow> I w"
| "ends_in I Trapped \<longleftrightarrow> True"

lemma with_callback_Some:
  "with_callback L cursor frame routine = Some (reason, cursor', w') \<Longrightarrow>
    \<exists>ws. routine \<lparr>callback_cursor = cursor, callback_frame = frame\<rparr> = Some (reason, ws, w')"
  by (auto simp: with_callback_def Let_def)

lemma after_advance_world:
  "map_option (after_advance failed w) x = Some (Continue (c, w')) \<Longrightarrow> w' = w"
  by auto

locale walk_invariant =
  fixes U :: "'w machine" and R :: "'w routines" and exception :: usize and I :: "'w world \<Rightarrow> bool"
  assumes personality_keeps: "I w \<Longrightarrow>
      r_personality R a v acts cls e cb w = Some (reason, ws, w') \<Longrightarrow> I w'"
    and stop_keeps: "I w \<Longrightarrow> r_stop R a v acts cls e cb p w = Some (reason, ws, w') \<Longrightarrow> I w'"
    and resume_keeps: "I w \<Longrightarrow> I (resume_write s exception w)"
begin

lemma call_keeps:
  "I w \<Longrightarrow> walk_personality U R cursor e cls info acts w = Some (reason, cursor', w') \<Longrightarrow> I w'"
  by (auto simp: walk_personality_def dest!: with_callback_Some intro: personality_keeps
      split: sum.split_asm option.split_asm)

lemma call_kept:
  "walk_personality U R cursor e cls info acts w = Some (reason, cursor', w') \<Longrightarrow> I w \<longrightarrow> I w'"
  using call_keeps by blast

lemma asked_keeps:
  "I w \<Longrightarrow> with_callback L cursor frame (\<lambda>cb. r_stop R a v acts cls e cb p w) =
    Some (reason, cursor', w') \<Longrightarrow> I w'"
  by (auto dest!: with_callback_Some intro: stop_keeps)

lemma asked_kept:
  "with_callback L cursor frame (\<lambda>cb. r_stop R a v acts cls e cb p w) =
    Some (reason, cursor', w') \<Longrightarrow> I w \<longrightarrow> I w'"
  using asked_keeps by blast

lemma install_keeps: "I w \<Longrightarrow> ends_in I (walk_install U cursor info w)"
  by (auto simp: walk_install_def split: sum.splits)

lemma search_keeps: "walk_search U R e cls cursor w = Some (r, w') \<Longrightarrow> I w \<Longrightarrow> I w'"
  unfolding walk_search_def
  by (erule run_loop_invariant[where I = "\<lambda>s. I (snd s)"])
     (auto simp: search_body_def bind_eq_Some_conv dest!: call_kept
       split: sum.split_asm option.split_asm if_splits)

lemma normal_keeps: "walk_normal U R e cls handler cursor w = Some out \<Longrightarrow> I w \<Longrightarrow> ends_in I out"
  unfolding walk_normal_def
  by (erule run_loop_invariant[where I = "\<lambda>s. I (snd s)"])
     (auto simp: normal_body_def bind_eq_Some_conv Let_def install_keeps dest!: call_kept
       split: sum.split_asm option.split_asm if_splits)

lemma force_keeps: "walk_force U R e cls forced cursor w = Some out \<Longrightarrow> I w \<Longrightarrow> ends_in I out"
  unfolding walk_force_def
  by (erule run_loop_invariant[where I = "\<lambda>s. I (snd s)"])
     (auto simp: force_body_def bind_eq_Some_conv install_keeps dest!: call_kept asked_kept
       split: sum.split_asm option.split_asm if_splits)

lemma begin_keeps:
  assumes "walk_begin U R state exception w = Some out" "I w"
  shows "ends_in I out"
proof -
  let ?cls = "exception_class (w_exception w exception)"
  from assms(1) obtain r w1 where s: "walk_search U R exception ?cls (cursor_new state) w = Some (r, w1)"
    and go: "(case r of Inl reason \<Rightarrow> Some (Returned reason w1)
      | Inr handler \<Rightarrow> run_normal U R (walk_new state exception ?cls) handler
          (resume_write (Normal handler) exception w1)) = Some out"
    by (auto simp: walk_begin_def Let_def bind_eq_Some_conv walk_new_def)
  have "I w1" by (rule search_keeps[OF s assms(2)])
  with go show ?thesis
    by (cases r) (auto simp: run_normal_def intro: normal_keeps resume_keeps)
qed

lemma raise_keeps: "walk_raise U R state exception w = Some out \<Longrightarrow> I w \<Longrightarrow> ends_in I out"
  by (auto simp: walk_raise_def intro: begin_keeps split: if_splits)

lemma forced_keeps:
  "walk_forced U R state exception stop parameter w = Some out \<Longrightarrow> I w \<Longrightarrow> ends_in I out"
  by (auto simp: walk_forced_def run_force_def Let_def intro: force_keeps resume_keeps split: if_splits)

lemma never_returns_keeps: "ends_in I out \<Longrightarrow> ends_in I (never_returns out)"
  by (cases out) (simp_all add: never_returns_def)

lemma resume_walk_keeps: "walk_resume U R state exception w = Some out \<Longrightarrow> I w \<Longrightarrow> ends_in I out"
  by (auto simp: walk_resume_def run_force_def run_normal_def Let_def
      intro: never_returns_keeps normal_keeps force_keeps split: if_splits Resume.split_asm)

lemma rethrow_keeps: "walk_rethrow U R state exception w = Some out \<Longrightarrow> I w \<Longrightarrow> ends_in I out"
  by (auto simp: walk_rethrow_def run_force_def intro: begin_keeps force_keeps
      split: if_splits Resume.split_asm)

end

section \<open>A live packet\<close>

definition live_packet :: "('p, 'z) panic_env \<Rightarrow> usize \<Rightarrow> 'p \<Rightarrow> ('p, 'z) heap_world \<Rightarrow> bool" where
  "live_packet env a content w \<longleftrightarrow>
    exception_class (w_exception w a) = rust_class \<and>
    exception_cleanup (w_exception w a) = Some (env_cleanup env) \<and>
    heap_canary (w_rest w) a = env_canary env \<and> heap_box (w_rest w) a = Some (content, env_lost env)"

text \<open>The process once the packet at \<open>a\<close> has been freed.\<close>

definition freed :: "usize \<Rightarrow> ('p, 'z) heap_world \<Rightarrow> ('p, 'z) heap_world" where
  "freed a w = w\<lparr>w_rest := (w_rest w)\<lparr>heap_box := (heap_box (w_rest w))(a := None)\<rparr>\<rparr>"

interpretation packet_walk: walk_invariant U R exception
    "\<lambda>w. routines_keep R (live_packet env a content) \<and> live_packet env a content w"
    for U :: "('p, 'z) heap_scheme machine" and R and exception and env and a and content
proof unfold_locales
  fix w w' a' v acts cls e cb p reason ws s
  assume I: "routines_keep R (live_packet env a content) \<and> live_packet env a content w"
  show "routines_keep R (live_packet env a content) \<and> live_packet env a content w'"
    if "r_personality R a' v acts cls e cb w = Some (reason, ws, w')"
    using I routines_keepD(1)[OF _ _ that] by blast
  show "routines_keep R (live_packet env a content) \<and> live_packet env a content w'"
    if "r_stop R a' v acts cls e cb p w = Some (reason, ws, w')"
    using I routines_keepD(2)[OF _ _ that] by blast
  show "routines_keep R (live_packet env a content) \<and> live_packet env a content (resume_write s exception w)"
    using I by (auto simp: live_packet_def resume_write_def)
qed

lemma into_raw_live:
  "box_into_raw env (packet_new env content) w = (a, w') \<Longrightarrow>
    a = env_alloc env w \<and> live_packet env a content w'"
  by (auto simp: box_into_raw_def packet_new_def live_packet_def exception_new_def Let_def)

lemma from_raw_live:
  "live_packet env a content w \<Longrightarrow>
    \<exists>packet. box_from_raw a w = Some (packet, freed a w) \<and> packet_payload packet = content \<and>
      packet_lost packet = env_lost env"
  by (simp add: box_from_raw_def live_packet_def freed_def Let_def)

lemma from_raw_freed: "box_from_raw a (freed a w) = None"
  by (simp add: box_from_raw_def freed_def)

lemma take_live:
  "live_packet env a content w \<Longrightarrow> panic_take env a w = Some (Inr content, freed a w)"
  using from_raw_live[of env a content w] by (auto simp: panic_take_def live_packet_def)

lemma catch_live:
  "live_packet env a content w \<Longrightarrow> panic_catch env R a w = Some (Value content (freed a w))"
  by (simp add: panic_catch_def take_live)

lemma take_freed:
  "live_packet env a content w \<Longrightarrow> panic_take env a (freed a w) = None"
  using from_raw_freed[of a w] by (simp add: panic_take_def live_packet_def freed_def)

text \<open>How a raise of a panic ends, by the outcome of the traversal.\<close>

fun raise_ends :: "('p, 'z) panic_env \<Rightarrow> usize \<Rightarrow> 'p \<Rightarrow> (Raise, ('p, 'z) heap_scheme) finish \<Rightarrow> bool" where
  "raise_ends env a content (Value r w) \<longleftrightarrow> raise_packet r = a \<and> live_packet env a content w"
| "raise_ends env a content (Landed regs w) \<longleftrightarrow> live_packet env a content w"
| "raise_ends env a content (Hooked h w) \<longleftrightarrow> False"
| "raise_ends env a content Crashed \<longleftrightarrow> True"

lemma panic_raise_ends:
  assumes "panic_raise env (walk_raise U R state) content w = Some f"
    "routines_keep R (live_packet env (env_alloc env w) content)"
  shows "raise_ends env (env_alloc env w) content f"
proof -
  obtain a w1 where b: "box_into_raw env (packet_new env content) w = (a, w1)" by fastforce
  note live = into_raw_live[OF b]
  from assms(1) b obtain out where out: "walk_raise U R state a w1 = Some out"
    and f: "f = (case out of Returned reason w \<Rightarrow> Value \<lparr>raise_reason = reason, raise_packet = a\<rparr> w
         | Transferred regs w \<Rightarrow> Landed regs w | Trapped \<Rightarrow> Crashed)"
    by (auto simp: panic_raise_def)
  have "ends_in (\<lambda>w'. routines_keep R (live_packet env a content) \<and> live_packet env a content w') out"
    using packet_walk.raise_keeps[OF out, of env a content] live assms(2) by blast
  then show ?thesis using live f by (cases out) auto
qed

lemma panic_raise_reason:
  assumes "panic_raise env (walk_raise U R state) content w = Some (Value r w')"
  shows "raise_reason r \<in> {rc_fatal1, rc_end, rc_fatal2}"
proof -
  obtain a w1 where b: "box_into_raw env (packet_new env content) w = (a, w1)" by fastforce
  with assms obtain out where "walk_raise U R state a w1 = Some out"
    "Value r w' = (case out of Returned reason w \<Rightarrow> Value \<lparr>raise_reason = reason, raise_packet = a\<rparr> w
         | Transferred regs w \<Rightarrow> Landed regs w | Trapped \<Rightarrow> Crashed)"
    by (auto simp: panic_raise_def)
  then show ?thesis using raise_reasons[of U R state a w1] by (cases out) auto
qed

end
