(* ===== verification/PanicProps.thy ===== *)
theory PanicProps
  imports PanicFacts UnwindProps
begin

text \<open>
  The properties of panic packets: a payload raised is the payload caught, the packet is owned by
  exactly one party at every end of a raise, and a catch does not touch what is not its own.
\<close>

section \<open>A process that raises a panic\<close>

definition ex_env :: "(nat, unit) panic_env" where
  "ex_env = \<lparr>env_canary = 0x100, env_cleanup = 0x200, env_lost = 0x300, env_foreign = 0x400,
    env_alloc = (\<lambda>_. 0x9000)\<rparr>"

definition ex_heap :: "nat heap world" where
  "ex_heap = \<lparr>w_exception = (\<lambda>_. exception_new (ExceptionClass 0) None),
    w_rest = \<lparr>heap_canary = (\<lambda>_. 0), heap_box = (\<lambda>_. None)\<rparr>\<rparr>"

lemma ex_alloc: "env_alloc ex_env w = 0x9000"
  by (simp add: ex_env_def)

lemma ex_keep: "routines_keep ex_routines I" "routines_keep ex_passing I"
  by (simp_all add: routines_keep_def ex_passing_def ex_routines_def)

lemma ex_panic_lands:
  "\<exists>w'. panic_start ex_env (walk_raise ex_machine ex_routines ex_state) content ex_heap =
    Some (Landed ex_transfer w')"
  by (simp add: panic_start_def panic_raise_def box_into_raw_def Let_def ex_alloc ex_raise)

lemma ex_panic_returns:
  "\<exists>w'. panic_raise ex_env (walk_raise ex_machine ex_passing ex_state) content ex_heap =
    Some (Value \<lparr>raise_reason = rc_end, raise_packet = 0x9000\<rparr> w')"
proof -
  have "walk_raise ex_machine ex_passing ex_state 0x9000 w = Some (Returned rc_end w)"
    for w :: "nat heap world"
    by (rule raise_unhandled[where d = "ex_frame 0x7010 None" and fs = ex_stack])
       (use ex_physical_all[of w] in
         \<open>simp_all add: ex_start ex_current ex_passing_quiet[of _ _ _ w] ex_quiet\<close>)
  then show ?thesis
    by (simp add: panic_raise_def box_into_raw_def Let_def ex_alloc)
qed

section \<open>Ownership of the packet\<close>

text \<open>C3. A panic that lands is caught with its payload: whatever frames, cleanups and expressions the
  unwind went through, as long as the routines it called left the packet alone, the catch at the
  landing pad returns the payload that was raised, frees exactly that packet and changes nothing
  else, and the packet cannot be taken a second time.\<close>

theorem panic_caught_with_payload:
  assumes "routines_keep R (live_packet env a content)" "a = env_alloc env w"
    "panic_start env (walk_raise U R state) content w = Some (Landed regs w')"
  shows "panic_catch env R' a w' = Some (Value content (freed a w')) \<and>
    heap_box (w_rest w') a = Some (content, env_lost env) \<and>
    panic_take env a (freed a w') = None"
proof -
  from assms(3) obtain f where f: "panic_raise env (walk_raise U R state) content w = Some f"
    "(case f of Value _ w \<Rightarrow> Hooked (env_lost env) w | _ \<Rightarrow> f) = Landed regs w'"
    by (auto simp: panic_start_def)
  then have "panic_raise env (walk_raise U R state) content w = Some (Landed regs w')"
    by (cases f) auto
  from panic_raise_ends[OF this] assms(1,2) have live: "live_packet env a content w'" by simp
  then show ?thesis using catch_live[OF live] take_freed[OF live] by (simp add: live_packet_def)
qed

theorem panic_caught_with_payload_witness:
  "\<exists>w'. panic_start ex_env (walk_raise ex_machine ex_routines ex_state) 42 ex_heap =
      Some (Landed ex_transfer w') \<and>
    panic_catch ex_env ex_routines 0x9000 w' = Some (Value 42 (freed 0x9000 w'))"
  using ex_panic_lands[of 42] panic_caught_with_payload[OF ex_keep(1) ex_alloc[symmetric]] by blast

text \<open>C35. A raise that comes back owns the packet again: the error names it, its reason is one that
  phase one or two returns, the packet is live with its payload, and dropping the error frees
  exactly it.  The terminal form calls the LOST hook with the packet still live.\<close>

theorem panic_given_back:
  assumes "routines_keep R (live_packet env a content)" "a = env_alloc env w"
    "panic_raise env (walk_raise U R state) content w = Some (Value r w')"
  shows "raise_packet r = a \<and> raise_reason r \<in> {rc_fatal1, rc_end, rc_fatal2} \<and>
    heap_box (w_rest w') a = Some (content, env_lost env) \<and> raise_drop r w' = Some (freed a w') \<and>
    panic_start env (walk_raise U R state) content w = Some (Hooked (env_lost env) w')"
proof -
  from panic_raise_ends[OF assms(3)] assms(1,2)
  have r: "raise_packet r = a" and live: "live_packet env a content w'" by simp_all
  have "raise_drop r w' = Some (freed a w')" using from_raw_live[OF live] r by (auto simp: raise_drop_def)
  then show ?thesis using r live panic_raise_reason[OF assms(3)] assms(3)
    by (simp add: live_packet_def panic_start_def)
qed

theorem panic_given_back_witness:
  "\<exists>w'. panic_start ex_env (walk_raise ex_machine ex_passing ex_state) 42 ex_heap = Some (Hooked 0x300 w') \<and>
    heap_box (w_rest w') 0x9000 = Some (42, 0x300)"
proof -
  obtain w' where "panic_raise ex_env (walk_raise ex_machine ex_passing ex_state) 42 ex_heap =
      Some (Value \<lparr>raise_reason = rc_end, raise_packet = 0x9000\<rparr> w')"
    using ex_panic_returns by blast
  from panic_given_back[OF ex_keep(2) ex_alloc[symmetric] this] show ?thesis by (auto simp: ex_env_def)
qed

text \<open>C36. A catch respects what is not its own: an exception of another class is given to the cleanup
  function in its header, called once with the reason FOREIGN (1) and the exception, before the
  FOREIGN hook, and only passes to the hook where there is none, without a look at the words behind
  its header; a Rust-class exception with another canary goes to the hook with the process
  untouched, its cleanup never called; and a packet with the crate's own canary is only ever
  taken apart when it is a live box.\<close>

theorem catch_policy:
  "(exception_class (w_exception w e) \<noteq> rust_class \<and> e \<noteq> 0 \<longrightarrow>
      (\<forall>producer. exception_cleanup (w_exception w e) = Some producer \<longrightarrow>
        panic_catch env R e w = map_option (Hooked (env_foreign env)) (r_cleanup R producer (ReasonCode 1) e w)) \<and>
      (exception_cleanup (w_exception w e) = None \<longrightarrow> panic_catch env R e w = Some (Hooked (env_foreign env) w)) \<and>
      panic_take env e (w\<lparr>w_rest := h\<rparr>) = Some (Inl CatchForeign, w\<lparr>w_rest := h\<rparr>)) \<and>
   (exception_class (w_exception w e) = rust_class \<and> heap_canary (w_rest w) e \<noteq> env_canary env \<longrightarrow>
      panic_catch env R e w = Some (Hooked (env_foreign env) w)) \<and>
   (exception_class (w_exception w e) = rust_class \<and> heap_canary (w_rest w) e = env_canary env \<longrightarrow>
      panic_catch env R e w =
        map_option (\<lambda>(content, lost). Value content (freed e w)) (heap_box (w_rest w) e))"
  by (cases "heap_box (w_rest w) e")
     (auto simp: panic_catch_def panic_take_def box_from_raw_def freed_def delete_exception_def rc_foreign_def Let_def)

text \<open>A foreign exception whose producer at \<open>0x500\<close> releases its storage.\<close>

definition ex_foreign :: "nat heap world" where
  "ex_foreign = ex_heap\<lparr>w_exception := (\<lambda>_. exception_new (ExceptionClass 0) (Some 0x500)),
    w_rest := \<lparr>heap_canary = (\<lambda>_. 0), heap_box = (\<lambda>_. Some (7, 0))\<rparr>\<rparr>"

definition ex_producer :: "nat heap routines" where
  "ex_producer = ex_routines\<lparr>r_cleanup := (\<lambda>producer reason e w.
    if producer = 0x500 \<and> reason = ReasonCode 1 then Some (freed e w) else None)\<rparr>"

theorem catch_policy_witness:
  "panic_catch ex_env ex_producer 0x9000 ex_foreign = Some (Hooked 0x400 (freed 0x9000 ex_foreign)) \<and>
    heap_box (w_rest (freed 0x9000 ex_foreign)) 0x9000 = None \<and> heap_box (w_rest ex_foreign) 0x9000 = Some (7, 0)"
proof -
  have "exception_class (w_exception ex_foreign 0x9000) \<noteq> rust_class"
    by (simp add: ex_foreign_def exception_new_def rust_class_def from_le_bytes_def rust_class_bytes_def)
  then have "panic_catch ex_env ex_producer 0x9000 ex_foreign =
      map_option (Hooked (env_foreign ex_env)) (r_cleanup ex_producer 0x500 (ReasonCode 1) 0x9000 ex_foreign)"
    using catch_policy[of ex_foreign "0x9000" ex_env ex_producer] by (simp add: ex_foreign_def exception_new_def)
  then show ?thesis by (simp add: ex_producer_def ex_env_def freed_def ex_foreign_def)
qed

text \<open>A panic packet that some catch deletes is reported: the unwinder's delete calls the packet's
  own cleanup, which frees the packet and then calls the LOST hook the packet carries, so the
  delete never comes back.\<close>

theorem deleted_packet_is_lost:
  assumes "live_packet env a content w" "a \<noteq> 0"
    "\<And>reason e w. r_cleanup R (env_cleanup env) reason e w =
      (case packet_cleanup e w of Some (Value u w') \<Rightarrow> Some w' | _ \<Rightarrow> None)"
  shows "packet_cleanup a w = Some (Hooked (env_lost env) (freed a w)) \<and> delete_exception R a w = None"
proof -
  have "packet_cleanup a w = Some (Hooked (env_lost env) (freed a w))"
    using from_raw_live[OF assms(1)] by (auto simp: packet_cleanup_def)
  then show ?thesis using assms by (simp add: delete_exception_def live_packet_def)
qed

definition ex_owner :: "nat heap routines" where
  "ex_owner = ex_routines\<lparr>r_cleanup := (\<lambda>c reason e w.
    case packet_cleanup e w of Some (Value u w') \<Rightarrow> Some w' | _ \<Rightarrow> None)\<rparr>"

theorem deleted_packet_is_lost_witness:
  "delete_exception ex_owner 0x9000 (snd (box_into_raw ex_env (packet_new ex_env 42) ex_heap)) = None"
proof -
  have "live_packet ex_env 0x9000 42 (snd (box_into_raw ex_env (packet_new ex_env 42) ex_heap))"
    using into_raw_live[of ex_env 42 ex_heap] ex_alloc by (metis prod.collapse)
  from deleted_packet_is_lost[OF this, of ex_owner] show ?thesis by (simp add: ex_owner_def)
qed

end
