(* ===== verification/Worker.thy ===== *)
theory Worker
  imports Prelude
begin

text \<open>
  The worker of \<open>examples/no-std-linux\<close>: the request scope and the panic handler
  (\<open>runtime.rs\<close>), the request and the page it owns (\<open>service.rs\<close>), the catch boundary
  (\<open>boundary.rs\<close>) and the entry loop (\<open>main.rs\<close>).

  An operation ends normally, unwinds with a panic payload or ends the process.  A value with a
  \<open>Drop\<close> is a guard around the rest of its scope, which runs on the normal and on the unwinding
  exit.  The kernel, the capture of a backtrace and whether a raise finds the catch are
  parameters; what is handed to \<open>write_all\<close> (\<open>linux.rs\<close>) is a log.
\<close>

section \<open>The process\<close>

datatype ExitCode = ExitCode "32 word"

definition code_foreign :: ExitCode where "code_foreign = ExitCode 71"
definition code_lost :: ExitCode where "code_lost = ExitCode 72"
definition code_software :: ExitCode where "code_software = ExitCode 70"
definition code_success :: ExitCode where "code_success = ExitCode 0"
definition code_usage :: ExitCode where "code_usage = ExitCode 64"

text \<open>The loop over partial writes; \<open>split_at\<close> panics on a count beyond the bytes offered, the \<open>None\<close>.\<close>

function write_all ::
    "('s \<Rightarrow> bytes \<Rightarrow> (unit + usize) \<times> 's) \<Rightarrow> bytes \<Rightarrow> 's \<Rightarrow> 's option" where
  "write_all emit bytes s =
    (if bytes = [] then Some s
     else (case emit s bytes of
             (Inl _, s) \<Rightarrow> Some s
           | (Inr written, s) \<Rightarrow>
               if written = 0 then Some s
               else if length bytes < unat written then None
               else write_all emit (drop (unat written) bytes) s))"
  by pat_completeness auto

termination
  by (relation "measure (\<lambda>(emit, bytes, s). length bytes)") (auto simp: unat_gt_0)

declare write_all.simps [simp del]

text \<open>\<open>ACTIVE\<close>, \<open>CLEANUPS\<close>, the live pages with the word written to each, and the messages by
  descriptor.\<close>

record worker =
  wk_active :: usize
  wk_cleanups :: usize
  wk_pages :: "usize \<Rightarrow> usize option"
  wk_log :: "(nat \<times> string) list"

definition line :: "string \<Rightarrow> string" where
  "line message = message @ [CHR 0x0A]"

definition out_stdout :: "string \<Rightarrow> worker \<Rightarrow> worker" where
  "out_stdout message p = p\<lparr>wk_log := wk_log p @ [(1, message)]\<rparr>"

definition out_stderr :: "string \<Rightarrow> worker \<Rightarrow> worker" where
  "out_stderr message p = p\<lparr>wk_log := wk_log p @ [(2, message)]\<rparr>"

datatype Fault = Fault (fault_request: usize)

text \<open>A payload is known by its type alone, except for the one this runtime raises.\<close>

datatype Payload = FaultBox Fault | OtherBox

datatype 'a run = Done 'a worker | Unwinding Payload worker | Exited ExitCode worker | Aborted worker

definition terminate :: "string \<Rightarrow> ExitCode \<Rightarrow> worker \<Rightarrow> 'a run" where
  "terminate message status p = Exited status (out_stderr message p)"

text \<open>A scope whose guard is dropped at its end; a panic while unwinding aborts.\<close>

definition guarded :: "(worker \<Rightarrow> unit run) \<Rightarrow> 'a run \<Rightarrow> 'a run" where
  "guarded guard r =
    (case r of
       Done a p \<Rightarrow> (case guard p of
           Done _ p \<Rightarrow> Done a p | Unwinding x p \<Rightarrow> Unwinding x p | Exited c p \<Rightarrow> Exited c p | Aborted p \<Rightarrow> Aborted p)
     | Unwinding x p \<Rightarrow> (case guard p of
           Done _ p \<Rightarrow> Unwinding x p | Unwinding _ p \<Rightarrow> Aborted p | Exited c p \<Rightarrow> Exited c p | Aborted p \<Rightarrow> Aborted p)
     | _ \<Rightarrow> r)"

datatype 'e capture_result = Captured | CaptureFailed 'e

record 'e kernel =
  os_mmap :: "worker \<Rightarrow> usize option"
  os_munmap :: "usize \<Rightarrow> worker \<Rightarrow> bool"
  os_backtrace :: "worker \<Rightarrow> 'e capture_result \<times> (nat \<times> string) list"
  os_finds :: "worker \<Rightarrow> bool"

section \<open>The request scope and the panic handler\<close>

datatype RequestScope = RequestScope usize

definition scope_enter :: "usize \<Rightarrow> worker \<Rightarrow> RequestScope option \<times> worker" where
  "scope_enter request p =
    (if wk_active p = 0 then (Some (RequestScope request), p\<lparr>wk_active := request\<rparr>) else (None, p))"

fun scope_drop :: "RequestScope \<Rightarrow> worker \<Rightarrow> unit run" where
  "scope_drop (RequestScope request) p =
    (if wk_active p = request then Done () (p\<lparr>wk_active := 0\<rparr>)
     else terminate (line ''request scope invariant failed'') code_software p)"

definition runtime_lost :: "worker \<Rightarrow> 'a run" where
  "runtime_lost p = terminate (line ''unwinder returned without a request handler'') code_lost p"

definition runtime_foreign :: "worker \<Rightarrow> 'a run" where
  "runtime_foreign p = terminate (line ''foreign exception reached the Rust request boundary'') code_foreign p"

definition panic_handler :: "'e kernel \<Rightarrow> bool \<Rightarrow> worker \<Rightarrow> 'a run" where
  "panic_handler os can_unwind p =
    (case (can_unwind, nonzero (wk_active p)) of
       (True, Some request) \<Rightarrow>
         if os_finds os p then Unwinding (FaultBox (Fault request)) p else runtime_lost p
     | (True, None) \<Rightarrow> terminate (line ''panic occurred outside a recoverable request'') code_software p
     | (False, _) \<Rightarrow> Aborted (out_stderr (line ''non-unwindable panic reached the process runtime'') p))"

section \<open>The request\<close>

datatype Command = Work | Panic | Trace

definition command_parse :: "bytes \<Rightarrow> Command option" where
  "command_parse argument =
    (if argument = [0x77, 0x6f, 0x72, 0x6b] then Some Work
     else if argument = [0x70, 0x61, 0x6e, 0x69, 0x63] then Some Panic
     else if argument = [0x74, 0x72, 0x61, 0x63, 0x65] then Some Trace
     else None)"

record Request =
  request_id :: usize
  request_command :: Command

datatype 'e ServiceError = Resource | BacktraceFailed 'e

datatype Mapping = Mapping usize

definition mapping_new :: "'e kernel \<Rightarrow> worker \<Rightarrow> Mapping option \<times> worker" where
  "mapping_new os p =
    (case os_mmap os p of
       Some mapped \<Rightarrow> (Some (Mapping mapped), p\<lparr>wk_pages := (wk_pages p)(mapped \<mapsto> 0)\<rparr>)
     | None \<Rightarrow> (None, p))"

fun mapping_touch :: "Mapping \<Rightarrow> usize \<Rightarrow> worker \<Rightarrow> worker" where
  "mapping_touch (Mapping pointer) request p = p\<lparr>wk_pages := (wk_pages p)(pointer \<mapsto> request)\<rparr>"

fun mapping_drop :: "'e kernel \<Rightarrow> Mapping \<Rightarrow> worker \<Rightarrow> unit run" where
  "mapping_drop os (Mapping pointer) p =
    (if os_munmap os pointer p
     then Done () (p\<lparr>wk_pages := (wk_pages p)(pointer := None), wk_cleanups := wk_cleanups p + 1\<rparr>)
     else terminate (line ''request mapping release failed'') code_software p)"

definition service_execute :: "'e kernel \<Rightarrow> Request \<Rightarrow> worker \<Rightarrow> ('e ServiceError + unit) run" where
  "service_execute os request p =
    (case mapping_new os p of
       (None, p) \<Rightarrow> Done (Inl Resource) p
     | (Some resource, p) \<Rightarrow>
         guarded (mapping_drop os resource)
           (let p = mapping_touch resource (request_id request) p
            in case request_command request of
                 Work \<Rightarrow> Done (Inr ()) p
               | Panic \<Rightarrow> panic_handler os True p
               | Trace \<Rightarrow> (case os_backtrace os p of
                   (Captured, said) \<Rightarrow> Done (Inr ()) (p\<lparr>wk_log := wk_log p @ said\<rparr>)
                 | (CaptureFailed e, said) \<Rightarrow> Done (Inl (BacktraceFailed e)) (p\<lparr>wk_log := wk_log p @ said\<rparr>))))"

section \<open>The catch boundary\<close>

datatype Outcome = Completed | Recovered | OutOfResource | BacktraceMissing

datatype BoundaryError = Busy | WrongPayload | WrongCleanup

datatype 'e ExecutionError = ExecutionBusy | Service "'e ServiceError"

definition boundary_invoke :: "'e kernel \<Rightarrow> Request \<Rightarrow> worker \<Rightarrow> ('e ExecutionError + unit) run" where
  "boundary_invoke os request p =
    (case scope_enter (request_id request) p of
       (Some scope, p) \<Rightarrow>
         guarded (scope_drop scope)
           (case service_execute os request p of
              Done r p \<Rightarrow> Done (map_err Service r) p
            | Unwinding x p \<Rightarrow> Unwinding x p | Exited c p \<Rightarrow> Exited c p | Aborted p \<Rightarrow> Aborted p)
     | (None, p) \<Rightarrow> Done (Inl ExecutionBusy) p)"

text \<open>\<open>catch_unwind\<close> runs the invocation and hands the payload of a panic to the catch.\<close>

definition boundary_run :: "'e kernel \<Rightarrow> Request \<Rightarrow> worker \<Rightarrow> (BoundaryError + Outcome) run" where
  "boundary_run os request p =
    (let before = wk_cleanups p
     in case checked_add before 1 of
          None \<Rightarrow> Done (Inl WrongCleanup) p
        | Some expected \<Rightarrow>
            (case boundary_invoke os request p of
               Done executed p \<Rightarrow>
                 (let after = wk_cleanups p
                  in Done (case (executed, after = expected, after = before) of
                       (Inr _, True, _) \<Rightarrow> Inr Completed
                     | (Inl (Service Resource), _, True) \<Rightarrow> Inr OutOfResource
                     | (Inl (Service (BacktraceFailed _)), True, _) \<Rightarrow> Inr BacktraceMissing
                     | (Inl ExecutionBusy, _, _) \<Rightarrow> Inl Busy
                     | _ \<Rightarrow> Inl WrongCleanup) p)
             | Unwinding content p \<Rightarrow>
                 (let after = wk_cleanups p
                  in Done (case (content, after = expected) of
                       (FaultBox fault, True) \<Rightarrow>
                         if fault_request fault = request_id request then Inr Recovered else Inl WrongPayload
                     | (OtherBox, True) \<Rightarrow> Inl WrongPayload
                     | _ \<Rightarrow> Inl WrongCleanup) p)
             | Exited c p \<Rightarrow> Exited c p
             | Aborted p \<Rightarrow> Aborted p))"

section \<open>The entry loop\<close>

definition worker_usage :: "worker \<Rightarrow> 'a run" where
  "worker_usage p = Exited code_usage (out_stderr (line ''usage: desenredo-no-std-worker [work|panic|trace]...'') p)"

fun worker_report :: "Outcome \<Rightarrow> worker \<Rightarrow> worker" where
  "worker_report Completed p = out_stdout (line ''request completed'') p"
| "worker_report Recovered p = out_stdout (line ''request panic recovered'') p"
| "worker_report OutOfResource p = out_stderr (line ''request resource allocation failed'') p"
| "worker_report BacktraceMissing p = out_stderr (line ''request backtrace failed'') p"

fun boundary_failure :: "BoundaryError \<Rightarrow> worker \<Rightarrow> 'a run" where
  "boundary_failure Busy p = terminate (line ''nested recoverable request rejected'') code_software p"
| "boundary_failure WrongPayload p = terminate (line ''caught panic payload did not match request'') code_software p"
| "boundary_failure WrongCleanup p = terminate (line ''request cleanup contract failed'') code_software p"

text \<open>The loop over the arguments; it leaves only by ending the process.\<close>

fun worker_loop :: "'e kernel \<Rightarrow> usize \<Rightarrow> bool \<Rightarrow> bytes list \<Rightarrow> worker \<Rightarrow> unit run" where
  "worker_loop os n handled [] p =
    (if handled then Exited code_success (out_stdout (line ''worker completed'') p) else worker_usage p)"
| "worker_loop os n handled (argument # arguments) p =
    (case command_parse argument of
       None \<Rightarrow> worker_usage p
     | Some command \<Rightarrow>
         (case boundary_run os \<lparr>request_id = n, request_command = command\<rparr> p of
            Done (Inr outcome) p \<Rightarrow>
              (case checked_add n 1 of
                 Some n \<Rightarrow> worker_loop os n True arguments (worker_report outcome p)
               | None \<Rightarrow> terminate (line ''request identifier exhausted'') code_software (worker_report outcome p))
          | Done (Inl e) p \<Rightarrow> boundary_failure e p
          | Unwinding x p \<Rightarrow> Unwinding x p
          | Exited c p \<Rightarrow> Exited c p
          | Aborted p \<Rightarrow> Aborted p))"

definition worker_entry :: "'e kernel \<Rightarrow> bytes list option \<Rightarrow> worker \<Rightarrow> unit run" where
  "worker_entry os arguments p =
    (let p = out_stdout (line ''desenredo no_std worker ready'') p
     in case arguments of
          Some arguments \<Rightarrow> worker_loop os 1 False arguments p
        | None \<Rightarrow> terminate (line ''Linux process stack pointer was null'') code_software p)"

end
