(* ===== verification/WorkerFacts.thy ===== *)
theory WorkerFacts
  imports Worker
begin

text \<open>
  The worker under a kernel that keeps its promises: what a request amounts to, and what the entry
  loop makes of a list of them.
\<close>

section \<open>The kernel's promises\<close>

text \<open>A live page can be unmapped, a fresh mapping is not live, and a raise inside an active request
  finds the catch of that request.\<close>

locale kernel_laws =
  fixes os :: "'e kernel"
  assumes munmap_live: "wk_pages p a \<noteq> None \<Longrightarrow> os_munmap os a p"
    and mmap_fresh: "os_mmap os p = Some a \<Longrightarrow> wk_pages p a = None"
    and finds: "wk_active p \<noteq> 0 \<Longrightarrow> os_finds os p"
begin

lemma scope_exit: "wk_active p = n \<Longrightarrow> scope_drop (RequestScope n) p = Done () (p\<lparr>wk_active := 0\<rparr>)"
  by simp

lemma page_exit:
  "wk_pages p a \<noteq> None \<Longrightarrow> mapping_drop os (Mapping a) p =
    Done () (p\<lparr>wk_pages := (wk_pages p)(a := None), wk_cleanups := wk_cleanups p + 1\<rparr>)"
  using munmap_live by simp

lemma panics: "wk_active p \<noteq> 0 \<Longrightarrow> panic_handler os True p = Unwinding (FaultBox (Fault (wk_active p))) p"
  using finds by (simp add: panic_handler_def nonzero_def)

end

definition os_ref :: "unit kernel" where
  "os_ref = \<lparr>os_mmap = (\<lambda>p. if wk_pages p 0x10000 = None then Some 0x10000 else None),
    os_munmap = (\<lambda>a p. wk_pages p a \<noteq> None), os_backtrace = (\<lambda>p. (Captured, [(1, ''#1'')])),
    os_finds = (\<lambda>p. wk_active p \<noteq> 0)\<rparr>"

interpretation ref_kernel: kernel_laws os_ref
  by unfold_locales (auto simp: os_ref_def split: if_splits)

section \<open>Output\<close>

text \<open>Whatever the descriptor does, what arrives is a prefix of the message; a descriptor that takes
  at least one byte of every offer, and none beyond it, gets the whole message.\<close>

lemma write_all_prefix:
  assumes "\<And>s bs r s'. emit s bs = (r, s') \<Longrightarrow>
      sent s' = sent s @ (case r of Inr n \<Rightarrow> take (unat n) bs | Inl _ \<Rightarrow> [])"
    "write_all emit bs s = Some s'"
  shows "\<exists>k. sent s' = sent s @ take k bs"
  using assms(2)
proof (induction "length bs" arbitrary: bs s rule: less_induct)
  case less
  show ?case
  proof (cases "bs = []")
    case True
    with less.prems show ?thesis by (auto simp: write_all.simps[of emit "[]"])
  next
    case False
    obtain r t where w: "emit s bs = (r, t)" by fastforce
    show ?thesis
    proof (cases r)
      case (Inl e)
      with less.prems False w assms(1)[OF w] show ?thesis
        by (auto simp: write_all.simps[of emit bs] intro: exI[of _ 0])
    next
      case (Inr n)
      note t = assms(1)[OF w]
      consider "n = 0" "t = s'" | "n \<noteq> 0" "unat n \<le> length bs" "write_all emit (drop (unat n) bs) t = Some s'"
        using less.prems False w Inr by (auto simp: write_all.simps[of emit bs] not_less split: if_splits)
      then show ?thesis
      proof cases
        case 1
        then show ?thesis using t Inr by (auto intro: exI[of _ 0])
      next
        case 2
        have "length (drop (unat n) bs) < length bs" using 2 False by (simp add: unat_gt_0)
        from less.hyps[OF this 2(3)] obtain k where "sent s' = sent t @ take k (drop (unat n) bs)" ..
        then have "sent s' = sent s @ take (unat n + k) bs" using t Inr by (simp add: take_add)
        then show ?thesis ..
      qed
    qed
  qed
qed

lemma write_all_complete:
  assumes "\<And>s bs. bs \<noteq> [] \<Longrightarrow> \<exists>n s'. emit s bs = (Inr n, s') \<and> n \<noteq> 0 \<and> unat n \<le> length bs \<and>
      sent s' = sent s @ take (unat n) bs"
  shows "\<exists>s'. write_all emit bs s = Some s' \<and> sent s' = sent s @ bs"
proof (induction "length bs" arbitrary: bs s rule: less_induct)
  case less
  show ?case
  proof (cases "bs = []")
    case False
    with assms obtain n t where w: "emit s bs = (Inr n, t)" "n \<noteq> 0" "unat n \<le> length bs"
      "sent t = sent s @ take (unat n) bs" by blast
    then have "length (drop (unat n) bs) < length bs" using False by (simp add: unat_gt_0)
    from less[OF this, of t] w False show ?thesis
      by (auto simp: write_all.simps[of emit bs] not_less)
  qed (simp add: write_all.simps)
qed

section \<open>Requests\<close>

text \<open>What a request amounts to: its outcome and the process after it.\<close>

definition served :: "'e kernel \<Rightarrow> Request \<Rightarrow> worker \<Rightarrow> Outcome \<times> worker" where
  "served os request p =
    (let n = request_id request in
     case os_mmap os (p\<lparr>wk_active := n\<rparr>) of
       None \<Rightarrow> (OutOfResource, p)
     | Some a \<Rightarrow>
         (let during = p\<lparr>wk_active := n, wk_pages := (wk_pages p)(a \<mapsto> n)\<rparr>;
              p = p\<lparr>wk_cleanups := wk_cleanups p + 1\<rparr>
          in case request_command request of
               Work \<Rightarrow> (Completed, p)
             | Panic \<Rightarrow> (Recovered, p)
             | Trace \<Rightarrow> (case os_backtrace os during of
                 (Captured, said) \<Rightarrow> (Completed, p\<lparr>wk_log := wk_log p @ said\<rparr>)
               | (CaptureFailed e, said) \<Rightarrow> (BacktraceMissing, p\<lparr>wk_log := wk_log p @ said\<rparr>))))"

lemma checked_succ: "(x :: usize) \<noteq> - 1 \<Longrightarrow> checked_add x 1 = Some (x + 1)"
proof -
  assume "x \<noteq> - 1"
  then have "unat x \<noteq> 2 ^ 64 - 1" using word_unat_eq_iff[of x "- 1"] by (simp add: unsigned_minus_1_eq_mask mask_eq_exp_minus_1)
  moreover have "unat x < 2 ^ 64" using unsigned_less[of x, where ?'a = nat] by simp
  ultimately show ?thesis by (simp add: checked_add_def)
qed

lemma succ_differs: "(x :: usize) + 1 \<noteq> x"
  by simp

lemma worker_restore [simp]:
  "wk_active p = 0 \<Longrightarrow> p\<lparr>wk_active := 0\<rparr> = p"
  "m a = None \<Longrightarrow> m(a := None) = m"
  by (cases p, simp) auto

context kernel_laws begin

lemma run_served:
  assumes "wk_active p = 0" "request_id request \<noteq> 0" "wk_cleanups p \<noteq> - 1"
  shows "boundary_run os request p = (case served os request p of (outcome, q) \<Rightarrow> Done (Inr outcome) q)"
proof (cases "os_mmap os (p\<lparr>wk_active := request_id request\<rparr>)")
  case None
  with assms show ?thesis
    by (simp add: boundary_run_def checked_succ boundary_invoke_def scope_enter_def service_execute_def
        mapping_new_def guarded_def served_def Let_def succ_differs)
next
  case (Some a)
  then have f: "wk_pages p a = None" using mmap_fresh by fastforce
  show ?thesis
  proof (cases "request_command request")
    case Work
    with Some f assms show ?thesis
      by (simp add: boundary_run_def checked_succ boundary_invoke_def scope_enter_def service_execute_def
          mapping_new_def guarded_def served_def Let_def munmap_live)
  next
    case Panic
    with Some f assms show ?thesis
      by (simp add: boundary_run_def checked_succ boundary_invoke_def scope_enter_def service_execute_def
          mapping_new_def guarded_def served_def Let_def munmap_live panics)
  next
    case Trace
    with Some f assms show ?thesis
      by (simp add: boundary_run_def checked_succ boundary_invoke_def scope_enter_def service_execute_def
          mapping_new_def guarded_def served_def Let_def munmap_live
          split: prod.split capture_result.split)
  qed
qed

end

section \<open>The loop\<close>

text \<open>Requests served one after the other, the process reported to after each.\<close>

fun serves :: "'e kernel \<Rightarrow> usize \<Rightarrow> Command list \<Rightarrow> worker \<Rightarrow> worker" where
  "serves os n [] p = p"
| "serves os n (command # commands) p =
    (case served os \<lparr>request_id = n, request_command = command\<rparr> p of
       (outcome, q) \<Rightarrow> serves os (n + 1) commands (worker_report outcome q))"

lemma report_keeps [simp]:
  "wk_active (worker_report o' p) = wk_active p" "wk_cleanups (worker_report o' p) = wk_cleanups p"
  "wk_pages (worker_report o' p) = wk_pages p"
  by (cases o'; simp add: out_stdout_def out_stderr_def)+

lemma served_keeps:
  assumes "served os request p = (outcome, q)"
  shows "wk_active q = wk_active p \<and> wk_pages q = wk_pages p \<and>
    wk_cleanups q = wk_cleanups p + (if outcome = OutOfResource then 0 else 1)"
  using assms
  by (auto simp: served_def Let_def split: option.split_asm Command.split_asm prod.split_asm capture_result.split_asm)

lemma unat_succ_le: "unat (x :: usize) + 1 < 2 ^ 64 \<Longrightarrow> x \<noteq> - 1 \<and> unat (x + 1) = unat x + 1"
  by (auto simp: unat_add_exact unsigned_minus_1_eq_mask mask_eq_exp_minus_1)

lemma unat_step_le: "unat (x + (if b then 0 else 1) :: usize) \<le> unat x + 1"
  using unat_word_ariths(1)[of x 1] by simp

context kernel_laws begin

lemma loop_serves:
  assumes "map command_parse arguments = map Some commands" "wk_active p = 0" "n \<noteq> 0"
    "unat n + length arguments < 2 ^ 64" "unat (wk_cleanups p) + length arguments < 2 ^ 64"
  shows "worker_loop os n handled (arguments @ rest) p =
      worker_loop os (n + of_nat (length arguments)) (handled \<or> arguments \<noteq> []) rest (serves os n commands p) \<and>
    wk_active (serves os n commands p) = 0 \<and> wk_pages (serves os n commands p) = wk_pages p"
  using assms
proof (induction arguments arbitrary: commands p n handled)
  case (Cons argument arguments)
  then obtain command cs where c: "commands = command # cs" "command_parse argument = Some command"
    "map command_parse arguments = map Some cs" by (cases commands) auto
  obtain outcome q where q: "served os \<lparr>request_id = n, request_command = command\<rparr> p = (outcome, q)"
    by fastforce
  note k = served_keeps[OF q]
  have n: "n \<noteq> - 1" "unat (n + 1) = unat n + 1" "n + 1 \<noteq> 0"
    and m: "wk_cleanups p \<noteq> - 1"
    using Cons.prems unat_succ_le[of n] unat_succ_le[of "wk_cleanups p"] by auto
  have "unat (wk_cleanups q) \<le> unat (wk_cleanups p) + 1"
    using k unat_step_le[of "wk_cleanups p" "outcome = OutOfResource"] by simp
  then have "unat (wk_cleanups (worker_report outcome q)) + length arguments < 2 ^ 64"
    using Cons.prems by simp
  moreover have "boundary_run os \<lparr>request_id = n, request_command = command\<rparr> p = Done (Inr outcome) q"
    using run_served[of p "\<lparr>request_id = n, request_command = command\<rparr>"] Cons.prems m q by simp
  ultimately show ?case
    using Cons.IH[of cs "worker_report outcome q" "n + 1" True] Cons.prems k n c q
    by (simp add: checked_succ algebra_simps)
qed simp

end

end
