(* ===== verification/Process.thy ===== *)
theory Process
  imports Memory Flow
begin

text \<open>
  The initial process stack (\<open>examples/no-std-linux/src/process.rs\<close>): the argument count, the
  pointers behind it and the strings they name, read from the memory the kernel prepared; and the
  page rounding of the mapping allocator (\<open>allocator.rs\<close>).
\<close>

section \<open>Arguments\<close>

definition argc_words :: usize where "argc_words = 1"

definition program_words :: usize where "program_words = 1"

definition argument_words :: usize where "argument_words = 1"

datatype ProcessStack = ProcessStack usize

definition from_entry :: "usize \<Rightarrow> ProcessStack option" where
  "from_entry raw = map_option ProcessStack (nonzero raw)"

record Args =
  args_cursor :: usize
  args_remaining :: usize

text \<open>Pointers are addresses; adding words to one steps over eight bytes each.\<close>

fun stack_args :: "memory \<Rightarrow> ProcessStack \<Rightarrow> Args" where
  "stack_args m (ProcessStack base) =
    (let argc = (mem_get m base :: usize);
         argv = base + 8 * argc_words;
         first = argv + 8 * program_words
     in \<lparr>args_cursor = first,
         args_remaining = (if argc < program_words then 0 else argc - program_words)\<rparr>)"

text \<open>The scan for the terminating zero does not come back where there is none.\<close>

definition scan_zero :: "memory \<Rightarrow> usize \<Rightarrow> usize option" where
  "scan_zero m argument = run_loop (\<lambda>len. Some
    (if m (argument + len) = 0 then Break len else Continue (saturating_add len 1))) 0"

definition args_next :: "memory \<Rightarrow> Args \<Rightarrow> (bytes option \<times> Args) option" where
  "args_next m self =
    (if args_remaining self = 0 then Some (None, self)
     else
       (let argument = mem_get m (args_cursor self);
            self = self\<lparr>args_cursor := args_cursor self + 8 * argument_words,
              args_remaining := args_remaining self - 1\<rparr>
        in map_option (\<lambda>len. (Some (mem_bytes m argument (unat len)), self)) (scan_zero m argument)))"

text \<open>The \<open>for\<close> loop over the arguments: all of them, in order.\<close>

fun args_all :: "nat \<Rightarrow> memory \<Rightarrow> Args \<Rightarrow> bytes list option" where
  "args_all 0 m self = None"
| "args_all (Suc fuel) m self =
    Option.bind (args_next m self) (\<lambda>(item, self).
      case item of
        None \<Rightarrow> Some []
      | Some argument \<Rightarrow> map_option ((#) argument) (args_all fuel m self))"

definition process_args :: "memory \<Rightarrow> ProcessStack \<Rightarrow> bytes list option" where
  "process_args m self =
    (let args = stack_args m self in args_all (Suc (unat (args_remaining args))) m args)"

section \<open>Whole mappings\<close>

definition page_size :: usize where "page_size = 4096"

definition mapped_size :: "usize \<Rightarrow> usize option" where
  "mapped_size requested =
    map_option (\<lambda>rounded. rounded div page_size * page_size) (checked_add (max requested 1) (page_size - 1))"

record Layout =
  layout_size :: usize
  layout_align :: usize

text \<open>The kernel maps and unmaps; a null pointer is the failure of an allocation.\<close>

definition mmap_alloc :: "('s \<Rightarrow> usize \<Rightarrow> usize option \<times> 's) \<Rightarrow> Layout \<Rightarrow> 's \<Rightarrow> usize \<times> 's" where
  "mmap_alloc mmap layout s =
    (case (layout_align layout \<le> page_size, mapped_size (layout_size layout)) of
       (True, Some span) \<Rightarrow> (case mmap s span of (Some mapped, s) \<Rightarrow> (mapped, s) | (None, s) \<Rightarrow> (0, s))
     | _ \<Rightarrow> (0, s))"

definition mmap_dealloc :: "('s \<Rightarrow> usize \<Rightarrow> usize \<Rightarrow> 's) \<Rightarrow> usize \<Rightarrow> Layout \<Rightarrow> 's \<Rightarrow> 's" where
  "mmap_dealloc munmap pointer layout s =
    (case mapped_size (layout_size layout) of Some span \<Rightarrow> munmap s pointer span | None \<Rightarrow> s)"

section \<open>What the kernel prepares\<close>

definition c_string :: "memory \<Rightarrow> usize \<Rightarrow> bytes \<Rightarrow> bool" where
  "c_string m a s \<longleftrightarrow> mem_bytes m a (length s) = s \<and> 0 \<notin> set s \<and> m (a + of_nat (length s)) = 0 \<and>
    length s < 2 ^ 64 - 1"

fun argument_table :: "memory \<Rightarrow> usize \<Rightarrow> bytes list \<Rightarrow> bool" where
  "argument_table m p [] \<longleftrightarrow> True"
| "argument_table m p (s # ss) \<longleftrightarrow> c_string m (mem_get m p) s \<and> argument_table m (p + 8) ss"

definition entry_stack_holds :: "memory \<Rightarrow> usize \<Rightarrow> bytes list \<Rightarrow> bool" where
  "entry_stack_holds m base arguments \<longleftrightarrow>
    base \<noteq> 0 \<and> Suc (length arguments) < 2 ^ 64 \<and>
    (mem_get m base :: u64) = of_nat (Suc (length arguments)) \<and> argument_table m (base + 16) arguments"

section \<open>Facts\<close>

lemma scan_iterates:
  assumes "c_string m a s" "k \<le> length s"
  shows "(iterates (\<lambda>len. Some (if m (a + len) = 0 then Break len
    else Continue (saturating_add len 1))))\<^sup>*\<^sup>* 0 (of_nat k :: usize)"
  using assms(2)
proof (induction k)
  case (Suc k)
  then have k: "k < length s" by simp
  have "mem_bytes m a (length s) ! k = m (a + of_nat k)" using k by (simp add: mem_bytes_def)
  then have at: "m (a + of_nat k) = s ! k" using assms(1) by (simp add: c_string_def)
  have "s ! k \<in> set s" using k by simp
  then have nz: "m (a + of_nat k) \<noteq> 0" using assms(1) unfolding at c_string_def by metis
  have "unat (of_nat k :: usize) = k" using assms(1) k by (simp add: c_string_def unat_index)
  then have "saturating_add (of_nat k) 1 = (of_nat (Suc k) :: usize)"
    using assms(1) k by (simp add: saturating_add_def checked_add_def c_string_def)
  with nz have "iterates (\<lambda>len. Some (if m (a + len) = 0 then Break len
    else Continue (saturating_add len 1))) (of_nat k) (of_nat (Suc k) :: usize)"
    by (simp add: iterates_def)
  then show ?case by (rule rtranclp.rtrancl_into_rtrancl[OF Suc.IH[OF Suc_leD[OF Suc.prems]]])
qed simp

lemma scan_string:
  assumes "c_string m a s"
  shows "scan_zero m a = Some (of_nat (length s))"
proof -
  have "m (a + of_nat (length s)) = 0" using assms by (simp add: c_string_def)
  then show ?thesis
    unfolding scan_zero_def run_loop_iterates[OF scan_iterates[OF assms order_refl]]
    by (simp add: run_loop_simps(3))
qed

lemma args_all_table:
  "argument_table m p ss \<Longrightarrow> length ss < 2 ^ 64 \<Longrightarrow> length ss < fuel \<Longrightarrow>
    args_all fuel m \<lparr>args_cursor = p, args_remaining = of_nat (length ss)\<rparr> = Some ss"
proof (induction ss arbitrary: p fuel)
  case Nil
  then obtain f where "fuel = Suc f" by (cases fuel) auto
  then show ?case by (simp add: args_next_def)
next
  case (Cons s ss)
  then obtain f where f: "fuel = Suc f" by (cases fuel) auto
  have s: "c_string m (mem_get m p) s" using Cons.prems(1) by simp
  have u: "unat (of_nat (length s) :: usize) = length s" using s by (simp add: c_string_def unat_index)
  have "(of_nat (length (s # ss)) :: usize) \<noteq> 0"
    using Cons.prems(2) by (simp add: word_unat_eq_iff unat_of_nat del: of_nat_Suc)
  then have "args_next m \<lparr>args_cursor = p, args_remaining = of_nat (length (s # ss))\<rparr> =
      Some (Some s, \<lparr>args_cursor = p + 8, args_remaining = of_nat (length ss)\<rparr>)"
    using s scan_string[OF s] u by (simp add: args_next_def Let_def argument_words_def c_string_def)
  with Cons f show ?case by simp
qed

lemma stack_args_holds:
  assumes "entry_stack_holds m base arguments"
  shows "stack_args m (ProcessStack base) =
    \<lparr>args_cursor = base + 16, args_remaining = of_nat (length arguments)\<rparr>"
proof -
  have "\<not> (of_nat (Suc (length arguments)) :: u64) < 1"
    using assms by (simp add: entry_stack_holds_def word_less_nat_alt unat_of_nat del: of_nat_Suc)
  with assms show ?thesis
    by (simp add: entry_stack_holds_def argc_words_def program_words_def)
qed

lemma unat_page [simp]: "unat page_size = 4096"
  by (simp add: page_size_def)

lemma mapped_size_exact:
  "mapped_size n0 = (if unat (max n0 1) + 4095 < 2 ^ 64
     then Some (of_nat ((unat (max n0 1) + 4095) div 4096 * 4096)) else None)"
proof -
  let ?n = "unat (max n0 1)"
  have p: "unat (page_size - 1) = 4095" by (simp add: page_size_def)
  have "(max n0 1 + (page_size - 1)) div page_size * page_size = of_nat ((?n + 4095) div 4096 * 4096)"
    if "?n + 4095 < 2 ^ 64"
  proof -
    have "unat (max n0 1 + (page_size - 1)) = ?n + 4095" using that p by (simp add: unat_add_exact)
    moreover have "(?n + 4095) div 4096 * 4096 < 2 ^ 64"
      using that div_times_less_eq_dividend[of "?n + 4095" 4096] by simp
    ultimately show ?thesis
      by (simp add: word_unat_eq_iff unat_mult_lem[THEN iffD1] unat_div unat_of_nat)
  qed
  then show ?thesis using p by (simp add: mapped_size_def checked_add_def)
qed

lemma mapped_size_page:
  assumes "mapped_size n0 = Some n"
  shows "unat n mod 4096 = 0 \<and> unat (max n0 1) \<le> unat n \<and> unat n < unat (max n0 1) + 4096"
proof -
  let ?m = "(unat (max n0 1) + 4095) div 4096 * 4096"
  from assms have m: "n = of_nat ?m" "unat (max n0 1) + 4095 < 2 ^ 64"
    by (simp_all add: mapped_size_exact split: if_splits)
  have "?m \<le> unat (max n0 1) + 4095" by simp
  then have "unat (of_nat ?m :: usize) = ?m" using m(2) by (intro unat_index) linarith
  then have "unat n = ?m" unfolding m(1) .
  moreover have "unat (max n0 1) \<le> ?m \<and> ?m < unat (max n0 1) + 4096" by linarith
  ultimately show ?thesis by simp
qed

end
