(* ===== verification/WorkerProps.thy ===== *)
theory WorkerProps
  imports WorkerFacts Process Linked UnwindProps
begin

text \<open>
  The properties of the example process: the requests of the worker, the arguments it reads, the
  tables it hands to the personality and the pages its allocator maps.
\<close>

section \<open>The worker\<close>

text \<open>C33. A request leaves the process as it found it: whether it completes, panics or fails, the
  request scope is released, its page is unmapped and counted exactly once, and the boundary
  reports its outcome, a panic being recovered; only a page that could not be mapped is not
  counted.\<close>

theorem request_leaves_no_trace:
  assumes "kernel_laws os" "wk_active p = 0" "request_id request \<noteq> 0" "wk_cleanups p \<noteq> - 1"
  shows "\<exists>outcome q. boundary_run os request p = Done (Inr outcome) q \<and>
    wk_active q = 0 \<and> wk_pages q = wk_pages p \<and>
    wk_cleanups q = wk_cleanups p + (if outcome = OutOfResource then 0 else 1) \<and>
    (outcome = OutOfResource \<longleftrightarrow> os_mmap os (p\<lparr>wk_active := request_id request\<rparr>) = None) \<and>
    (outcome = Recovered \<longleftrightarrow> outcome \<noteq> OutOfResource \<and> request_command request = Panic)"
proof -
  obtain outcome q where q: "served os request p = (outcome, q)" by fastforce
  then have "(outcome = OutOfResource \<longleftrightarrow> os_mmap os (p\<lparr>wk_active := request_id request\<rparr>) = None) \<and>
      (outcome = Recovered \<longleftrightarrow> outcome \<noteq> OutOfResource \<and> request_command request = Panic)"
    by (auto simp: served_def Let_def
        split: option.split_asm Command.split_asm prod.split_asm capture_result.split_asm)
  then show ?thesis
    using kernel_laws.run_served[OF assms] served_keeps[OF q] assms(2) q by simp
qed

definition ex_worker :: worker where
  "ex_worker = \<lparr>wk_active = 0, wk_cleanups = 4, wk_pages = (\<lambda>_. None), wk_log = []\<rparr>"

theorem request_leaves_no_trace_witness:
  "\<exists>q. boundary_run os_ref \<lparr>request_id = 3, request_command = Panic\<rparr> ex_worker = Done (Inr Recovered) q \<and>
    wk_cleanups q = 5"
proof -
  have "os_mmap os_ref (ex_worker\<lparr>wk_active := 3\<rparr>) \<noteq> None" by (simp add: os_ref_def ex_worker_def)
  with request_leaves_no_trace[OF ref_kernel.kernel_laws_axioms, of ex_worker
      "\<lparr>request_id = 3, request_command = Panic\<rparr>"]
  show ?thesis by (auto simp: ex_worker_def)
qed

text \<open>C34. The worker serves every argument in order, with identities from one upwards, reporting each
  outcome, and then ends with success when there was one and all could be parsed; the first
  argument that is no command ends it with a usage error after the requests before it were
  served.\<close>

theorem worker_serves_arguments:
  assumes "kernel_laws os" "wk_active p = 0" "map command_parse arguments = map Some commands"
    "unat (wk_cleanups p) + length arguments < 2 ^ 64" "Suc (length arguments) < 2 ^ 64"
  defines "q \<equiv> serves os 1 commands (out_stdout (line ''desenredo no_std worker ready'') p)"
  shows "(arguments \<noteq> [] \<longrightarrow> worker_entry os (Some arguments) p =
      Exited code_success (out_stdout (line ''worker completed'') q)) \<and>
    (command_parse bad = None \<longrightarrow> worker_entry os (Some (arguments @ bad # rest)) p = worker_usage q) \<and>
    worker_entry os (Some []) p = worker_usage (out_stdout (line ''desenredo no_std worker ready'') p) \<and>
    wk_active q = 0 \<and> wk_pages q = wk_pages p"
proof -
  let ?p = "out_stdout (line ''desenredo no_std worker ready'') p"
  have keep: "wk_active ?p = wk_active p" "wk_cleanups ?p = wk_cleanups p" "wk_pages ?p = wk_pages p"
    by (simp_all add: out_stdout_def)
  have go: "worker_loop os 1 False (arguments @ more) ?p =
      worker_loop os (1 + of_nat (length arguments)) (arguments \<noteq> []) more q \<and>
      wk_active q = 0 \<and> wk_pages q = wk_pages p" for more
    using kernel_laws.loop_serves[OF assms(1,3), of ?p 1 False more] assms(2,4,5) keep
    unfolding q_def by simp
  from go[of "[]"] go[of "bad # rest"] show ?thesis
    by (auto simp: worker_entry_def)
qed

theorem worker_serves_arguments_witness:
  "worker_entry os_ref (Some [[0x77, 0x6f, 0x72, 0x6b], [0x70, 0x61, 0x6e, 0x69, 0x63]]) ex_worker =
    Exited code_success (out_stdout (line ''worker completed'')
      (serves os_ref 1 [Work, Panic] (out_stdout (line ''desenredo no_std worker ready'') ex_worker)))"
  using worker_serves_arguments[OF ref_kernel.kernel_laws_axioms, of ex_worker
      "[[0x77, 0x6f, 0x72, 0x6b], [0x70, 0x61, 0x6e, 0x69, 0x63]]" "[Work, Panic]" "[]" "[]"]
  by (simp add: ex_worker_def command_parse_def)

section \<open>What the process reads and maps\<close>

text \<open>The arguments of the process are exactly the strings the kernel placed behind the program
  name, in order, without their terminating zeros.\<close>

theorem arguments_read:
  assumes "entry_stack_holds m base arguments"
  shows "from_entry base = Some (ProcessStack base) \<and> process_args m (ProcessStack base) = Some arguments"
proof -
  have l: "length arguments < 2 ^ 64" and t: "argument_table m (base + 16) arguments" and b: "base \<noteq> 0"
    using assms by (simp_all add: entry_stack_holds_def)
  have "unat (of_nat (length arguments) :: usize) = length arguments" using l by (rule unat_index)
  then show ?thesis
    using args_all_table[OF t l, of "Suc (length arguments)"] b
    by (simp add: process_args_def stack_args_holds[OF assms] from_entry_def nonzero_def Let_def
      del: stack_args.simps args_all.simps)
qed

definition ex_stack_memory :: memory where
  "ex_stack_memory = mem_put (mem_put (mem_put (\<lambda>_. 0) 0x2000 (0x77 :: u8)) 0x1000 (2 :: u64)) 0x1010 (0x2000 :: u64)"

lemma ex_stack_memory_reads:
  "mem_get ex_stack_memory 0x1000 = (2 :: u64)" "mem_get ex_stack_memory 0x1010 = (0x2000 :: u64)"
  "mem_bytes ex_stack_memory 0x2000 1 = [0x77]" "ex_stack_memory 0x2001 = 0"
proof -
  show "mem_get ex_stack_memory 0x1010 = (0x2000 :: u64)" by (simp add: ex_stack_memory_def)
  show "mem_get ex_stack_memory 0x1000 = (2 :: u64)"
    by (simp add: ex_stack_memory_def mem_get_put_apart apart_def)
  show "mem_bytes ex_stack_memory 0x2000 1 = [0x77]" "ex_stack_memory 0x2001 = 0"
    by (simp_all add: ex_stack_memory_def mem_bytes_def mem_put_def to_le_bytes_def)
qed

theorem arguments_read_witness:
  "process_args ex_stack_memory (ProcessStack 0x1000) = Some [[0x77]]"
proof -
  have "entry_stack_holds ex_stack_memory 0x1000 [[0x77]]"
    using ex_stack_memory_reads by (simp add: entry_stack_holds_def c_string_def)
  from arguments_read[OF this] show ?thesis by simp
qed

text \<open>The allocator maps whole pages: for a layout it can serve it asks the kernel for the least
  multiple of the page size that holds it, at least one page; it fails instead of asking when the
  rounded size does not fit or the alignment is stronger than a page's, and a release passes back
  exactly the size that was mapped.\<close>

theorem allocation_maps_whole_pages:
  "(case mapped_size (layout_size layout) of
      None \<Rightarrow> 2 ^ 64 \<le> unat (max (layout_size layout) 1) + 4095 \<and>
        mmap_alloc mmap layout s = (0, s) \<and> mmap_dealloc munmap pointer layout s = s
    | Some n \<Rightarrow> unat n mod 4096 = 0 \<and> unat (max (layout_size layout) 1) \<le> unat n \<and>
        unat n < unat (max (layout_size layout) 1) + 4096 \<and>
        mmap_alloc mmap layout s = (if layout_align layout \<le> page_size
          then (case mmap s n of (Some mapped, s) \<Rightarrow> (mapped, s) | (None, s) \<Rightarrow> (0, s)) else (0, s)) \<and>
        mmap_dealloc munmap pointer layout s = munmap s pointer n)"
proof (cases "mapped_size (layout_size layout)")
  case None
  then show ?thesis
    by (auto simp: mmap_alloc_def mmap_dealloc_def mapped_size_exact split: if_splits bool.split)
next
  case (Some n)
  with mapped_size_page[OF Some] show ?thesis
    by (auto simp: mmap_alloc_def mmap_dealloc_def)
qed

text \<open>The exception table bounds what a personality parses: the slice of a frame starts at exactly
  the frame's LSDA address, lies within the linked table and reaches its end, so the Rust policy
  never sees a slice of another address; a frame without an LSDA has no slice, and an LSDA outside
  the table is an error.\<close>

theorem linked_source_contract:
  "(s_bytes (linked_source K m A) frame = Inr (Some (a, bs)) \<longrightarrow>
      frame_lsda A frame = Some a \<and> unat (lsda_first K) \<le> unat a \<and> 0 < length bs \<and>
      unat a + length bs = unat (lsda_past K) \<and> bs = mem_bytes m a (length bs)) \<and>
   (s_bytes (linked_source K m A) frame = Inr None \<longleftrightarrow> frame_lsda A frame = None) \<and>
   (s_bytes (linked_source K m A) frame = Inl () \<longleftrightarrow>
      (\<exists>a. frame_lsda A frame = Some a \<and> \<not> (lsda_first K \<le> a \<and> a < lsda_past K)))"
proof (intro conjI impI)
  assume "s_bytes (linked_source K m A) frame = Inr (Some (a, bs))"
  then have b: "frame_lsda A frame = Some a" "bound m a (lsda_first K) (lsda_past K) = Inr (a, bs)"
    by (simp_all add: linked_source_def linked_bytes_Inr)
  then show "frame_lsda A frame = Some a" by simp
  from bound_inside[OF b(2)] show "unat (lsda_first K) \<le> unat a" "0 < length bs"
    "unat a + length bs = unat (lsda_past K)" by simp_all
  from b(2) show "bs = mem_bytes m a (length bs)" by (auto simp: bound_Inr)
next
  show "s_bytes (linked_source K m A) frame = Inr None \<longleftrightarrow> frame_lsda A frame = None"
    by (simp add: linked_source_def linked_bytes_None)
next
  show "s_bytes (linked_source K m A) frame = Inl () \<longleftrightarrow>
      (\<exists>a. frame_lsda A frame = Some a \<and> \<not> (lsda_first K \<le> a \<and> a < lsda_past K))"
    by (auto simp: linked_source_def linked_bytes_def bound_def split: option.splits)
qed

definition ex_link :: link where
  "ex_link = \<lparr>text_first = 0x1000, text_past = 0x3000, eh_first = 0x4000, eh_past = 0x4100,
    lsda_first = 0x5000, lsda_past = 0x5100\<rparr>"

theorem linked_source_contract_witness:
  "\<exists>bs. bound ex_stack_memory 0x50f0 (lsda_first ex_link) (lsda_past ex_link) = Inr (0x50f0, bs) \<and>
    length bs = 0x10"
proof -
  let ?A = "\<lparr>l1_ip_info = (\<lambda>_. (0, 0)), l1_start = (\<lambda>_. 0), l1_text = (\<lambda>_. 0), l1_data = (\<lambda>_. 0), l1_cfa = (\<lambda>_. 0),
    l1_lsda = (\<lambda>_. 0x50f0), l1_get_gr = (\<lambda>_ _. 0), l1_set_gr = (\<lambda>c _ _. c), l1_set_ip = (\<lambda>c _. c)\<rparr>"
  have f: "frame_lsda ?A () = Some 0x50f0" by (simp add: frame_lsda_def nonzero_def)
  obtain bs where b: "bound ex_stack_memory 0x50f0 (lsda_first ex_link) (lsda_past ex_link) = Inr (0x50f0, bs)"
    by (simp add: bound_def ex_link_def)
  then have "s_bytes (linked_source ex_link ex_stack_memory ?A) () = Inr (Some (0x50f0, bs))"
    using f by (simp add: linked_source_def linked_bytes_def)
  with linked_source_contract[of ex_link ex_stack_memory ?A "()" "0x50f0" bs] b show ?thesis
    by (simp add: ex_link_def)
qed

end
