(* ===== verification/Expand.thy ===== *)
theory Expand
  imports Main
begin

text \<open>
  The attribute \<open>#[desenredo::unwind]\<close> (\<open>desenredo-macro/src/lib.rs\<close>): the validation of the
  implementation it is put on and the Level I symbols it emits, and the declarations of these
  symbols in \<open>desenredo-abi/src/unwind.rs\<close>.  An \<open>impl\<close> item as \<open>syn\<close> parses it is what the
  validation looks at; an emitted function is its signature and the path it forwards to.
\<close>

section \<open>Signatures\<close>

datatype Abi = AbiC | AbiUnwind

datatype CType = TyException | TyContext | TyReason | TyStop | TyTrace | TyVoidPtr | TyInt | TyIntPtr
  | TyUsize | TyBytePtr

record signature =
  sig_name :: string
  sig_abi :: Abi
  sig_params :: "CType list"
  sig_result :: "CType option"

definition declare_fn :: "string \<Rightarrow> Abi \<Rightarrow> CType list \<Rightarrow> CType option \<Rightarrow> signature" where
  "declare_fn name abi params result =
    \<lparr>sig_name = name, sig_abi = abi, sig_params = params, sig_result = result\<rparr>"

text \<open>The two \<open>extern\<close> blocks of \<open>unwind.rs\<close>.\<close>

definition level1_declared :: "signature list" where
  "level1_declared =
    [declare_fn ''_Unwind_RaiseException'' AbiUnwind [TyException] (Some TyReason),
     declare_fn ''_Unwind_ForcedUnwind'' AbiUnwind [TyException, TyStop, TyVoidPtr] (Some TyReason),
     declare_fn ''_Unwind_Resume'' AbiUnwind [TyException] None,
     declare_fn ''_Unwind_Resume_or_Rethrow'' AbiUnwind [TyException] (Some TyReason),
     declare_fn ''_Unwind_DeleteException'' AbiC [TyException] None,
     declare_fn ''_Unwind_GetGR'' AbiC [TyContext, TyInt] (Some TyUsize),
     declare_fn ''_Unwind_SetGR'' AbiC [TyContext, TyInt, TyUsize] None,
     declare_fn ''_Unwind_GetIP'' AbiC [TyContext] (Some TyUsize),
     declare_fn ''_Unwind_GetIPInfo'' AbiC [TyContext, TyIntPtr] (Some TyUsize),
     declare_fn ''_Unwind_SetIP'' AbiC [TyContext, TyUsize] None,
     declare_fn ''_Unwind_GetCFA'' AbiC [TyContext] (Some TyUsize),
     declare_fn ''_Unwind_GetLanguageSpecificData'' AbiC [TyContext] (Some TyBytePtr),
     declare_fn ''_Unwind_GetRegionStart'' AbiC [TyContext] (Some TyUsize),
     declare_fn ''_Unwind_GetTextRelBase'' AbiC [TyContext] (Some TyUsize),
     declare_fn ''_Unwind_GetDataRelBase'' AbiC [TyContext] (Some TyUsize),
     declare_fn ''_Unwind_Backtrace'' AbiC [TyTrace, TyVoidPtr] (Some TyReason)]"

section \<open>The emitted functions\<close>

text \<open>A naked function jumps to an entry of the architecture, instantiated at the implementing type;
  any other calls a function of the runtime with its own parameters, in the order given, at the
  type or not.\<close>

datatype 'ty body = NakedJump string 'ty | ForwardCall string "'ty option" "nat list"

record 'ty emitted =
  em_signature :: signature
  em_body :: "'ty body"

definition emit_jump :: "'ty \<Rightarrow> string \<Rightarrow> Abi \<Rightarrow> CType list \<Rightarrow> CType option \<Rightarrow> string \<Rightarrow> 'ty emitted" where
  "emit_jump ty name abi params result target =
    \<lparr>em_signature = declare_fn name abi params result, em_body = NakedJump target ty\<rparr>"

definition emit_call ::
    "'ty option \<Rightarrow> string \<Rightarrow> CType list \<Rightarrow> CType option \<Rightarrow> string \<Rightarrow> 'ty emitted" where
  "emit_call ty name params result target =
    \<lparr>em_signature = declare_fn name AbiC params result,
     em_body = ForwardCall target ty [0..<length params]\<rparr>"

definition level1_emitted :: "'ty \<Rightarrow> 'ty emitted list" where
  "level1_emitted ty =
    [emit_jump ty ''_Unwind_RaiseException'' AbiUnwind [TyException] (Some TyReason) ''entry::raise'',
     emit_jump ty ''_Unwind_ForcedUnwind'' AbiUnwind [TyException, TyStop, TyVoidPtr] (Some TyReason) ''entry::force'',
     emit_jump ty ''_Unwind_Resume'' AbiUnwind [TyException] None ''entry::resume'',
     emit_jump ty ''_Unwind_Resume_or_Rethrow'' AbiUnwind [TyException] (Some TyReason) ''entry::rethrow'',
     emit_call None ''_Unwind_DeleteException'' [TyException] None ''runtime::delete'',
     emit_call (Some ty) ''_Unwind_GetGR'' [TyContext, TyInt] (Some TyUsize) ''runtime::reg'',
     emit_call (Some ty) ''_Unwind_SetGR'' [TyContext, TyInt, TyUsize] None ''runtime::write'',
     emit_call (Some ty) ''_Unwind_GetIP'' [TyContext] (Some TyUsize) ''runtime::ip'',
     emit_call (Some ty) ''_Unwind_GetIPInfo'' [TyContext, TyIntPtr] (Some TyUsize) ''runtime::info'',
     emit_call (Some ty) ''_Unwind_SetIP'' [TyContext, TyUsize] None ''runtime::jump'',
     emit_call (Some ty) ''_Unwind_GetCFA'' [TyContext] (Some TyUsize) ''runtime::cfa'',
     emit_call (Some ty) ''_Unwind_GetLanguageSpecificData'' [TyContext] (Some TyBytePtr) ''runtime::lsda'',
     emit_call (Some ty) ''_Unwind_GetRegionStart'' [TyContext] (Some TyUsize) ''runtime::start'',
     emit_call (Some ty) ''_Unwind_GetTextRelBase'' [TyContext] (Some TyUsize) ''runtime::text'',
     emit_call (Some ty) ''_Unwind_GetDataRelBase'' [TyContext] (Some TyUsize) ''runtime::data'',
     emit_jump ty ''_Unwind_Backtrace'' AbiC [TyTrace, TyVoidPtr] (Some TyReason) ''entry::trace'']"

section \<open>Validation\<close>

datatype PathArguments = NoPathArguments | OtherPathArguments

record segment =
  seg_ident :: string
  seg_arguments :: PathArguments

record ('ty, 'rest) item_impl =
  impl_defaultness :: bool
  impl_polarity :: bool
  impl_unsafety :: bool
  impl_params :: "string list"
  impl_where_clause :: bool
  impl_trait :: "segment list option"
  impl_self_ty :: 'ty
  impl_rest :: 'rest

datatype MacroError = NoArgumentsAccepted | NoModifiersAccepted | UnsafeImplRequired | ConcreteImplRequired
  | UnwinderRequired

definition names_unwinder :: "segment list \<Rightarrow> bool" where
  "names_unwinder segments \<longleftrightarrow>
    (case segments of
       [root, module, runtime, target] \<Rightarrow>
         seg_ident root = ''desenredo'' \<and> seg_ident module = ''unwind'' \<and>
         seg_ident runtime = ''runtime'' \<and> seg_ident target = ''Unwinder'' \<and>
         seg_arguments root = NoPathArguments \<and> seg_arguments module = NoPathArguments \<and>
         seg_arguments runtime = NoPathArguments \<and> seg_arguments target = NoPathArguments
     | _ \<Rightarrow> False)"

definition macro_validate :: "('ty, 'rest) item_impl \<Rightarrow> MacroError + unit" where
  "macro_validate item =
    (let modifier = (\<not> impl_defaultness item \<and> \<not> impl_polarity item);
         unsafe = impl_unsafety item;
         generic = (impl_params item = [] \<and> \<not> impl_where_clause item);
         target = (case impl_trait item of Some path \<Rightarrow> names_unwinder path | None \<Rightarrow> False)
     in case (modifier, unsafe, generic, target) of
          (True, True, True, True) \<Rightarrow> Inr ()
        | (False, _, _, _) \<Rightarrow> Inl NoModifiersAccepted
        | (_, False, _, _) \<Rightarrow> Inl UnsafeImplRequired
        | (_, _, False, _) \<Rightarrow> Inl ConcreteImplRequired
        | (_, _, _, False) \<Rightarrow> Inl UnwinderRequired)"

definition macro_expand ::
    "string list \<Rightarrow> ('ty, 'rest) item_impl \<Rightarrow> MacroError + (('ty, 'rest) item_impl \<times> 'ty emitted list)" where
  "macro_expand args item =
    (if args \<noteq> [] then Inl NoArgumentsAccepted
     else (case macro_validate item of
             Inl e \<Rightarrow> Inl e
           | Inr _ \<Rightarrow> Inr (item, level1_emitted (impl_self_ty item))))"

section \<open>What is emitted\<close>

fun jumps :: "'ty emitted \<Rightarrow> bool" where
  "jumps e = (case em_body e of NakedJump _ _ \<Rightarrow> True | _ \<Rightarrow> False)"

lemma emitted_signatures: "map em_signature (level1_emitted ty) = level1_declared"
  by (simp add: level1_emitted_def level1_declared_def emit_jump_def emit_call_def)

lemma declared_distinct: "distinct (map sig_name level1_declared)"
  by (simp add: level1_declared_def declare_fn_def)

lemma validate_accepts:
  "macro_validate item = Inr u \<longleftrightarrow>
    \<not> impl_defaultness item \<and> \<not> impl_polarity item \<and> impl_unsafety item \<and> impl_params item = [] \<and>
    \<not> impl_where_clause item \<and> (\<exists>path. impl_trait item = Some path \<and> names_unwinder path)"
  by (auto simp: macro_validate_def Let_def split: bool.splits option.splits)

text \<open>The path of the trait, spelled out.\<close>

lemma names_unwinder_iff:
  "names_unwinder path \<longleftrightarrow> path = map (\<lambda>name. \<lparr>seg_ident = name, seg_arguments = NoPathArguments\<rparr>)
    [''desenredo'', ''unwind'', ''runtime'', ''Unwinder'']"
  by (auto simp: names_unwinder_def split: list.split)

text \<open>C40. The attribute accepts exactly an unsafe, unmodified, non-generic implementation of
  \<open>desenredo::unwind::runtime::Unwinder\<close>, a path of those four names without arguments, without
  arguments of its own; it keeps the implementation and
  emits beside it every declared Level I function once, with the declared calling convention,
  parameters and result, those that capture their caller's registers as jumps to the
  architecture's entries at the implementing type.\<close>

theorem attribute_provides_level1:
  "((\<exists>es. macro_expand args item = Inr (item, es)) \<longleftrightarrow>
      args = [] \<and> \<not> impl_defaultness item \<and> \<not> impl_polarity item \<and> impl_unsafety item \<and>
      impl_params item = [] \<and> \<not> impl_where_clause item \<and>
      impl_trait item = Some (map (\<lambda>name. \<lparr>seg_ident = name, seg_arguments = NoPathArguments\<rparr>)
        [''desenredo'', ''unwind'', ''runtime'', ''Unwinder''])) \<and>
   (macro_expand args item = Inr (item', es) \<longrightarrow>
      item' = item \<and> map em_signature es = level1_declared \<and> distinct (map (sig_name \<circ> em_signature) es) \<and>
      [(sig_name (em_signature e), em_body e). e \<leftarrow> es, jumps e] =
        [(''_Unwind_RaiseException'', NakedJump ''entry::raise'' (impl_self_ty item)),
         (''_Unwind_ForcedUnwind'', NakedJump ''entry::force'' (impl_self_ty item)),
         (''_Unwind_Resume'', NakedJump ''entry::resume'' (impl_self_ty item)),
         (''_Unwind_Resume_or_Rethrow'', NakedJump ''entry::rethrow'' (impl_self_ty item)),
         (''_Unwind_Backtrace'', NakedJump ''entry::trace'' (impl_self_ty item))])"
proof (intro conjI impI)
  show "(\<exists>es. macro_expand args item = Inr (item, es)) \<longleftrightarrow>
      args = [] \<and> \<not> impl_defaultness item \<and> \<not> impl_polarity item \<and> impl_unsafety item \<and>
      impl_params item = [] \<and> \<not> impl_where_clause item \<and>
      impl_trait item = Some (map (\<lambda>name. \<lparr>seg_ident = name, seg_arguments = NoPathArguments\<rparr>)
        [''desenredo'', ''unwind'', ''runtime'', ''Unwinder''])"
    using validate_accepts[of item] unfolding names_unwinder_iff
    by (cases "macro_validate item") (auto simp: macro_expand_def)
next
  assume ok: "macro_expand args item = Inr (item', es)"
  then have es: "item' = item" "es = level1_emitted (impl_self_ty item)"
    by (auto simp: macro_expand_def split: if_splits sum.splits)
  then show "item' = item" "map em_signature es = level1_declared"
    by (simp_all add: emitted_signatures)
  then show "distinct (map (sig_name \<circ> em_signature) es)"
    using declared_distinct by (simp flip: map_map)
  show "[(sig_name (em_signature e), em_body e). e \<leftarrow> es, jumps e] =
        [(''_Unwind_RaiseException'', NakedJump ''entry::raise'' (impl_self_ty item)),
         (''_Unwind_ForcedUnwind'', NakedJump ''entry::force'' (impl_self_ty item)),
         (''_Unwind_Resume'', NakedJump ''entry::resume'' (impl_self_ty item)),
         (''_Unwind_Resume_or_Rethrow'', NakedJump ''entry::rethrow'' (impl_self_ty item)),
         (''_Unwind_Backtrace'', NakedJump ''entry::trace'' (impl_self_ty item))]"
    by (simp add: es(2) level1_emitted_def emit_jump_def emit_call_def declare_fn_def)
qed

definition ex_impl :: "(string, unit) item_impl" where
  "ex_impl = \<lparr>impl_defaultness = False, impl_polarity = False, impl_unsafety = True, impl_params = [],
    impl_where_clause = False,
    impl_trait = Some (map (\<lambda>s. \<lparr>seg_ident = s, seg_arguments = NoPathArguments\<rparr>)
      [''desenredo'', ''unwind'', ''runtime'', ''Unwinder'']),
    impl_self_ty = ''ProcessImage'', impl_rest = ()\<rparr>"

theorem attribute_provides_level1_witness:
  "\<exists>es. macro_expand [] ex_impl = Inr (ex_impl, es) \<and> length es = 16"
proof -
  obtain es where es: "macro_expand [] ex_impl = Inr (ex_impl, es)"
    using attribute_provides_level1[of "[]" ex_impl ex_impl "[]"] by (auto simp: ex_impl_def names_unwinder_def)
  with attribute_provides_level1[of "[]" ex_impl ex_impl es] have "length (map em_signature es) = 16"
    by (simp add: level1_declared_def)
  with es show ?thesis by simp
qed

end
