(* ===== verification/Linkage.thy ===== *)
theory Linkage
  imports Expand Level1 Entry Example
begin

text \<open>
  The exported symbols put together with the functions they forward to: the thin functions of
  \<open>desenredo-unwind/src/runtime.rs\<close> that the attribute's code names, as tables over values of
  the ABI's types, and the call of an exported symbol through its emitted body.  A call on
  values that no function of that name takes is the outer \<open>None\<close>.
\<close>

section \<open>Values\<close>

text \<open>A context is what its pointer points to, \<open>None\<close> when null; of an integer pointer only whether
  it is null matters.\<close>

datatype abi_value = VException usize | VContext "Callback option" | VReason ReasonCode | VStop usize
  | VTrace usize | VVoidPtr usize | VInt c_int | VIntPtr bool | VUsize usize | VBytePtr usize

fun value_type :: "abi_value \<Rightarrow> CType" where
  "value_type (VException _) = TyException"
| "value_type (VContext _) = TyContext"
| "value_type (VReason _) = TyReason"
| "value_type (VStop _) = TyStop"
| "value_type (VTrace _) = TyTrace"
| "value_type (VVoidPtr _) = TyVoidPtr"
| "value_type (VInt _) = TyInt"
| "value_type (VIntPtr _) = TyIntPtr"
| "value_type (VUsize _) = TyUsize"
| "value_type (VBytePtr _) = TyBytePtr"

text \<open>How a call ends: it returns, with the context and what is stored through an integer pointer,
  or transfers control, stops the process, or does not come back.\<close>

datatype 'w response =
    Answers "abi_value option" "Callback option" "c_int option" "'w world"
  | Leaves_to Registers "'w world" | Aborts | Diverges

definition response_typed :: "CType option \<Rightarrow> 'w response \<Rightarrow> bool" where
  "response_typed t r \<longleftrightarrow> (case r of Answers v _ _ _ \<Rightarrow> map_option value_type v = t | _ \<Rightarrow> True)"

definition reads_context :: "'w world \<Rightarrow> Callback option \<Rightarrow> abi_value \<Rightarrow> 'w response option" where
  "reads_context w context v = Some (Answers (Some v) context None w)"

section \<open>The runtime's functions\<close>

definition runtime_delete :: "'w routines \<Rightarrow> usize \<Rightarrow> 'w world \<Rightarrow> 'w response" where
  "runtime_delete R exception w =
    (case delete_exception R exception w of
       Some w' \<Rightarrow> Answers None None None w'
     | None \<Rightarrow> Diverges)"

definition runtime_function ::
    "'w machine \<Rightarrow> 'w routines \<Rightarrow> 'w world \<Rightarrow> string \<Rightarrow> abi_value list \<Rightarrow> 'w response option" where
  "runtime_function U R w name args = (let L = u_lib U in
    case args of
      [VException exception] \<Rightarrow>
        if name = ''runtime::delete'' then Some (runtime_delete R exception w) else None
    | [VContext context, VInt index] \<Rightarrow>
        if name = ''runtime::reg'' then reads_context w context (VUsize (context_reg L context index))
        else None
    | [VContext context, VInt index, VUsize value] \<Rightarrow>
        if name = ''runtime::write'' then Some (Answers None (context_write L context index value) None w)
        else None
    | [VContext context, VIntPtr before] \<Rightarrow>
        if name = ''runtime::info'' then
          (case context_info context before of
             (address, stored) \<Rightarrow> Some (Answers (Some (VUsize address)) context stored w))
        else None
    | [VContext context, VUsize value] \<Rightarrow>
        if name = ''runtime::jump'' then Some (Answers None (context_jump L context value) None w)
        else None
    | [VContext context] \<Rightarrow>
        if name = ''runtime::ip'' then reads_context w context (VUsize (context_ip context))
        else if name = ''runtime::cfa'' then reads_context w context (VUsize (context_cfa L context))
        else if name = ''runtime::lsda'' then reads_context w context (VBytePtr (context_lsda U w context))
        else if name = ''runtime::start'' then
          reads_context w context (VUsize (context_start (u_gimli U) context))
        else if name = ''runtime::text'' then reads_context w context (VUsize (context_text context))
        else if name = ''runtime::data'' then reads_context w context (VUsize (context_data context))
        else None
    | _ \<Rightarrow> None)"

text \<open>The five functions the architecture's entries continue in, from the captured state.\<close>

definition walk_response :: "'w outcome option \<Rightarrow> 'w response" where
  "walk_response result =
    (case result of
       None \<Rightarrow> Diverges
     | Some (Returned reason w) \<Rightarrow> Answers (Some (VReason reason)) None None w
     | Some (Transferred registers w) \<Rightarrow> Leaves_to registers w
     | Some Trapped \<Rightarrow> Aborts)"

definition trace_response :: "(ReasonCode \<times> 'w world) option \<Rightarrow> 'w response" where
  "trace_response result =
    (case result of None \<Rightarrow> Diverges | Some (reason, w) \<Rightarrow> Answers (Some (VReason reason)) None None w)"

definition runtime_entry ::
    "'w machine \<Rightarrow> 'w routines \<Rightarrow> State \<Rightarrow> 'w world \<Rightarrow> string \<Rightarrow> abi_value list \<Rightarrow> 'w response option" where
  "runtime_entry U R state w name args =
    (case args of
       [VException exception] \<Rightarrow>
         if name = ''runtime::raise'' then Some (walk_response (walk_raise U R state exception w))
         else if name = ''runtime::resume'' then Some (walk_response (walk_resume U R state exception w))
         else if name = ''runtime::rethrow'' then Some (walk_response (walk_rethrow U R state exception w))
         else None
     | [VException exception, VStop stop, VVoidPtr parameter] \<Rightarrow>
         if name = ''runtime::force'' then
           Some (walk_response (walk_forced U R state exception stop parameter w))
         else None
     | [VTrace visit, VVoidPtr parameter] \<Rightarrow>
         if name = ''runtime::trace'' then Some (trace_response (walk_trace U R state visit parameter w))
         else None
     | _ \<Rightarrow> None)"

section \<open>Calling an exported symbol\<close>

text \<open>The runtime function that the continuation of each entry trampoline, its \<open>next\<close> operand, calls.\<close>

definition entry_continues :: "string \<Rightarrow> string" where
  "entry_continues name =
    (if name = ''entry::raise'' then ''runtime::raise''
     else if name = ''entry::force'' then ''runtime::force''
     else if name = ''entry::resume'' then ''runtime::resume''
     else if name = ''entry::rethrow'' then ''runtime::rethrow''
     else if name = ''entry::trace'' then ''runtime::trace''
     else [])"

fun perform ::
    "'w machine \<Rightarrow> 'w routines \<Rightarrow> State \<Rightarrow> 'w world \<Rightarrow> 'ty body \<Rightarrow> abi_value list \<Rightarrow> 'w response option" where
  "perform U R state w (NakedJump entry ty) args = runtime_entry U R state w (entry_continues entry) args"
| "perform U R state w (ForwardCall callee ty indices) args =
    runtime_function U R w callee (map ((!) args) indices)"

definition symbol_named :: "'ty \<Rightarrow> string \<Rightarrow> 'ty emitted option" where
  "symbol_named ty name = List.find (\<lambda>e. sig_name (em_signature e) = name) (level1_emitted ty)"

text \<open>A call resolved by the linker, from code whose registers at the call are \<open>state\<close>.\<close>

definition call_symbol ::
    "'ty \<Rightarrow> 'w machine \<Rightarrow> 'w routines \<Rightarrow> State \<Rightarrow> 'w world \<Rightarrow> string \<Rightarrow> abi_value list \<Rightarrow> 'w response option" where
  "call_symbol ty U R state w name args =
    Option.bind (symbol_named ty name) (\<lambda>e. perform U R state w (em_body e) args)"

section \<open>Exported calls are well typed\<close>

fun_cases value_typeE:
  "value_type v = TyException" "value_type v = TyContext" "value_type v = TyStop" "value_type v = TyTrace"
  "value_type v = TyVoidPtr" "value_type v = TyInt" "value_type v = TyIntPtr" "value_type v = TyUsize"

lemma responses_typed [simp]:
  "response_typed (Some TyReason) (walk_response out)"
  "response_typed (Some TyReason) (trace_response traced)"
  "response_typed None (runtime_delete R exception w)"
  by (auto simp: response_typed_def walk_response_def trace_response_def runtime_delete_def
      split: option.splits outcome.splits)

lemma resume_typed [simp]: "response_typed None (walk_response (walk_resume U R state exception w))"
  using resume_not_returned[of U R state exception w]
  by (auto simp: response_typed_def walk_response_def split: option.splits outcome.splits)

lemma answers_typed [simp]:
  "response_typed t (Answers v c stored w) \<longleftrightarrow> map_option value_type v = t"
  by (simp add: response_typed_def)

lemma map_types_cases:
  "map value_type args = [] \<longleftrightarrow> args = []"
  "map value_type args = t # ts \<longleftrightarrow> (\<exists>v vs. args = v # vs \<and> value_type v = t \<and> map value_type vs = ts)"
  by auto

text \<open>C9. Calls of exported symbols are well typed: whatever exported function is called on values of
  its declared parameter types, its body calls a runtime function that takes them, and what comes
  back is a value of the declared result type, none where there is none.\<close>

theorem exported_calls_typed:
  assumes "e \<in> set (level1_emitted ty)" "map value_type args = sig_params (em_signature e)"
  shows "\<exists>r. perform U R state w (em_body e) args = Some r \<and> response_typed (sig_result (em_signature e)) r"
  using assms
  by (auto simp: level1_emitted_def emit_jump_def emit_call_def declare_fn_def map_types_cases
      entry_continues_def runtime_entry_def runtime_function_def reads_context_def Let_def
      elim!: value_typeE split: prod.split)

theorem exported_calls_typed_witness:
  "\<exists>r. perform ex_machine ex_routines ex_state ex_world
      (ForwardCall ''runtime::lsda'' (Some ''Image'') [0]) [VContext None] = Some r \<and>
    response_typed (Some TyBytePtr) r"
  using exported_calls_typed[of "emit_call (Some ''Image'') ''_Unwind_GetLanguageSpecificData'' [TyContext]
      (Some TyBytePtr) ''runtime::lsda''" "''Image''" "[VContext None]" ex_machine ex_routines ex_state ex_world]
  by (simp add: level1_emitted_def emit_call_def declare_fn_def)

section \<open>Linking\<close>

definition answer_word :: "'w response option \<Rightarrow> usize" where
  "answer_word r =
    (case r of
       Some (Answers (Some (VUsize v)) _ _ _) \<Rightarrow> v
     | Some (Answers (Some (VBytePtr v)) _ _ _) \<Rightarrow> v
     | _ \<Rightarrow> 0)"

definition answer_context :: "'w response option \<Rightarrow> Callback \<Rightarrow> Callback" where
  "answer_context r callback = (case r of Some (Answers _ (Some callback') _ _) \<Rightarrow> callback' | _ \<Rightarrow> callback)"

definition answer_stored :: "'w response option \<Rightarrow> c_int" where
  "answer_stored r = (case r of Some (Answers _ _ (Some stored) _) \<Rightarrow> stored | _ \<Rightarrow> 0)"

text \<open>The functions a personality declares, resolved to the exported symbols.\<close>

definition exported_level1 ::
    "'ty \<Rightarrow> 'w machine \<Rightarrow> 'w routines \<Rightarrow> State \<Rightarrow> 'w world \<Rightarrow> context_state level1" where
  "exported_level1 ty U R state w = (let call = call_symbol ty U R state w in
    \<lparr>l1_ip_info = (\<lambda>(cb, ws). let r = call ''_Unwind_GetIPInfo'' [VContext (Some cb), VIntPtr True]
        in (answer_word r, answer_stored r)),
     l1_start = (\<lambda>(cb, ws). answer_word (call ''_Unwind_GetRegionStart'' [VContext (Some cb)])),
     l1_text = (\<lambda>(cb, ws). answer_word (call ''_Unwind_GetTextRelBase'' [VContext (Some cb)])),
     l1_data = (\<lambda>(cb, ws). answer_word (call ''_Unwind_GetDataRelBase'' [VContext (Some cb)])),
     l1_cfa = (\<lambda>(cb, ws). answer_word (call ''_Unwind_GetCFA'' [VContext (Some cb)])),
     l1_lsda = (\<lambda>(cb, ws). answer_word (call ''_Unwind_GetLanguageSpecificData'' [VContext (Some cb)])),
     l1_get_gr = (\<lambda>(cb, ws) index.
       answer_word (call ''_Unwind_GetGR'' [VContext (Some cb), VInt index])),
     l1_set_gr = (\<lambda>(cb, ws) index value.
       (answer_context (call ''_Unwind_SetGR'' [VContext (Some cb), VInt index, VUsize value]) cb,
        ws @ [(index, value)])),
     l1_set_ip = (\<lambda>(cb, ws) value.
       (answer_context (call ''_Unwind_SetIP'' [VContext (Some cb), VUsize value]) cb,
        ws @ [(ucast (x86_64 (u_lib U) RA), value)]))\<rparr>)"

lemmas exported_call = call_symbol_def symbol_named_def level1_emitted_def emit_jump_def emit_call_def
  declare_fn_def runtime_function_def reads_context_def Let_def

lemma exported_reads:
  "answer_word (call_symbol ty U R s w ''_Unwind_GetRegionStart'' [VContext c]) = context_start (u_gimli U) c"
  "answer_word (call_symbol ty U R s w ''_Unwind_GetTextRelBase'' [VContext c]) = context_text c"
  "answer_word (call_symbol ty U R s w ''_Unwind_GetDataRelBase'' [VContext c]) = context_data c"
  "answer_word (call_symbol ty U R s w ''_Unwind_GetCFA'' [VContext c]) = context_cfa (u_lib U) c"
  "answer_word (call_symbol ty U R s w ''_Unwind_GetLanguageSpecificData'' [VContext c]) = context_lsda U w c"
  "answer_word (call_symbol ty U R s w ''_Unwind_GetGR'' [VContext c, VInt i]) = context_reg (u_lib U) c i"
  by (simp_all add: exported_call answer_word_def)

lemma exported_info:
  "answer_word (call_symbol ty U R s w ''_Unwind_GetIPInfo'' [VContext (Some cb), VIntPtr True]) =
    fst (context_info (Some cb) True)"
  "answer_stored (call_symbol ty U R s w ''_Unwind_GetIPInfo'' [VContext (Some cb), VIntPtr True]) =
    (case snd (context_info (Some cb) True) of Some flag \<Rightarrow> flag | None \<Rightarrow> 0)"
  by (simp_all add: exported_call answer_word_def answer_stored_def split: prod.split option.split)

lemma exported_writes:
  "answer_context (call_symbol ty U R s w ''_Unwind_SetGR'' [VContext (Some cb), VInt i, VUsize v]) cb =
    callback_set (u_lib U) cb i v"
  "answer_context (call_symbol ty U R s w ''_Unwind_SetIP'' [VContext (Some cb), VUsize v]) cb =
    callback_set (u_lib U) cb (ucast (x86_64 (u_lib U) RA)) v"
  by (simp_all add: exported_call answer_context_def context_write_def context_jump_def)

lemma exported_entries:
  "call_symbol ty U R s w ''_Unwind_RaiseException'' [VException e] = Some (walk_response (walk_raise U R s e w))"
  "call_symbol ty U R s w ''_Unwind_Resume'' [VException e] = Some (walk_response (walk_resume U R s e w))"
  "call_symbol ty U R s w ''_Unwind_Resume_or_Rethrow'' [VException e] =
    Some (walk_response (walk_rethrow U R s e w))"
  "call_symbol ty U R s w ''_Unwind_ForcedUnwind'' [VException e, VStop stop, VVoidPtr p] =
    Some (walk_response (walk_forced U R s e stop p w))"
  "call_symbol ty U R s w ''_Unwind_Backtrace'' [VTrace visit, VVoidPtr p] =
    Some (trace_response (walk_trace U R s visit p w))"
  "call_symbol ty U R s w ''_Unwind_DeleteException'' [VException e] = Some (runtime_delete R e w)"
  by (simp_all add: exported_call entry_continues_def runtime_entry_def)

text \<open>C8. The exported symbols are the runtime: a personality linked against them sees exactly the
  runtime's view of its callback, and raising, forcing, resuming, rethrowing, tracing and
  deleting through them are the runtime's traversals from the state of the calling code.\<close>

theorem exported_symbols_are_runtime:
  "exported_level1 ty U R s w = runtime_level1 U w \<and>
   call_symbol ty U R (entry_state m registers) w ''_Unwind_RaiseException'' [VException e] =
     Some (walk_response (dispatch_raise U R m registers e w)) \<and>
   call_symbol ty U R (entry_state m registers) w ''_Unwind_Resume'' [VException e] =
     Some (walk_response (dispatch_resume U R m registers e w)) \<and>
   call_symbol ty U R (entry_state m registers) w ''_Unwind_Resume_or_Rethrow'' [VException e] =
     Some (walk_response (dispatch_rethrow U R m registers e w)) \<and>
   call_symbol ty U R (entry_state m registers) w ''_Unwind_ForcedUnwind'' [VException e, VStop stop, VVoidPtr p] =
     Some (walk_response (dispatch_force U R m registers e stop p w)) \<and>
   call_symbol ty U R (entry_state m registers) w ''_Unwind_Backtrace'' [VTrace visit, VVoidPtr p] =
     Some (trace_response (dispatch_trace U R m registers visit p w)) \<and>
   call_symbol ty U R s w ''_Unwind_DeleteException'' [VException e] = Some (runtime_delete R e w)"
proof -
  have "exported_level1 ty U R s w = runtime_level1 U w"
    by (simp add: exported_level1_def runtime_level1_def Let_def exported_reads exported_info exported_writes
        case_prod_beta)
  then show ?thesis
    by (simp add: exported_entries dispatch_raise_def dispatch_resume_def dispatch_rethrow_def
        dispatch_force_def dispatch_trace_def)
qed

end
