(* ===== verification/CxxRuntime.thy ===== *)
theory CxxRuntime
  imports Prelude
begin

text \<open>
  Ownership of C++ exception storage (\<open>desenredo-cxx/src/runtime.rs\<close>, \<open>rtti.rs\<close>): the runtime
  capability, the one linked from the C++ ABI, the owner of one allocation and its \<open>Drop\<close>, and
  the example that throws an \<open>int\<close> (\<open>examples/cxx_throw.rs\<close>).  The Level II functions are
  parameters.  What breaks their contract (a free of storage that is not owned, a throw that
  returns) has no result, \<open>None\<close>.
\<close>

section \<open>Runtimes\<close>

datatype TypeInfoRef = TypeInfoRef usize

fun typeinfo_ptr :: "TypeInfoRef \<Rightarrow> usize" where
  "typeinfo_ptr (TypeInfoRef raw) = raw"

text \<open>The Level II symbols of \<open>abi.rs\<close>; \<open>__cxa_throw\<close> leaves the process state in which unwinding
  starts.\<close>

record 's cxa =
  cxa_allocate_exception :: "usize \<Rightarrow> 's \<Rightarrow> (usize \<times> 's) option"
  cxa_free_exception :: "usize \<Rightarrow> 's \<Rightarrow> 's option"
  cxa_throw :: "usize \<Rightarrow> usize \<Rightarrow> usize option \<Rightarrow> 's \<Rightarrow> 's option"

text \<open>The trait \<open>ExceptionRuntime\<close>.\<close>

record 's exception_runtime =
  er_alloc :: "usize \<Rightarrow> 's \<Rightarrow> (usize \<times> 's) option"
  er_free :: "usize \<Rightarrow> 's \<Rightarrow> 's option"
  er_throw :: "usize \<Rightarrow> TypeInfoRef \<Rightarrow> usize option \<Rightarrow> 's \<Rightarrow> 's option"

definition linked_runtime :: "'s cxa \<Rightarrow> 's exception_runtime" where
  "linked_runtime C = \<lparr>
    er_alloc = (\<lambda>bytes s. cxa_allocate_exception C bytes s),
    er_free = (\<lambda>exception s. cxa_free_exception C exception s),
    er_throw = (\<lambda>exception type_info destructor s.
      cxa_throw C exception (typeinfo_ptr type_info) destructor s)\<rparr>"

section \<open>Owners\<close>

datatype Allocation = Allocation usize

definition allocation_new :: "'s exception_runtime \<Rightarrow> usize \<Rightarrow> 's \<Rightarrow> (Allocation \<times> 's) option" where
  "allocation_new R bytes s = map_option (\<lambda>(raw, s). (Allocation raw, s)) (er_alloc R bytes s)"

fun allocation_ptr :: "Allocation \<Rightarrow> usize" where
  "allocation_ptr (Allocation raw) = raw"

text \<open>\<open>ManuallyDrop\<close>: the owner is consumed without its \<open>Drop\<close>.\<close>

fun allocation_throw ::
    "'s exception_runtime \<Rightarrow> Allocation \<Rightarrow> TypeInfoRef \<Rightarrow> usize option \<Rightarrow> 's \<Rightarrow> 's option" where
  "allocation_throw R (Allocation raw) type_info destructor s = er_throw R raw type_info destructor s"

fun allocation_drop :: "'s exception_runtime \<Rightarrow> Allocation \<Rightarrow> 's \<Rightarrow> 's option" where
  "allocation_drop R (Allocation raw) s = er_free R raw s"

text \<open>\<open>throw_int\<close>: the panic of a null RTTI pointer drops the owner on its way out.\<close>

datatype 's thrown = Throws 's | Panics 's

definition throw_int ::
    "'s exception_runtime \<Rightarrow> (usize \<Rightarrow> c_int \<Rightarrow> 's \<Rightarrow> 's) \<Rightarrow> usize \<Rightarrow> 's \<Rightarrow> 's thrown option" where
  "throw_int R store int_type_info s =
    Option.bind (allocation_new R 4 s) (\<lambda>(allocation, s).
      let object = allocation_ptr allocation;
          s = store object 42 s
      in case nonzero int_type_info of
           None \<Rightarrow> map_option Panics (allocation_drop R allocation s)
         | Some info \<Rightarrow> map_option Throws (allocation_throw R allocation (TypeInfoRef info) None s))"

section \<open>The contract\<close>

text \<open>What the trait demands of an implementation: storage it hands out is nonnull and owned by
  nobody, owned storage may be freed or thrown and is not owned afterwards.  \<open>live\<close> is the owned
  storage and \<open>flying\<close> what has been handed over to unwinding, both as the runtime keeps them.\<close>

locale exception_contract =
  fixes R :: "'s exception_runtime" and live :: "'s \<Rightarrow> usize set" and flying :: "'s \<Rightarrow> usize list"
  assumes alloc: "er_alloc R n s = Some (p, s') \<Longrightarrow>
      p \<noteq> 0 \<and> p \<notin> live s \<and> live s' = insert p (live s) \<and> flying s' = flying s"
    and free: "p \<in> live s \<Longrightarrow> \<exists>s'. er_free R p s = Some s' \<and> live s' = live s - {p} \<and> flying s' = flying s"
    and throw: "p \<in> live s \<Longrightarrow>
      \<exists>s'. er_throw R p i d s = Some s' \<and> live s' = live s - {p} \<and> flying s' = p # flying s"

text \<open>The documented contract of the Level II symbols.\<close>

locale level2_laws =
  fixes C :: "'s cxa" and live :: "'s \<Rightarrow> usize set" and flying :: "'s \<Rightarrow> usize list"
  assumes allocate: "cxa_allocate_exception C n s = Some (p, s') \<Longrightarrow>
      p \<noteq> 0 \<and> p \<notin> live s \<and> live s' = insert p (live s) \<and> flying s' = flying s"
    and free_exception: "p \<in> live s \<Longrightarrow>
      \<exists>s'. cxa_free_exception C p s = Some s' \<and> live s' = live s - {p} \<and> flying s' = flying s"
    and throws: "p \<in> live s \<Longrightarrow>
      \<exists>s'. cxa_throw C p i d s = Some s' \<and> live s' = live s - {p} \<and> flying s' = p # flying s"

lemma linked_contract: "level2_laws C live flying \<Longrightarrow> exception_contract (linked_runtime C) live flying"
  by unfold_locales
     (simp_all add: linked_runtime_def level2_laws.allocate level2_laws.free_exception level2_laws.throws)

sublocale level2_laws \<subseteq> linked: exception_contract "linked_runtime C" live flying
  by (rule linked_contract) (rule level2_laws_axioms)

section \<open>Programs that own\<close>

text \<open>
  What safe code can do with owners: make one, write through its pointer, drop it, throw it.  A
  dropped or thrown owner is gone from the list.
\<close>

inductive owner_step ::
    "'s exception_runtime \<Rightarrow> ('s \<Rightarrow> 's \<Rightarrow> bool) \<Rightarrow> Allocation list \<times> 's \<Rightarrow> Allocation list \<times> 's \<Rightarrow> bool"
  for R writes where
  owner_new: "allocation_new R n s = Some (a, s') \<Longrightarrow> owner_step R writes (os, s) (a # os, s')"
| owner_write: "writes s s' \<Longrightarrow> owner_step R writes (os, s) (os, s')"
| owner_drop: "a \<in> set os \<Longrightarrow> allocation_drop R a s = Some s' \<Longrightarrow> owner_step R writes (os, s) (remove1 a os, s')"
| owner_throw: "a \<in> set os \<Longrightarrow> allocation_throw R a i d s = Some s' \<Longrightarrow>
    owner_step R writes (os, s) (remove1 a os, s')"

inductive_cases owner_stepE: "owner_step R writes (os, s) y"

context exception_contract
begin

text \<open>The owners are the live storage beyond what was live before, each once.\<close>

definition owned :: "'s \<Rightarrow> Allocation list \<times> 's \<Rightarrow> bool" where
  "owned s0 x \<longleftrightarrow> distinct (map allocation_ptr (fst x)) \<and>
    set (map allocation_ptr (fst x)) \<inter> live s0 = {} \<and> 0 \<notin> set (map allocation_ptr (fst x)) \<and>
    live (snd x) = live s0 \<union> set (map allocation_ptr (fst x))"

lemma owned_start: "owned s0 ([], s0)"
  by (simp add: owned_def)

lemma owner_live: "owned s0 (os, s) \<Longrightarrow> a \<in> set os \<Longrightarrow> allocation_ptr a \<in> live s"
  by (auto simp: owned_def)

lemma owner_drops: "owned s0 (os, s) \<Longrightarrow> a \<in> set os \<Longrightarrow> \<exists>s'. allocation_drop R a s = Some s' \<and>
    live s' = live s - {allocation_ptr a} \<and> flying s' = flying s"
  using owner_live[of s0 os s a] free by (cases a) auto

lemma owner_throws: "owned s0 (os, s) \<Longrightarrow> a \<in> set os \<Longrightarrow> \<exists>s'. allocation_throw R a i d s = Some s' \<and>
    live s' = live s - {allocation_ptr a} \<and> flying s' = allocation_ptr a # flying s"
  using owner_live[of s0 os s a] throw by (cases a) auto

lemma owned_remove:
  assumes "owned s0 (os, s)" "a \<in> set os" "live s' = live s - {allocation_ptr a}"
  shows "owned s0 (remove1 a os, s')"
proof -
  have d: "distinct os" and i: "inj_on allocation_ptr (set os)"
    using assms(1) by (simp_all add: owned_def distinct_map)
  then have "allocation_ptr ` set (remove1 a os) = allocation_ptr ` set os - {allocation_ptr a}"
    using assms(2) by (auto simp: inj_on_def)
  with assms d i show ?thesis
    by (auto simp: owned_def distinct_map inj_on_def)
qed

lemma owned_step:
  assumes "owner_step R writes x y" "owned s0 x"
    "\<And>s s'. writes s s' \<Longrightarrow> live s' = live s \<and> flying s' = flying s"
  shows "owned s0 y"
  using assms(1)
proof cases
  case (owner_new n s a s' os)
  then obtain p where p: "er_alloc R n s = Some (p, s')" "a = Allocation p" by (auto simp: allocation_new_def)
  from alloc[OF p(1)] owner_new p(2) assms(2) show ?thesis by (auto simp: owned_def)
next
  case (owner_write s s' os)
  with assms(2,3) show ?thesis by (simp add: owned_def)
next
  case (owner_drop a os s s')
  with assms(2) owner_drops[of s0 os s a] show ?thesis by (auto intro: owned_remove)
next
  case (owner_throw a os i d s s')
  with assms(2) owner_throws[of s0 os s a i d] show ?thesis by (auto intro: owned_remove)
qed

lemma owned_reachable:
  assumes "(owner_step R writes)\<^sup>*\<^sup>* ([], s0) y" "\<And>s s'. writes s s' \<Longrightarrow> live s' = live s \<and> flying s' = flying s"
  shows "owned s0 y"
  using assms(1) by (induction rule: rtranclp_induct) (auto intro: owned_start owned_step[OF _ _ assms(2)])

lemma throw_int_hands_over:
  assumes "er_alloc R 4 s = Some (p, s1)" "\<And>x v s. live (store x v s) = live s \<and> flying (store x v s) = flying s"
  shows "case throw_int R store info s of
      Some (Throws s') \<Rightarrow> info \<noteq> 0 \<and> live s' = live s \<and> flying s' = p # flying s
    | Some (Panics s') \<Rightarrow> info = 0 \<and> live s' = live s \<and> flying s' = flying s
    | None \<Rightarrow> False"
proof -
  from alloc[OF assms(1)] have p: "p \<notin> live s" "live s1 = insert p (live s)" "flying s1 = flying s" by auto
  let ?s = "store p 42 s1"
  have w: "live ?s = insert p (live s)" "flying ?s = flying s" using assms(2) p by simp_all
  obtain f where f: "er_free R p ?s = Some f" "live f = live ?s - {p}" "flying f = flying ?s"
    using free[of p ?s] w by auto
  obtain t where t: "er_throw R p (TypeInfoRef info) None ?s = Some t" "live t = live ?s - {p}"
    "flying t = p # flying ?s"
    using throw[of p ?s] w by blast
  from f t w p(1) show ?thesis
    by (simp add: throw_int_def allocation_new_def assms(1) nonzero_def)
qed

end

section \<open>A reference runtime\<close>

text \<open>A C++ runtime that never runs out: the owned blocks, those in flight, and the next address.\<close>

record cxx_heap =
  heap_live :: "usize list"
  heap_flying :: "usize list"

definition fresh_block :: "usize list \<Rightarrow> usize option" where
  "fresh_block taken = List.find (\<lambda>p. p \<notin> set taken) [0x1000, 0x1100, 0x1200, 0x1300]"

definition cxa_ref :: "cxx_heap cxa" where
  "cxa_ref = \<lparr>
    cxa_allocate_exception = (\<lambda>n s. map_option (\<lambda>p. (p, s\<lparr>heap_live := p # heap_live s\<rparr>)) (fresh_block (heap_live s))),
    cxa_free_exception = (\<lambda>p s. if p \<in> set (heap_live s)
      then Some (s\<lparr>heap_live := removeAll p (heap_live s)\<rparr>) else None),
    cxa_throw = (\<lambda>p i d s. if p \<in> set (heap_live s)
      then Some (s\<lparr>heap_live := removeAll p (heap_live s), heap_flying := p # heap_flying s\<rparr>) else None)\<rparr>"

lemma fresh_block_law: "fresh_block taken = Some p \<Longrightarrow> p \<noteq> 0 \<and> p \<notin> set taken"
  by (auto simp: fresh_block_def split: if_splits)

interpretation ref_cxa: level2_laws cxa_ref "\<lambda>s. set (heap_live s)" heap_flying
  by unfold_locales (auto simp: cxa_ref_def dest: fresh_block_law)

section \<open>Ownership of C++ exceptions\<close>

text \<open>C37. Exception storage has one owner: in every state a program reaches by allocating, writing
  through, dropping and throwing owners of the linked runtime, the owners name distinct live
  blocks, and exactly these beyond what was live before; each can be dropped, which frees its
  block, or thrown, which hands it over to unwinding, and is then owned no more, so that no block
  is ever freed twice, freed after a throw, or thrown twice.\<close>

theorem exception_storage_owned:
  assumes "level2_laws C live flying"
    "(owner_step (linked_runtime C) writes)\<^sup>*\<^sup>* ([], s0) (os, s)"
    "\<And>s s'. writes s s' \<Longrightarrow> live s' = live s \<and> flying s' = flying s"
  shows "distinct (map allocation_ptr os) \<and> set (map allocation_ptr os) \<inter> live s0 = {} \<and>
    live s = live s0 \<union> set (map allocation_ptr os) \<and>
    (\<forall>a\<in>set os.
      (\<exists>s'. allocation_drop (linked_runtime C) a s = Some s' \<and> live s' = live s - {allocation_ptr a} \<and>
         flying s' = flying s) \<and>
      (\<forall>i d. \<exists>s'. allocation_throw (linked_runtime C) a i d s = Some s' \<and>
         live s' = live s - {allocation_ptr a} \<and> flying s' = allocation_ptr a # flying s))"
proof -
  note contract = linked_contract[OF assms(1)]
  have o: "exception_contract.owned live s0 (os, s)"
    by (rule exception_contract.owned_reachable[OF contract assms(2,3)])
  then have "distinct (map allocation_ptr os)" "set (map allocation_ptr os) \<inter> live s0 = {}"
    "live s = live s0 \<union> set (map allocation_ptr os)"
    by (simp_all add: exception_contract.owned_def[OF contract])
  with exception_contract.owner_drops[OF contract o] exception_contract.owner_throws[OF contract o]
  show ?thesis by blast
qed

lemma ref_allocates:
  "allocation_new (linked_runtime cxa_ref) n \<lparr>heap_live = [], heap_flying = []\<rparr> =
    Some (Allocation 0x1000, \<lparr>heap_live = [0x1000], heap_flying = []\<rparr>)"
  by (simp add: allocation_new_def linked_runtime_def cxa_ref_def fresh_block_def)

theorem exception_storage_owned_witness:
  "\<exists>s'. allocation_drop (linked_runtime cxa_ref) (Allocation 0x1000) \<lparr>heap_live = [0x1000], heap_flying = []\<rparr> =
    Some s' \<and> set (heap_live s') = {}"
proof -
  have "(owner_step (linked_runtime cxa_ref) (\<lambda>_ _. False))\<^sup>*\<^sup>* ([], \<lparr>heap_live = [], heap_flying = []\<rparr>)
      ([Allocation 0x1000], \<lparr>heap_live = [0x1000], heap_flying = []\<rparr>)"
    by (rule r_into_rtranclp) (rule owner_new[OF ref_allocates])
  from exception_storage_owned[OF ref_cxa.level2_laws_axioms this] show ?thesis by auto
qed

text \<open>Throwing an \<open>int\<close> from storage this code allocated: with RTTI the exception in flight is the
  block allocated, handed over and not freed; without it the code panics and the block is freed;
  either way no storage stays with the thrower.\<close>

theorem cxx_throw_hands_over:
  assumes "level2_laws C live flying" "cxa_allocate_exception C 4 s = Some (p, s1)"
    "\<And>x v s. live (store x v s) = live s \<and> flying (store x v s) = flying s"
  shows "case throw_int (linked_runtime C) store info s of
      Some (Throws s') \<Rightarrow> info \<noteq> 0 \<and> live s' = live s \<and> flying s' = p # flying s
    | Some (Panics s') \<Rightarrow> info = 0 \<and> live s' = live s \<and> flying s' = flying s
    | None \<Rightarrow> False"
proof -
  have "er_alloc (linked_runtime C) 4 s = Some (p, s1)" by (simp add: linked_runtime_def assms(2))
  with exception_contract.throw_int_hands_over[of "linked_runtime C" live flying s p s1 store info]
    linked_contract[OF assms(1)] assms(3) show ?thesis by simp
qed

theorem cxx_throw_hands_over_witness:
  "\<exists>s'. throw_int (linked_runtime cxa_ref) (\<lambda>_ _ s. s) 0x7f0 \<lparr>heap_live = [], heap_flying = []\<rparr> = Some (Throws s') \<and>
    set (heap_live s') = {} \<and> heap_flying s' = [0x1000]"
proof -
  let ?s = "\<lparr>heap_live = [], heap_flying = []\<rparr>"
  have "cxa_allocate_exception cxa_ref 4 ?s = Some (0x1000, \<lparr>heap_live = [0x1000], heap_flying = []\<rparr>)"
    using ref_allocates[of 4] by (auto simp: allocation_new_def linked_runtime_def)
  from cxx_throw_hands_over[OF ref_cxa.level2_laws_axioms this, of "\<lambda>_ _ s. s" "0x7f0"]
  have h: "case throw_int (linked_runtime cxa_ref) (\<lambda>_ _ s. s) 0x7f0 ?s of
      Some (Throws s') \<Rightarrow> (0x7f0 :: usize) \<noteq> 0 \<and> set (heap_live s') = set (heap_live ?s) \<and>
        heap_flying s' = 0x1000 # heap_flying ?s
    | Some (Panics s') \<Rightarrow> (0x7f0 :: usize) = 0 \<and> set (heap_live s') = set (heap_live ?s) \<and>
        heap_flying s' = heap_flying ?s
    | None \<Rightarrow> False" by simp
  show ?thesis
  proof (cases "throw_int (linked_runtime cxa_ref) (\<lambda>_ _ s. s) 0x7f0 ?s")
    case (Some r)
    with h show ?thesis by (cases r) simp_all
  qed (use h in simp)
qed

end
