(* ===== verification/Backtrace.thy ===== *)
theory Backtrace
  imports TwoPhase
begin

text \<open>
  The allocation-free capture of a backtrace (\<open>examples/no-std-linux/src/backtrace.rs\<close>): a fixed
  array of frames, the callback that fills it from \<open>_Unwind_Backtrace\<close>, and the capture.  The
  array lives at an address of the process, which the callback gets as its parameter.
\<close>

section \<open>Program counters\<close>

datatype BacktraceError = BtWalk | BtOpen | BtSize | BtMap | BtObject | BtSection | BtDwarf | BtInterior

record ProgramCounter =
  pc_rip :: usize
  pc_relation :: Relation

definition pc_new :: "usize \<Rightarrow> bool \<Rightarrow> ProgramCounter option" where
  "pc_new rip before =
    map_option (\<lambda>rip. \<lparr>pc_rip = rip, pc_relation = (if before then Instruction else Return)\<rparr>) (nonzero rip)"

definition pc_probe :: "ProgramCounter \<Rightarrow> usize option" where
  "pc_probe self = relation_site (pc_relation self) (pc_rip self)"

definition pc_interior :: "ProgramCounter \<Rightarrow> bool" where
  "pc_interior self \<longleftrightarrow> pc_relation self = Return"

section \<open>Fixed storage\<close>

definition frame_limit :: nat where
  "frame_limit = 64"

record Trace =
  trace_slots :: "ProgramCounter option list"
  trace_len :: usize
  trace_truncated :: bool

definition trace_new :: Trace where
  "trace_new = \<lparr>trace_slots = replicate frame_limit None, trace_len = 0, trace_truncated = False\<rparr>"

definition trace_push :: "Trace \<Rightarrow> ProgramCounter \<Rightarrow> Trace" where
  "trace_push self frame =
    (if unat (trace_len self) < length (trace_slots self) then
       self\<lparr>trace_slots := (trace_slots self)[unat (trace_len self) := Some frame],
            trace_len := trace_len self + 1\<rparr>
     else self\<lparr>trace_truncated := True\<rparr>)"

definition trace_frames :: "Trace \<Rightarrow> ProgramCounter list" where
  "trace_frames self = List.map_filter id (trace_slots self)"

section \<open>The callback and the capture\<close>

type_synonym traces = "usize \<Rightarrow> Trace"

definition put_trace :: "usize \<Rightarrow> Trace \<Rightarrow> traces world \<Rightarrow> traces world" where
  "put_trace a trace w = w\<lparr>w_rest := (w_rest w)(a := trace)\<rparr>"

definition visit :: "Callback \<Rightarrow> usize \<Rightarrow> traces world \<Rightarrow> (ReasonCode \<times> writes \<times> traces world) option" where
  "visit context parameter w =
    (case context_info (Some context) True of (rip, stored) \<Rightarrow>
       (let before = (case stored of Some flag \<Rightarrow> flag | None \<Rightarrow> 0)
        in Some (rc_none, [], case pc_new rip (before \<noteq> 0) of
             Some frame \<Rightarrow> put_trace parameter (trace_push (w_rest w parameter) frame) w
           | None \<Rightarrow> w)))"

text \<open>The process has the callback at the address \<open>at\<close>.\<close>

definition visiting :: "usize \<Rightarrow> traces routines \<Rightarrow> traces routines" where
  "visiting at R = R\<lparr>r_trace := (r_trace R)(at := visit)\<rparr>"

definition capture ::
    "traces machine \<Rightarrow> traces routines \<Rightarrow> usize \<Rightarrow> usize \<Rightarrow> State \<Rightarrow> traces world
      \<Rightarrow> ((BacktraceError + Trace) \<times> traces world) option" where
  "capture U R at parameter state w =
    map_option (\<lambda>(reason, w). (if reason = rc_end then Inr (w_rest w parameter) else Inl BtWalk, w))
      (walk_trace U (visiting at R) state at parameter (put_trace parameter trace_new w))"

section \<open>What the storage holds\<close>

text \<open>The array after the frames \<open>ps\<close> have been pushed into an empty one.\<close>

definition holds :: "Trace \<Rightarrow> ProgramCounter list \<Rightarrow> bool" where
  "holds t ps \<longleftrightarrow>
    trace_slots t = map Some (take frame_limit ps) @ replicate (frame_limit - length ps) None \<and>
    trace_len t = of_nat (min frame_limit (length ps)) \<and>
    (trace_truncated t \<longleftrightarrow> frame_limit < length ps)"

lemma holds_new: "holds trace_new []"
  by (simp add: holds_def trace_new_def)

lemma holds_len:
  assumes "holds t ps"
  shows "unat (trace_len t) = min frame_limit (length ps)" "length (trace_slots t) = frame_limit"
proof -
  have "min frame_limit (length ps) < 2 ^ 64" by (simp add: frame_limit_def min_def)
  with assms show "unat (trace_len t) = min frame_limit (length ps)"
    by (simp add: holds_def unat_of_nat)
qed (use assms in \<open>auto simp: holds_def\<close>)

lemma holds_push:
  assumes "holds t ps"
  shows "holds (trace_push t p) (ps @ [p])"
proof (cases "length ps < frame_limit")
  case True
  then obtain k where k: "frame_limit - length ps = Suc k" by (cases "frame_limit - length ps") auto
  have "frame_limit - Suc (length ps) = k" using k by simp
  with True k assms holds_len[OF assms] show ?thesis
    by (simp add: trace_push_def holds_def list_update_append)
next
  case False
  with assms holds_len[OF assms] show ?thesis by (simp add: trace_push_def holds_def)
qed

lemma holds_frames:
  assumes "holds t ps"
  shows "trace_frames t = take frame_limit ps"
proof -
  have "List.map_filter id (map Some qs @ replicate n None) = (qs :: ProgramCounter list)" for qs n
    by (induction qs) (induction n, simp_all add: List.map_filter_def)
  with assms show ?thesis by (simp add: holds_def trace_frames_def)
qed

section \<open>The walk that fills it\<close>

lemma put_put [simp]: "put_trace a t' (put_trace a t w) = put_trace a t' w"
  by (simp add: put_trace_def)

lemma get_put [simp]: "w_rest (put_trace a t w) a = t"
  by (simp add: put_trace_def)

definition frame_pc :: "Cursor \<times> Info \<Rightarrow> ProgramCounter option" where
  "frame_pc f = pc_new (case cursor_ip (fst f) of Some ip \<Rightarrow> ip | None \<Rightarrow> 0)
    (relation_before (cursor_relation (fst f)))"

definition pushed :: "Trace \<Rightarrow> ProgramCounter option \<Rightarrow> Trace" where
  "pushed t frame = (case frame of Some p \<Rightarrow> trace_push t p | None \<Rightarrow> t)"

lemma visit_frame:
  "visit \<lparr>callback_cursor = c, callback_frame = Some info\<rparr> a (put_trace a t w) =
    Some (rc_none, [], put_trace a (pushed t (frame_pc (c, info))) w)"
  by (auto simp: visit_def context_info_def callback_pc_def frame_pc_def pushed_def Let_def
      split: option.splits)

text \<open>The unwinder does not look at the array.\<close>

definition unseen :: "traces machine \<Rightarrow> usize \<Rightarrow> traces world \<Rightarrow> bool" where
  "unseen U a w \<longleftrightarrow> (\<forall>t. same_view U w (put_trace a t w))"

definition push_frame :: "usize \<Rightarrow> Cursor \<times> Info \<Rightarrow> traces world \<Rightarrow> traces world" where
  "push_frame a f v = put_trace a (pushed (w_rest v a) (frame_pc f)) v"

lemma visit_acts:
  assumes "unseen U a w"
  shows "trace_acts (u_lib U) (visiting at R) at a (\<lambda>v. (\<exists>t. v = put_trace a t w) \<and> same_view U w v)
    (push_frame a) (c, info)"
proof -
  have "same_view U w (put_trace a t w)" for t using assms by (simp add: unseen_def)
  then show ?thesis
    by (auto simp: trace_acts_def push_frame_def with_callback_def visiting_def visit_frame)
qed

lemma holds_pushed:
  "holds t ps \<Longrightarrow> holds (pushed t f) (ps @ (case f of Some p \<Rightarrow> [p] | None \<Rightarrow> []))"
  by (auto simp: pushed_def holds_push split: option.split)

text \<open>The frames of a stack, innermost first, those without an instruction pointer left out.\<close>

definition seen :: "(Cursor \<times> Info) list \<Rightarrow> ProgramCounter list" where
  "seen fs = List.map_filter frame_pc fs"

lemma push_frames:
  "holds t ps \<Longrightarrow> \<exists>t'. fold (push_frame a) fs (put_trace a t w) = put_trace a t' w \<and> holds t' (ps @ seen fs)"
proof (induction fs arbitrary: t ps)
  case (Cons f fs)
  have "push_frame a f (put_trace a t w) = put_trace a (pushed t (frame_pc f)) w" by (simp add: push_frame_def)
  with Cons.IH[OF holds_pushed[OF Cons.prems, of "frame_pc f"]] show ?case
    by (simp add: seen_def split: option.split_asm)
qed (auto simp: seen_def)

lemma capture_frames:
  assumes "physical U w (cursor_new state) fs d" "cursor_current U w d = Inr None" "unseen U a w"
  shows "\<exists>t w'. capture U R at a state w = Some (Inr t, w') \<and> holds t (seen fs)"
proof -
  let ?w = "put_trace a trace_new w"
  have v: "same_view U w ?w" using assms(3) by (simp add: unseen_def)
  have "unseen U a ?w" using assms(3) by (auto simp: unseen_def same_view_def)
  then have "list_all (trace_acts (u_lib U) (visiting at R) at a
      (\<lambda>v. (\<exists>t. v = put_trace a t ?w) \<and> same_view U ?w v) (push_frame a)) fs"
    using visit_acts by (fastforce simp: list_all_iff)
  then have "walk_trace U (visiting at R) state at a ?w = Some (rc_end, fold (push_frame a) fs ?w)"
    using physical_same_view[OF assms(1) v] assms(2) same_view_cursor(1)[OF v]
    by (intro trace_to_end[where d = d]) (auto intro: exI[of _ trace_new])
  moreover obtain t where "fold (push_frame a) fs ?w = put_trace a t w" "holds t (seen fs)"
    using push_frames[OF holds_new, of a fs w] by auto
  ultimately show ?thesis by (simp add: capture_def)
qed

text \<open>The address a frame is looked up by lies inside its call instruction.\<close>

lemma pc_new_probe:
  assumes "pc_new rip before = Some p"
  shows "pc_rip p = rip \<and> rip \<noteq> 0 \<and> pc_probe p = Some (if before then rip else rip - 1) \<and>
    (pc_interior p \<longleftrightarrow> \<not> before)"
proof -
  have "1 \<le> rip" if "rip \<noteq> 0" using that by (simp add: word_le_nat_alt Suc_le_eq unat_gt_0)
  with assms show ?thesis
    by (auto simp: pc_new_def nonzero_def pc_probe_def pc_interior_def checked_sub_def split: if_splits)
qed

end
