(* ===== verification/Symbolize.thy ===== *)
theory Symbolize
  imports Backtrace
begin

text \<open>
  The symbolization of a captured backtrace (\<open>examples/no-std-linux/src/backtrace.rs\<close>): the
  read-only mapping of the executable and its release, the DWARF sections, the lookup and the
  printing of every frame.  The kernel (\<open>rustix\<close>), the ELF reader (\<open>object\<close>) and the DWARF
  reader (\<open>gimli\<close>, \<open>addr2line\<close>) are parameters; their values are known by handles.
\<close>

section \<open>What is called\<close>

datatype objfile = ObjFile nat
datatype objsection = ObjSection nat
datatype dwarf = Dwarf nat
datatype addr_context = AddrContext nat
datatype frame_iter = FrameIter nat
datatype function_name = FunctionName nat

text \<open>\<open>addr2line::Location\<close> and \<open>addr2line::Frame\<close>.\<close>

record location =
  loc_file :: "string option"
  loc_line :: "u32 option"
  loc_column :: "u32 option"

record symbol_frame =
  sym_function :: "function_name option"
  sym_location :: "location option"

text \<open>What the process owns and has said: open descriptors, live mappings with their sizes, and the
  messages by descriptor.\<close>

record sym_proc =
  sp_fds :: "usize list"
  sp_maps :: "(usize \<times> usize) list"
  sp_log :: "(nat \<times> string) list"

record symbolizer =
  os_open :: "sym_proc \<Rightarrow> usize option"
  os_fstat :: "usize \<Rightarrow> i64 option"
  os_mmap_file :: "usize \<Rightarrow> usize \<Rightarrow> sym_proc \<Rightarrow> usize option"
  os_munmap_file :: "usize \<Rightarrow> usize \<Rightarrow> sym_proc \<Rightarrow> bool"
  os_memory :: "usize \<Rightarrow> nat \<Rightarrow> bytes"
  obj_parse :: "bytes \<Rightarrow> objfile option"
  obj_little_endian :: "objfile \<Rightarrow> bool"
  obj_section_by_name :: "objfile \<Rightarrow> string \<Rightarrow> objsection option"
  obj_data :: "objsection \<Rightarrow> bytes option"
  dw_sections :: "string list"
  dw_load :: "(bytes \<times> bool) list \<Rightarrow> dwarf"
  ctx_from_dwarf :: "dwarf \<Rightarrow> addr_context option"
  ctx_find_frames :: "addr_context \<Rightarrow> u64 \<Rightarrow> frame_iter option"
  iter_next :: "frame_iter \<Rightarrow> (symbol_frame option \<times> frame_iter) option"
  fn_demangle :: "function_name \<Rightarrow> string option"

definition say :: "string \<Rightarrow> sym_proc \<Rightarrow> sym_proc" where
  "say message p = p\<lparr>sp_log := sp_log p @ [(1, message)]\<rparr>"

section \<open>The mapping of the executable\<close>

record Executable =
  exe_pointer :: usize
  exe_size :: usize

text \<open>The size as \<open>usize::try_from\<close> and \<open>NonZeroUsize::new\<close> take it.\<close>

definition file_size :: "i64 \<Rightarrow> usize option" where
  "file_size st_size = (if 0 \<le> sint st_size then nonzero st_size else None)"

definition exe_map :: "symbolizer \<Rightarrow> usize \<Rightarrow> sym_proc \<Rightarrow> (BacktraceError + Executable) \<times> sym_proc" where
  "exe_map H fd p =
    (case os_fstat H fd of
       None \<Rightarrow> (Inl BtSize, p)
     | Some st_size \<Rightarrow>
         (case file_size st_size of
            None \<Rightarrow> (Inl BtSize, p)
          | Some span \<Rightarrow>
              (case os_mmap_file H span fd p of
                 None \<Rightarrow> (Inl BtMap, p)
               | Some mapped \<Rightarrow>
                   (case nonzero mapped of
                      None \<Rightarrow> (Inl BtMap, p\<lparr>sp_maps := (mapped, span) # sp_maps p\<rparr>)
                    | Some pointer \<Rightarrow>
                        (Inr \<lparr>exe_pointer = pointer, exe_size = span\<rparr>,
                         p\<lparr>sp_maps := (pointer, span) # sp_maps p\<rparr>)))))"

text \<open>The descriptor is dropped on every return after it was opened.\<close>

definition exe_open :: "symbolizer \<Rightarrow> sym_proc \<Rightarrow> (BacktraceError + Executable) \<times> sym_proc" where
  "exe_open H p =
    (case os_open H p of
       None \<Rightarrow> (Inl BtOpen, p)
     | Some fd \<Rightarrow>
         (case exe_map H fd (p\<lparr>sp_fds := fd # sp_fds p\<rparr>) of
            (result, p) \<Rightarrow> (result, p\<lparr>sp_fds := remove1 fd (sp_fds p)\<rparr>)))"

definition exe_bytes :: "symbolizer \<Rightarrow> Executable \<Rightarrow> bytes" where
  "exe_bytes H self = os_memory H (exe_pointer self) (unat (exe_size self))"

text \<open>An operation of the process comes back with a value or ends the process.\<close>

datatype 'a ended = Finished 'a sym_proc | Ended nat sym_proc

definition exe_drop :: "symbolizer \<Rightarrow> Executable \<Rightarrow> sym_proc \<Rightarrow> unit ended" where
  "exe_drop H self p =
    (if os_munmap_file H (exe_pointer self) (exe_size self) p then
       Finished () (p\<lparr>sp_maps := remove1 (exe_pointer self, exe_size self) (sp_maps p)\<rparr>)
     else Ended 70 (p\<lparr>sp_log := sp_log p @ [(2, ''self executable mapping release failed'' @ [CHR 0x0A])]\<rparr>))"

section \<open>The DWARF context\<close>

definition symbols_section :: "symbolizer \<Rightarrow> objfile \<Rightarrow> string \<Rightarrow> BacktraceError + bytes" where
  "symbols_section H file name =
    (case obj_section_by_name H file name of
       Some section \<Rightarrow> ok_or BtSection (obj_data H section)
     | None \<Rightarrow> Inr [])"

text \<open>\<open>Dwarf::load\<close> asks for its sections in order and stops at the first that fails.\<close>

fun load_sections ::
    "symbolizer \<Rightarrow> objfile \<Rightarrow> bool \<Rightarrow> string list \<Rightarrow> BacktraceError + (bytes \<times> bool) list" where
  "load_sections H file endian [] = Inr []"
| "load_sections H file endian (name # names) =
    and_then (symbols_section H file name) (\<lambda>data.
      and_then (load_sections H file endian names) (\<lambda>readers. Inr ((data, endian) # readers)))"

definition symbols_new :: "symbolizer \<Rightarrow> bytes \<Rightarrow> BacktraceError + addr_context" where
  "symbols_new H elf =
    and_then (ok_or BtObject (obj_parse H elf)) (\<lambda>file.
      and_then (load_sections H file (obj_little_endian H file) (dw_sections H)) (\<lambda>readers.
        ok_or BtDwarf (ctx_from_dwarf H (dw_load H readers))))"

section \<open>Formatting\<close>

fun decimal :: "nat \<Rightarrow> string" where
  "decimal n = (if n < 10 then [char_of (48 + n)] else decimal (n div 10) @ [char_of (48 + n mod 10)])"

declare decimal.simps [simp del]

definition hex_digit :: "nat \<Rightarrow> char" where
  "hex_digit d = (if d < 10 then char_of (48 + d) else char_of (87 + d))"

text \<open>\<open>{:#018x}\<close> of a word: the prefix and sixteen digits.\<close>

fun hex_digits :: "nat \<Rightarrow> nat \<Rightarrow> string" where
  "hex_digits 0 n = []"
| "hex_digits (Suc k) n = hex_digits k (n div 16) @ [hex_digit (n mod 16)]"

definition hex18 :: "usize \<Rightarrow> string" where
  "hex18 w = ''0x'' @ hex_digits 16 (unat w)"

definition frame_header :: "usize \<Rightarrow> usize \<Rightarrow> usize \<Rightarrow> string" where
  "frame_header number rip probe =
    ''  #'' @ decimal (unat number) @ '' rip='' @ hex18 rip @ '' probe='' @ hex18 probe @ [CHR 0x0A]"

section \<open>Printing\<close>

definition say_some :: "('a \<Rightarrow> sym_proc \<Rightarrow> sym_proc) \<Rightarrow> 'a option \<Rightarrow> sym_proc \<Rightarrow> sym_proc" where
  "say_some f x p = (case x of Some v \<Rightarrow> f v p | None \<Rightarrow> p)"

definition print_location :: "location \<Rightarrow> sym_proc \<Rightarrow> sym_proc" where
  "print_location location p =
    (let p = say_some (\<lambda>file p. say file (say '' at '' p)) (loc_file location) p;
         p = say_some (\<lambda>line. say ('':'' @ decimal (unat line))) (loc_line location) p
     in say_some (\<lambda>column. say ('':'' @ decimal (unat column))) (loc_column location) p)"

definition print_frame :: "symbolizer \<Rightarrow> symbol_frame \<Rightarrow> sym_proc \<Rightarrow> (BacktraceError + unit) \<times> sym_proc" where
  "print_frame H frame p =
    (let p = say ''      '' p;
         finish = (\<lambda>p. (Inr (), say [CHR 0x0A] (say_some print_location (sym_location frame) p)))
     in case sym_function frame of
          None \<Rightarrow> finish (say ''<unknown function>'' p)
        | Some function \<Rightarrow>
            (case fn_demangle H function of
               None \<Rightarrow> (Inl BtDwarf, p)
             | Some name \<Rightarrow> finish (say name p)))"

text \<open>The \<open>loop\<close> over the inline frames of one address.\<close>

definition frames_body ::
    "symbolizer \<Rightarrow> frame_iter \<times> bool \<times> sym_proc
      \<Rightarrow> (frame_iter \<times> bool \<times> sym_proc, (BacktraceError + bool) \<times> sym_proc) flow option" where
  "frames_body H s = (case s of (frames, resolved, p) \<Rightarrow> Some
    (case iter_next H frames of
       None \<Rightarrow> Break (Inl BtDwarf, p)
     | Some (None, frames) \<Rightarrow> Break (Inr resolved, p)
     | Some (Some frame, frames) \<Rightarrow>
         (case print_frame H frame p of
            (Inl e, p) \<Rightarrow> Break (Inl e, p)
          | (Inr _, p) \<Rightarrow> Continue (frames, True, p))))"

definition print_pc ::
    "symbolizer \<Rightarrow> addr_context \<Rightarrow> usize \<Rightarrow> ProgramCounter \<Rightarrow> sym_proc
      \<Rightarrow> ((BacktraceError + bool) \<times> sym_proc) option" where
  "print_pc H context number pc p =
    (case pc_probe pc of
       None \<Rightarrow> Some (Inl BtDwarf, p)
     | Some probe \<Rightarrow>
         (let p = say (frame_header number (pc_rip pc) probe) p
          in case ctx_find_frames H context probe of
               None \<Rightarrow> Some (Inl BtDwarf, p)
             | Some frames \<Rightarrow> run_loop (frames_body H) (frames, False, p)))"

fun print_pcs ::
    "symbolizer \<Rightarrow> addr_context \<Rightarrow> usize \<Rightarrow> bool \<Rightarrow> ProgramCounter list \<Rightarrow> sym_proc
      \<Rightarrow> ((BacktraceError + bool) \<times> sym_proc) option" where
  "print_pcs H context number interior [] p = Some (Inr interior, p)"
| "print_pcs H context number interior (pc # pcs) p =
    (let number = saturating_add number 1
     in Option.bind (print_pc H context number pc p) (\<lambda>(result, p).
          case result of
            Inl e \<Rightarrow> Some (Inl e, p)
          | Inr resolved \<Rightarrow>
              print_pcs H context number (if pc_interior pc \<and> resolved then True else interior) pcs p))"

definition symbols_print ::
    "symbolizer \<Rightarrow> addr_context \<Rightarrow> Trace \<Rightarrow> sym_proc \<Rightarrow> ((BacktraceError + bool) \<times> sym_proc) option" where
  "symbols_print H context trace p =
    map_option (\<lambda>(result, p). case result of
        Inl e \<Rightarrow> (Inl e, p)
      | Inr interior \<Rightarrow>
          (Inr interior, if trace_truncated trace then say (''  <trace truncated>'' @ [CHR 0x0A]) p else p))
      (print_pcs H context 0 False (trace_frames trace) p)"

text \<open>The mapping lives to the end of the scope, on every path.\<close>

definition with_executable ::
    "symbolizer \<Rightarrow> (BacktraceError + unit) \<Rightarrow> Executable \<Rightarrow> sym_proc \<Rightarrow> (BacktraceError + unit) ended" where
  "with_executable H result executable p =
    (case exe_drop H executable p of
       Finished _ p \<Rightarrow> Finished result p
     | Ended code p \<Rightarrow> Ended code p)"

definition print_captured ::
    "symbolizer \<Rightarrow> Trace \<Rightarrow> sym_proc \<Rightarrow> (BacktraceError + unit) ended option" where
  "print_captured H trace p =
    (case exe_open H p of
       (Inl e, p) \<Rightarrow> Some (Finished (Inl e) p)
     | (Inr executable, p) \<Rightarrow>
         (case symbols_new H (exe_bytes H executable) of
            Inl e \<Rightarrow> Some (with_executable H (Inl e) executable p)
          | Inr symbols \<Rightarrow>
              map_option (\<lambda>(result, p). with_executable H
                  (and_then result (\<lambda>interior. if interior then Inr () else Inl BtInterior)) executable p)
                (symbols_print H symbols trace p)))"

definition backtrace_print ::
    "traces machine \<Rightarrow> traces routines \<Rightarrow> usize \<Rightarrow> usize \<Rightarrow> State \<Rightarrow> traces world \<Rightarrow> symbolizer \<Rightarrow> sym_proc
      \<Rightarrow> (BacktraceError + unit) ended option" where
  "backtrace_print U R at parameter state w H p =
    Option.bind (capture U R at parameter state w) (\<lambda>(captured, _). case captured of
      Inl e \<Rightarrow> Some (Finished (Inl e) p)
    | Inr trace \<Rightarrow> print_captured H trace p)"

end
