(* ===== verification/SymbolizeProps.thy ===== *)
theory SymbolizeProps
  imports Symbolize UnwindProps
begin

text \<open>
  What capture and symbolization promise: the frames recorded are those of the stack;
  symbolization releases what it acquires on every path, and when every lookup succeeds it prints
  the captured frames in order, numbered from one, and succeeds exactly when an interior return
  address resolved.  With witnesses.
\<close>

section \<open>What is kept\<close>

text \<open>Only messages have been added.\<close>

definition only_says :: "sym_proc \<Rightarrow> sym_proc \<Rightarrow> bool" where
  "only_says p p' \<longleftrightarrow> (\<exists>said. p' = p\<lparr>sp_log := sp_log p @ said\<rparr>)"

lemma only_says_refl [simp, intro]: "only_says p p"
  by (auto simp: only_says_def intro: exI[of _ "[]"])

lemma only_says_trans [trans]: "only_says p q \<Longrightarrow> only_says q r \<Longrightarrow> only_says p r"
  by (auto simp: only_says_def)

lemma only_says_say [simp]: "only_says p (say s q) \<longleftrightarrow> (\<exists>said. say s q = p\<lparr>sp_log := sp_log p @ said\<rparr>)"
  by (simp add: only_says_def)

lemma says_say [intro]: "only_says p q \<Longrightarrow> only_says p (say s q)"
  by (auto simp: only_says_def say_def)

declare only_says_say [simp del]

lemma says_some: "(\<And>v q. only_says p q \<Longrightarrow> only_says p (f v q)) \<Longrightarrow> only_says p q \<Longrightarrow> only_says p (say_some f x q)"
  by (simp add: say_some_def split: option.split)

lemma says_location: "only_says p q \<Longrightarrow> only_says p (print_location l q)"
  by (auto simp: print_location_def Let_def intro!: says_some)

lemma says_frame: "only_says p q \<Longrightarrow> only_says p (snd (print_frame H fr q))"
  by (auto simp: print_frame_def Let_def intro!: says_some says_location split: option.split)

lemma says_frames:
  assumes "run_loop (frames_body H) (it, b, q) = Some (r, p')" "only_says p q"
  shows "only_says p p'"
proof (rule run_loop_invariant[OF assms(1), where I = "\<lambda>s. only_says p (snd (snd s))"])
  fix s s'
  assume "only_says p (snd (snd s))" "frames_body H s = Some (Continue s')"
  then show "only_says p (snd (snd s'))"
    using says_frame[of p "snd (snd s)" H]
    by (auto simp: frames_body_def split: prod.split_asm option.split_asm sum.split_asm)
      (metis snd_conv)
next
  fix s
  assume "only_says p (snd (snd s))" "frames_body H s = Some (Break (r, p'))"
  then show "only_says p p'"
    using says_frame[of p "snd (snd s)" H]
    by (auto simp: frames_body_def split: prod.split_asm option.split_asm sum.split_asm)
      (metis snd_conv)
qed (use assms(2) in simp)

lemma says_pc:
  assumes "print_pc H c n pc q = Some (r, p')" "only_says p q"
  shows "only_says p p'"
  using assms by (auto simp: print_pc_def Let_def split: option.split_asm intro: says_frames)

lemma says_pcs:
  "print_pcs H c n i pcs q = Some (r, p') \<Longrightarrow> only_says p q \<Longrightarrow> only_says p p'"
proof (induction pcs arbitrary: n i q)
  case (Cons pc pcs)
  then obtain a q' where pc: "print_pc H c (saturating_add n 1) pc q = Some (a, q')"
    by (auto simp: Let_def bind_eq_Some_conv)
  have q': "only_says p q'" by (rule says_pc[OF pc Cons.prems(2)])
  with Cons.prems(1) Cons.IH pc show ?case by (cases a) (auto simp: Let_def)
qed simp

lemma says_print:
  assumes "symbols_print H c t q = Some (r, p')"
  shows "only_says q p'"
proof -
  from assms obtain a q' where q': "print_pcs H c 0 False (trace_frames t) q = Some (a, q')"
    by (auto simp: symbols_print_def)
  have "only_says q q'" by (rule says_pcs[OF q' only_says_refl])
  with assms q' show ?thesis by (cases a) (auto simp: symbols_print_def split: if_splits)
qed

section \<open>The capture\<close>

text \<open>A capture over a stack that ends records its frames innermost first, the first sixty-four of
  them, and says that it was cut short exactly when there were more; every frame recorded is
  looked up at an address inside the instruction it was in, one below a return address.\<close>

theorem capture_records_stack:
  assumes "physical U w (cursor_new state) fs d" "cursor_current U w d = Inr None" "unseen U a w"
  shows "\<exists>t w'. capture U R at a state w = Some (Inr t, w') \<and>
    trace_frames t = take 64 (seen fs) \<and> (trace_truncated t \<longleftrightarrow> 64 < length (seen fs)) \<and>
    (\<forall>p. p \<in> set (trace_frames t) \<longrightarrow> pc_probe p = Some (if pc_interior p then pc_rip p - 1 else pc_rip p))"
proof -
  obtain t w' where t: "capture U R at a state w = Some (Inr t, w')" "holds t (seen fs)"
    using capture_frames[OF assms] by blast
  have f: "trace_frames t = take 64 (seen fs)" using holds_frames[OF t(2)] by (simp add: frame_limit_def)
  have "pc_probe p = Some (if pc_interior p then pc_rip p - 1 else pc_rip p)" if "p \<in> set (trace_frames t)" for p
  proof -
    from that have "p \<in> set (seen fs)" unfolding f by (rule in_set_takeD)
    then obtain g where "frame_pc g = Some p" by (auto simp: seen_def List.map_filter_def)
    then show ?thesis using pc_new_probe by (fastforce simp: frame_pc_def)
  qed
  with t f show ?thesis by (auto simp: holds_def frame_limit_def)
qed

section \<open>Nothing is left behind\<close>

lemma exe_open_result:
  assumes "exe_open H p = (r, p1)" "\<And>span fd q. os_mmap_file H span fd q \<noteq> Some 0"
  shows "case r of
      Inl _ \<Rightarrow> p1 = p
    | Inr e \<Rightarrow> exe_pointer e \<noteq> 0 \<and> p1 = p\<lparr>sp_maps := (exe_pointer e, exe_size e) # sp_maps p\<rparr>"
  using assms
  by (auto simp: exe_open_def exe_map_def nonzero_def split: option.splits if_splits)

text \<open>C39. Symbolization leaves nothing behind: whatever the kernel, the ELF and the DWARF reader answer,
  a call that comes back has closed the descriptor and released the mapping it made, on success
  and on every error, and has only added messages; when the release fails the process ends.\<close>

theorem backtrace_leaves_nothing:
  assumes "backtrace_print U R at a state w H p = Some r" "\<And>span fd q. os_mmap_file H span fd q \<noteq> Some 0"
  shows "case r of
      Finished result p' \<Rightarrow> sp_fds p' = sp_fds p \<and> sp_maps p' = sp_maps p \<and> (\<exists>said. sp_log p' = sp_log p @ said)
    | Ended code p' \<Rightarrow> code = 70 \<and> sp_fds p' = sp_fds p \<and>
        (\<exists>pointer span q. sp_maps p' = (pointer, span) # sp_maps p \<and> \<not> os_munmap_file H pointer span q)"
proof -
  from assms(1) obtain cap w' where cap: "capture U R at a state w = Some (cap, w')"
    by (auto simp: backtrace_print_def bind_eq_Some_conv)
  show ?thesis
  proof (cases cap)
    case (Inl e)
    with assms(1) cap show ?thesis by (auto simp: backtrace_print_def)
  next
    case (Inr t)
    obtain opened p1 where o: "exe_open H p = (opened, p1)" by fastforce
    with exe_open_result[OF o assms(2)] Inr assms(1) cap show ?thesis
      by (cases opened)
         (auto simp: backtrace_print_def print_captured_def with_executable_def exe_drop_def only_says_def
           split: sum.split_asm if_splits dest!: says_print, blast)
  qed
qed

section \<open>What is printed\<close>

text \<open>The inline frames an iterator yields before its end.\<close>

inductive yields :: "symbolizer \<Rightarrow> frame_iter \<Rightarrow> symbol_frame list \<Rightarrow> bool" for H where
  yields_end: "iter_next H it = Some (None, it') \<Longrightarrow> yields H it []"
| yields_frame: "iter_next H it = Some (Some frame, it') \<Longrightarrow> yields H it' frames \<Longrightarrow> yields H it (frame # frames)"

definition location_text :: "location \<Rightarrow> string list" where
  "location_text l =
    (case loc_file l of Some file \<Rightarrow> ['' at '', file] | None \<Rightarrow> []) @
    (case loc_line l of Some n \<Rightarrow> ['':'' @ decimal (unat n)] | None \<Rightarrow> []) @
    (case loc_column l of Some n \<Rightarrow> ['':'' @ decimal (unat n)] | None \<Rightarrow> [])"

definition frame_text :: "symbolizer \<Rightarrow> symbol_frame \<Rightarrow> string list" where
  "frame_text H fr = [''      '',
      case sym_function fr of None \<Rightarrow> ''<unknown function>'' | Some f \<Rightarrow> the (fn_demangle H f)] @
    (case sym_location fr of Some l \<Rightarrow> location_text l | None \<Rightarrow> []) @ [[CHR 0x0A]]"

definition named :: "symbolizer \<Rightarrow> symbol_frame \<Rightarrow> bool" where
  "named H fr \<longleftrightarrow> (case sym_function fr of None \<Rightarrow> True | Some f \<Rightarrow> fn_demangle H f \<noteq> None)"

definition says :: "string list \<Rightarrow> sym_proc \<Rightarrow> sym_proc" where
  "says texts p = p\<lparr>sp_log := sp_log p @ map (Pair 1) texts\<rparr>"

lemma says_simps [simp]:
  "says [] p = p" "says ts (says ss p) = says (ss @ ts) p" "say t p = says [t] p"
  by (simp_all add: says_def say_def)

lemma print_location_text: "print_location l p = says (location_text l) p"
  by (simp add: print_location_def location_text_def say_some_def Let_def split: option.split)

lemma print_frame_text: "named H fr \<Longrightarrow> print_frame H fr p = (Inr (), says (frame_text H fr) p)"
  by (auto simp: print_frame_def frame_text_def named_def say_some_def print_location_text Let_def split: option.split)

lemma frames_text:
  "yields H it frames \<Longrightarrow> list_all (named H) frames \<Longrightarrow>
    run_loop (frames_body H) (it, resolved, p) =
      Some (Inr (resolved \<or> frames \<noteq> []), says (concat (map (frame_text H) frames)) p)"
proof (induction arbitrary: resolved p rule: yields.induct)
  case (yields_end it it')
  then show ?case by (simp add: run_loop_simps(3) frames_body_def)
next
  case (yields_frame it frame it' frames)
  then show ?case by (simp add: run_loop_simps(2) frames_body_def print_frame_text)
qed

text \<open>What DWARF knows of a captured program counter.\<close>

definition looks_up :: "symbolizer \<Rightarrow> addr_context \<Rightarrow> (ProgramCounter \<Rightarrow> symbol_frame list) \<Rightarrow> ProgramCounter \<Rightarrow> bool" where
  "looks_up H c look pc \<longleftrightarrow> (\<exists>probe it. pc_probe pc = Some probe \<and> ctx_find_frames H c probe = Some it \<and>
    yields H it (look pc) \<and> list_all (named H) (look pc))"

definition pc_text :: "symbolizer \<Rightarrow> (ProgramCounter \<Rightarrow> symbol_frame list) \<Rightarrow> nat \<Rightarrow> ProgramCounter \<Rightarrow> string list" where
  "pc_text H look n pc =
    frame_header (of_nat n) (pc_rip pc) (the (pc_probe pc)) # concat (map (frame_text H) (look pc))"

fun report :: "symbolizer \<Rightarrow> (ProgramCounter \<Rightarrow> symbol_frame list) \<Rightarrow> nat \<Rightarrow> ProgramCounter list \<Rightarrow> string list" where
  "report H look n [] = []"
| "report H look n (pc # pcs) = pc_text H look n pc @ report H look (Suc n) pcs"

definition resolved_inside :: "(ProgramCounter \<Rightarrow> symbol_frame list) \<Rightarrow> ProgramCounter list \<Rightarrow> bool" where
  "resolved_inside look pcs \<longleftrightarrow> (\<exists>pc\<in>set pcs. pc_interior pc \<and> look pc \<noteq> [])"

lemma print_pc_text:
  assumes "looks_up H c look pc"
  shows "print_pc H c (of_nat n) pc p = Some (Inr (look pc \<noteq> []), says (pc_text H look n pc) p)"
  using assms by (auto simp: looks_up_def print_pc_def pc_text_def frames_text)

lemma saturating_Suc: "Suc n < 2 ^ 64 \<Longrightarrow> saturating_add (of_nat n) 1 = (of_nat (Suc n) :: usize)"
  by (simp add: saturating_add_def checked_add_def unat_of_nat)

lemma print_pcs_text:
  "list_all (looks_up H c look) pcs \<Longrightarrow> n + length pcs < 2 ^ 64 \<Longrightarrow>
    print_pcs H c (of_nat n) interior pcs p =
      Some (Inr (interior \<or> resolved_inside look pcs), says (report H look (Suc n) pcs) p)"
proof (induction pcs arbitrary: n interior p)
  case Nil
  then show ?case by (simp add: resolved_inside_def)
next
  case (Cons pc pcs)
  then have "print_pc H c (saturating_add (of_nat n) 1) pc p =
      Some (Inr (look pc \<noteq> []), says (pc_text H look (Suc n) pc) p)"
    using print_pc_text[of H c look pc "Suc n" p] by (simp add: saturating_Suc del: of_nat_Suc)
  moreover have "print_pcs H c (saturating_add (of_nat n) 1) i pcs q =
      Some (Inr (i \<or> resolved_inside look pcs), says (report H look (Suc (Suc n)) pcs) q)" for i q
    using Cons.IH[of "Suc n" i q] Cons.prems by (simp add: saturating_Suc del: of_nat_Suc)
  ultimately show ?case by (auto simp: resolved_inside_def Let_def)
qed

definition truncated_text :: "'a list \<Rightarrow> string list" where
  "truncated_text frames = (if frame_limit < length frames then [''  <trace truncated>'' @ [CHR 0x0A]] else [])"

lemma symbols_print_text:
  assumes "holds t pcs" "list_all (looks_up H c look) (take frame_limit pcs)"
  shows "symbols_print H c t p = Some (Inr (resolved_inside look (take frame_limit pcs)),
    says (report H look 1 (take frame_limit pcs) @ truncated_text pcs) p)"
proof -
  have "length (take frame_limit pcs) < 2 ^ 64" by (simp add: frame_limit_def)
  then have "print_pcs H c 0 False (trace_frames t) p = Some (Inr (resolved_inside look (take frame_limit pcs)),
      says (report H look 1 (take frame_limit pcs)) p)"
    using print_pcs_text[of H c look "take frame_limit pcs" 0 False p] assms holds_frames[OF assms(1)] by simp
  then show ?thesis using assms(1) by (simp add: symbols_print_def truncated_text_def holds_def)
qed

text \<open>C38. A backtrace over a stack that ends, with an executable that maps and parses and DWARF that
  answers for every frame: the first 64 frames are printed in order, numbered from one, each with
  its address, the address it is looked up by and its inline frames, and a note when there are
  more; the call succeeds exactly when an interior return address resolved to a frame, and the
  process is left with these messages and nothing else.\<close>

theorem backtrace_prints_frames:
  assumes "physical U w (cursor_new state) fs d" "cursor_current U w d = Inr None" "unseen U a w"
    "exe_open H p = (Inr executable, p1)" "symbols_new H (exe_bytes H executable) = Inr c"
    "list_all (looks_up H c look) (take frame_limit (seen fs))"
    "\<And>q. os_munmap_file H (exe_pointer executable) (exe_size executable) q"
    "\<And>span fd q. os_mmap_file H span fd q \<noteq> Some 0"
  shows "backtrace_print U R at a state w H p =
    Some (Finished
      (if resolved_inside look (take frame_limit (seen fs)) then Inr () else Inl BtInterior)
      (says (report H look 1 (take frame_limit (seen fs)) @ truncated_text (seen fs)) p))"
proof -
  obtain t w' where t: "capture U R at a state w = Some (Inr t, w')" "holds t (seen fs)"
    using capture_frames[OF assms(1-3)] by blast
  have p1: "p1 = p\<lparr>sp_maps := (exe_pointer executable, exe_size executable) # sp_maps p\<rparr>"
    using exe_open_result[OF assms(4,8)] by simp
  show ?thesis
    using t assms(4,5,7) symbols_print_text[OF t(2) assms(6), of p1]
    by (simp add: backtrace_print_def print_captured_def with_executable_def exe_drop_def p1 says_def)
qed

section \<open>Witnesses\<close>

definition sym_frame :: symbol_frame where
  "sym_frame = \<lparr>sym_function = Some (FunctionName 0),
    sym_location = Some \<lparr>loc_file = Some ''main.rs'', loc_line = Some 7, loc_column = None\<rparr>\<rparr>"

definition sym_host :: symbolizer where
  "sym_host = \<lparr>os_open = (\<lambda>_. Some 3), os_fstat = (\<lambda>_. Some 100), os_mmap_file = (\<lambda>_ _ _. Some 0x10000),
    os_munmap_file = (\<lambda>_ _ _. True), os_memory = (\<lambda>_ n. replicate n 0), obj_parse = (\<lambda>_. Some (ObjFile 0)),
    obj_little_endian = (\<lambda>_. True), obj_section_by_name = (\<lambda>_ _. None), obj_data = (\<lambda>_. None),
    dw_sections = [''.debug_info''], dw_load = (\<lambda>_. Dwarf 0), ctx_from_dwarf = (\<lambda>_. Some (AddrContext 0)),
    ctx_find_frames = (\<lambda>_ a. Some (FrameIter (if a = 0x1000 then 1 else 0))),
    iter_next = (\<lambda>it. Some (if it = FrameIter 1 then (Some sym_frame, FrameIter 0) else (None, FrameIter 0))),
    fn_demangle = (\<lambda>_. Some ''main'')\<rparr>"

lemma hex_digits_numeral:
  "hex_digits (numeral v) n = hex_digits (pred_numeral v) (n div 16) @ [hex_digit (n mod 16)]"
  using hex_digits.simps(2)[of "pred_numeral v" n] by (simp only: numeral_eq_Suc[of v])

lemma header_example:
  "frame_header 1 0x1001 0x1000 = ''  #1 rip=0x0000000000001001 probe=0x0000000000001000'' @ [CHR 0x0A]"
  "frame_header 2 0x2001 0x2000 = ''  #2 rip=0x0000000000002001 probe=0x0000000000002000'' @ [CHR 0x0A]"
  by (simp_all add: frame_header_def hex18_def hex_digits_numeral hex_digit_def decimal.simps char_of_def bit_Suc_0_iff)

lemma ex_seen:
  "seen ex_stack = [\<lparr>pc_rip = 0x1001, pc_relation = Return\<rparr>, \<lparr>pc_rip = 0x2001, pc_relation = Return\<rparr>]"
proof -
  have pc: "frame_pc (ex_frame sp (Some ip), i) = pc_new ip False" for sp ip i
    by (simp add: frame_pc_def ex_frame_def cursor_new_def cursor_ip_def state_ip_def relation_before_def)
  show ?thesis by (simp add: seen_def pc pc_new_def nonzero_def)
qed

definition ex_traces :: "traces world" where
  "ex_traces = \<lparr>w_exception = (\<lambda>_. exception_new (ExceptionClass 0) None), w_rest = (\<lambda>_. trace_new)\<rparr>"

lemma ex_unseen: "unseen ex_machine a w"
  by (simp add: unseen_def ex_same_view)

lemma decimal_example: "decimal 7 = ''7''"
  by (simp add: decimal.simps char_of_def bit_Suc_0_iff)

definition sym_start :: sym_proc where
  "sym_start = \<lparr>sp_fds = [], sp_maps = [], sp_log = []\<rparr>"

definition sym_look :: "ProgramCounter \<Rightarrow> symbol_frame list" where
  "sym_look pc = (if pc_rip pc = 0x1001 then [sym_frame] else [])"

lemma sym_looks_up:
  "looks_up sym_host c sym_look \<lparr>pc_rip = 0x1001, pc_relation = Return\<rparr>"
  "looks_up sym_host c sym_look \<lparr>pc_rip = 0x2001, pc_relation = Return\<rparr>"
proof -
  have e: "yields sym_host (FrameIter 0) []"
    by (rule yields_end) (simp add: sym_host_def)
  have "yields sym_host (FrameIter 1) [sym_frame]"
    by (rule yields_frame[OF _ e]) (simp add: sym_host_def)
  with e show "looks_up sym_host c sym_look \<lparr>pc_rip = 0x1001, pc_relation = Return\<rparr>"
    "looks_up sym_host c sym_look \<lparr>pc_rip = 0x2001, pc_relation = Return\<rparr>"
    by (simp_all add: looks_up_def sym_look_def pc_probe_def checked_sub_def sym_host_def sym_frame_def named_def)
qed

theorem backtrace_prints_frames_witness:
  "backtrace_print ex_machine ex_routines 0x6000 0x8000 ex_state ex_traces sym_host sym_start =
    Some (Finished (Inr ()) (says
      [''  #1 rip=0x0000000000001001 probe=0x0000000000001000'' @ [CHR 0x0A],
       ''      '', ''main'', '' at '', ''main.rs'', '':7'', [CHR 0x0A],
       ''  #2 rip=0x0000000000002001 probe=0x0000000000002000'' @ [CHR 0x0A]] sym_start))"
proof -
  have "exe_open sym_host sym_start = (Inr \<lparr>exe_pointer = 0x10000, exe_size = 100\<rparr>,
      sym_start\<lparr>sp_maps := [(0x10000, 100)]\<rparr>)"
    by (simp add: exe_open_def exe_map_def file_size_def nonzero_def sym_host_def sym_start_def)
  moreover have "symbols_new sym_host b = Inr (AddrContext 0)" for b
    by (simp add: symbols_new_def symbols_section_def sym_host_def)
  moreover have "report sym_host sym_look 1 (take frame_limit (seen ex_stack)) =
      [''  #1 rip=0x0000000000001001 probe=0x0000000000001000'' @ [CHR 0x0A],
       ''      '', ''main'', '' at '', ''main.rs'', '':7'', [CHR 0x0A],
       ''  #2 rip=0x0000000000002001 probe=0x0000000000002000'' @ [CHR 0x0A]]"
    using header_example decimal_example
    by (simp add: ex_seen frame_limit_def pc_text_def sym_look_def pc_probe_def checked_sub_def frame_text_def
        sym_frame_def location_text_def sym_host_def)
  moreover have "resolved_inside sym_look (take frame_limit (seen ex_stack))"
    by (simp add: ex_seen frame_limit_def resolved_inside_def pc_interior_def sym_look_def)
  moreover have "os_munmap_file sym_host x y q" "os_mmap_file sym_host y x q \<noteq> Some 0" for x y q
    by (simp_all add: sym_host_def)
  ultimately show ?thesis
    using backtrace_prints_frames[of ex_machine ex_traces ex_state ex_stack "ex_frame 0x7010 None" "0x8000"
      sym_host sym_start "\<lparr>exe_pointer = 0x10000, exe_size = 100\<rparr>" _ "AddrContext 0" sym_look ex_routines "0x6000"]
      ex_physical_all[of ex_traces] ex_current(3)[of ex_traces "0x7010"] ex_unseen
    by (simp add: ex_start sym_looks_up ex_seen truncated_text_def frame_limit_def)
qed

theorem capture_records_stack_witness:
  "\<exists>t w'. capture ex_machine ex_routines 0x6000 0x8000 ex_state ex_traces = Some (Inr t, w') \<and>
    trace_frames t = [\<lparr>pc_rip = 0x1001, pc_relation = Return\<rparr>, \<lparr>pc_rip = 0x2001, pc_relation = Return\<rparr>]"
proof -
  from capture_records_stack[OF _ _ ex_unseen[of "0x8000"], of ex_traces ex_state ex_stack "ex_frame 0x7010 None" ex_routines "0x6000"]
  show ?thesis using ex_physical_all[of ex_traces] ex_current(3)[of ex_traces "0x7010"] ex_seen
    by (auto simp: ex_start)
qed

theorem backtrace_leaves_nothing_witness:
  "\<exists>p'. backtrace_print ex_machine ex_routines 0x6000 0x8000 ex_state ex_traces
      (sym_host\<lparr>obj_parse := (\<lambda>_. None)\<rparr>) sym_start = Some (Finished (Inl BtObject) p') \<and> sp_maps p' = []"
proof -
  let ?H = "sym_host\<lparr>obj_parse := (\<lambda>_. None)\<rparr>"
  obtain t w' where t: "capture ex_machine ex_routines 0x6000 0x8000 ex_state ex_traces = Some (Inr t, w')"
    using capture_frames[of ex_machine ex_traces ex_state ex_stack "ex_frame 0x7010 None" "0x8000" ex_routines
        "0x6000"] ex_unseen
      ex_physical_all[of ex_traces] ex_current(3)[of ex_traces "0x7010"] by (auto simp: ex_start)
  then obtain p' where p': "backtrace_print ex_machine ex_routines 0x6000 0x8000 ex_state ex_traces ?H sym_start =
      Some (Finished (Inl BtObject) p')"
    by (auto simp: backtrace_print_def print_captured_def exe_open_def exe_map_def file_size_def nonzero_def
        symbols_new_def with_executable_def exe_drop_def sym_host_def sym_start_def)
  from backtrace_leaves_nothing[OF p'] have "sp_maps p' = sp_maps sym_start" by (simp add: sym_host_def)
  with p' show ?thesis by (simp add: sym_start_def)
qed

end
