(* ===== verification/Probes.thy ===== *)
theory Probes
  imports EntryFacts
begin

text \<open>
  The machine probes that ship with the naked functions (the test module of
  \<open>arch/x86_64/registers.rs\<close>): assembly that sets sentinels, calls a capture or transfers through
  an image, and compares.  Their code extends the processor of \<open>Machine\<close> by comparisons, forward
  jumps, the pops of an epilogue, \<open>rep stosq\<close> and \<open>pushfq\<close>.  Of the status flags the zero flag is
  kept, which only comparisons and tests set here: the code reads it right after one.
\<close>

section \<open>Instructions\<close>

datatype probe_instr =
    Do instr | Pop reg | LoadImm u64 reg | CmpImm u64 reg | CmpMemImm u64 u64 reg | CmpMem reg u64 reg
  | CmpReg reg reg | TestImm u64 reg | LeaLabel string reg | Pushfq | RepStosq
  | Jne string | Je string | Jmp string | Label string | CallSym symbol string | JumpSym string | Retq

text \<open>The surroundings of a probe: the addresses of its labels, the other status flags, the function
  it calls and the one it jumps to.\<close>

record surroundings =
  su_at :: "string \<Rightarrow> u64"
  su_flags :: u64
  su_callees :: callees
  su_jump :: "cpu \<Rightarrow> cpu option"

definition direction_bit :: u64 where "direction_bit = 0x400"

definition flags_word :: "surroundings \<Rightarrow> cpu \<Rightarrow> u64" where
  "flags_word E s = (if cpu_df s then su_flags E OR direction_bit else su_flags E AND NOT direction_bit)"

text \<open>\<open>rcx\<close> words of \<open>rax\<close> from \<open>rdi\<close> on, in the direction of the flag.\<close>

definition stosq_addr :: "cpu \<Rightarrow> nat \<Rightarrow> u64" where
  "stosq_addr s i = (if cpu_df s then cpu_gpr s RDI - of_nat (8 * i) else cpu_gpr s RDI + of_nat (8 * i))"

definition rep_stosq :: "cpu \<Rightarrow> cpu" where
  "rep_stosq s = (let n = unat (cpu_gpr s RCX) in
    set_gpr RCX 0 (set_gpr RDI (stosq_addr s n)
      (s\<lparr>cpu_mem := fold (\<lambda>i m. mem_put m (stosq_addr s i) (cpu_gpr s RAX)) [0..<n] (cpu_mem s)\<rparr>)))"

definition pop_word :: "reg \<Rightarrow> cpu \<Rightarrow> cpu" where
  "pop_word r s = set_gpr r (mem_get (cpu_mem s) (cpu_gpr s RSP)) (set_gpr RSP (cpu_gpr s RSP + 8) s)"

fun probe_step :: "surroundings \<Rightarrow> probe_instr \<Rightarrow> bool \<times> cpu \<Rightarrow> bool \<times> cpu" where
  "probe_step E (Do i) (z, s) = (z, plain i s)"
| "probe_step E (Pop r) (z, s) = (z, pop_word r s)"
| "probe_step E (LoadImm v r) (z, s) = (z, set_gpr r v s)"
| "probe_step E (CmpImm v r) (z, s) = (cpu_gpr s r = v, s)"
| "probe_step E (CmpMemImm v d b) (z, s) = (mem_get (cpu_mem s) (cpu_gpr s b + d) = v, s)"
| "probe_step E (CmpMem r d b) (z, s) = (mem_get (cpu_mem s) (cpu_gpr s b + d) = cpu_gpr s r, s)"
| "probe_step E (CmpReg a r) (z, s) = (cpu_gpr s r = cpu_gpr s a, s)"
| "probe_step E (TestImm v r) (z, s) = (cpu_gpr s r AND v = 0, s)"
| "probe_step E (LeaLabel l r) (z, s) = (z, set_gpr r (su_at E l) s)"
| "probe_step E Pushfq (z, s) = (z, push_word (flags_word E s) s)"
| "probe_step E RepStosq (z, s) = (z, rep_stosq s)"
| "probe_step E _ x = x"

definition seek :: "string \<Rightarrow> probe_instr list \<Rightarrow> probe_instr list" where
  "seek l code = dropWhile (\<lambda>i. i \<noteq> Label l) code"

lemma length_seek: "length (seek l code) \<le> length code"
  by (simp add: seek_def length_dropWhile_le)

text \<open>The run of a probe to its \<open>retq\<close>; all jumps are forward.\<close>

function (sequential) probe_exec :: "surroundings \<Rightarrow> probe_instr list \<Rightarrow> bool \<times> cpu \<Rightarrow> cpu option" where
  "probe_exec E [] x = None"
| "probe_exec E (Retq # code) x = Some (return_pop (snd x))"
| "probe_exec E (Jmp l # code) x = probe_exec E (seek l code) x"
| "probe_exec E (Jne l # code) x = probe_exec E (if fst x then code else seek l code) x"
| "probe_exec E (Je l # code) x = probe_exec E (if fst x then seek l code else code) x"
| "probe_exec E (CallSym f l # code) x =
    (case su_callees E f (push_word (su_at E l) (snd x)) of
       None \<Rightarrow> None
     | Some s \<Rightarrow> if cpu_rip s = su_at E l then probe_exec E code (fst x, s) else None)"
| "probe_exec E (JumpSym l # code) x =
    (case su_jump E (snd x) of
       None \<Rightarrow> None
     | Some s \<Rightarrow> if cpu_rip s = su_at E l then probe_exec E (seek l code) (fst x, s) else None)"
| "probe_exec E (i # code) x = probe_exec E code (probe_step E i x)"
  by pat_completeness auto

termination
  by (relation "measure (\<lambda>(E, code, x). length code)") (auto simp: length_seek le_imp_less_Suc)

section \<open>The probes\<close>

text \<open>The sentinels of the callee-saved registers and of the landing pad.\<close>

fun sentinel :: "reg \<Rightarrow> u64" where
  "sentinel RBX = 0x11111111" | "sentinel RBP = 0x22222222" | "sentinel R12 = 0x33333333"
| "sentinel R13 = 0x44444444" | "sentinel R14 = 0x55555555" | "sentinel R15 = 0x66666666"
| "sentinel RAX = 0x12345678" | "sentinel RDX = 0x23456789" | "sentinel _ = 0"

definition entry_marker :: u64 where "entry_marker = 0x3456789a"

definition saved_registers :: "reg list" where
  "saved_registers = [RBX, RBP, R12, R13, R14, R15]"

definition check_register :: "string \<Rightarrow> reg \<Rightarrow> probe_instr list" where
  "check_register fail r = [CmpImm (sentinel r) r, Jne fail]"

definition check_field :: "string \<Rightarrow> reg \<Rightarrow> probe_instr list" where
  "check_field fail r = [CmpMemImm (sentinel r) (field_offset r) RSP, Jne fail]"

definition verdict :: "string \<Rightarrow> string \<Rightarrow> probe_instr list" where
  "verdict fail finish = [LoadImm 1 RAX, Jmp finish, Label fail, LoadImm 0 RAX, Label finish]"

definition saved_pops :: "probe_instr list" where
  "saved_pops = map Pop (rev saved_registers)"

definition probe_capture :: "probe_instr list" where
  "probe_capture =
    map (\<lambda>r. Do (Push r)) saved_registers @ [Do (SubImm (of_nat image_size) RSP)] @
    map (\<lambda>r. LoadImm (sentinel r) r) saved_registers @
    [Do (MovReg RSP RDI), CallSym Capture ''.Lcapture_return'', Label ''.Lcapture_return''] @
    concat (map (check_register ''.Lcapture_fail'') saved_registers) @
    concat (map (check_field ''.Lcapture_fail'') saved_registers) @
    [CmpMem RSP (field_offset RSP) RSP, Jne ''.Lcapture_fail'', LeaLabel ''.Lcapture_return'' RDX,
     CmpMem RDX (field_offset RA) RSP, Jne ''.Lcapture_fail''] @
    verdict ''.Lcapture_fail'' ''.Lcapture_done'' @
    [Do (AddImm (of_nat image_size) RSP)] @ saved_pops @ [Retq]"

text \<open>The address after the call has no label of its own; it is named here.\<close>

definition probe_entry :: "probe_instr list" where
  "probe_entry =
    (let frame = of_nat image_size + 8; image = of_nat image_size in
    map (\<lambda>r. Do (Push r)) saved_registers @ [Do (SubImm frame RSP), Do (MovImm entry_marker image RSP)] @
    map (\<lambda>r. LoadImm (sentinel r) r) saved_registers @
    [Do (Lea image RSP RSI), Do (MovReg RSP RDI), CallSym Capture ''.Lentry_return''] @
    concat (map (check_register ''.Lentry_fail'') saved_registers) @
    concat (map (check_field ''.Lentry_fail'') saved_registers) @
    [Do (Lea frame RSP RDX), CmpMem RDX (field_offset RSP) RSP, Jne ''.Lentry_fail'',
     CmpMemImm entry_marker (field_offset RA) RSP, Jne ''.Lentry_fail''] @
    verdict ''.Lentry_fail'' ''.Lentry_done'' @
    [Do (AddImm frame RSP)] @ saved_pops @ [Retq])"

text \<open>The frame of the transfer probe: the image, the saved registers and stack pointer, the slot the
  transfer pushes its target to, and the target stack pointer.\<close>

definition saved_slot_of :: "reg \<Rightarrow> u64" where
  "saved_slot_of r = of_nat image_size + 8 * (case r of RBX \<Rightarrow> 0 | RBP \<Rightarrow> 1 | R12 \<Rightarrow> 2 | R13 \<Rightarrow> 3
    | R14 \<Rightarrow> 4 | R15 \<Rightarrow> 5 | _ \<Rightarrow> 6)"

definition landing_slot :: u64 where "landing_slot = saved_slot_of RSP + 8"
definition target_rsp :: u64 where "target_rsp = landing_slot + 8"
definition restore_frame :: u64 where "restore_frame = target_rsp + 8"

definition probe_restore :: "probe_instr list" where
  "probe_restore =
    [Do (SubImm restore_frame RSP)] @ map (\<lambda>r. Do (Store r (saved_slot_of r) RSP)) saved_registers @
    [Do (Lea restore_frame RSP RAX), Do (Store RAX (saved_slot_of RSP) RSP), Do Cld, Do (MovReg RSP RDI),
     LoadImm 0 RAX, LoadImm (of_nat (image_size div 8)) RCX, RepStosq] @
    map (\<lambda>r. Do (MovImm (sentinel r) (field_offset r) RSP)) (RAX # RDX # saved_registers) @
    [Do (Store RSP (field_offset R11) RSP), Do (Lea target_rsp RSP RAX), Do (Store RAX (field_offset RSP) RSP),
     LeaLabel ''.Lrestore_landing'' RAX, Do (Store RAX (field_offset RA) RSP),
     Do (Stmxcsr (field_offset MXCSR) RSP), Do (Fnstcw (field_offset FCW) RSP), Do (MovReg RSP RDI),
     JumpSym ''.Lrestore_landing'', Label ''.Lrestore_landing'',
     Pushfq, Pop RCX, TestImm direction_bit RCX, Jne ''.Lrestore_fail''] @
    concat (map (check_register ''.Lrestore_fail'') (RAX # RDX # saved_registers)) @
    [Do (Lea target_rsp R11 RCX), CmpReg RCX RSP, Jne ''.Lrestore_fail''] @
    verdict ''.Lrestore_fail'' ''.Lrestore_done'' @
    map (\<lambda>r. Do (Load (saved_slot_of r) R11 r)) saved_registers @ [Do (Load (saved_slot_of RSP) R11 RSP), Retq]"

section \<open>Running\<close>

declare probe_exec.simps [simp del]

text \<open>Instructions control falls through.\<close>

fun probe_straight :: "probe_instr \<Rightarrow> bool" where
  "probe_straight Retq = False" | "probe_straight (Jmp _) = False" | "probe_straight (Jne _) = False"
| "probe_straight (Je _) = False"
| "probe_straight (CallSym _ _) = False" | "probe_straight (JumpSym _) = False" | "probe_straight _ = True"

lemma probe_exec_straight:
  "list_all probe_straight xs \<Longrightarrow> probe_exec E (xs @ ys) x = probe_exec E ys (fold (probe_step E) xs x)"
proof (induction xs arbitrary: x)
  case (Cons i xs)
  then have "probe_exec E ((i # xs) @ ys) x = probe_exec E (xs @ ys) (probe_step E i x)"
    by (cases i) (simp_all add: probe_exec.simps)
  with Cons show ?case by simp
qed simp

text \<open>Checks that hold are passed.\<close>

lemma check_registers:
  assumes "\<And>r. r \<in> set rs \<Longrightarrow> cpu_gpr s r = sentinel r"
  shows "\<exists>z'. probe_exec E (concat (map (check_register l) rs) @ ys) (z, s) = probe_exec E ys (z', s)"
  using assms
proof (induction rs arbitrary: z)
  case (Cons r rs)
  then show ?case
    using Cons.IH[of True] by (simp add: check_register_def probe_exec.simps)
qed auto

lemma check_fields:
  assumes "\<And>r. r \<in> set rs \<Longrightarrow> mem_get (cpu_mem s) (cpu_gpr s RSP + field_offset r) = sentinel r"
  shows "\<exists>z'. probe_exec E (concat (map (check_field l) rs) @ ys) (z, s) = probe_exec E ys (z', s)"
  using assms
proof (induction rs arbitrary: z)
  case (Cons r rs)
  then show ?case
    using Cons.IH[of True] by (simp add: check_field_def probe_exec.simps)
qed auto

lemma verdict_passes:
  assumes "fail \<noteq> finish"
  shows "probe_exec E (verdict fail finish @ ys) (z, s) = probe_exec E ys (z, set_gpr RAX 1 s)"
  using assms by (simp add: verdict_def probe_exec.simps seek_def)

end
