(* ===== verification/ProbeProps.thy ===== *)
theory ProbeProps
  imports Probes MachineProps
begin

text \<open>
  The machine probes succeed on the processor model, from every state: a capture records what the
  ABI preserves and returns with it intact, and a transfer installs the image.
\<close>

definition calls_code :: "instr list \<Rightarrow> cpu \<Rightarrow> cpu option" where
  "calls_code code s = (case exec (\<lambda>_ _. None) code s of Some (Leaves s') \<Rightarrow> Some s' | _ \<Rightarrow> None)"

text \<open>What the caller of a probe sees: the verdict, its registers and its stack.\<close>

definition answers_probe :: "u64 \<Rightarrow> cpu \<Rightarrow> cpu option \<Rightarrow> bool" where
  "answers_probe v s r \<longleftrightarrow> (\<exists>s'. r = Some s' \<and> cpu_gpr s' RAX = v \<and>
    (\<forall>g\<in>set saved_registers. cpu_gpr s' g = cpu_gpr s g) \<and> cpu_gpr s' RSP = cpu_gpr s RSP + 8 \<and>
    cpu_rip s' = mem_get (cpu_mem s) (cpu_gpr s RSP) \<and>
    cpu_mxcsr s' = cpu_mxcsr s \<and> cpu_fcw s' = cpu_fcw s)"

abbreviation passes_probe :: "cpu \<Rightarrow> cpu option \<Rightarrow> bool" where
  "passes_probe \<equiv> answers_probe 1"

section \<open>Prologue and epilogue\<close>

text \<open>The frame below the return address at \<open>e\<close>: the six saved registers.\<close>

definition pushed_memory :: "cpu \<Rightarrow> memory" where
  "pushed_memory s = (let e = cpu_gpr s RSP in
    mem_put (mem_put (mem_put (mem_put (mem_put (mem_put (cpu_mem s) (e - 8) (cpu_gpr s RBX)) (e - 16) (cpu_gpr s RBP))
      (e - 24) (cpu_gpr s R12)) (e - 32) (cpu_gpr s R13)) (e - 40) (cpu_gpr s R14)) (e - 48) (cpu_gpr s R15))"

lemma pushes:
  "fold (probe_step E) (map (\<lambda>r. Do (Push r)) saved_registers) (z, s) =
    (z, s\<lparr>cpu_gpr := (cpu_gpr s)(RSP := cpu_gpr s RSP - 48), cpu_mem := pushed_memory s\<rparr>)"
  by (simp add: saved_registers_def cpu_steps pushed_memory_def)

lemma pushed_back:
  assumes "cpu_gpr s RSP = e"
  shows "mem_get (pushed_memory s) (e - 8) = cpu_gpr s RBX" "mem_get (pushed_memory s) (e - 16) = cpu_gpr s RBP"
    "mem_get (pushed_memory s) (e - 24) = cpu_gpr s R12" "mem_get (pushed_memory s) (e - 32) = cpu_gpr s R13"
    "mem_get (pushed_memory s) (e - 40) = cpu_gpr s R14" "mem_get (pushed_memory s) (e - 48) = cpu_gpr s R15"
    "(mem_get (pushed_memory s) e :: u64) = mem_get (cpu_mem s) e"
  by (simp_all add: pushed_memory_def Let_def assms mem_get_put_apart apart_def)

text \<open>The epilogue over a frame whose memory is the pushed one.\<close>

lemma epilogue_restores:
  assumes "cpu_gpr s RSP = e" "cpu_gpr t RSP = e - 48"
    "\<And>k. k \<in> {0, 8, 16, 24, 32, 40, 48} \<Longrightarrow> (mem_get (cpu_mem t) (e - k) :: u64) = mem_get (pushed_memory s) (e - k)"
    "cpu_gpr t RAX = v" "cpu_mxcsr t = cpu_mxcsr s" "cpu_fcw t = cpu_fcw s"
  shows "answers_probe v s (probe_exec E (saved_pops @ [Retq]) (z, t))"
proof -
  have "probe_exec E (saved_pops @ [Retq]) (z, t) =
      probe_exec E [Retq] (fold (probe_step E) saved_pops (z, t))"
    by (rule probe_exec_straight) (simp add: saved_pops_def saved_registers_def)
  then show ?thesis
    using assms(3)[of 0] assms(3)[of 8] assms(3)[of 16] assms(3)[of 24] assms(3)[of 32] assms(3)[of 40] assms(3)[of 48]
    by (simp add: answers_probe_def saved_pops_def saved_registers_def probe_exec.simps pop_word_def cpu_steps
        assms(1,2,4-6) pushed_back[OF assms(1)])
qed

section \<open>Capture\<close>

lemma sentinels_loaded:
  "fold (probe_step E) (map (\<lambda>r. LoadImm (sentinel r) r) saved_registers) (z, s) =
    (z, s\<lparr>cpu_gpr := \<lambda>r. if r \<in> set saved_registers then sentinel r else cpu_gpr s r\<rparr>)"
  by (auto simp: saved_registers_def set_gpr_def fun_eq_iff)

lemma saved_registers_apart: "RSP \<notin> set saved_registers" "RAX \<notin> set saved_registers" "RDX \<notin> set saved_registers"
    "RSI \<notin> set saved_registers" "RDI \<notin> set saved_registers"
  by (simp_all add: saved_registers_def)

text \<open>The call of a capture from a probe: the sentinels survive and are what the image holds.\<close>

lemma capture_called:
  assumes "su_callees E Capture = calls_code save_code" "cpu_gpr s RSP = b" "cpu_gpr s RDI = b"
    "\<And>r. r \<in> set saved_registers \<Longrightarrow> cpu_gpr s r = sentinel r"
  shows "\<exists>s'. probe_exec E (CallSym Capture l # ys) (z, s) = probe_exec E ys (z, s') \<and>
    cpu_gpr s' = (cpu_gpr s)(RAX := su_at E l) \<and> cpu_mxcsr s' = cpu_mxcsr s \<and> cpu_fcw s' = cpu_fcw s \<and>
    (\<forall>r\<in>set saved_registers. mem_get (cpu_mem s') (b + field_offset r) = sentinel r) \<and>
    mem_get (cpu_mem s') (b + field_offset RSP) = b \<and> mem_get (cpu_mem s') (b + field_offset RA) = su_at E l \<and>
    unchanged_outside (b - 8) 160 (cpu_mem s) (cpu_mem s')"
proof -
  let ?t = "push_word (su_at E l) s"
  have t: "cpu_gpr ?t = (cpu_gpr s)(RSP := b - 8)" "cpu_mem ?t = mem_put (cpu_mem s) (b - 8) (su_at E l)"
    "cpu_mxcsr ?t = cpu_mxcsr s" "cpu_fcw ?t = cpu_fcw s"
    by (simp_all add: cpu_steps assms)
  have ra: "mem_get (cpu_mem ?t) (b - 8) = su_at E l" by (simp add: t(2))
  have run: "exec (\<lambda>_ _. None) save_code ?t = Some (Leaves (return_pop
      (set_gpr RAX (su_at E l) ?t\<lparr>cpu_mem := saved_memory ?t\<rparr>)))"
    "unchanged_outside b image_size (cpu_mem ?t) (saved_memory ?t)"
    using save_run[of ?t "\<lambda>_ _. None"] ra by (simp_all add: t assms frame_apart)
  let ?s' = "return_pop (set_gpr RAX (su_at E l) ?t\<lparr>cpu_mem := saved_memory ?t\<rparr>)"
  have rip: "mem_get (saved_memory ?t) (b - 8) = su_at E l"
    using unchanged_get[OF run(2), of "b - 8", where ?'w = 64] ra by (simp add: frame_apart)
  have s': "cpu_gpr ?s' = (cpu_gpr s)(RAX := su_at E l)" "cpu_rip ?s' = su_at E l"
    "cpu_mem ?s' = saved_memory ?t" "cpu_mxcsr ?s' = cpu_mxcsr s" "cpu_fcw ?s' = cpu_fcw s"
    using rip by (auto simp: return_pop_def set_gpr_def t assms fun_eq_iff)
  have "unchanged_outside (b - 8) 160 (cpu_mem s) (saved_memory ?t)"
  proof (rule unchanged_trans)
    show "unchanged_outside (b - 8) 160 (cpu_mem s) (cpu_mem ?t)"
      unfolding t(2) by (intro unchanged_put unchanged_refl) simp_all
    show "unchanged_outside (b - 8) 160 (cpu_mem ?t) (saved_memory ?t)"
      by (rule unchanged_wider[OF run(2)]) (simp_all add: image_size_def)
  qed
  moreover have "mem_get (saved_memory ?t) (b + field_offset g) = registers_get g (abi_image ?t (b - 8))"
    if "g \<in> {RBX, RBP, R12, R13, R14, R15, RSP, RA}" for g
    using saved_memory_field[OF that, of ?t] by (simp add: t assms registers_take_get)
  then have "\<forall>r\<in>set saved_registers. mem_get (saved_memory ?t) (b + field_offset r) = sentinel r"
    "mem_get (saved_memory ?t) (b + field_offset RSP) = b" "mem_get (saved_memory ?t) (b + field_offset RA) = su_at E l"
    using assms(4) ra by (simp_all add: saved_registers_def abi_image_def t)
  ultimately show ?thesis
    using s' run(1) by (intro exI[of _ ?s']) (simp add: probe_exec.simps assms(1) calls_code_def)
qed

lemma frame_survives:
  assumes "unchanged_outside (e - 208) 160 m m'" "k \<in> {0, 8, 16, 24, 32, 40, 48}"
  shows "(mem_get m' (e - k) :: u64) = mem_get m (e - k)"
  using assms(2) by (auto intro!: unchanged_get[OF assms(1)] simp: apart_def)

lemma capture_checks:
  assumes "\<And>r. r \<in> set saved_registers \<Longrightarrow> cpu_gpr s r = sentinel r"
    "\<And>r. r \<in> set saved_registers \<Longrightarrow> mem_get (cpu_mem s) (cpu_gpr s RSP + field_offset r) = sentinel r"
  shows "\<exists>z'. probe_exec E (concat (map (check_register l) saved_registers) @
      concat (map (check_field l) saved_registers) @ ys) (z, s) = probe_exec E ys (z', s)"
proof -
  obtain z1 where "probe_exec E (concat (map (check_register l) saved_registers) @
      concat (map (check_field l) saved_registers) @ ys) (z, s) =
      probe_exec E (concat (map (check_field l) saved_registers) @ ys) (z1, s)"
    using check_registers[OF assms(1)] by blast
  with check_fields[OF assms(2)] show ?thesis by metis
qed

text \<open>From the return of a capture to the end, with what is checked besides in the middle.\<close>

lemma probe_finish:
  assumes "\<And>r. r \<in> set saved_registers \<Longrightarrow> cpu_gpr t r = sentinel r"
    "\<And>r. r \<in> set saved_registers \<Longrightarrow> mem_get (cpu_mem t) (cpu_gpr t RSP + field_offset r) = sentinel r"
    "\<And>z ys. probe_exec E (mid @ ys) (z, t) = probe_exec E ys (True, set_gpr RDX x t)"
    "fail \<noteq> finish" "cpu_gpr s RSP = e" "cpu_gpr t RSP + n = e - 48"
    "\<And>k. k \<in> {0, 8, 16, 24, 32, 40, 48} \<Longrightarrow> (mem_get (cpu_mem t) (e - k) :: u64) = mem_get (pushed_memory s) (e - k)"
    "cpu_mxcsr t = cpu_mxcsr s" "cpu_fcw t = cpu_fcw s"
  shows "passes_probe s (probe_exec E (concat (map (check_register fail) saved_registers) @
    concat (map (check_field fail) saved_registers) @ mid @ verdict fail finish @
    [Do (AddImm n RSP)] @ saved_pops @ [Retq]) (z, t))"
proof -
  let ?last = "[Do (AddImm n RSP)] @ saved_pops @ [Retq]"
  obtain z' where z': "probe_exec E (concat (map (check_register fail) saved_registers) @
      concat (map (check_field fail) saved_registers) @ mid @ verdict fail finish @ ?last) (z, t) =
      probe_exec E (mid @ verdict fail finish @ ?last) (z', t)"
    using capture_checks[OF assms(1,2)] by blast
  let ?t = "set_gpr RAX 1 (set_gpr RDX x t)"
  have "probe_exec E (mid @ verdict fail finish @ ?last) (z', t) = probe_exec E ?last (True, ?t)"
    using assms(3) verdict_passes[OF assms(4)] by simp
  also have "\<dots> = probe_exec E (saved_pops @ [Retq]) (True, set_gpr RSP (e - 48) ?t)"
    using assms(6) by (simp add: probe_exec.simps set_gpr_def)
  finally have "probe_exec E (mid @ verdict fail finish @ ?last) (z', t) =
    probe_exec E (saved_pops @ [Retq]) (True, set_gpr RSP (e - 48) ?t)" .
  moreover have "passes_probe s (probe_exec E (saved_pops @ [Retq]) (True, set_gpr RSP (e - 48) ?t))"
    by (rule epilogue_restores[OF assms(5)]) (use assms(7-9) in \<open>simp_all add: set_gpr_def\<close>)
  ultimately show ?thesis unfolding z' by simp
qed

text \<open>The processor where a capture is called: the sentinels set, and the image at the stack pointer.\<close>

definition capture_ready :: "cpu \<Rightarrow> cpu" where
  "capture_ready s = (let e = cpu_gpr s RSP in
    s\<lparr>cpu_gpr := (\<lambda>r. if r \<in> set saved_registers then sentinel r
      else ((cpu_gpr s)(RSP := e - 200)) r)(RDI := e - 200), cpu_mem := pushed_memory s\<rparr>)"

definition capture_setup :: "probe_instr list" where
  "capture_setup = map (\<lambda>r. Do (Push r)) saved_registers @ [Do (SubImm (of_nat image_size) RSP)] @
    map (\<lambda>r. LoadImm (sentinel r) r) saved_registers @ [Do (MovReg RSP RDI)]"

lemma capture_setup_runs: "probe_exec E (capture_setup @ ys) (z, s) = probe_exec E ys (z, capture_ready s)"
proof -
  have "fold (probe_step E) capture_setup (z, s) = (z, capture_ready s)"
    by (simp add: capture_setup_def pushes sentinels_loaded set_gpr_def image_size_def capture_ready_def Let_def
        saved_registers_apart cong: if_cong)
  moreover have "list_all probe_straight capture_setup" by (simp add: capture_setup_def saved_registers_def)
  ultimately show ?thesis by (simp add: probe_exec_straight)
qed

lemma capture_ready:
  assumes "cpu_gpr s RSP = e"
  shows "cpu_gpr (capture_ready s) RSP = e - 200" "cpu_gpr (capture_ready s) RDI = e - 200"
    "\<And>r. r \<in> set saved_registers \<Longrightarrow> cpu_gpr (capture_ready s) r = sentinel r"
    "cpu_mem (capture_ready s) = pushed_memory s" "cpu_mxcsr (capture_ready s) = cpu_mxcsr s"
    "cpu_fcw (capture_ready s) = cpu_fcw s"
  using saved_registers_apart assms by (auto simp: capture_ready_def Let_def)

lemma capture_probe_run:
  assumes "su_callees E Capture = calls_code save_code"
  shows "passes_probe s (probe_exec E probe_capture (z, s))"
proof -
  define e where "e = cpu_gpr s RSP"
  let ?l = "''.Lcapture_return''" and ?f = "''.Lcapture_fail''"
  let ?mid = "[CmpMem RSP (field_offset RSP) RSP, Jne ?f, LeaLabel ?l RDX, CmpMem RDX (field_offset RA) RSP, Jne ?f]"
  let ?rest = "concat (map (check_register ?f) saved_registers) @ concat (map (check_field ?f) saved_registers) @
    ?mid @ verdict ?f ''.Lcapture_done'' @ [Do (AddImm (of_nat image_size) RSP)] @ saved_pops @ [Retq]"
  define s1 where "s1 = capture_ready s"
  note s1 = capture_ready[OF e_def[symmetric], folded s1_def]
  have 1: "probe_exec E probe_capture (z, s) = probe_exec E (CallSym Capture ?l # Label ?l # ?rest) (z, s1)"
    using capture_setup_runs[of E "CallSym Capture ?l # Label ?l # ?rest" z s]
    by (simp add: probe_capture_def capture_setup_def s1_def)
  obtain s2 where s2: "probe_exec E (CallSym Capture ?l # Label ?l # ?rest) (z, s1) =
      probe_exec E (Label ?l # ?rest) (z, s2)"
    "cpu_gpr s2 = (cpu_gpr s1)(RAX := su_at E ?l)" "cpu_mxcsr s2 = cpu_mxcsr s1" "cpu_fcw s2 = cpu_fcw s1"
    "\<forall>r\<in>set saved_registers. mem_get (cpu_mem s2) (e - 200 + field_offset r) = sentinel r"
    "mem_get (cpu_mem s2) (e - 200 + field_offset RSP) = e - 200"
    "mem_get (cpu_mem s2) (e - 200 + field_offset RA) = su_at E ?l"
    "unchanged_outside (e - 200 - 8) 160 (cpu_mem s1) (cpu_mem s2)"
    using capture_called[OF assms s1(1-3)] by blast
  have rsp: "cpu_gpr s2 RSP = e - 200" using s2(2) s1(1) by simp
  have "passes_probe s (probe_exec E ?rest (z, s2))"
  proof (rule probe_finish)
    show "probe_exec E (?mid @ ys) (z, s2) = probe_exec E ys (True, set_gpr RDX (su_at E ?l) s2)" for z ys
      using s2(6,7) rsp by (simp add: probe_exec.simps set_gpr_def)
    show "cpu_gpr s2 r = sentinel r" if "r \<in> set saved_registers" for r
      using that s2(2) s1(3) saved_registers_apart(2) by auto
    show "(mem_get (cpu_mem s2) (e - k) :: u64) = mem_get (pushed_memory s) (e - k)"
      if "k \<in> {0, 8, 16, 24, 32, 40, 48}" for k
      using frame_survives[of e "cpu_mem s1" "cpu_mem s2" k] that s2(8) s1(4) by simp
    show "mem_get (cpu_mem s2) (cpu_gpr s2 RSP + field_offset r) = sentinel r"
      if "r \<in> set saved_registers" for r using that s2(5) rsp by simp
  qed (simp_all add: rsp s2(3,4) s1(5,6) e_def image_size_def)
  then show ?thesis unfolding 1 s2(1) by (simp add: probe_exec.simps)
qed

section \<open>Capture at an entry\<close>

lemma entry_called:
  assumes "su_callees E Capture = calls_code entry_code" "cpu_gpr s RSP = b" "cpu_gpr s RDI = b"
    "cpu_gpr s RSI = b + 152" "\<And>r. r \<in> set saved_registers \<Longrightarrow> cpu_gpr s r = sentinel r"
    "mem_get (cpu_mem s) (b + 152) = entry_marker"
  shows "\<exists>s'. probe_exec E (CallSym Capture l # ys) (z, s) = probe_exec E ys (z, s') \<and>
    cpu_gpr s' = (cpu_gpr s)(RAX := entry_marker) \<and> cpu_mxcsr s' = cpu_mxcsr s \<and> cpu_fcw s' = cpu_fcw s \<and>
    (\<forall>r\<in>set saved_registers. mem_get (cpu_mem s') (b + field_offset r) = sentinel r) \<and>
    mem_get (cpu_mem s') (b + field_offset RSP) = b + 160 \<and> mem_get (cpu_mem s') (b + field_offset RA) = entry_marker \<and>
    unchanged_outside (b - 8) 160 (cpu_mem s) (cpu_mem s')"
proof -
  let ?t = "push_word (su_at E l) s"
  have t: "cpu_gpr ?t = (cpu_gpr s)(RSP := b - 8)" "cpu_mem ?t = mem_put (cpu_mem s) (b - 8) (su_at E l)"
    "cpu_mxcsr ?t = cpu_mxcsr s" "cpu_fcw ?t = cpu_fcw s"
    by (simp_all add: cpu_steps assms)
  have mark: "mem_get (cpu_mem ?t) (b + 152) = entry_marker"
    unfolding t(2) using assms(6) by (simp add: mem_get_put_apart apart_def)
  obtain m where m: "exec (\<lambda>_ _. None) entry_code ?t = Some (Leaves (return_pop
      (set_gpr RAX entry_marker ?t\<lparr>cpu_mem := m\<rparr>)))"
    "registers_take m b = abi_image ?t (b + 152)" "unchanged_outside b image_size (cpu_mem ?t) m"
    using entry_exec[of ?t "\<lambda>_ _. None"] mark by (auto simp: t assms(2-4) frame_apart apart_def image_size_def)
  let ?s' = "return_pop (set_gpr RAX entry_marker ?t\<lparr>cpu_mem := m\<rparr>)"
  have rip: "mem_get m (b - 8) = su_at E l"
    using unchanged_get[OF m(3), of "b - 8", where ?'w = 64] by (simp add: frame_apart t(2))
  have s': "cpu_gpr ?s' = (cpu_gpr s)(RAX := entry_marker)" "cpu_rip ?s' = su_at E l"
    "cpu_mem ?s' = m" "cpu_mxcsr ?s' = cpu_mxcsr s" "cpu_fcw ?s' = cpu_fcw s"
    using rip by (auto simp: return_pop_def set_gpr_def t assms(2) fun_eq_iff)
  have "unchanged_outside (b - 8) 160 (cpu_mem s) m"
  proof (rule unchanged_trans)
    show "unchanged_outside (b - 8) 160 (cpu_mem s) (cpu_mem ?t)"
      unfolding t(2) by (intro unchanged_put unchanged_refl) simp_all
    show "unchanged_outside (b - 8) 160 (cpu_mem ?t) m"
      by (rule unchanged_wider[OF m(3)]) (simp_all add: image_size_def)
  qed
  moreover have f: "mem_get m (b + field_offset g) = registers_get g (abi_image ?t (b + 152))" for g
    using registers_take_get[of g m b] m(2) by simp
  then have "\<forall>r\<in>set saved_registers. mem_get m (b + field_offset r) = sentinel r"
    "mem_get m (b + field_offset RSP) = b + 160" "mem_get m (b + field_offset RA) = entry_marker"
    using assms(5) mark by (simp_all add: saved_registers_def abi_image_def t)
  ultimately show ?thesis
    using s' m(1) by (intro exI[of _ ?s']) (simp add: probe_exec.simps assms(1) calls_code_def)
qed

definition entry_ready :: "cpu \<Rightarrow> cpu" where
  "entry_ready s = (let e = cpu_gpr s RSP in
    s\<lparr>cpu_gpr := (\<lambda>r. if r \<in> set saved_registers then sentinel r
      else ((cpu_gpr s)(RSP := e - 208)) r)(RSI := e - 56, RDI := e - 208),
      cpu_mem := mem_put (pushed_memory s) (e - 56) entry_marker\<rparr>)"

definition entry_setup :: "probe_instr list" where
  "entry_setup = map (\<lambda>r. Do (Push r)) saved_registers @ [Do (SubImm 160 RSP), Do (MovImm entry_marker 152 RSP)] @
    map (\<lambda>r. LoadImm (sentinel r) r) saved_registers @ [Do (Lea 152 RSP RSI), Do (MovReg RSP RDI)]"

lemma entry_setup_runs: "probe_exec E (entry_setup @ ys) (z, s) = probe_exec E ys (z, entry_ready s)"
proof -
  have "fold (probe_step E) entry_setup (z, s) = (z, entry_ready s)"
    by (simp add: entry_setup_def pushes sentinels_loaded set_gpr_def put_mem_def entry_ready_def Let_def
        saved_registers_apart cong: if_cong)
  moreover have "list_all probe_straight entry_setup" by (simp add: entry_setup_def saved_registers_def)
  ultimately show ?thesis by (simp add: probe_exec_straight)
qed

lemma entry_ready:
  assumes "cpu_gpr s RSP = e"
  shows "cpu_gpr (entry_ready s) RSP = e - 208" "cpu_gpr (entry_ready s) RDI = e - 208"
    "cpu_gpr (entry_ready s) RSI = e - 208 + 152"
    "\<And>r. r \<in> set saved_registers \<Longrightarrow> cpu_gpr (entry_ready s) r = sentinel r"
    "mem_get (cpu_mem (entry_ready s)) (e - 208 + 152) = entry_marker"
    "cpu_mem (entry_ready s) = mem_put (pushed_memory s) (e - 56) entry_marker"
    "cpu_mxcsr (entry_ready s) = cpu_mxcsr s" "cpu_fcw (entry_ready s) = cpu_fcw s"
  using saved_registers_apart assms by (auto simp: entry_ready_def Let_def)

lemma entry_probe_run:
  assumes "su_callees E Capture = calls_code entry_code"
  shows "passes_probe s (probe_exec E probe_entry (z, s))"
proof -
  define e where "e = cpu_gpr s RSP"
  let ?l = "''.Lentry_return''" and ?f = "''.Lentry_fail''"
  let ?mid = "[Do (Lea 160 RSP RDX), CmpMem RDX (field_offset RSP) RSP, Jne ?f,
    CmpMemImm entry_marker (field_offset RA) RSP, Jne ?f]"
  let ?rest = "concat (map (check_register ?f) saved_registers) @ concat (map (check_field ?f) saved_registers) @
    ?mid @ verdict ?f ''.Lentry_done'' @ [Do (AddImm 160 RSP)] @ saved_pops @ [Retq]"
  define s1 where "s1 = entry_ready s"
  note s1 = entry_ready[OF e_def[symmetric], folded s1_def]
  have 1: "probe_exec E probe_entry (z, s) = probe_exec E (CallSym Capture ?l # ?rest) (z, s1)"
    using entry_setup_runs[of E "CallSym Capture ?l # ?rest" z s]
    by (simp add: probe_entry_def entry_setup_def s1_def Let_def image_size_def)
  obtain s2 where s2: "probe_exec E (CallSym Capture ?l # ?rest) (z, s1) = probe_exec E ?rest (z, s2)"
    "cpu_gpr s2 = (cpu_gpr s1)(RAX := entry_marker)" "cpu_mxcsr s2 = cpu_mxcsr s1" "cpu_fcw s2 = cpu_fcw s1"
    "\<forall>r\<in>set saved_registers. mem_get (cpu_mem s2) (e - 208 + field_offset r) = sentinel r"
    "mem_get (cpu_mem s2) (e - 208 + field_offset RSP) = e - 208 + 160"
    "mem_get (cpu_mem s2) (e - 208 + field_offset RA) = entry_marker"
    "unchanged_outside (e - 208 - 8) 160 (cpu_mem s1) (cpu_mem s2)"
    using entry_called[OF assms s1(1-5)] by blast
  have rsp: "cpu_gpr s2 RSP = e - 208" using s2(2) s1(1) by simp
  have "passes_probe s (probe_exec E ?rest (z, s2))"
  proof (rule probe_finish)
    show "probe_exec E (?mid @ ys) (z, s2) = probe_exec E ys (True, set_gpr RDX (e - 48) s2)" for z ys
      using s2(6,7) rsp by (simp add: probe_exec.simps set_gpr_def)
    show "cpu_gpr s2 r = sentinel r" if "r \<in> set saved_registers" for r
      using that s2(2) s1(4) saved_registers_apart(2) by auto
    show "(mem_get (cpu_mem s2) (e - k) :: u64) = mem_get (pushed_memory s) (e - k)"
      if k: "k \<in> {0, 8, 16, 24, 32, 40, 48}" for k
    proof -
      have "(mem_get (cpu_mem s2) (e - k) :: u64) = mem_get (cpu_mem s1) (e - k)"
        by (rule unchanged_get[OF s2(8)]) (use k in \<open>auto simp: apart_def\<close>)
      also have "\<dots> = mem_get (pushed_memory s) (e - k)"
        unfolding s1(6) using k by (auto intro!: mem_get_put_apart simp: apart_def)
      finally show ?thesis .
    qed
    show "mem_get (cpu_mem s2) (cpu_gpr s2 RSP + field_offset r) = sentinel r"
      if "r \<in> set saved_registers" for r using that s2(5) rsp by simp
  qed (simp_all add: rsp s2(3,4) s1(7,8) e_def)
  then show ?thesis unfolding 1 s2(1) .
qed

section \<open>Transfer\<close>

definition image_registers :: "reg list" where
  "image_registers = [RAX, RDX, RCX, RBX, RSI, RDI, RBP, RSP, R8, R9, R10, R11, R12, R13, R14, R15, RA, MXCSR, FCW]"

definition put_fields :: "u64 \<Rightarrow> u64 \<Rightarrow> reg list \<Rightarrow> memory \<Rightarrow> memory" where
  "put_fields p v gs m = fold (\<lambda>g m. mem_put m (p + field_offset g) v) gs m"

lemma put_fields_get:
  "registers_get h (registers_take (put_fields p v gs m) p) =
    (if h \<in> set gs then v else registers_get h (registers_take m p))"
  by (induction gs arbitrary: m) (simp_all add: put_fields_def field_put)

lemma put_fields_unchanged: "unchanged_outside p image_size m m' \<Longrightarrow> unchanged_outside p image_size m (put_fields p v gs m')"
  by (induction gs arbitrary: m') (simp_all add: put_fields_def unchanged_put_field)

lemma stosq_fields: "fold (\<lambda>i m. mem_put m (p + of_nat (8 * i)) v) [0..<19] m = put_fields p v image_registers m"
proof -
  have "[0..<19] = map field_index image_registers" by (simp add: image_registers_def upt_rec)
  then show ?thesis by (simp add: put_fields_def fold_map comp_def field_offset_def)
qed

lemma image_registers_all: "g \<in> set image_registers"
  by (cases g) (simp_all add: image_registers_def)

text \<open>The memory of the transfer probe: the saved registers, the zeroed image, the fields.\<close>

definition parked_memory :: "cpu \<Rightarrow> memory" where
  "parked_memory s = (let b = cpu_gpr s RSP - 224;
      m = fold (\<lambda>r m. mem_put m (b + saved_slot_of r) (cpu_gpr s r)) saved_registers (cpu_mem s)
    in mem_put m (b + 200) (cpu_gpr s RSP))"

definition landing_image :: "surroundings \<Rightarrow> cpu \<Rightarrow> Registers" where
  "landing_image E s = (let b = cpu_gpr s RSP - 224 in
    registers_zeroed\<lparr>reg_rax := sentinel RAX, reg_rdx := sentinel RDX, reg_rbx := sentinel RBX,
      reg_rbp := sentinel RBP, reg_r12 := sentinel R12, reg_r13 := sentinel R13, reg_r14 := sentinel R14,
      reg_r15 := sentinel R15, reg_r11 := b, reg_rsp := b + 216, reg_ra := su_at E ''.Lrestore_landing'',
      reg_mxcsr := ucast (cpu_mxcsr s), reg_fcw := ucast (cpu_fcw s)\<rparr>)"

lemma restore_sizes:
  "saved_slot_of RBX = 152" "saved_slot_of RBP = 160" "saved_slot_of R12 = 168" "saved_slot_of R13 = 176"
  "saved_slot_of R14 = 184" "saved_slot_of R15 = 192" "saved_slot_of RSP = 200"
  "target_rsp = 216" "restore_frame = 224"
  by (simp_all add: saved_slot_of_def image_size_def landing_slot_def target_rsp_def restore_frame_def)

lemma parked_back:
  assumes "cpu_gpr s RSP = b + 224"
  shows "mem_get (parked_memory s) (b + 152) = cpu_gpr s RBX" "mem_get (parked_memory s) (b + 160) = cpu_gpr s RBP"
    "mem_get (parked_memory s) (b + 168) = cpu_gpr s R12" "mem_get (parked_memory s) (b + 176) = cpu_gpr s R13"
    "mem_get (parked_memory s) (b + 184) = cpu_gpr s R14" "mem_get (parked_memory s) (b + 192) = cpu_gpr s R15"
    "mem_get (parked_memory s) (b + 200) = b + 224"
    "(mem_get (parked_memory s) (b + 224) :: u64) = mem_get (cpu_mem s) (b + 224)"
  by (simp_all add: parked_memory_def saved_registers_def restore_sizes Let_def assms mem_get_put_apart apart_def)

text \<open>The image built by the probe.\<close>

definition built_memory :: "surroundings \<Rightarrow> cpu \<Rightarrow> memory" where
  "built_memory E s = (let b = cpu_gpr s RSP - 224;
      put = (\<lambda>g (v :: u64) m. mem_put m (b + field_offset g) v);
      m = put_fields b 0 image_registers (parked_memory s);
      m = fold (\<lambda>r. put r (sentinel r)) (RAX # RDX # saved_registers) m;
      m = put RA (su_at E ''.Lrestore_landing'') (put RSP (b + 216) (put R11 b m))
    in mem_put (mem_put m (b + field_offset MXCSR) (cpu_mxcsr s)) (b + field_offset FCW) (cpu_fcw s))"

lemma built_image: "registers_take (built_memory E s) (cpu_gpr s RSP - 224) = landing_image E s"
proof (rule registers_eqI)
  fix g
  show "registers_get g (registers_take (built_memory E s) (cpu_gpr s RSP - 224)) =
      registers_get g (landing_image E s)"
    by (cases g; simp add: built_memory_def saved_registers_def Let_def field_put field_put_narrow put_fields_get
          image_registers_all del: registers_get.simps; simp add: landing_image_def registers_zeroed_def Let_def)
qed

lemma built_unchanged: "unchanged_outside (cpu_gpr s RSP - 224) image_size (parked_memory s) (built_memory E s)"
  by (simp add: built_memory_def saved_registers_def Let_def unchanged_put_field put_fields_unchanged)

definition restore_setup :: "probe_instr list" where
  "restore_setup =
    [Do (SubImm restore_frame RSP)] @ map (\<lambda>r. Do (Store r (saved_slot_of r) RSP)) saved_registers @
    [Do (Lea restore_frame RSP RAX), Do (Store RAX (saved_slot_of RSP) RSP), Do Cld, Do (MovReg RSP RDI),
     LoadImm 0 RAX, LoadImm (of_nat (image_size div 8)) RCX, RepStosq] @
    map (\<lambda>r. Do (MovImm (sentinel r) (field_offset r) RSP)) (RAX # RDX # saved_registers) @
    [Do (Store RSP (field_offset R11) RSP), Do (Lea target_rsp RSP RAX), Do (Store RAX (field_offset RSP) RSP),
     LeaLabel ''.Lrestore_landing'' RAX, Do (Store RAX (field_offset RA) RSP),
     Do (Stmxcsr (field_offset MXCSR) RSP), Do (Fnstcw (field_offset FCW) RSP), Do (MovReg RSP RDI)]"

lemma setup_parks:
  assumes "cpu_gpr s RSP = b + 224"
  shows "fold (probe_step E) ([Do (SubImm restore_frame RSP)] @
      map (\<lambda>r. Do (Store r (saved_slot_of r) RSP)) saved_registers @
      [Do (Lea restore_frame RSP RAX), Do (Store RAX (saved_slot_of RSP) RSP), Do Cld, Do (MovReg RSP RDI),
       LoadImm 0 RAX, LoadImm (of_nat (image_size div 8)) RCX]) (z, s) =
    (z, s\<lparr>cpu_gpr := (cpu_gpr s)(RSP := b, RDI := b, RAX := 0, RCX := 19), cpu_df := False,
      cpu_mem := parked_memory s\<rparr>)"
  by (simp add: saved_registers_def restore_sizes set_gpr_def put_mem_def parked_memory_def Let_def assms image_size_def
      fun_eq_iff)

lemma stosq_parked:
  assumes "cpu_gpr t RDI = b" "cpu_gpr t RAX = 0" "cpu_gpr t RCX = 19" "\<not> cpu_df t"
  shows "rep_stosq t = t\<lparr>cpu_gpr := (cpu_gpr t)(RCX := 0, RDI := b + 152),
    cpu_mem := put_fields b 0 image_registers (cpu_mem t)\<rparr>"
  using stosq_fields[of b 0 "cpu_mem t"]
  by (simp add: rep_stosq_def stosq_addr_def assms set_gpr_def Let_def fun_eq_iff)

lemma setup_builds:
  assumes "cpu_gpr s RSP = b + 224"
  shows "\<exists>t. fold (probe_step E) restore_setup (z, s) = (z, t) \<and> cpu_mem t = built_memory E s \<and>
    cpu_gpr t RDI = b"
proof -
  let ?t = "s\<lparr>cpu_gpr := (cpu_gpr s)(RSP := b, RAX := 0, RCX := 0, RDI := b + 152), cpu_df := False,
      cpu_mem := put_fields b 0 image_registers (parked_memory s)\<rparr>"
  have "rep_stosq (s\<lparr>cpu_gpr := (cpu_gpr s)(RSP := b, RDI := b, RAX := 0, RCX := 19), cpu_df := False,
      cpu_mem := parked_memory s\<rparr>) = ?t"
    by (rule cpu.equality) (simp_all add: stosq_parked fun_eq_iff)
  then have "fold (probe_step E) restore_setup (z, s) = fold (probe_step E)
    (map (\<lambda>r. Do (MovImm (sentinel r) (field_offset r) RSP)) (RAX # RDX # saved_registers) @
    [Do (Store RSP (field_offset R11) RSP), Do (Lea target_rsp RSP RAX), Do (Store RAX (field_offset RSP) RSP),
     LeaLabel ''.Lrestore_landing'' RAX, Do (Store RAX (field_offset RA) RSP),
     Do (Stmxcsr (field_offset MXCSR) RSP), Do (Fnstcw (field_offset FCW) RSP), Do (MovReg RSP RDI)]) (z, ?t)"
    using setup_parks[OF assms, of E z] by (simp add: restore_setup_def)
  then show ?thesis
    by (simp add: saved_registers_def restore_sizes set_gpr_def put_mem_def built_memory_def Let_def assms)
qed

text \<open>The landing: every value of the image is in place, and the parked registers come back.\<close>

lemma flags_clear:
  assumes "\<not> cpu_df t"
  shows "flags_word E t AND direction_bit = 0"
  by (rule bit_word_eqI) (use assms in \<open>simp add: flags_word_def bit_simps\<close>)

lemma landing_checks:
  assumes "cpu_gpr t R11 = b" "cpu_gpr t RSP = b + 216" "\<not> cpu_df t"
    "\<And>r. r \<in> set (RAX # RDX # saved_registers) \<Longrightarrow> cpu_gpr t r = sentinel r"
    "cpu_gpr s RSP = b + 224" "cpu_mxcsr t = cpu_mxcsr s" "cpu_fcw t = cpu_fcw s"
    "\<And>a. a \<in> {b + 152, b + 160, b + 168, b + 176, b + 184, b + 192, b + 200, b + 224} \<Longrightarrow>
      (mem_get (cpu_mem t) a :: u64) = mem_get (parked_memory s) a"
  shows "passes_probe s (probe_exec E (
    [Label l, Pushfq, Pop RCX, TestImm direction_bit RCX, Jne ''.Lrestore_fail''] @
    concat (map (check_register ''.Lrestore_fail'') (RAX # RDX # saved_registers)) @
    [Do (Lea target_rsp R11 RCX), CmpReg RCX RSP, Jne ''.Lrestore_fail''] @
    verdict ''.Lrestore_fail'' ''.Lrestore_done'' @
    map (\<lambda>r. Do (Load (saved_slot_of r) R11 r)) saved_registers @
    [Do (Load (saved_slot_of RSP) R11 RSP), Retq]) (z, t))"
proof -
  let ?f = "''.Lrestore_fail''"
  let ?loads = "map (\<lambda>r. Do (Load (saved_slot_of r) R11 r)) saved_registers @ [Do (Load (saved_slot_of RSP) R11 RSP)]"
  let ?mid = "[Do (Lea target_rsp R11 RCX), CmpReg RCX RSP, Jne ?f] @ verdict ?f ''.Lrestore_done'' @ ?loads @ [Retq]"
  let ?m = "mem_put (cpu_mem t) (b + 208) (flags_word E t)"
  define u where "u = t\<lparr>cpu_gpr := (cpu_gpr t)(RCX := flags_word E t), cpu_mem := ?m\<rparr>"
  define v where "v = u\<lparr>cpu_gpr := (cpu_gpr u)(RCX := b + 216, RAX := 1)\<rparr>"
  have "pop_word RCX (push_word (flags_word E t) t) = u"
    by (rule cpu.equality) (simp_all add: u_def pop_word_def cpu_steps assms(2) fun_eq_iff add.commute[of 208 b])
  then have 1: "probe_exec E ([Label l, Pushfq, Pop RCX, TestImm direction_bit RCX, Jne ?f] @ ys) (z, t) =
      probe_exec E ys (True, u)" for ys
    using flags_clear[OF assms(3), of E] by (simp add: probe_exec.simps) (simp add: u_def)
  have "cpu_gpr u r = sentinel r" if "r \<in> set (RAX # RDX # saved_registers)" for r
    using assms(4)[OF that] that by (auto simp: u_def saved_registers_def)
  then obtain z' where 2: "probe_exec E (concat (map (check_register ?f) (RAX # RDX # saved_registers)) @ ?mid) (True, u) =
      probe_exec E ?mid (z', u)"
    using check_registers by blast
  have 3: "probe_exec E ?mid (z', u) = probe_exec E (?loads @ [Retq]) (True, v)"
    using verdict_passes[of ?f "''.Lrestore_done''"]
    by (simp add: probe_exec.simps set_gpr_def restore_sizes u_def v_def assms(1,2) fun_upd_twist)
  have parked: "(mem_get ?m a :: u64) = mem_get (parked_memory s) a"
    if "a \<in> {b + 152, b + 160, b + 168, b + 176, b + 184, b + 192, b + 200, b + 224}" for a
    using assms(8)[OF that] that by (auto simp: mem_get_put_apart apart_def)
  have "list_all probe_straight ?loads" by (simp add: saved_registers_def)
  from probe_exec_straight[OF this] have 4: "probe_exec E (?loads @ [Retq]) (True, v) =
      probe_exec E [Retq] (fold (probe_step E) ?loads (True, v))" .
  have "passes_probe s (probe_exec E (?loads @ [Retq]) (True, v))"
    unfolding 4
    using parked[of "b + 152"] parked[of "b + 160"] parked[of "b + 168"] parked[of "b + 176"] parked[of "b + 184"]
      parked[of "b + 192"] parked[of "b + 200"] parked[of "b + 224"]
    by (simp add: answers_probe_def probe_exec.simps saved_registers_def restore_sizes v_def u_def assms(1,5-7)
        parked_back[OF assms(5)] return_pop_def set_gpr_def)
  with 1 2 3 show ?thesis by simp
qed

text \<open>The transfer itself: the image built by the probe is installed.\<close>

lemma landing_reached:
  assumes "cpu_gpr s RSP = b + 224" "cpu_mem t = built_memory E s" "cpu_gpr t RDI = b"
  shows "\<exists>u. calls_code jump_code t = Some u \<and> cpu_rip u = su_at E ''.Lrestore_landing'' \<and>
    cpu_gpr u R11 = b \<and> cpu_gpr u RSP = b + 216 \<and> \<not> cpu_df u \<and>
    (\<forall>r\<in>set (RAX # RDX # saved_registers). cpu_gpr u r = sentinel r) \<and>
    cpu_mxcsr u = cpu_mxcsr s \<and> cpu_fcw u = cpu_fcw s \<and>
    (\<forall>a\<in>{b + 152, b + 160, b + 168, b + 176, b + 184, b + 192, b + 200, b + 224}.
      (mem_get (cpu_mem u) a :: u64) = mem_get (parked_memory s) a)"
proof -
  have im: "registers_take (cpu_mem t) (cpu_gpr t RDI) = landing_image E s"
    using built_image[of E s] by (simp add: assms)
  have far: "apart (reg_rsp (landing_image E s) - 8) 8 (cpu_gpr t RDI) image_size"
    by (simp add: landing_image_def assms apart_def image_size_def)
  obtain u where u: "exec (\<lambda>_ _. None) jump_code t = Some (Leaves u)"
    "\<And>g. g \<notin> {RA, MXCSR, FCW} \<Longrightarrow> cpu_gpr u g = registers_get g (landing_image E s)"
    "cpu_rip u = reg_ra (landing_image E s)" "cpu_mxcsr u = ucast (reg_mxcsr (landing_image E s))"
    "cpu_fcw u = ucast (reg_fcw (landing_image E s))" "\<not> cpu_df u"
    "cpu_mem u = mem_put (cpu_mem t) (reg_rsp (landing_image E s) - 8) (reg_ra (landing_image E s))"
    using jump_exec[OF im far, of "\<lambda>_ _. None"] by blast
  have "(mem_get (cpu_mem u) a :: u64) = mem_get (parked_memory s) a"
    if a: "a \<in> {b + 152, b + 160, b + 168, b + 176, b + 184, b + 192, b + 200, b + 224}" for a
  proof -
    have "(mem_get (cpu_mem u) a :: u64) = mem_get (built_memory E s) a"
      unfolding u(7) assms(2) using a by (auto intro!: mem_get_put_apart simp: landing_image_def assms(1) apart_def)
    also have "\<dots> = mem_get (parked_memory s) a"
      by (rule unchanged_get[OF built_unchanged]) (use a in \<open>auto simp: assms(1) apart_def image_size_def\<close>)
    finally show ?thesis .
  qed
  moreover have "cpu_gpr u r = sentinel r" if "r \<in> set (RAX # RDX # saved_registers)" for r
    using that u(2)[of r] by (auto simp: saved_registers_def landing_image_def)
  ultimately show ?thesis
    using u(1,3-6) u(2)[of R11] u(2)[of RSP]
    by (intro exI[of _ u]) (simp add: calls_code_def landing_image_def assms(1) narrow_back)
qed

lemma restore_probe_run:
  assumes "su_jump E = calls_code jump_code"
  shows "passes_probe s (probe_exec E probe_restore (z, s))"
proof -
  define b where "b = cpu_gpr s RSP - 224"
  have e: "cpu_gpr s RSP = b + 224" by (simp add: b_def)
  let ?l = "''.Lrestore_landing''"
  define land where "land = [Label ?l, Pushfq, Pop RCX, TestImm direction_bit RCX, Jne ''.Lrestore_fail''] @
    concat (map (check_register ''.Lrestore_fail'') (RAX # RDX # saved_registers)) @
    [Do (Lea target_rsp R11 RCX), CmpReg RCX RSP, Jne ''.Lrestore_fail''] @
    verdict ''.Lrestore_fail'' ''.Lrestore_done'' @
    map (\<lambda>r. Do (Load (saved_slot_of r) R11 r)) saved_registers @ [Do (Load (saved_slot_of RSP) R11 RSP), Retq]"
  obtain t where t: "fold (probe_step E) restore_setup (z, s) = (z, t)" "cpu_mem t = built_memory E s" "cpu_gpr t RDI = b"
    using setup_builds[OF e] by blast
  obtain u where u: "calls_code jump_code t = Some u" "cpu_rip u = su_at E ?l" "cpu_gpr u R11 = b"
    "cpu_gpr u RSP = b + 216" "\<not> cpu_df u" "\<forall>r\<in>set (RAX # RDX # saved_registers). cpu_gpr u r = sentinel r"
    "cpu_mxcsr u = cpu_mxcsr s" "cpu_fcw u = cpu_fcw s"
    "\<forall>a\<in>{b + 152, b + 160, b + 168, b + 176, b + 184, b + 192, b + 200, b + 224}.
      (mem_get (cpu_mem u) a :: u64) = mem_get (parked_memory s) a"
    using landing_reached[OF e t(2,3)] by blast
  have code: "probe_restore = restore_setup @ JumpSym ?l # land"
    by (simp add: probe_restore_def restore_setup_def land_def)
  have "list_all probe_straight restore_setup" by (simp add: restore_setup_def saved_registers_def)
  from probe_exec_straight[OF this] have "probe_exec E probe_restore (z, s) = probe_exec E (JumpSym ?l # land) (z, t)"
    unfolding code by (simp only: t(1))
  also have "\<dots> = probe_exec E land (z, u)"
    using u(1,2) by (simp add: probe_exec.simps assms seek_def land_def)
  finally have run: "probe_exec E probe_restore (z, s) = probe_exec E land (z, u)" .
  show ?thesis
    unfolding run land_def by (rule landing_checks[OF u(3-5) _ e u(7,8)]) (use u(6,9) in blast)+
qed

section \<open>The probes pass\<close>

text \<open>The surroundings the tests run a probe in: the code under test behind its symbol.\<close>

definition probing :: "(string \<Rightarrow> u64) \<Rightarrow> u64 \<Rightarrow> instr list \<Rightarrow> surroundings" where
  "probing at flags code = \<lparr>su_at = at, su_flags = flags,
     su_callees = (\<lambda>f. if f = Capture then calls_code code else (\<lambda>_. None)), su_jump = calls_code jump_code\<rparr>"

text \<open>C25. The machine probes pass on the processor model, from every state and wherever their labels are:
  a capture records the callee-saved registers, the stack pointer and the return address and leaves
  the registers alone, at its own frame and at a given entry; a transfer reaches the landing label
  with the registers, stack pointer and control words of the image and the direction flag clear;
  and each returns 1 to its caller with the caller's registers, stack and control words intact.\<close>

theorem machine_probes_pass:
  "passes_probe s (probe_exec (probing at flags save_code) probe_capture (z, s)) \<and>
   passes_probe s (probe_exec (probing at flags entry_code) probe_entry (z, s)) \<and>
   passes_probe s (probe_exec (probing at flags code) probe_restore (z, s))"
  by (intro conjI capture_probe_run entry_probe_run restore_probe_run) (simp_all add: probing_def)

end
