(* ===== verification/Headers.thy ===== *)
theory Headers
  imports PanicProps EntryFacts CxxRuntime
begin

text \<open>
  The \<open>repr(C)\<close> structures in memory: the layout the language gives them, the exception header and
  the panic packet as bytes, and that what the crates read through a pointer to a header, whoever
  produced it, is what the process state says.
\<close>

section \<open>Layout\<close>

text \<open>Each field at the next multiple of its alignment; the whole padded to a multiple of the greatest,
  which \<open>align(n)\<close> raises.\<close>

record form =
  form_size :: nat
  form_align :: nat

definition round_up :: "nat \<Rightarrow> nat \<Rightarrow> nat" where
  "round_up n a = (n + a - 1) div a * a"

fun offsets_from :: "nat \<Rightarrow> form list \<Rightarrow> nat list" where
  "offsets_from n [] = []"
| "offsets_from n (f # fs) = (let k = round_up n (form_align f) in k # offsets_from (k + form_size f) fs)"

fun end_from :: "nat \<Rightarrow> form list \<Rightarrow> nat" where
  "end_from n [] = n"
| "end_from n (f # fs) = end_from (round_up n (form_align f) + form_size f) fs"

definition repr_c :: "nat \<Rightarrow> form list \<Rightarrow> form" where
  "repr_c least fs = (let a = fold (\<lambda>f. max (form_align f)) fs least in
    \<lparr>form_size = round_up (end_from 0 fs) a, form_align = a\<rparr>)"

text \<open>A word, a thin pointer or an optional function; the fat pointer of a boxed trait object; and a
  zero-sized array of bytes.\<close>

definition word_form :: form where "word_form = \<lparr>form_size = 8, form_align = 8\<rparr>"
definition fat_form :: form where "fat_form = \<lparr>form_size = 16, form_align = 8\<rparr>"
definition empty_form :: form where "empty_form = \<lparr>form_size = 0, form_align = 1\<rparr>"

text \<open>\<open>Exception\<close>: class, cleanup function and the private words.\<close>

definition exception_fields :: "form list" where
  "exception_fields = [word_form, word_form, word_form, word_form]"

definition exception_form :: form where
  "exception_form = repr_c 16 exception_fields"

text \<open>\<open>Packet\<close>: header, canary, payload and hook.\<close>

definition packet_fields :: "form list" where
  "packet_fields = [exception_form, word_form, fat_form, word_form]"

definition packet_form :: form where
  "packet_form = repr_c 1 packet_fields"

text \<open>\<open>Registers\<close>: sixteen registers, the return address and the control words, all words.\<close>

definition registers_fields :: "form list" where
  "registers_fields = replicate 19 word_form"

definition registers_form :: form where
  "registers_form = repr_c 1 registers_fields"

text \<open>\<open>Context\<close> and \<open>TypeInfo\<close> are opaque.\<close>

definition opaque_form :: form where
  "opaque_form = repr_c 1 [empty_form]"

section \<open>Laws of a layout\<close>

lemma round_up:
  assumes "0 < a"
  shows "n \<le> round_up n a" "a dvd round_up n a" "round_up n a < n + a" "a dvd n \<Longrightarrow> round_up n a = n"
proof -
  have d: "(n + a - 1) div a * a + (n + a - 1) mod a = n + a - 1" by (rule div_mult_mod_eq)
  have m: "(n + a - 1) mod a < a" using assms by simp
  show "n \<le> round_up n a" "round_up n a < n + a" unfolding round_up_def using d m assms by linarith+
  show "a dvd round_up n a" by (simp add: round_up_def)
  assume "a dvd n"
  then obtain k where "n = a * k" by (rule dvdE)
  moreover have "(a * k + a - 1) div a = k" by (rule div_nat_eqI) (use assms in simp_all)
  ultimately show "round_up n a = n" by (simp add: round_up_def mult.commute)
qed

lemma offsets_length: "length (offsets_from n fs) = length fs"
  by (induction n fs rule: offsets_from.induct) (simp_all add: Let_def)

lemma end_from_le:
  assumes "\<forall>f\<in>set fs. 0 < form_align f"
  shows "n \<le> end_from n fs"
  using assms
proof (induction fs arbitrary: n)
  case (Cons f fs)
  then have "n \<le> round_up n (form_align f) + form_size f" using round_up(1)[of "form_align f" n] by simp
  also have "\<dots> \<le> end_from n (f # fs)" using Cons by simp
  finally show ?case .
qed simp

text \<open>Fields lie one after the other, aligned, and inside the structure.\<close>

lemma offsets_sound:
  assumes "\<forall>f\<in>set fs. 0 < form_align f" "i < length fs"
  shows "form_align (fs ! i) dvd offsets_from n fs ! i \<and> n \<le> offsets_from n fs ! i \<and>
    offsets_from n fs ! i + form_size (fs ! i) \<le> end_from n fs \<and>
    (\<forall>j<i. offsets_from n fs ! j + form_size (fs ! j) \<le> offsets_from n fs ! i)"
  using assms
proof (induction fs arbitrary: n i)
  case (Cons f fs)
  let ?k = "round_up n (form_align f)"
  note k = round_up(1,2)[of "form_align f" n]
  show ?case
  proof (cases i)
    case 0
    with k Cons.prems(1) show ?thesis using end_from_le[of fs "?k + form_size f"] by (simp add: Let_def)
  next
    case (Suc i')
    have IH: "form_align (fs ! i') dvd offsets_from (?k + form_size f) fs ! i' \<and>
        ?k + form_size f \<le> offsets_from (?k + form_size f) fs ! i' \<and>
        offsets_from (?k + form_size f) fs ! i' + form_size (fs ! i') \<le> end_from (?k + form_size f) fs \<and>
        (\<forall>j<i'. offsets_from (?k + form_size f) fs ! j + form_size (fs ! j) \<le> offsets_from (?k + form_size f) fs ! i')"
      using Cons.IH[of i' "?k + form_size f"] Cons.prems Suc by simp
    with k Cons.prems(1) Suc show ?thesis by (auto simp: Let_def less_Suc_eq_0_disj)
  qed
qed simp

text \<open>The layout test of \<open>unwind.rs\<close> and the prefix test of \<open>object.rs\<close>.\<close>

definition exception_layout :: bool where
  "exception_layout \<longleftrightarrow> form_size exception_form = 32 \<and> form_align exception_form = 16 \<and>
    offsets_from 0 exception_fields = [0, 8, 16, 24]"

definition packet_prefix_matches_rust_runtime_contract :: bool where
  "packet_prefix_matches_rust_runtime_contract \<longleftrightarrow>
    offsets_from 0 packet_fields ! 0 = 0 \<and> offsets_from 0 packet_fields ! 1 = form_size exception_form"

lemma layout_tests: exception_layout packet_prefix_matches_rust_runtime_contract
  by code_simp+

lemma words_from: "i < n \<Longrightarrow> offsets_from (8 * k) (replicate n word_form) ! i = 8 * (k + i)"
proof (induction n arbitrary: i k)
  case (Suc n)
  then show ?case
    using round_up(4)[of 8 "8 * k"] Suc.IH[of _ "Suc k"] by (cases i) (simp_all add: word_form_def Let_def add.commute)
qed simp

lemma registers_layout:
  "form_size registers_form = image_size" "offsets_from 0 registers_fields ! field_index g = unat (field_offset g)"
proof -
  have "form_size registers_form = 152" by code_simp
  then show "form_size registers_form = image_size" by (simp add: image_size_def)
  show "offsets_from 0 registers_fields ! field_index g = unat (field_offset g)"
    using words_from[of "field_index g" 19 0] field_index_less[of g] by (simp add: registers_fields_def unat_field_offset)
qed

section \<open>Headers in memory\<close>

definition exception_field :: "nat \<Rightarrow> u64" where
  "exception_field i = of_nat (offsets_from 0 exception_fields ! i)"

definition canary_field :: u64 where
  "canary_field = of_nat (offsets_from 0 packet_fields ! 1)"

lemma field_values [simp]:
  "exception_field 0 = 0" "exception_field (Suc 0) = 8" "exception_field 2 = 16" "exception_field 3 = 24" "canary_field = 32"
proof -
  have "offsets_from 0 exception_fields = [0, 8, 16, 24]" using layout_tests(1) by (simp add: exception_layout_def)
  then show "exception_field 0 = 0" "exception_field (Suc 0) = 8" "exception_field 2 = 16" "exception_field 3 = 24"
    by (simp_all add: exception_field_def eval_nat_numeral)
  have "form_size exception_form = 32" using layout_tests(1) by (simp add: exception_layout_def)
  with layout_tests(2) show "canary_field = 32"
    by (simp add: canary_field_def packet_prefix_matches_rust_runtime_contract_def)
qed

text \<open>An absent function is the null pointer.\<close>

definition private_store :: "usize \<Rightarrow> usize \<times> usize \<Rightarrow> memory \<Rightarrow> memory" where
  "private_store a ws m = mem_put (mem_put m (a + exception_field 2) (fst ws)) (a + exception_field 3) (snd ws)"

definition exception_store :: "usize \<Rightarrow> Exception \<Rightarrow> memory \<Rightarrow> memory" where
  "exception_store a e m = private_store a (private_words e)
    (mem_put (mem_put m (a + exception_field 0) (class_bits (exception_class e))) (a + exception_field 1)
      (case exception_cleanup e of Some f \<Rightarrow> f | None \<Rightarrow> 0))"

definition exception_load :: "memory \<Rightarrow> usize \<Rightarrow> Exception" where
  "exception_load m a = \<lparr>exception_class = ExceptionClass (mem_get m (a + exception_field 0)),
    exception_cleanup = nonzero (mem_get m (a + exception_field 1)),
    private_1 = mem_get m (a + exception_field 2), private_2 = mem_get m (a + exception_field 3)\<rparr>"

text \<open>A packet's prefix is stored with it.\<close>

definition prefix_store :: "usize \<Rightarrow> 'p Packet \<Rightarrow> memory \<Rightarrow> memory" where
  "prefix_store a packet m = mem_put (exception_store a (packet_unwind packet) m) (a + canary_field) (packet_canary packet)"

text \<open>\<open>take\<close> up to where it opens the packet: the class, and only behind a Rust header the canary.\<close>

definition take_verdict :: "usize \<Rightarrow> memory \<Rightarrow> usize \<Rightarrow> CatchError option" where
  "take_verdict canary m a =
    (if ExceptionClass (mem_get m (a + exception_field 0)) \<noteq> rust_class then Some CatchForeign
     else if mem_get m (a + canary_field) \<noteq> canary then Some CatchRust
     else None)"

lemma put_chain:
  "mem_get (mem_put m (a + 16) (v :: u64)) (a + 24) = (mem_get m (a + 24) :: u64)"
  "mem_get (mem_put m (a + 24) (v :: u64)) (a + 16) = (mem_get m (a + 16) :: u64)"
  "mem_get (mem_put m (a + 16) (v :: u64)) a = (mem_get m a :: u64)"
  "mem_get (mem_put m (a + 24) (v :: u64)) a = (mem_get m a :: u64)"
  "mem_get (mem_put m (a + 16) (v :: u64)) (a + 8) = (mem_get m (a + 8) :: u64)"
  "mem_get (mem_put m (a + 24) (v :: u64)) (a + 8) = (mem_get m (a + 8) :: u64)"
  "mem_get (mem_put m (a + 8) (v :: u64)) a = (mem_get m a :: u64)"
  "mem_get (mem_put m (a + 16) (v :: u64)) (a + 32) = (mem_get m (a + 32) :: u64)"
  "mem_get (mem_put m (a + 24) (v :: u64)) (a + 32) = (mem_get m (a + 32) :: u64)"
  "mem_get (mem_put m (a + 32) (v :: u64)) (a + 24) = (mem_get m (a + 24) :: u64)"
  "mem_get (mem_put m (a + 32) (v :: u64)) (a + 16) = (mem_get m (a + 16) :: u64)"
  "mem_get (mem_put m (a + 32) (v :: u64)) (a + 8) = (mem_get m (a + 8) :: u64)"
  "mem_get (mem_put m (a + 32) (v :: u64)) a = (mem_get m a :: u64)"
  by (rule mem_get_put_apart, simp add: apart_def)+

text \<open>A stored header is read back, and the unwinder's private words are all that writing them changes.\<close>

lemma exception_load_store:
  assumes "exception_cleanup e \<noteq> Some 0"
  shows "exception_load (exception_store a e m) a = e"
  using assms
  by (cases "exception_class e"; cases "exception_cleanup e")
     (simp_all add: exception_load_def exception_store_def private_store_def put_chain nonzero_def private_words_def)

lemma private_store_load:
  "exception_load (private_store a ws m) a = private_write ws (exception_load m a)"
  "(mem_get (private_store a ws m) (a + canary_field) :: usize) = mem_get m (a + canary_field)"
  "unchanged_outside (a + 16) 16 m (private_store a ws m)"
proof -
  show "exception_load (private_store a ws m) a = private_write ws (exception_load m a)"
    "(mem_get (private_store a ws m) (a + canary_field) :: usize) = mem_get m (a + canary_field)"
    by (simp_all add: exception_load_def private_store_def put_chain private_write_def split: prod.split)
  show "unchanged_outside (a + 16) 16 m (private_store a ws m)"
    by (simp add: private_store_def) (intro unchanged_put unchanged_refl; simp)
qed

text \<open>Memory holds what the process state says of the packet at an address.\<close>

definition represents :: "memory \<Rightarrow> ('p, 'z) heap_world \<Rightarrow> usize \<Rightarrow> bool" where
  "represents m w a \<longleftrightarrow> exception_load m a = w_exception w a \<and> mem_get m (a + canary_field) = heap_canary (w_rest w) a"

lemma prefix_represents:
  assumes "box_into_raw env (packet_new env content) w = (a, w')" "env_cleanup env \<noteq> 0"
  shows "represents (prefix_store a (packet_new env content) m) w' a"
proof -
  let ?e = "packet_unwind (packet_new env content)"
  have "exception_load (mem_put (exception_store a ?e m) (a + 32) c) a = exception_load (exception_store a ?e m) a"
    for c :: usize
    by (simp add: exception_load_def put_chain)
  moreover have "exception_load (exception_store a ?e m) a = ?e"
    using assms(2) by (intro exception_load_store) (simp add: packet_new_def exception_new_def)
  ultimately show ?thesis
    using assms(1) by (auto simp: represents_def prefix_store_def box_into_raw_def Let_def)
qed

lemma resume_represents:
  assumes "represents m w a"
  shows "represents (private_store a (resume_words r) m) (resume_write r a w) a"
  using assms by (simp add: represents_def private_store_load resume_write_def del: field_values)

lemma verdict_of_take:
  assumes "represents m w a" "panic_take env a w = Some (out, w')"
  shows "take_verdict (env_canary env) m a = (case out of Inl e \<Rightarrow> Some e | Inr _ \<Rightarrow> None)"
proof -
  have "exception_class (exception_load m a) = exception_class (w_exception w a)"
    using assms(1) by (simp add: represents_def)
  then have "ExceptionClass (mem_get m (a + exception_field 0)) = exception_class (w_exception w a)"
    unfolding exception_load_def by simp
  then show ?thesis
    using assms by (auto simp: take_verdict_def panic_take_def represents_def split: if_splits)
qed

section \<open>Bytes for packets\<close>

text \<open>C31. The bytes of a packet refine the packet.  Raising lays its prefix out as every Rust panic
  runtime reads it, the octets of \<open>MOZ\0RUST\<close> at offset 0, the cleanup function at 8 and the canary at 32;
  recording how to resume writes the two private words at 16 and 24, zero and the key of the handler
  or the stop function and its parameter, and not another byte; and \<open>take\<close>, which looks at the class and the canary
  only through the pointer, decides by those bytes as it does by the packet.\<close>

theorem header_bytes_refine:
  "(box_into_raw env (packet_new env content) w = (a, w') \<and> env_cleanup env \<noteq> 0 \<longrightarrow>
      represents (prefix_store a (packet_new env content) m) w' a \<and>
      mem_get (prefix_store a (packet_new env content) m) a =
        (from_le_bytes [0x4d, 0x4f, 0x5a, 0x00, 0x52, 0x55, 0x53, 0x54] :: u64) \<and>
      mem_get (prefix_store a (packet_new env content) m) (a + 8) = env_cleanup env \<and>
      mem_get (prefix_store a (packet_new env content) m) (a + 32) = env_canary env) \<and>
    (represents m v a \<longrightarrow>
      represents (private_store a (resume_words r) m) (resume_write r a v) a \<and>
      unchanged_outside (a + 16) 16 m (private_store a (resume_words r) m) \<and>
      (mem_get (private_store a (resume_words r) m) (a + 16), mem_get (private_store a (resume_words r) m) (a + 24)) =
        (case r of Normal handler \<Rightarrow> (0, key_get handler) | ForcedUnwind forced \<Rightarrow> (forced_stop forced, forced_parameter forced))) \<and>
    (represents m v a \<and> panic_take env a v = Some (out, v') \<longrightarrow>
      take_verdict (env_canary env) m a = (case out of Inl e \<Rightarrow> Some e | Inr _ \<Rightarrow> None))"
proof (intro conjI impI; (elim conjE)?)
  assume b: "box_into_raw env (packet_new env content) w = (a, w')" and c: "env_cleanup env \<noteq> 0"
  show "represents (prefix_store a (packet_new env content) m) w' a" by (rule prefix_represents[OF b c])
  show "mem_get (prefix_store a (packet_new env content) m) a =
        (from_le_bytes [0x4d, 0x4f, 0x5a, 0x00, 0x52, 0x55, 0x53, 0x54] :: u64)"
    "mem_get (prefix_store a (packet_new env content) m) (a + 8) = env_cleanup env"
    "mem_get (prefix_store a (packet_new env content) m) (a + 32) = env_canary env"
    by (simp_all add: prefix_store_def exception_store_def private_store_def put_chain packet_new_def exception_new_def
        rust_class_def rust_class_bytes_def)
next
  assume m: "represents m v a"
  show "represents (private_store a (resume_words r) m) (resume_write r a v) a" by (rule resume_represents[OF m])
  show "unchanged_outside (a + 16) 16 m (private_store a (resume_words r) m)" by (rule private_store_load(3))
  show "(mem_get (private_store a (resume_words r) m) (a + 16), mem_get (private_store a (resume_words r) m) (a + 24)) =
      (case r of Normal handler \<Rightarrow> (0, key_get handler) | ForcedUnwind forced \<Rightarrow> (forced_stop forced, forced_parameter forced))"
    by (simp add: private_store_def put_chain resume_words_def split: Resume.split)
next
  assume "represents m v a" "panic_take env a v = Some (out, v')"
  then show "take_verdict (env_canary env) m a = (case out of Inl e \<Rightarrow> Some e | Inr _ \<Rightarrow> None)"
    by (rule verdict_of_take)
qed

text \<open>A packet raised at \<open>0x9000\<close> with a handler recorded: taken by its own runtime, refused by one with
  another canary.\<close>

theorem header_bytes_refine_witness:
  "take_verdict 0x100 (private_store 0x9000 (resume_words (Normal (Key 0x7008)))
      (prefix_store 0x9000 (packet_new ex_env 42) (\<lambda>_. 0))) 0x9000 = None \<and>
    take_verdict 0x999 (private_store 0x9000 (resume_words (Normal (Key 0x7008)))
      (prefix_store 0x9000 (packet_new ex_env 42) (\<lambda>_. 0))) 0x9000 = Some CatchRust"
proof -
  let ?m = "prefix_store 0x9000 (packet_new ex_env 42) (\<lambda>_. 0)"
  let ?n = "private_store 0x9000 (resume_words (Normal (Key 0x7008))) ?m"
  obtain w where b: "box_into_raw ex_env (packet_new ex_env 42) ex_heap = (0x9000, w)"
    by (simp add: box_into_raw_def ex_alloc Let_def)
  let ?w = "resume_write (Normal (Key 0x7008)) 0x9000 w"
  have r: "represents ?m w 0x9000"
    using header_bytes_refine[of ex_env 42 ex_heap "0x9000" w "\<lambda>_. 0"] b by (simp add: ex_env_def)
  then have n: "represents ?n ?w 0x9000"
    using header_bytes_refine[of ex_env 42 ex_heap "0x9000" w ?m w "Normal (Key 0x7008)"] by blast
  have live: "live_packet ex_env 0x9000 42 ?w" using into_raw_live[OF b] by (auto simp: live_packet_def resume_write_def)
  from take_live[OF this] have "take_verdict 0x100 ?n 0x9000 = None"
    using header_bytes_refine[of ex_env 42 ex_heap "0x9000" w ?n ?w "Normal (Key 0)"
        "Inr 42" "freed 0x9000 ?w"] n by (simp add: ex_env_def)
  moreover have "panic_take (ex_env\<lparr>env_canary := 0x999\<rparr>) 0x9000 ?w = Some (Inl CatchRust, ?w)"
    using live by (simp add: panic_take_def live_packet_def ex_env_def)
  then have "take_verdict 0x999 ?n 0x9000 = Some CatchRust"
    using header_bytes_refine[of "ex_env\<lparr>env_canary := 0x999\<rparr>" 42 ex_heap "0x9000" w ?n ?w "Normal (Key 0)"
        "Inl CatchRust" ?w] n by (simp add: ex_env_def)
  ultimately show ?thesis ..
qed

end
