(* ===== verification/Conformance.thy ===== *)
theory Conformance
  imports PolicyFacts Example Expand Headers
begin

text \<open>
  The unit tests of the repository, run on the model.  A test is a boolean over the model's
  definitions, translated from the test function; \<open>expect\<close> and its variants fail where the code's
  \<open>expect\<close>, \<open>expect_err\<close> and \<open>is_none\<close> panic.
\<close>

definition expect :: "'e + 'a \<Rightarrow> ('a \<Rightarrow> bool) \<Rightarrow> bool" where
  "expect r k = (case r of Inl _ \<Rightarrow> False | Inr x \<Rightarrow> k x)"

definition expect_some :: "'a option \<Rightarrow> ('a \<Rightarrow> bool) \<Rightarrow> bool" where
  "expect_some r k = (case r of None \<Rightarrow> False | Some x \<Rightarrow> k x)"

definition is_err :: "'e + 'a \<Rightarrow> bool" where
  "is_err r = (case r of Inl _ \<Rightarrow> True | Inr _ \<Rightarrow> False)"

section \<open>Tables\<close>

definition fixture_bases :: Bases where
  "fixture_bases = bases_new 0x1000 0x2000"

text \<open>A fixture's parsed table and the site that covers an address.\<close>

definition with_site :: "lib \<Rightarrow> bytes \<Rightarrow> usize \<Rightarrow> (Lsda \<Rightarrow> Site \<Rightarrow> bool) \<Rightarrow> bool" where
  "with_site L bs pc k =
    expect (lsda_new L bs fixture_bases Little) (\<lambda>lsda.
    expect_some (lsda_site L lsda pc) (\<lambda>r. expect r (\<lambda>site. expect_some site (k lsda))))"

text \<open>The next record of a chain.\<close>

definition with_kind :: "lib \<Rightarrow> Chain \<Rightarrow> (Kind \<Rightarrow> Chain \<Rightarrow> bool) \<Rightarrow> bool" where
  "with_kind L chain k =
    (let (item, chain) = chain_next L chain in expect_some item (\<lambda>r. expect r (\<lambda>kind. k kind chain)))"

definition cleanup_site_decodes :: "lib \<Rightarrow> bool" where
  "cleanup_site_decodes L =
    with_site L [0xff, 0xff, 0x01, 0x04, 0x00, 0x05, 0x0a, 0x00] 0x2002 (\<lambda>lsda site.
      site_start site = 0 \<and> site_length site = 5 \<and> site_landing site = Some 0x200a \<and> site_action site = None)"

definition catch_type_decodes :: "lib \<Rightarrow> bool" where
  "catch_type_decodes L =
    with_site L [0xff, 0x00, 0x10, 0x01, 0x04, 0x00, 0x05, 0x0a, 0x01, 0x01, 0x00, 0x34, 0x12, 0x00, 0x00, 0x00,
        0x00, 0x00, 0x00] 0x2002 (\<lambda>lsda site.
    expect_some (site_action site) (\<lambda>action. expect (lsda_chain L lsda action) (\<lambda>chain.
    with_kind L chain (\<lambda>kind chain.
      case kind of
        Catch index \<Rightarrow> expect_some (lsda_types lsda) (\<lambda>types. expect (types_get L types lsda index) (\<lambda>target.
          target_address target = 0x1234 \<and> \<not> target_indirect target \<and> fst (chain_next L chain) = None))
      | _ \<Rightarrow> False))))"

definition action_chain_advances_from_link_field :: "lib \<Rightarrow> bool" where
  "action_chain_advances_from_link_field L =
    with_site L [0xff, 0xff, 0x01, 0x04, 0x00, 0x05, 0x0a, 0x01, 0x00, 0x01, 0x01, 0x00] 0x2002 (\<lambda>lsda site.
    expect_some (site_action site) (\<lambda>action. expect (lsda_chain L lsda action) (\<lambda>chain.
    with_kind L chain (\<lambda>kind chain. kind = Table.Cleanup \<and>
      with_kind L chain (\<lambda>kind chain. (case kind of Catch _ \<Rightarrow> True | _ \<Rightarrow> False) \<and>
        fst (chain_next L chain) = None)))))"

definition gcc_catch_all_shape_decodes :: "lib \<Rightarrow> bool" where
  "gcc_catch_all_shape_decodes L =
    with_site L [0xff, 0x9b, 0x11, 0x01, 0x08, 0x09, 0x05, 0x17, 0x01, 0x24, 0x05, 0x00, 0x00, 0x01, 0x00, 0x00,
        0x00, 0x00, 0x00, 0x00] 0x200a (\<lambda>lsda site.
    expect_some (site_action site) (\<lambda>action. expect (lsda_chain L lsda action) (\<lambda>chain.
    with_kind L chain (\<lambda>kind chain.
      case kind of
        Catch index \<Rightarrow> expect_some (lsda_types lsda) (\<lambda>types. expect (types_get L types lsda index) (\<lambda>target.
          site_landing site = Some 0x2017 \<and> target_address target = 0x1010 \<and> target_indirect target))
      | _ \<Rightarrow> False))))"

definition truncated_call_table_is_rejected :: "lib \<Rightarrow> bool" where
  "truncated_call_table_is_rejected L \<longleftrightarrow>
    lsda_new L [0xff, 0xff, 0x01, 0x05, 0x00, 0x05, 0x0a, 0x00] fixture_bases Little = Inl Eof"

definition filter_specification_indices_decode :: "lib \<Rightarrow> bool" where
  "filter_specification_indices_decode L =
    with_site L [0xff, 0x00, 0x10, 0x01, 0x04, 0x00, 0x05, 0x0a, 0x01, 0x7f, 0x00, 0x34, 0x12, 0x00, 0x00, 0x00,
        0x00, 0x00, 0x00, 0x01, 0x00] 0x2002 (\<lambda>lsda site.
    expect_some (site_action site) (\<lambda>action. expect (lsda_chain L lsda action) (\<lambda>chain.
    with_kind L chain (\<lambda>kind chain.
      case kind of
        Filter index \<Rightarrow> expect (lsda_filter L lsda index) (\<lambda>types.
          let (item, types) = ft_next L types in expect_some item (\<lambda>r. expect r (\<lambda>t.
            type_raw t = 1 \<and> fst (ft_next L types) = None)))
      | _ \<Rightarrow> False))))"

section \<open>Actions of the personalities\<close>

text \<open>What \<open>scan\<close> and \<open>clean\<close> make of a fixture.\<close>

definition scans :: "lib \<Rightarrow> bytes \<Rightarrow> usize \<Rightarrow> (RustAction \<Rightarrow> bool) \<Rightarrow> bool" where
  "scans L bs pc k =
    expect (lsda_new L bs fixture_bases Little) (\<lambda>lsda.
    expect_some (rust_scan L lsda pc) (\<lambda>r. expect r k))"

definition cleanup_entry_selects_drop_landing_pad :: "lib \<Rightarrow> bool" where
  "cleanup_entry_selects_drop_landing_pad L =
    scans L [0xff, 0xff, 0x01, 0x04, 0x00, 0x05, 0x0a, 0x00] 0x2002
      (\<lambda>action. case action of RustCleanup _ \<Rightarrow> True | _ \<Rightarrow> False)"

definition positive_action_selects_rust_catch :: "lib \<Rightarrow> bool" where
  "positive_action_selects_rust_catch L =
    scans L [0xff, 0xff, 0x01, 0x04, 0x00, 0x05, 0x0a, 0x01, 0x01, 0x00] 0x2002
      (\<lambda>action. case action of RustCatch _ \<Rightarrow> True | _ \<Rightarrow> False)"

definition rustc_cleanup_table_matches_policy :: "lib \<Rightarrow> bool" where
  "rustc_cleanup_table_matches_policy L =
    (let bs = [0xff, 0x9b, 0x11, 0x01, 0x0c, 0x04, 0x09, 0x1f, 0x00, 0x0f, 0x0e, 0x3f, 0x01, 0x1d, 0x32, 0x00, 0x00,
        0x7f, 0x00, 0x00, 0x00, 0x00, 0x00, 0x00] in
     scans L bs 0x2005 (\<lambda>action. case action of RustCleanup _ \<Rightarrow> True | _ \<Rightarrow> False) \<and>
     scans L bs 0x2010 (\<lambda>action. case action of RustFilter _ \<Rightarrow> True | _ \<Rightarrow> False) \<and>
     scans L bs 0x201e (\<lambda>action. action = RustNone))"

definition uncovered_call_site_is_terminate :: "lib \<Rightarrow> bool" where
  "uncovered_call_site_is_terminate L =
    scans L [0xff, 0xff, 0x01, 0x04, 0x00, 0x05, 0x0a, 0x00] 0x2008 (\<lambda>action. action = RustTerminate)"

definition cleanup_scan_finds_cleanup_in_action_chain :: "lib \<Rightarrow> bool" where
  "cleanup_scan_finds_cleanup_in_action_chain L =
    expect (lsda_new L [0xff, 0xff, 0x01, 0x04, 0x00, 0x05, 0x0a, 0x01, 0x00, 0x01, 0x01, 0x00] fixture_bases Little)
      (\<lambda>lsda. expect_some (cxx_clean L lsda 0x2002) (\<lambda>r. expect r (\<lambda>action.
        case action of CxxCleanup _ \<Rightarrow> True | _ \<Rightarrow> False)))"

definition catch_clause_uses_positive_type_index_as_selector :: "lib \<Rightarrow> bool" where
  "catch_clause_uses_positive_type_index_as_selector L =
    with_site L [0xff, 0x00, 0x10, 0x01, 0x04, 0x00, 0x05, 0x0a, 0x01, 0x01, 0x00, 0x34, 0x12, 0x00, 0x00, 0x00,
        0x00, 0x00, 0x00] 0x2002 (\<lambda>lsda site.
    expect_some (site_action site) (\<lambda>action. expect (lsda_chain L lsda action) (\<lambda>chain.
    with_kind L chain (\<lambda>kind chain.
      case kind of
        Catch index \<Rightarrow> expect (clause_catch L lsda index) (\<lambda>clause.
          expect (clause_selector clause) (\<lambda>selector. selector = Selector 1))
      | _ \<Rightarrow> False))))"

section \<open>Register states\<close>

definition volatile_capture_is_unavailable :: "lib \<Rightarrow> bool" where
  "volatile_capture_is_unavailable L =
    (let state = captured registers_zeroed in
     state_read L state (x86_64 L RAX) = Inl (EUnavailable (x86_64 L RAX)) \<and>
     expect (state_read L state (x86_64 L RBX)) (\<lambda>v. v = 0))"

definition explicit_undefined_clears_availability :: "lib \<Rightarrow> bool" where
  "explicit_undefined_clears_availability L =
    expect (state_clear L (captured registers_zeroed) (x86_64 L RBX)) (\<lambda>state.
      state_read L state (x86_64 L RBX) = Inl (EUnavailable (x86_64 L RBX)))"

definition install_requires_landing_data :: "lib \<Rightarrow> bool" where
  "install_requires_landing_data L =
    (let state = captured registers_zeroed in
     state_install state = Inl EInstall \<and>
     expect (state_write L state (x86_64 L RAX) 0x12345678) (\<lambda>state.
     expect (state_write L state (x86_64 L RDX) 0x23456789) (\<lambda>state. \<not> is_err (state_install state))))"

definition widths :: "lib \<Rightarrow> bool" where
  "widths L =
    (expect (state_width L (x86_64 L RAX)) (\<lambda>n. n = 8) \<and> expect (state_width L (x86_64 L RA)) (\<lambda>n. n = 8) \<and>
     expect (state_width L (x86_64 L MXCSR)) (\<lambda>n. n = 4) \<and> expect (state_width L (x86_64 L FCW)) (\<lambda>n. n = 2))"

text \<open>The test module of \<open>entry.rs\<close>.\<close>

definition alignment :: bool where
  "alignment \<longleftrightarrow> entry_stack mod 16 = 8"

section \<open>Images\<close>

text \<open>The address of the slice is the image's section base.\<close>

definition range_test :: "gimli \<Rightarrow> usize \<Rightarrow> bool" where
  "range_test G address \<longleftrightarrow>
    image_new G address [] 0x1000 0x2000 \<noteq> None \<and> image_new G address [] 0x1000 0x1000 = None \<and>
    image_new G address [] 0x2000 0x1000 = None"

section \<open>Classes and actions\<close>

definition parts_round_trip :: bool where
  "parts_round_trip =
    (let test = Vendor 0x54 0x45 0x53 0x54; class_value = class_join test language_cxx in
     class_vendor class_value = test \<and> class_language class_value = language_cxx \<and> class_cxx class_value)"

definition known_cxx_classes_match_runtime_tags :: bool where
  "known_cxx_classes_match_runtime_tags \<longleftrightarrow>
    class_bits (class_join vendor_clang language_cxx) = 0x434c4e47432b2b00 \<and>
    class_bits (class_join vendor_gnu language_cxx) = 0x474e5543432b2b00"

definition actions_test :: "lib \<Rightarrow> bool" where
  "actions_test L \<longleftrightarrow> actions_known L (act_all L) \<and> actions_known L (act_none L) \<and> \<not> actions_known L (Actions 32)"

section \<open>The attribute\<close>

text \<open>An \<open>impl\<close> of a path for \<open>Image\<close>, without generics and modifiers.\<close>

definition impl_of :: "bool \<Rightarrow> string list \<Rightarrow> (string, unit) item_impl" where
  "impl_of unsafety path = \<lparr>impl_defaultness = False, impl_polarity = False, impl_unsafety = unsafety,
    impl_params = [], impl_where_clause = False,
    impl_trait = Some (map (\<lambda>s. \<lparr>seg_ident = s, seg_arguments = NoPathArguments\<rparr>) path),
    impl_self_ty = ''Image'', impl_rest = ()\<rparr>"

definition unwinder_path :: "string list" where
  "unwinder_path = [''desenredo'', ''unwind'', ''runtime'', ''Unwinder'']"

definition macro_valid :: bool where
  "macro_valid \<longleftrightarrow> \<not> is_err (macro_validate (impl_of True unwinder_path))"

definition macro_safe :: bool where
  "macro_safe \<longleftrightarrow> is_err (macro_validate (impl_of False unwinder_path))"

definition macro_generic :: bool where
  "macro_generic \<longleftrightarrow> is_err (macro_validate ((impl_of True unwinder_path)
    \<lparr>impl_params := [''T''], impl_self_ty := ''Image<T>''\<rparr>))"

definition macro_wrong :: bool where
  "macro_wrong \<longleftrightarrow> is_err (macro_validate (impl_of True [''Other'']))"

definition macro_short :: bool where
  "macro_short \<longleftrightarrow> is_err (macro_validate (impl_of True [''Unwinder'']))"

definition macro_args :: bool where
  "macro_args \<longleftrightarrow> is_err (macro_expand [''extra''] (impl_of True unwinder_path))"

text \<open>Counted on the emitted functions: each has its symbol once, and a naked one its assembly.\<close>

definition macro_symbols :: bool where
  "macro_symbols =
    expect (macro_expand [] (impl_of True unwinder_path)) (\<lambda>(_, emitted).
      length (filter (\<lambda>e. take 8 (sig_name (em_signature e)) = ''_Unwind_'') emitted) = 16 \<and>
      length (filter jumps emitted) = 5 \<and>
      (\<forall>goal\<in>{''entry::raise'', ''entry::trace''}.
        list_ex (\<lambda>e. case em_body e of NakedJump g _ \<Rightarrow> g = goal | _ \<Rightarrow> False) emitted))"

section \<open>Packets\<close>

definition take_recovers_local_payload :: "(nat, unit) panic_env \<Rightarrow> nat heap world \<Rightarrow> bool" where
  "take_recovers_local_payload env w =
    (case box_into_raw env (packet_new env 42) w of (exception, w) \<Rightarrow>
       expect_some (panic_take env exception w) (\<lambda>(r, _). expect r (\<lambda>value. value = 42)))"

text \<open>A header on the caller's stack, at an address of its own.\<close>

definition take_rejects_non_rust_exception :: "(nat, unit) panic_env \<Rightarrow> usize \<Rightarrow> usize \<Rightarrow> nat heap world \<Rightarrow> bool" where
  "take_rejects_non_rust_exception env cleanup exception w =
    (let header = exception_new (class_join vendor_gnu language_cxx) (Some cleanup);
         w = w\<lparr>w_exception := (w_exception w)(exception := header)\<rparr>
     in expect_some (panic_take env exception w) (\<lambda>(r, _). r = Inl CatchForeign))"

text \<open>The canary of the crate is the address of a static and not null.\<close>

definition take_rejects_foreign_rust_canary :: "(nat, unit) panic_env \<Rightarrow> usize \<Rightarrow> usize \<Rightarrow> nat heap world \<Rightarrow> bool" where
  "take_rejects_foreign_rust_canary env cleanup exception w =
    (let header = exception_new rust_class (Some cleanup); h = w_rest w;
         w = \<lparr>w_exception = (w_exception w)(exception := header),
              w_rest = h\<lparr>heap_canary := (heap_canary h)(exception := 0)\<rparr>\<rparr>
     in expect_some (panic_take env exception w) (\<lambda>(r, _). r = Inl CatchRust))"

text \<open>A crate whose canary is at the given address, and a heap without boxes.\<close>

definition test_env :: "usize \<Rightarrow> (nat, unit) panic_env" where
  "test_env canary = \<lparr>env_canary = canary, env_cleanup = 0x200, env_lost = 0x300, env_foreign = 0x400,
    env_alloc = (\<lambda>_. 0x9000)\<rparr>"

definition test_world :: "nat heap world" where
  "test_world = \<lparr>w_exception = (\<lambda>_. exception_new (ExceptionClass 0) None),
    w_rest = \<lparr>heap_canary = (\<lambda>_. 0), heap_box = (\<lambda>_. None)\<rparr>\<rparr>"

section \<open>Exception storage\<close>

text \<open>The mock runtime: one static buffer, and a count of the releases as its state.  Its \<open>assert!\<close>
  and its \<open>throw\<close> end the test.\<close>

definition mock_runtime :: "usize \<Rightarrow> nat exception_runtime" where
  "mock_runtime buffer = \<lparr>
    er_alloc = (\<lambda>bytes frees. if bytes \<le> 64 then Some (buffer, frees) else None),
    er_free = (\<lambda>_ frees. Some (frees + 1)),
    er_throw = (\<lambda>_ _ _ _. None)\<rparr>"

definition allocation_uses_selected_runtime_for_release :: "usize \<Rightarrow> nat \<Rightarrow> bool" where
  "allocation_uses_selected_runtime_for_release buffer before =
    expect_some (allocation_new (mock_runtime buffer) 8 before) (\<lambda>(allocation, frees).
      allocation_ptr allocation \<noteq> 0 \<and>
      expect_some (allocation_drop (mock_runtime buffer) allocation frees) (\<lambda>after. after = before + 1))"

section \<open>Running the tests\<close>

text \<open>Evaluation of the readers of \<open>lib_ref\<close> on single octets.\<close>

lemma ref_encodings:
  "pe_absptr lib_ref = 0" "pe_aligned lib_ref = 0x50" "pe_datarel lib_ref = 0x30" "pe_funcrel lib_ref = 0x40"
  "pe_pcrel lib_ref = 0x10" "pe_sdata2 lib_ref = 0x0a" "pe_sdata4 lib_ref = 0x0b" "pe_sdata8 lib_ref = 0x0c"
  "pe_sleb128 lib_ref = 0x09" "pe_textrel lib_ref = 0x20" "pe_udata2 lib_ref = 0x02" "pe_udata4 lib_ref = 0x03"
  "pe_udata8 lib_ref = 0x04" "pe_uleb128 lib_ref = 0x01"
  "pe_format lib_ref e = e AND 0x0f" "pe_application lib_ref e = e AND 0x70"
  "pe_is_absent lib_ref e \<longleftrightarrow> e = 0xff" "pe_is_indirect lib_ref e \<longleftrightarrow> e AND 0x80 \<noteq> 0"
  "pe_is_valid_encoding lib_ref e \<longleftrightarrow> e = 0xff \<or>
      e AND 0x0f \<in> {0, 1, 2, 3, 4, 9, 10, 11, 12} \<and> e AND 0x70 \<in> {0, 0x10, 0x20, 0x30, 0x40, 0x50}"
  by (simp_all add: lib_ref_def)

lemma ref_offset:
  assumes "b AND 0x80 = 0"
  shows "offset lib_ref (b # r) 1 endian = Inr (r, of_nat (payload b))"
proof -
  have "uint (of_nat (payload b) :: u64) = int (payload b)" "payload b < 2 ^ 64"
    using payload_less[of b] by (simp_all add: unsigned_of_nat take_bit_eq_mod)
  then show ?thesis
    using assms by (simp add: offset_def scalar_def ref_encodings ref.uleb_octet scalar_add_exact)
qed

lemmas read_eval = expect_def expect_some_def with_site_def with_kind_def fixture_bases_def bases_new_def lsda_new_def
  lsda_landing_def lsda_type_table_def ref_encodings ref_offset ref.uleb_octet ref.sleb_octet payload_def
  ref.take_bytes_eq position_def len_of_def checked_sub_def checked_add_def checked_mul_def saturating_add_def lsda_site_def
  site_loop.simps lsda_sites_def sites_next_def call_site_def lsda_chain_def chain_next_def chain_parse_def
  chain_target_def kind_new_eq leb_signed_def nonzero_def
  i128_checked_add_def usize_try_from_def types_get_def types_width_def target_def target_base_def scalar_def
  unsigned_def signed_def lib_ref_sel widen_def scalar_add_exact lsda_filter_def ft_next_def take_le_def

lemma table_tests:
  "cleanup_site_decodes lib_ref" "catch_type_decodes lib_ref" "action_chain_advances_from_link_field lib_ref"
  "gcc_catch_all_shape_decodes lib_ref" "truncated_call_table_is_rejected lib_ref"
  "filter_specification_indices_decode lib_ref"
  by (simp_all add: cleanup_site_decodes_def catch_type_decodes_def action_chain_advances_from_link_field_def
      gcc_catch_all_shape_decodes_def truncated_call_table_is_rejected_def filter_specification_indices_decode_def
      read_eval)

lemmas action_eval = scans_def rust_scan_def pad_new_def rust_chain_def cxx_clean_def cxx_pad_new_def clean_body_def
  run_loop.simps clause_catch_def clause_selector_def isize_try_from_def

lemma action_tests:
  "cleanup_entry_selects_drop_landing_pad lib_ref" "positive_action_selects_rust_catch lib_ref"
  "rustc_cleanup_table_matches_policy lib_ref" "uncovered_call_site_is_terminate lib_ref"
  "cleanup_scan_finds_cleanup_in_action_chain lib_ref" "catch_clause_uses_positive_type_index_as_selector lib_ref"
  by (simp_all add: cleanup_entry_selects_drop_landing_pad_def positive_action_selects_rust_catch_def
      rustc_cleanup_table_matches_policy_def uncovered_call_site_is_terminate_def
      cleanup_scan_finds_cleanup_in_action_chain_def catch_clause_uses_positive_type_index_as_selector_def
      action_eval read_eval)

lemmas state_eval = expect_def is_err_def captured_def registers_zeroed_def state_read_def state_write_def
  state_clear_def state_slot_def state_width_def state_install_def ref.reg_named_of

lemma state_tests:
  "volatile_capture_is_unavailable lib_ref" "explicit_undefined_clears_availability lib_ref"
  "install_requires_landing_data lib_ref" "widths lib_ref" alignment
  by (simp_all add: volatile_capture_is_unavailable_def explicit_undefined_clears_availability_def
      install_requires_landing_data_def widths_def state_eval)
     (simp add: alignment_def entry_stack_def entry_pad_def entry_third_def entry_second_def entry_first_def image_size_def)

lemma image_tests: "range_test G address"
  by (simp add: range_test_def image_new_def)

lemma class_tests: parts_round_trip known_cxx_classes_match_runtime_tags "actions_test lib_ref"
proof -
  show parts_round_trip
    by (simp add: parts_round_trip_def parts_join class_cxx_def Let_def) (simp add: language_cxx_def)
  show known_cxx_classes_match_runtime_tags
    by (simp add: known_cxx_classes_match_runtime_tags_def class_join_def from_be_bytes_def vendor_clang_def
        vendor_gnu_def language_cxx_def)
  have "bits_all lib_ref [] = 0" by (simp add: lib_ref_def)
  then show "actions_test lib_ref"
    by (simp add: actions_test_def ref.known_iff ref.all_eq act_none_def)
qed

lemma macro_tests: macro_valid macro_safe macro_generic macro_wrong macro_short macro_args macro_symbols
  by code_simp+

lemma packet_tests:
  "take_recovers_local_payload env w" "take_rejects_non_rust_exception env cleanup exception w"
  "env_canary env \<noteq> 0 \<Longrightarrow> take_rejects_foreign_rust_canary env cleanup exception w"
proof -
  show "take_recovers_local_payload env w"
    by (simp add: take_recovers_local_payload_def box_into_raw_def packet_new_def panic_take_def exception_new_def
        box_from_raw_def expect_def expect_some_def Let_def)
  have "class_join vendor_gnu language_cxx \<noteq> rust_class"
    by (simp add: class_join_def vendor_gnu_def language_cxx_def from_be_bytes_def rust_class_def from_le_bytes_def
        rust_class_bytes_def)
  then show "take_rejects_non_rust_exception env cleanup exception w"
    by (simp add: take_rejects_non_rust_exception_def panic_take_def exception_new_def expect_some_def)
  show "take_rejects_foreign_rust_canary env cleanup exception w" if "env_canary env \<noteq> 0"
    using that by (simp add: take_rejects_foreign_rust_canary_def panic_take_def exception_new_def expect_some_def Let_def)
qed

lemma storage_test: "buffer \<noteq> 0 \<Longrightarrow> allocation_uses_selected_runtime_for_release buffer n"
  by (simp add: allocation_uses_selected_runtime_for_release_def mock_runtime_def allocation_new_def expect_some_def)

text \<open>The model passes the repository's own unit tests of the LSDA reader, the actions of both
  personalities, the register states, the images, the exception classes, the attribute, the panic
  packets, the C++ allocations and the layout of the two headers, with the third-party code at its
  reference instance.\<close>

lemma repository_tests_pass:
  "cleanup_site_decodes lib_ref \<and> catch_type_decodes lib_ref \<and> action_chain_advances_from_link_field lib_ref \<and>
   gcc_catch_all_shape_decodes lib_ref \<and> truncated_call_table_is_rejected lib_ref \<and>
   filter_specification_indices_decode lib_ref \<and>
   cleanup_entry_selects_drop_landing_pad lib_ref \<and> positive_action_selects_rust_catch lib_ref \<and>
   rustc_cleanup_table_matches_policy lib_ref \<and> uncovered_call_site_is_terminate lib_ref \<and>
   cleanup_scan_finds_cleanup_in_action_chain lib_ref \<and> catch_clause_uses_positive_type_index_as_selector lib_ref \<and>
   volatile_capture_is_unavailable lib_ref \<and> explicit_undefined_clears_availability lib_ref \<and>
   install_requires_landing_data lib_ref \<and> widths lib_ref \<and> alignment \<and> range_test ex_gimli 0x7000 \<and>
   parts_round_trip \<and> known_cxx_classes_match_runtime_tags \<and> actions_test lib_ref \<and>
   macro_valid \<and> macro_safe \<and> macro_generic \<and> macro_wrong \<and> macro_short \<and> macro_args \<and> macro_symbols \<and>
   take_recovers_local_payload (test_env 0x100) test_world \<and>
   take_rejects_non_rust_exception (test_env 0x100) 0x200 0x8000 test_world \<and>
   take_rejects_foreign_rust_canary (test_env 0x100) 0x200 0x8000 test_world \<and>
   allocation_uses_selected_runtime_for_release 0x6000 0 \<and>
   exception_layout \<and> packet_prefix_matches_rust_runtime_contract"
  by (intro conjI table_tests action_tests state_tests image_tests class_tests macro_tests packet_tests storage_test layout_tests)
     (simp_all add: test_env_def)

end
