(* ===== verification/Recovery.thy ===== *)
theory Recovery
  imports WorkerFacts PropagationProps PanicProps
begin

text \<open>
  A panicking request on the unwinder.  \<open>Worker\<close> says what dropping the guards of a request does
  when its panic passes them; here the panic is a packet that is raised, the drops are the
  cleanups at landing pads which the unwinder chooses and enters, and the catch takes the payload
  out of the packet.  The compiled code between a pad and its \<open>_Unwind_Resume\<close> is the drop of one
  guard, the catch pad keeps control.
\<close>

section \<open>The process\<close>

text \<open>The worker's state beside the panic packets, whose payloads are the worker's.\<close>

record process = "Payload heap" +
  pr_worker :: worker

type_synonym process_env = "(Payload, \<lparr>pr_worker :: worker\<rparr>) panic_env"

definition the_worker :: "process world \<Rightarrow> worker" where
  "the_worker w = pr_worker (w_rest w)"

text \<open>The hooks of \<open>LinuxRuntime\<close>.\<close>

definition linux_hook :: "process_env \<Rightarrow> usize \<Rightarrow> worker \<Rightarrow> 'a run" where
  "linux_hook env hook p = (if hook = env_foreign env then runtime_foreign p else runtime_lost p)"

text \<open>What an operation on a packet leaves of the process: a value with the process after it, a landing
  pad, or its end.\<close>

datatype 'a left = Goes 'a "process world" | Lands Registers "process world" | Over "unit run"

definition leaves_process :: "process_env \<Rightarrow> worker \<Rightarrow> ('a, process) finish \<Rightarrow> 'a left" where
  "leaves_process env p f =
    (case f of
       Value a w \<Rightarrow> Goes a w
     | Landed regs w \<Rightarrow> Lands regs w
     | Hooked hook w \<Rightarrow> Over (linux_hook env hook (the_worker w))
     | Crashed \<Rightarrow> Over (Aborted p))"

text \<open>The panic handler, with \<open>object::start\<close> in place; the catch callback.\<close>

definition process_panic ::
    "process_env \<Rightarrow> (usize \<Rightarrow> process world \<Rightarrow> process outcome option) \<Rightarrow> bool \<Rightarrow> process world \<Rightarrow> Raise left option" where
  "process_panic env raise_exception can_unwind w =
    (let p = the_worker w in
     case (can_unwind, nonzero (wk_active p)) of
       (True, Some request) \<Rightarrow>
         map_option (leaves_process env p) (panic_start env raise_exception (FaultBox (Fault request)) w)
     | (True, None) \<Rightarrow> Some (Over (terminate (line ''panic occurred outside a recoverable request'') code_software p))
     | (False, _) \<Rightarrow> Some (Over (Aborted (out_stderr (line ''non-unwindable panic reached the process runtime'') p))))"

definition boundary_catch :: "process_env \<Rightarrow> process routines \<Rightarrow> usize \<Rightarrow> process world \<Rightarrow> Payload left option" where
  "boundary_catch env R exception w =
    map_option (leaves_process env (the_worker w)) (panic_catch env R exception w)"

section \<open>The landing pads of a request\<close>

record request_pads =
  pad_resource :: usize
  pad_scope :: usize
  pad_catch :: usize

text \<open>A drop that ends the process does not come back to resume.\<close>

definition drop_done :: "unit run \<Rightarrow> worker option" where
  "drop_done r = (case r of Done _ p \<Rightarrow> Some p | _ \<Rightarrow> None)"

definition pad_effect :: "'e kernel \<Rightarrow> request_pads \<Rightarrow> Mapping \<Rightarrow> RequestScope \<Rightarrow> usize \<Rightarrow> worker \<Rightarrow> worker option" where
  "pad_effect os P resource scope pad p =
    (if pad = pad_resource P then drop_done (mapping_drop os resource p)
     else if pad = pad_scope P then drop_done (scope_drop scope p)
     else None)"

definition set_worker :: "worker \<Rightarrow> process world \<Rightarrow> process world" where
  "set_worker p w = w\<lparr>w_rest := (w_rest w)\<lparr>pr_worker := p\<rparr>\<rparr>"

text \<open>The code at a pad resumes with the exception it finds in \<open>rax\<close>, from the state its own call of
  \<open>_Unwind_Resume\<close> captures.\<close>

definition request_code ::
    "'e kernel \<Rightarrow> request_pads \<Rightarrow> Mapping \<Rightarrow> RequestScope \<Rightarrow> (Registers \<Rightarrow> State) \<Rightarrow> process code" where
  "request_code os P resource scope resumes regs w =
    (if reg_ra regs = pad_catch P then Some (Settles w)
     else map_option (\<lambda>p. Resumes (resumes regs) (reg_rax regs) (set_worker p w))
       (pad_effect os P resource scope (reg_ra regs) (the_worker w)))"

lemma worker_simps [simp]:
  "the_worker (set_worker p w) = p" "w_exception (set_worker p w) = w_exception w"
  "live_packet env a content (set_worker p w) \<longleftrightarrow> live_packet env a content w"
  "the_worker (freed a w) = the_worker w" "the_worker (resume_write r e w) = the_worker w"
  by (simp_all add: the_worker_def set_worker_def live_packet_def freed_def resume_write_def)

section \<open>What the pads entered amount to\<close>

text \<open>The process after the effects of a list of pads, in order.\<close>

fun run_pads :: "(usize \<Rightarrow> 's \<Rightarrow> 's option) \<Rightarrow> usize list \<Rightarrow> 's \<Rightarrow> 's option" where
  "run_pads effect [] p = Some p"
| "run_pads effect (a # pads) p = Option.bind (effect a p) (run_pads effect pads)"

lemma run_pads_snoc: "run_pads effect (pads @ [a]) p = Option.bind (run_pads effect pads p) (effect a)"
  by (induction pads arbitrary: p) (auto split: Option.bind_splits)

text \<open>A part of the rest of the process that the routines the unwinder calls leave alone: its own
  writes do too.\<close>

interpretation part_walk: walk_invariant U R exception
    "\<lambda>w. (\<forall>q. routines_keep R (\<lambda>w. part (w_rest w) = q)) \<and> part (w_rest w) = p"
    for U :: "'w machine" and R and exception and part :: "'w \<Rightarrow> 'b" and p
proof unfold_locales
  fix w w' :: "'w world" and a v acts cls e cb x reason ws s
  assume I: "(\<forall>q. routines_keep R (\<lambda>w. part (w_rest w) = q)) \<and> part (w_rest w) = p"
  then have keep: "routines_keep R (\<lambda>w. part (w_rest w) = p)" by blast
  show "(\<forall>q. routines_keep R (\<lambda>w. part (w_rest w) = q)) \<and> part (w_rest w') = p"
    if "r_personality R a v acts cls e cb w = Some (reason, ws, w')"
    using I routines_keepD(1)[OF keep _ that] by blast
  show "(\<forall>q. routines_keep R (\<lambda>w. part (w_rest w) = q)) \<and> part (w_rest w') = p"
    if "r_stop R a v acts cls e cb x w = Some (reason, ws, w')"
    using I routines_keepD(2)[OF keep _ that] by blast
  show "(\<forall>q. routines_keep R (\<lambda>w. part (w_rest w) = q)) \<and> part (w_rest (resume_write s exception w)) = p"
    using I by (simp add: resume_write_def)
qed

lemma walks_keep_part:
  assumes "\<And>q. routines_keep R (\<lambda>w. part (w_rest w) = q)"
  shows "walk_raise U R s e w = Some out \<Longrightarrow> ends_in (\<lambda>w'. part (w_rest w') = part (w_rest w)) out"
    "walk_resume U R s e w = Some out \<Longrightarrow> ends_in (\<lambda>w'. part (w_rest w') = part (w_rest w)) out"
  using part_walk.raise_keeps[of U R s e w out part "part (w_rest w)"]
    part_walk.resume_walk_keeps[of U R s e w out part "part (w_rest w)"] assms
  by (cases out; simp)+

lemmas walks_keep_rest = walks_keep_part[where part = "\<lambda>p. p"]

text \<open>What holds of the pads entered and the process where the first walk lands, and at every further
  pad, holds where a pad keeps control.\<close>

lemma propagate_invariant:
  assumes run: "propagate U R land (Transferred r0 w0) = Some (Caught regs w', pads)"
    and start: "J [] w0"
    and resumes: "\<And>ps regs w s e w1 regs' w2. J ps w \<Longrightarrow> land regs w = Some (Resumes s e w1) \<Longrightarrow>
      walk_resume U R s e w1 = Some (Transferred regs' w2) \<Longrightarrow> J (ps @ [regs]) w2"
    and settles: "\<And>ps regs w w1. J ps w \<Longrightarrow> land regs w = Some (Settles w1) \<Longrightarrow> J ps w1"
  shows "J pads w'"
proof (rule run_loop_invariant[OF run[unfolded propagate_def],
      where I = "\<lambda>(out, ps). \<forall>regs w. out = Transferred regs w \<longrightarrow> J ps w"])
  show "case (Transferred r0 w0, []) of (out, ps) \<Rightarrow> \<forall>regs w. out = Transferred regs w \<longrightarrow> J ps w"
    using start by simp
next
  fix s s'
  assume I: "case s of (out, ps) \<Rightarrow> \<forall>regs w. out = Transferred regs w \<longrightarrow> J ps w"
    and step: "propagate_body U R land s = Some (Continue s')"
  obtain out ps where s: "s = (out, ps)" by fastforce
  from step s obtain regs w l where l: "out = Transferred regs w" "land regs w = Some l"
    by (auto simp: propagate_body_def bind_eq_Some_conv split: outcome.split_asm)
  with step s obtain st e w1 where lr: "l = Resumes st e w1"
    by (cases l) (auto simp: propagate_body_def)
  with step s l obtain out' where "walk_resume U R st e w1 = Some out'" "s' = (out', ps @ [regs])"
    by (auto simp: propagate_body_def)
  with I s l lr show "case s' of (out, ps) \<Rightarrow> \<forall>regs w. out = Transferred regs w \<longrightarrow> J ps w"
    using resumes by fastforce
next
  fix s
  assume I: "case s of (out, ps) \<Rightarrow> \<forall>regs w. out = Transferred regs w \<longrightarrow> J ps w"
    and step: "propagate_body U R land s = Some (Break (Caught regs w', pads))"
  obtain out ps where s: "s = (out, ps)" by fastforce
  from step s obtain regs0 w l where l: "out = Transferred regs0 w" "land regs0 w = Some l"
    by (auto simp: propagate_body_def bind_eq_Some_conv split: outcome.split_asm)
  with step s have "l = Settles w'" "ps = pads" by (cases l; auto simp: propagate_body_def)+
  with I s l settles show "J pads w'" by simp
qed

lemma propagated_effects:
  assumes keep: "\<And>q. routines_keep R (\<lambda>w. w_rest w = q)" "routines_keep R (live_packet env a content)"
    and run: "propagate U R (request_code os P resource scope resumes) (Transferred r0 w0) = Some (Caught regs w', pads)"
    and live: "live_packet env a content w0"
  shows "run_pads (pad_effect os P resource scope) (map reg_ra pads) (the_worker w0) = Some (the_worker w') \<and>
    live_packet env a content w'"
proof (rule propagate_invariant[OF run, where J = "\<lambda>(ps :: Registers list) w.
    run_pads (pad_effect os P resource scope) (map reg_ra ps) (the_worker w0) = Some (the_worker w) \<and>
    live_packet env a content w"])
  fix ps :: "Registers list" and regs regs' w s e w1 w2
  assume J: "run_pads (pad_effect os P resource scope) (map reg_ra ps) (the_worker w0) = Some (the_worker w) \<and>
      live_packet env a content w"
    and l: "request_code os P resource scope resumes regs w = Some (Resumes s e w1)"
    and r: "walk_resume U R s e w1 = Some (Transferred regs' w2)"
  have "pad_effect os P resource scope (reg_ra regs) (the_worker w) = Some (the_worker w1)"
    "live_packet env a content w1"
    using l J by (auto simp: request_code_def split: if_splits)
  moreover have "live_packet env a content w2"
    using packet_walk.resume_walk_keeps[OF r, of env a content] keep(2) calculation(2) by simp
  moreover have "the_worker w2 = the_worker w1"
    using walks_keep_rest(2)[OF keep(1) r] by (simp add: the_worker_def)
  ultimately show "run_pads (pad_effect os P resource scope) (map reg_ra (ps @ [regs])) (the_worker w0) =
      Some (the_worker w2) \<and> live_packet env a content w2"
    using J by (simp add: run_pads_snoc)
qed (use live in \<open>auto simp: request_code_def split: if_splits\<close>)

section \<open>The request recovers\<close>

lemma request_pads_run:
  assumes "run_pads (pad_effect os P resource scope) [pad_resource P, pad_scope P] p = Some p'"
    "pad_resource P \<noteq> pad_scope P"
  shows "\<exists>p1. mapping_drop os resource p = Done () p1 \<and> scope_drop scope p1 = Done () p'"
  using assms by (auto simp: pad_effect_def drop_done_def bind_eq_Some_conv split: run.split_asm)

text \<open>The boundary of a panicking request whose two guards are dropped in this order.\<close>

lemma boundary_recovers:
  assumes "scope_enter (request_id q) p = (Some scope, p1)" "mapping_new os p1 = (Some resource, p2)"
    "request_command q = Panic" "request_id q \<noteq> 0" "wk_cleanups p \<noteq> - 1"
    "p3 = mapping_touch resource (request_id q) p2" "os_finds os p3"
    "mapping_drop os resource p3 = Done () p4" "scope_drop scope p4 = Done () p5"
  shows "boundary_run os q p = Done (Inr Recovered) p5"
proof -
  obtain a where a: "resource = Mapping a" by (cases resource)
  have p1: "scope = RequestScope (request_id q)" "p1 = p\<lparr>wk_active := request_id q\<rparr>"
    using assms(1) by (auto simp: scope_enter_def split: if_splits)
  have p2: "p2 = p1\<lparr>wk_pages := (wk_pages p1)(a \<mapsto> 0)\<rparr>"
    using assms(2) a by (auto simp: mapping_new_def split: option.splits)
  have p3: "wk_active p3 = request_id q" "wk_cleanups p3 = wk_cleanups p"
    by (simp_all add: assms(6) a p2 p1(2))
  have p4: "wk_cleanups p5 = wk_cleanups p + 1"
    using assms(8,9) p3(2) by (auto simp: a p1(1) terminate_def split: if_splits)
  have "service_execute os q p1 = Unwinding (FaultBox (Fault (request_id q))) p4"
    using assms(2,3,4,6-8) p3(1) by (simp add: service_execute_def guarded_def panic_handler_def nonzero_def Let_def)
  then have "boundary_invoke os q p = Unwinding (FaultBox (Fault (request_id q))) p5"
    using assms(1,9) by (simp add: boundary_invoke_def guarded_def)
  moreover have "checked_add (wk_cleanups p) 1 = Some (wk_cleanups p + 1)"
    using assms(5) by (rule checked_succ)
  ultimately show ?thesis by (simp add: boundary_run_def p4)
qed

text \<open>How the raise of a request lands: at the packet it allocated, with the worker as it was.\<close>

lemma panic_lands:
  assumes "process_panic env (walk_raise U R s) True w = Some (Lands r0 w0)" "wk_active (the_worker w) = n" "n \<noteq> 0"
    "\<And>q. routines_keep R (\<lambda>w. w_rest w = q)" "routines_keep R (live_packet env (env_alloc env w) (FaultBox (Fault n)))"
  shows "live_packet env (env_alloc env w) (FaultBox (Fault n)) w0 \<and> the_worker w0 = the_worker w"
proof -
  obtain a w1 where b: "box_into_raw env (packet_new env (FaultBox (Fault n))) w = (a, w1)" by fastforce
  then have w1: "the_worker w1 = the_worker w" by (auto simp: box_into_raw_def the_worker_def Let_def)
  from assms(1-3) b obtain out where o: "walk_raise U R s a w1 = Some out"
    by (auto simp: process_panic_def nonzero_def panic_start_def panic_raise_def)
  with assms(1-3) b have "out = Transferred r0 w0"
    by (cases out) (auto simp: process_panic_def nonzero_def panic_start_def panic_raise_def leaves_process_def)
  note out = o this
  then have "the_worker w0 = the_worker w1"
    using walks_keep_rest(1)[OF assms(4) o] by (simp add: the_worker_def)
  moreover have "live_packet env (env_alloc env w) (FaultBox (Fault n)) w0"
    using packet_walk.raise_keeps[OF out(1), of env "env_alloc env w" "FaultBox (Fault n)"] into_raw_live[OF b]
      out(2) assms(5) by auto
  ultimately show ?thesis using w1 by simp
qed

text \<open>C4. A panicking request on the unwinder recovers as the worker's own boundary does: when its panic
  lands and the propagation through the compiled code of its frames ends at the catch pad after
  the pads of its two guards, the catch gets the request's fault out of the packet it frees, and
  the worker is left as the boundary leaves it, which reports the request as recovered.\<close>

theorem request_recovers_on_unwinder:
  assumes "\<And>q. routines_keep R (\<lambda>w. w_rest w = q)" "routines_keep R (live_packet env a (FaultBox (Fault (request_id q))))"
    "a = env_alloc env w"
    "scope_enter (request_id q) p = (Some scope, p1)" "mapping_new os p1 = (Some resource, p2)"
    "request_command q = Panic" "request_id q \<noteq> 0" "wk_cleanups p \<noteq> - 1"
    "the_worker w = mapping_touch resource (request_id q) p2" "os_finds os (the_worker w)"
    "process_panic env (walk_raise U R s) True w = Some (Lands r0 w0)"
    "propagate U R (request_code os P resource scope resumes) (Transferred r0 w0) = Some (Caught regs w', pads)"
    "map reg_ra pads = [pad_resource P, pad_scope P]" "pad_resource P \<noteq> pad_scope P"
  shows "boundary_catch env R' a w' = Some (Goes (FaultBox (Fault (request_id q))) (freed a w')) \<and>
    boundary_run os q p = Done (Inr Recovered) (the_worker (freed a w'))"
proof -
  have "wk_active (the_worker w) = request_id q"
    using assms(4,5,9) by (auto simp: scope_enter_def mapping_new_def split: if_splits option.splits)
  from panic_lands[OF assms(11) this assms(7,1)] assms(2,3)
  have lands: "live_packet env a (FaultBox (Fault (request_id q))) w0" "the_worker w0 = the_worker w" by simp_all
  have caught: "run_pads (pad_effect os P resource scope) (map reg_ra pads) (the_worker w0) = Some (the_worker w')"
    "live_packet env a (FaultBox (Fault (request_id q))) w'"
    using propagated_effects[OF assms(1,2,12) lands(1)] by simp_all
  with assms(13,14) lands(2) obtain p3 where drops: "mapping_drop os resource (the_worker w) = Done () p3"
    "scope_drop scope p3 = Done () (the_worker w')"
    using request_pads_run by metis
  have "boundary_run os q p = Done (Inr Recovered) (the_worker w')"
    by (rule boundary_recovers[OF assms(4-10) drops])
  moreover have "boundary_catch env R' a w' = Some (Goes (FaultBox (Fault (request_id q))) (freed a w'))"
    using catch_live[OF caught(2)] by (simp add: boundary_catch_def leaves_process_def)
  ultimately show ?thesis by simp
qed

text \<open>A panic no frame handles ends the process with the LOST status, as the worker's handler does.\<close>

theorem unhandled_panic_is_lost:
  assumes "panic_raise env (walk_raise U R s) (FaultBox (Fault n)) w = Some (Value r w')" "\<And>q. routines_keep R (\<lambda>w. w_rest w = q)"
    "wk_active (the_worker w) = n" "n \<noteq> 0" "env_lost env \<noteq> env_foreign env" "\<not> os_finds os (the_worker w)"
  shows "process_panic env (walk_raise U R s) True w = Some (Over (panic_handler os True (the_worker w)))"
proof -
  obtain a w1 where b: "box_into_raw env (packet_new env (FaultBox (Fault n))) w = (a, w1)" by fastforce
  then have w1: "the_worker w1 = the_worker w" by (auto simp: box_into_raw_def the_worker_def Let_def)
  from assms(1) b obtain out where out: "walk_raise U R s a w1 = Some out"
    by (auto simp: panic_raise_def)
  with assms(1) b have "out = Returned (raise_reason r) w'"
    by (cases out) (auto simp: panic_raise_def)
  with out have "walk_raise U R s a w1 = Some (Returned (raise_reason r) w')" by simp
  from walks_keep_rest(1)[OF assms(2) this] have "the_worker w' = the_worker w"
    using w1 by (simp add: the_worker_def)
  then show ?thesis
    using assms by (simp add: process_panic_def nonzero_def panic_start_def leaves_process_def linux_hook_def panic_handler_def)
qed

section \<open>Witness\<close>

text \<open>Request 7 with its page at \<open>0x10000\<close>: the inner frame holds both guards, whose pads are \<open>0x1100\<close>
  and \<open>0x1200\<close>, the outer one the catch.\<close>

definition rq_personality :: "Actions \<Rightarrow> usize \<Rightarrow> usize \<Rightarrow> ReasonCode \<times> writes" where
  "rq_personality actions ip e =
    (if actions = act_search then (if ip < 0x2000 then rc_continue else rc_handler, [])
     else if ip = 0x1000 then (rc_install, [(0, e), (1, 0), (16, 0x1100)])
     else if ip = 0x1104 then (rc_install, [(0, e), (1, 0), (16, 0x1200)])
     else if ip < 0x2000 then (rc_continue, [])
     else (rc_install, [(0, e), (1, 0), (16, 0x2100)]))"

definition rq_routines :: "'w routines" where
  "rq_routines = ex_routines\<lparr>r_personality := (\<lambda>a v acts cls e cb w.
    case callback_frame cb of
      None \<Rightarrow> None
    | Some info \<Rightarrow> (case rq_personality acts (info_instruction info) e of (r, ws) \<Rightarrow> Some (r, ws, w)))\<rparr>"

definition rq_pads :: request_pads where
  "rq_pads = \<lparr>pad_resource = 0x1100, pad_scope = 0x1200, pad_catch = 0x2100\<rparr>"

definition rq_resumed :: "Registers \<Rightarrow> State" where
  "rq_resumed regs = captured (registers_zeroed\<lparr>reg_rsp := 0x7000, reg_ra := reg_ra regs + 5\<rparr>)"

definition rq_pad :: "usize \<Rightarrow> usize \<Rightarrow> Registers" where
  "rq_pad sp a = registers_zeroed\<lparr>reg_rax := 0x9000, reg_rsp := sp, reg_ra := a\<rparr>"

definition rq_start :: worker where
  "rq_start = \<lparr>wk_active = 0, wk_cleanups = 0, wk_pages = (\<lambda>_. None), wk_log = []\<rparr>"

definition rq_env :: process_env where
  "rq_env = \<lparr>env_canary = 0x100, env_cleanup = 0x200, env_lost = 0x300, env_foreign = 0x400,
    env_alloc = (\<lambda>_. 0x9000)\<rparr>"

definition rq_world :: "process world" where
  "rq_world = \<lparr>w_exception = w_exception ex_world, w_rest = \<lparr>heap_canary = (\<lambda>_. 0), heap_box = (\<lambda>_. None),
    pr_worker = rq_start\<lparr>wk_active := 7, wk_pages := [0x10000 \<mapsto> 7]\<rparr>\<rparr>\<rparr>"

definition rq_boxed :: "process world" where
  "rq_boxed = snd (box_into_raw rq_env (packet_new rq_env (FaultBox (Fault 7))) rq_world)"

abbreviation rq_code :: "process code" where
  "rq_code \<equiv> request_code os_ref rq_pads (Mapping 0x10000) (RequestScope 7) rq_resumed"

lemma rq_keep: "routines_keep rq_routines I"
  by (auto simp: routines_keep_def rq_routines_def ex_routines_def split: option.split_asm prod.split_asm)

lemma rq_current:
  "cursor_current cl_machine w (ex_frame sp (Some 0x1205)) = Inr (Some (ex_info 4 0x1204))"
  by (simp add: cursor_current_def info_new_def ex_frame_def cursor_new_def state_ip_def
      checked_sub_def cl_machine_def ex_machine_def image_contains_def ex_image_def ex_gimli_def cfi_row_def
      ex_info_def)

lemma rq_calls:
  "walk_personality cl_machine rq_routines c 0x9000 cls (ex_info 4 0x1000) act_search w =
    Some (Inr (Some rc_continue), c, w)"
  "walk_personality cl_machine rq_routines c 0x9000 cls (ex_info 5 0x2000) act_search w =
    Some (Inr (Some rc_handler), c, w)"
  "acts \<noteq> act_search \<Longrightarrow> walk_personality cl_machine rq_routines c 0x9000 cls (ex_info 4 0x1204) acts w =
    Some (Inr (Some rc_continue), c, w)"
  "acts \<noteq> act_search \<Longrightarrow> walk_personality cl_machine rq_routines (ex_frame sp (Some ra)) 0x9000 cls
    (ex_info 4 0x1000) acts w = Some (Inr (Some rc_install), cl_landing sp 0x1100, w)"
  "acts \<noteq> act_search \<Longrightarrow> walk_personality cl_machine rq_routines (ex_frame sp (Some ra)) 0x9000 cls
    (ex_info 4 0x1104) acts w = Some (Inr (Some rc_install), cl_landing sp 0x1200, w)"
  "acts \<noteq> act_search \<Longrightarrow> walk_personality cl_machine rq_routines (ex_frame sp (Some ra)) 0x9000 cls
    (ex_info 5 0x2000) acts w = Some (Inr (Some rc_install), cl_landing sp 0x2100, w)"
  by (simp_all add: walk_personality_def info_personality_def cl_sel pointer_transpose_def
      info_pointer_def nonzero_def with_callback_def rq_routines_def rq_personality_def ex_info_def
      callback_writes_def[of _ "[]"] cl_writes)

lemma rq_normal_body:
  "normal_body cl_machine rq_routines 0x9000 cls handler (ex_frame sp (Some 0x1001), w) =
    Some (Break (Transferred (rq_pad sp 0x1100) w))"
  "normal_body cl_machine rq_routines 0x9000 cls handler (ex_frame sp (Some 0x1105), w) =
    Some (Break (Transferred (rq_pad sp 0x1200) w))"
  "normal_body cl_machine rq_routines 0x9000 cls handler (ex_frame sp (Some 0x2001), w) =
    Some (Break (Transferred (rq_pad sp 0x2100) w))"
  unfolding rq_pad_def
  by (rule cleanup_lands[OF cl_current(1) _ _ cl_install] cleanup_lands[OF cl_current(2) _ _ cl_install]
      cleanup_lands[OF cl_current(3) _ _ cl_install],
      simp_all add: cl_sel ex_key rq_calls cl_masks)+

lemma rq_search:
  "walk_search cl_machine rq_routines 0x9000 cls (cursor_new ex_state) w = Some (Inr (Key 0x7008), w)"
  using search_handler[OF cl_current(3) rq_calls(2)] ex_key[of "0x7008" "Some 0x2001"]
  by (simp add: walk_search_def ex_start run_loop_simps(2) search_body_def cl_current(1) rq_calls(1)
      cl_advance cl_sel)

lemma rq_physical:
  "physical cl_machine w (ex_frame 0x7000 (Some 0x1205)) [(ex_frame 0x7000 (Some 0x1205), ex_info 4 0x1204)]
    (ex_frame 0x7008 (Some 0x2001))"
  by (rule physical_up[OF rq_current cl_advance physical_here])

lemma rq_resumed_frame: "cursor_new (rq_resumed (rq_pad sp a)) = ex_frame 0x7000 (Some (a + 5))"
  by (simp add: rq_resumed_def rq_pad_def ex_frame_def ex_state_def captured_def registers_zeroed_def)

abbreviation rq_raised :: "process world" where
  "rq_raised \<equiv> resume_write (Normal (Key 0x7008)) 0x9000 rq_boxed"

abbreviation rq_after :: "usize \<Rightarrow> process world" where
  "rq_after active \<equiv> set_worker (rq_start\<lparr>wk_active := active, wk_cleanups := 1\<rparr>) rq_raised"

lemma rq_boxed:
  "box_into_raw rq_env (packet_new rq_env (FaultBox (Fault 7))) rq_world = (0x9000, rq_boxed)"
  "the_worker rq_boxed = rq_start\<lparr>wk_active := 7, wk_pages := [0x10000 \<mapsto> 7]\<rparr>"
  "exception_class (w_exception rq_boxed 0x9000) = rust_class"
  by (simp_all add: rq_boxed_def box_into_raw_def rq_env_def rq_world_def the_worker_def packet_new_def
      exception_new_def Let_def)

lemma rq_code:
  "rq_code (rq_pad sp 0x1100) rq_raised = Some (Resumes (rq_resumed (rq_pad sp 0x1100)) 0x9000 (rq_after 7))"
  "rq_code (rq_pad sp 0x1200) (rq_after 7) = Some (Resumes (rq_resumed (rq_pad sp 0x1200)) 0x9000 (rq_after 0))"
  "rq_code (rq_pad sp 0x2100) w = Some (Settles w)"
  by (simp_all add: request_code_def rq_pads_def rq_pad_def pad_effect_def drop_done_def os_ref_def rq_boxed(2)
      rq_start_def) (simp add: set_worker_def)

lemma rq_flying: "in_flight 0x9000 rust_class (Normal (Key 0x7008)) (rq_after a)"
proof -
  have "in_flight 0x9000 rust_class (Normal (Key 0x7008)) rq_raised"
    by (simp add: in_flight_def resume_read_write resumable_def resume_write_frame(3) rq_boxed(3))
  then show ?thesis by (simp add: in_flight_def resume_read_def)
qed

lemma rq_passes:
  "passes cl_machine (normal_body cl_machine rq_routines 0x9000 rust_class (Key 0x7008))
    (passed_over cl_machine rq_routines 0x9000 rust_class (Key 0x7008))
    (in_flight 0x9000 rust_class (Normal (Key 0x7008))) 0x9000 rq_code ex_state rq_raised
    [rq_pad 0x7000 0x1100, rq_pad 0x7000 0x1200] (rq_pad 0x7008 0x2100) (rq_after 0)"
  (is "passes _ ?body ?good ?mine _ _ _ _ _ _ _")
proof (rule passes_cleanup[where fs = "[]" and d = "ex_frame 0x7000 (Some 0x1001)"])
  show "passes cl_machine ?body ?good ?mine 0x9000 rq_code (rq_resumed (rq_pad 0x7000 0x1100)) (rq_after 7)
      [rq_pad 0x7000 0x1200] (rq_pad 0x7008 0x2100) (rq_after 0)"
  proof (rule passes_cleanup[where fs = "[]" and d = "ex_frame 0x7000 (Some 0x1105)"])
    show "passes cl_machine ?body ?good ?mine 0x9000 rq_code (rq_resumed (rq_pad 0x7000 0x1200)) (rq_after 0)
        [] (rq_pad 0x7008 0x2100) (rq_after 0)"
      using rq_physical[of "rq_after 0"]
      by (intro passes_last[where fs = "[(ex_frame 0x7000 (Some 0x1205), ex_info 4 0x1204)]"])
         (auto simp: rq_resumed_frame rq_normal_body passed_over_def quiet_def rq_calls cl_sel cl_masks
           unselected_def ex_key action_defs)
  qed (auto simp: rq_resumed_frame rq_normal_body rq_code rq_flying physical_here)
qed (auto simp: ex_start rq_normal_body rq_code rq_flying physical_here)

lemma rq_panics:
  "process_panic rq_env (walk_raise cl_machine rq_routines ex_state) True rq_world =
    Some (Lands (rq_pad 0x7000 0x1100) rq_raised)"
  "propagate cl_machine rq_routines rq_code (Transferred (rq_pad 0x7000 0x1100) rq_raised) =
    Some (Caught (rq_pad 0x7008 0x2100) (rq_after 0), [rq_pad 0x7000 0x1100, rq_pad 0x7000 0x1200])"
proof -
  have go: "run_loop (normal_body cl_machine rq_routines 0x9000 rust_class (Key 0x7008))
      (cursor_new ex_state, rq_raised) = Some (Transferred (rq_pad 0x7000 0x1100) rq_raised)"
    by (simp add: run_loop_simps(3) ex_start rq_normal_body)
  then show "propagate cl_machine rq_routines rq_code (Transferred (rq_pad 0x7000 0x1100) rq_raised) =
      Some (Caught (rq_pad 0x7008 0x2100) (rq_after 0), [rq_pad 0x7000 0x1100, rq_pad 0x7000 0x1200])"
    using normal_resumed.propagates[OF rq_passes rq_code(3)] by (fastforce simp: propagate_def)
  have "walk_raise cl_machine rq_routines ex_state 0x9000 rq_boxed = Some (Transferred (rq_pad 0x7000 0x1100) rq_raised)"
    using go rq_search[of rust_class rq_boxed] rq_boxed(3)
    by (simp add: walk_raise_def walk_begin_def walk_new_def run_normal_def walk_normal_def Let_def)
  moreover have "wk_active (the_worker rq_world) = 7" by (simp add: rq_world_def the_worker_def)
  ultimately show "process_panic rq_env (walk_raise cl_machine rq_routines ex_state) True rq_world =
      Some (Lands (rq_pad 0x7000 0x1100) rq_raised)"
    by (simp add: process_panic_def nonzero_def panic_start_def panic_raise_def rq_boxed(1) leaves_process_def)
qed

theorem request_recovers_on_unwinder_witness:
  "boundary_catch rq_env rq_routines 0x9000 (rq_after 0) = Some (Goes (FaultBox (Fault 7)) (freed 0x9000 (rq_after 0))) \<and>
    boundary_run os_ref \<lparr>request_id = 7, request_command = Panic\<rparr> rq_start =
      Done (Inr Recovered) (rq_start\<lparr>wk_cleanups := 1\<rparr>)"
proof -
  have w: "the_worker rq_world = rq_start\<lparr>wk_active := 7, wk_pages := [0x10000 \<mapsto> 7]\<rparr>"
    by (simp add: rq_world_def the_worker_def)
  have "boundary_catch rq_env rq_routines 0x9000 (rq_after 0) =
        Some (Goes (FaultBox (Fault (request_id \<lparr>request_id = 7, request_command = Panic\<rparr>))) (freed 0x9000 (rq_after 0))) \<and>
      boundary_run os_ref \<lparr>request_id = 7, request_command = Panic\<rparr> rq_start =
        Done (Inr Recovered) (the_worker (freed 0x9000 (rq_after 0)))"
    by (rule request_recovers_on_unwinder[where ?p1.0 = "rq_start\<lparr>wk_active := 7\<rparr>" and
          ?p2.0 = "rq_start\<lparr>wk_active := 7, wk_pages := [0x10000 \<mapsto> 0]\<rparr>",
          OF rq_keep rq_keep _ _ _ _ _ _ _ _ rq_panics])
       (simp_all add: w scope_enter_def rq_start_def mapping_new_def os_ref_def rq_pads_def rq_pad_def rq_env_def)
  then show ?thesis by (simp add: rq_start_def)
qed

end
