(* ===== verification/NativeRaise.thy ===== *)
theory NativeRaise
  imports Recovery
begin

text \<open>
  The example of \<open>desenredo-panic\<close> (\<open>examples/native_raise.rs\<close>): a Rust callback that holds a guard
  raises a panic into a native catch-all, which deletes the exception it does not know.  Deleting
  the packet calls its LOST hook, which ends the process with a status that tells whether the
  guard was dropped exactly once; a walk that runs into a trap kills it.
\<close>

section \<open>The program\<close>











section \<open>What it shows\<close>





section \<open>Witness\<close>














end
