(* ===== verification/Fixture.thy ===== *)
theory Fixture
  imports Panic Propagation Probes
begin

text \<open>
  The freestanding test program (\<open>tests/no-std-linux/src/main.rs\<close>): probes that raise an exception no
  frame handles, trace the stack, force an unwind, unwind through frames with known registers and
  catch a panic behind a guard, each with an exit status of its own when it fails.  Its allocator,
  image and table source are those of the example process but for their names (\<open>Process\<close>,
  \<open>Linked\<close>).  The count of a trace wraps, after as many frames as there are addresses.  The build that
  panics across \<open>extern "C"\<close> instead, which rests on code the compiler puts there, is left out but
  for its panic handler.  Messages are a log; the loop over partial writes is the one of \<open>Worker\<close>.
\<close>

section \<open>The process\<close>

text \<open>What a callback sees of its frame first.\<close>

record First =
  first_ip :: usize
  first_before :: c_int

text \<open>The states of the two callbacks, \<open>Trace\<close> and \<open>Forced\<close>.\<close>

record Tracing =
  tracing_first :: "First option"
  tracing_count :: usize

record Forcing =
  forcing_first :: "First option"
  forcing_end :: bool

definition tracing_new :: Tracing where
  "tracing_new = \<lparr>tracing_first = None, tracing_count = 0\<rparr>"

definition forcing_new :: Forcing where
  "forcing_new = \<lparr>forcing_first = None, forcing_end = False\<rparr>"

text \<open>A payload is a box of the one type the program tells apart.\<close>

datatype AnyBox = U64Box u64 | OtherBox

text \<open>\<open>DROPS\<close>, the local states by address, and the messages.\<close>

record fixture = "AnyBox heap" +
  fx_drops :: usize
  fx_tracing :: "usize \<Rightarrow> Tracing"
  fx_forcing :: "usize \<Rightarrow> Forcing"
  fx_log :: "string list"

type_synonym fixture_env = "(AnyBox, \<lparr>fx_drops :: usize, fx_tracing :: usize \<Rightarrow> Tracing,
  fx_forcing :: usize \<Rightarrow> Forcing, fx_log :: string list\<rparr>) panic_env"

definition put_tracing :: "usize \<Rightarrow> Tracing \<Rightarrow> fixture world \<Rightarrow> fixture world" where
  "put_tracing a state w = w\<lparr>w_rest := (w_rest w)\<lparr>fx_tracing := (fx_tracing (w_rest w))(a := state)\<rparr>\<rparr>"

definition put_forcing :: "usize \<Rightarrow> Forcing \<Rightarrow> fixture world \<Rightarrow> fixture world" where
  "put_forcing a state w = w\<lparr>w_rest := (w_rest w)\<lparr>fx_forcing := (fx_forcing (w_rest w))(a := state)\<rparr>\<rparr>"

definition put_exception :: "usize \<Rightarrow> Exception \<Rightarrow> fixture world \<Rightarrow> fixture world" where
  "put_exception a header w = w\<lparr>w_exception := (w_exception w)(a := header)\<rparr>"

definition fixture_write :: "string \<Rightarrow> fixture world \<Rightarrow> fixture world" where
  "fixture_write message w = w\<lparr>w_rest := (w_rest w)\<lparr>fx_log := fx_log (w_rest w) @ [message @ [CHR 0x0A]]\<rparr>\<rparr>"

text \<open>An operation answers, or the process ends with a status, or it is killed by a trap or an abort, of
  which the messages written so far remain.\<close>

datatype 'a answer = Answers 'a "fixture world" | Finished c_int "fixture world" | Killed "string list"

definition fixture_finish :: "string \<Rightarrow> c_int \<Rightarrow> fixture world \<Rightarrow> 'a answer" where
  "fixture_finish message status w = Finished status (fixture_write message w)"

definition answer_then ::
    "'a answer option \<Rightarrow> ('a \<Rightarrow> fixture world \<Rightarrow> 'b answer option) \<Rightarrow> 'b answer option" where
  "answer_then m f = Option.bind m (\<lambda>r. case r of
     Answers a w \<Rightarrow> f a w | Finished status w \<Rightarrow> Some (Finished status w) | Killed log \<Rightarrow> Some (Killed log))"

section \<open>The allocator's pages\<close>

definition fixture_page :: usize where "fixture_page = 4096"

definition fixture_pages :: "usize \<Rightarrow> usize option" where
  "fixture_pages count =
    map_option (\<lambda>count. count AND NOT (fixture_page - 1)) (checked_add (max count 1) (fixture_page - 1))"

text \<open>Over what the kernel maps; a null pointer is a failed allocation.\<close>

definition fixture_alloc :: "(usize \<Rightarrow> 's \<Rightarrow> usize option \<times> 's) \<Rightarrow> usize \<Rightarrow> usize \<Rightarrow> 's \<Rightarrow> usize \<times> 's" where
  "fixture_alloc mmap count align s =
    (case (align \<le> fixture_page, fixture_pages count) of
       (True, Some count) \<Rightarrow> (case mmap count s of (mapped, s) \<Rightarrow> (case mapped of Some a \<Rightarrow> a | None \<Rightarrow> 0, s))
     | _ \<Rightarrow> (0, s))"

definition fixture_dealloc :: "(usize \<Rightarrow> usize \<Rightarrow> 's \<Rightarrow> 's) \<Rightarrow> usize \<Rightarrow> usize \<Rightarrow> 's \<Rightarrow> 's" where
  "fixture_dealloc munmap pointer count s =
    (case fixture_pages count of None \<Rightarrow> s | Some count \<Rightarrow> munmap pointer count s)"

section \<open>The callbacks\<close>

definition first_seen :: "Callback \<Rightarrow> First" where
  "first_seen context =
    (case context_info (Some context) True of (ip, stored) \<Rightarrow>
       \<lparr>first_ip = ip, first_before = (case stored of Some flag \<Rightarrow> flag | None \<Rightarrow> 0)\<rparr>)"

definition note_first :: "First option \<Rightarrow> Callback \<Rightarrow> First option" where
  "note_first noted context = (if noted = None then Some (first_seen context) else noted)"

definition trace_visit ::
    "Callback \<Rightarrow> usize \<Rightarrow> fixture world \<Rightarrow> (ReasonCode \<times> writes \<times> fixture world) option" where
  "trace_visit context parameter w =
    (let state = fx_tracing (w_rest w) parameter in
     Some (rc_none, [], put_tracing parameter \<lparr>tracing_first = note_first (tracing_first state) context,
       tracing_count = tracing_count state + 1\<rparr> w))"

definition force_stop ::
    "lib \<Rightarrow> c_int \<Rightarrow> Actions \<Rightarrow> ExceptionClass \<Rightarrow> usize \<Rightarrow> Callback \<Rightarrow> usize \<Rightarrow> fixture world
      \<Rightarrow> (ReasonCode \<times> writes \<times> fixture world) option" where
  "force_stop L version actions class exception context parameter w =
    (let state = fx_forcing (w_rest w) parameter in
     Some (rc_none, [], put_forcing parameter
       (if actions_has L actions act_end then state\<lparr>forcing_end := True\<rparr>
        else state\<lparr>forcing_first := note_first (forcing_first state) context\<rparr>) w))"

section \<open>Where things are\<close>

text \<open>The registers captured at the calls into the unwinder, the local variables and labels of the
  probes, the callbacks and the landing pads.\<close>

record sites =
  at_ending :: State
  at_trace :: State
  at_force :: State
  at_registers :: State
  at_boundary :: State
  slot_ending :: usize
  slot_tracing :: usize
  slot_forced :: usize
  slot_forcing :: usize
  addr_visit :: usize
  addr_stop :: usize
  trace_return :: usize
  force_return :: usize
  pad_guard :: usize
  pad_register :: usize
  pad_caught :: usize

text \<open>The callbacks are at their addresses.\<close>

definition hosts :: "lib \<Rightarrow> sites \<Rightarrow> fixture routines \<Rightarrow> bool" where
  "hosts L K R \<longleftrightarrow> r_trace R (addr_visit K) = trace_visit \<and> r_stop R (addr_stop K) = force_stop L"

section \<open>The probes of the walks\<close>

text \<open>\<open>from_ne_bytes\<close> of \<open>DSNRTEST\<close>.\<close>

definition fixture_class :: ExceptionClass where
  "fixture_class = ExceptionClass (from_le_bytes [0x44, 0x53, 0x4e, 0x52, 0x54, 0x45, 0x53, 0x54])"

definition fixture_ending ::
    "fixture machine \<Rightarrow> fixture routines \<Rightarrow> sites \<Rightarrow> fixture world \<Rightarrow> bool answer option" where
  "fixture_ending U R K w =
    Option.bind (walk_raise U R (at_ending K) (slot_ending K)
        (put_exception (slot_ending K) (exception_new fixture_class None) w))
      (\<lambda>out. case out of Returned reason w \<Rightarrow> Some (Answers (reason = rc_end) w) | _ \<Rightarrow> None)"

text \<open>\<open>matches!\<close> of the first frame a callback saw.\<close>

definition first_is :: "usize \<Rightarrow> First option \<Rightarrow> bool" where
  "first_is expected noted \<longleftrightarrow> (case noted of
     Some first \<Rightarrow> first_before first = 0 \<and> first_ip first = expected | None \<Rightarrow> False)"

text \<open>The probe in assembly hands the reason through; see \<open>trace_probe_code\<close>.\<close>

definition fixture_trace ::
    "fixture machine \<Rightarrow> fixture routines \<Rightarrow> sites \<Rightarrow> fixture world \<Rightarrow> bool answer option" where
  "fixture_trace U R K w =
    map_option (\<lambda>(reason, w). let state = fx_tracing (w_rest w) (slot_tracing K) in
        Answers (reason = rc_end \<and> first_is (trace_return K) (tracing_first state) \<and> 3 \<le> tracing_count state) w)
      (walk_trace U R (at_trace K) (addr_visit K) (slot_tracing K) (put_tracing (slot_tracing K) tracing_new w))"

definition fixture_forced ::
    "fixture machine \<Rightarrow> fixture routines \<Rightarrow> sites \<Rightarrow> fixture world \<Rightarrow> bool answer option" where
  "fixture_forced U R K w =
    Option.bind (walk_forced U R (at_force K) (slot_forced K) (addr_stop K) (slot_forcing K)
        (put_forcing (slot_forcing K) forcing_new
          (put_exception (slot_forced K) (exception_new fixture_class None) w)))
      (\<lambda>out. case out of
         Returned reason w \<Rightarrow> (let state = fx_forcing (w_rest w) (slot_forcing K) in
           Some (Answers (reason = rc_end \<and> first_is (force_return K) (forcing_first state) \<and> forcing_end state) w))
       | _ \<Rightarrow> None)"

section \<open>The panics\<close>

definition marker :: u64 where "marker = 0x44534e5245444f21"

definition fixture_hook :: "fixture_env \<Rightarrow> usize \<Rightarrow> fixture world \<Rightarrow> 'a answer" where
  "fixture_hook env hook w =
    (if hook = env_foreign env then fixture_finish ''catch frame received a foreign exception'' 71 w
     else fixture_finish ''unwinder returned without reaching the catch frame'' 70 w)"

text \<open>The panic handler; its answer is the landing pad it goes to.\<close>

definition fixture_panic ::
    "fixture_env \<Rightarrow> (usize \<Rightarrow> fixture world \<Rightarrow> fixture outcome option) \<Rightarrow> bool \<Rightarrow> fixture world
      \<Rightarrow> Registers answer option" where
  "fixture_panic env raise_exception can_unwind w =
    (if can_unwind then
       Option.bind (panic_start env raise_exception (U64Box marker) w) (\<lambda>f. case f of
           Landed regs w \<Rightarrow> Some (Answers regs w)
         | Hooked hook w \<Rightarrow> Some (fixture_hook env hook w)
         | Crashed \<Rightarrow> Some (Killed (fx_log (w_rest w)))
         | Value _ _ \<Rightarrow> None)
     else Some (Killed (fx_log (w_rest (fixture_write ''terminating non-unwinding panic'' w)))))"

definition fixture_drop :: "fixture world \<Rightarrow> fixture world" where
  "fixture_drop w = w\<lparr>w_rest := (w_rest w)\<lparr>fx_drops := fx_drops (w_rest w) + 1\<rparr>\<rparr>"

text \<open>The compiled code of the boundary's guard, and the two frames that catch.\<close>

definition fixture_code :: "sites \<Rightarrow> (Registers \<Rightarrow> State) \<Rightarrow> fixture code" where
  "fixture_code K resumes regs w =
    (if reg_ra regs = pad_guard K then Some (Resumes (resumes regs) (reg_rax regs) (fixture_drop w))
     else if reg_ra regs = pad_register K \<or> reg_ra regs = pad_caught K then Some (Settles w)
     else None)"

text \<open>\<open>panic_source\<close>, to where its panic is caught.\<close>

definition panic_source ::
    "fixture_env \<Rightarrow> fixture machine \<Rightarrow> fixture routines \<Rightarrow> fixture code \<Rightarrow> State \<Rightarrow> fixture world
      \<Rightarrow> Registers answer option" where
  "panic_source env U R land s w =
    answer_then (fixture_panic env (walk_raise U R s) True w) (\<lambda>regs w.
      map_option (\<lambda>(ending, _). case ending of Caught regs w \<Rightarrow> Answers regs w | _ \<Rightarrow> Killed (fx_log (w_rest w)))
        (propagate U R land (Transferred regs w)))"

text \<open>\<open>catch\<close> at a pad, its payload downcast to a word.\<close>

definition caught_word ::
    "fixture_env \<Rightarrow> fixture routines \<Rightarrow> usize \<Rightarrow> fixture world \<Rightarrow> u64 option answer option" where
  "caught_word env R exception w =
    Option.bind (panic_catch env R exception w) (\<lambda>f. case f of
        Value content w \<Rightarrow> Some (Answers (case content of U64Box word \<Rightarrow> Some word | OtherBox \<Rightarrow> None) w)
      | Hooked hook w \<Rightarrow> Some (fixture_hook env hook w)
      | _ \<Rightarrow> None)"

text \<open>The sentinels of the frame that catches, in \<open>catch.S\<close>.\<close>

fun register_sentinel :: "reg \<Rightarrow> u64" where
  "register_sentinel RBX = 0x61111111" | "register_sentinel RBP = 0x62222222"
| "register_sentinel R12 = 0x63333333" | "register_sentinel R13 = 0x64444444"
| "register_sentinel R14 = 0x65555555" | "register_sentinel R15 = 0x66666666"
| "register_sentinel _ = 0"

definition preserved :: "Registers \<Rightarrow> c_int" where
  "preserved regs =
    (if list_all (\<lambda>r. registers_get r regs = register_sentinel r) saved_registers then 1 else 0)"

definition register_landing ::
    "fixture_env \<Rightarrow> fixture routines \<Rightarrow> usize \<Rightarrow> c_int \<Rightarrow> fixture world \<Rightarrow> c_int answer option" where
  "register_landing env R exception kept w =
    answer_then (caught_word env R exception w) (\<lambda>content w.
      Some (Answers (if content = Some marker \<and> kept = 1 then 1 else 0) w))"

definition fixture_registers ::
    "fixture_env \<Rightarrow> fixture machine \<Rightarrow> fixture routines \<Rightarrow> sites \<Rightarrow> fixture code \<Rightarrow> fixture world
      \<Rightarrow> bool answer option" where
  "fixture_registers env U R K land w =
    answer_then (panic_source env U R land (at_registers K) w) (\<lambda>regs w.
      if reg_ra regs = pad_register K then
        answer_then (register_landing env R (reg_rax regs) (preserved regs) w) (\<lambda>kept w.
          Some (Answers (kept = 1) w))
      else None)"

definition run_catch_unwind ::
    "fixture_env \<Rightarrow> fixture machine \<Rightarrow> fixture routines \<Rightarrow> sites \<Rightarrow> fixture code \<Rightarrow> fixture world
      \<Rightarrow> bool answer option" where
  "run_catch_unwind env U R K land w =
    answer_then (panic_source env U R land (at_boundary K) w) (\<lambda>regs w.
      if reg_ra regs = pad_caught K then
        answer_then (caught_word env R (reg_rax regs) w) (\<lambda>content w.
          Some (Answers (content = Some marker \<and> fx_drops (w_rest w) = 1) w))
      else None)"

section \<open>The entry\<close>

definition fixture_check ::
    "bool answer option \<Rightarrow> string \<Rightarrow> c_int \<Rightarrow> (fixture world \<Rightarrow> unit answer option) \<Rightarrow> unit answer option" where
  "fixture_check probe message status go =
    answer_then probe (\<lambda>good w. if good then go w else Some (fixture_finish message status w))"

definition fixture_entry ::
    "fixture_env \<Rightarrow> fixture machine \<Rightarrow> fixture routines \<Rightarrow> sites \<Rightarrow> fixture code \<Rightarrow> fixture world
      \<Rightarrow> unit answer option" where
  "fixture_entry env U R K land w =
    fixture_check (fixture_ending U R K (fixture_write ''starting no_std rustix linux_raw unwind fixture'' w))
      ''no-handler propagation did not reach END'' 76 (\<lambda>w.
    fixture_check (fixture_trace U R K w)
      ''backtrace did not start at its ABI caller or reach END'' 77 (\<lambda>w.
    fixture_check (fixture_forced U R K w) ''forced unwind caller or END callback mismatch'' 78 (\<lambda>w.
    fixture_check (fixture_registers env U R K land w) ''callee-saved register reconstruction mismatch'' 79 (\<lambda>w.
    fixture_check (run_catch_unwind env U R K land w) ''catch_unwind payload or Drop cleanup mismatch'' 72 (\<lambda>w.
    Some (fixture_finish ''no_std unwind batteries passed'' 0 w))))))"

end
