(* ===== verification/FixtureProps.thy ===== *)
theory FixtureProps
  imports Fixture Recovery Process
begin

text \<open>
  What the probes of the test program observe of the unwinder: where its walks stop, what becomes of
  its panics (\<open>fate\<close>) and how many pads they enter, and the exit status these make.
\<close>

section \<open>The allocator\<close>

text \<open>Masking rounds as the division of the example process does.\<close>

lemma mask_page: "x AND NOT (0xfff :: usize) = x div 0x1000 * 0x1000"
proof -
  have "x AND NOT (mask 12) = push_bit 12 (drop_bit 12 x)"
    by (rule bit_word_eqI) (auto simp: bit_simps)
  then show ?thesis by (simp add: mask_eq_exp_minus_1 push_bit_eq_mult drop_bit_eq_div)
qed

lemma pages_are_mapped: "fixture_pages count = mapped_size count"
  using mask_page by (simp add: fixture_pages_def mapped_size_def fixture_page_def page_size_def)

section \<open>The callbacks over a stack\<close>

lemma put_tracing_simps [simp]:
  "fx_tracing (w_rest (put_tracing a state w)) a = state"
  "put_tracing a state (put_tracing a state' w) = put_tracing a state w"
  "w_exception (put_tracing a state w) = w_exception w"
  "fx_drops (w_rest (put_tracing a state w)) = fx_drops (w_rest w)"
  by (simp_all add: put_tracing_def)

lemma put_forcing_simps [simp]:
  "fx_forcing (w_rest (put_forcing a state w)) a = state"
  "put_forcing a state (put_forcing a state' w) = put_forcing a state w"
  "w_exception (put_forcing a state w) = w_exception w"
  "fx_drops (w_rest (put_forcing a state w)) = fx_drops (w_rest w)"
  by (simp_all add: put_forcing_def)

lemma resume_put: "resume_write r e (put_forcing a state w) = put_forcing a state (resume_write r e w)"
  by (simp add: resume_write_def put_forcing_def)

lemma resume_write_rest: "w_rest (resume_write r e w) = w_rest w" "w_rest (put_exception a h v) = w_rest v"
  by (simp_all add: resume_write_def put_exception_def)

text \<open>The first frame of a stack as a callback sees it.\<close>

definition frame_first :: "Cursor \<times> Info \<Rightarrow> First" where
  "frame_first f = first_seen \<lparr>callback_cursor = fst f, callback_frame = Some (snd f)\<rparr>"

definition stack_first :: "First option \<Rightarrow> (Cursor \<times> Info) list \<Rightarrow> First option" where
  "stack_first noted fs =
    (case noted of Some first \<Rightarrow> Some first | None \<Rightarrow> (case fs of [] \<Rightarrow> None | f # _ \<Rightarrow> Some (frame_first f)))"

lemma stack_first_simps [simp]:
  "stack_first noted [] = noted" "stack_first (Some first) fs = Some first"
  "stack_first None (f # fs) = Some (frame_first f)" "stack_first (stack_first noted [f]) fs = stack_first noted (f # fs)"
  by (auto simp: stack_first_def split: option.split)

lemma note_first_stack:
  "note_first noted \<lparr>callback_cursor = fst f, callback_frame = Some (snd f)\<rparr> = stack_first noted [f]"
  by (simp add: note_first_def stack_first_def frame_first_def split: option.split)

definition trace_note :: "usize \<Rightarrow> Cursor \<times> Info \<Rightarrow> fixture world \<Rightarrow> fixture world" where
  "trace_note a f w = (let state = fx_tracing (w_rest w) a in
    put_tracing a \<lparr>tracing_first = stack_first (tracing_first state) [f], tracing_count = tracing_count state + 1\<rparr> w)"

definition force_note :: "usize \<Rightarrow> Cursor \<times> Info \<Rightarrow> fixture world \<Rightarrow> fixture world" where
  "force_note a f w = (let state = fx_forcing (w_rest w) a in
    put_forcing a (state\<lparr>forcing_first := stack_first (forcing_first state) [f]\<rparr>) w)"

lemma trace_notes:
  "fold (trace_note a) fs (put_tracing a \<lparr>tracing_first = noted, tracing_count = n\<rparr> w) =
    put_tracing a \<lparr>tracing_first = stack_first noted fs, tracing_count = n + of_nat (length fs)\<rparr> w"
  by (induction fs arbitrary: noted n) (simp_all add: trace_note_def Let_def add.assoc)

lemma force_notes:
  "fold (force_note a) fs (put_forcing a \<lparr>forcing_first = noted, forcing_end = b\<rparr> w) =
    put_forcing a \<lparr>forcing_first = stack_first noted fs, forcing_end = b\<rparr> w"
  by (induction fs arbitrary: noted) (simp_all add: force_note_def Let_def)

text \<open>The return address of the code whose registers were captured.\<close>

definition called_from :: "State \<Rightarrow> usize" where
  "called_from s = (case st_ra s of Some ra \<Rightarrow> ra | None \<Rightarrow> 0)"

text \<open>The first frame of a walk is the code that called the unwinder, at its return address.\<close>

lemma first_frame:
  assumes "physical U w (cursor_new s) fs d"
  shows "first_is expected (stack_first None fs) \<longleftrightarrow> fs \<noteq> [] \<and> called_from s = expected"
proof (cases fs)
  case (Cons f fs')
  with assms have "fst f = cursor_new s" by (auto simp: physical_Cons)
  with Cons show ?thesis
    by (simp add: first_is_def frame_first_def first_seen_def context_info_def callback_pc_def cursor_ip_def
        state_ip_def cursor_new_def relation_before_def called_from_def split: option.split)
qed (simp add: first_is_def)

section \<open>The probes of the walks\<close>

text \<open>The unwinder sees the same stack in every process: what it reads is not what the program changes.\<close>

definition steady :: "'w machine \<Rightarrow> bool" where
  "steady U \<longleftrightarrow> (\<forall>v w. same_view U v w)"

text \<open>Where a walk stops, it has come to the end exactly if its answer is END_OF_STACK.\<close>

lemma stops_before_end:
  "search_body U R e cls (d, v) = Some (Break (Inl r, v')) \<Longrightarrow> cursor_current U v d \<noteq> Inr None \<Longrightarrow> r = rc_fatal1"
  "trace_body U R visit parameter (d, v) = Some (Break (r, v')) \<Longrightarrow> cursor_current U v d \<noteq> Inr None \<Longrightarrow> r = rc_fatal1"
  "force_body U R e cls forced (d, v) = Some (Break (Returned r v')) \<Longrightarrow> cursor_current U v d \<noteq> Inr None \<Longrightarrow>
    r = rc_fatal2"
  by (auto simp: search_body_def map_sum_const bind_eq_Some_conv
        split: prod.splits sum.split_asm option.split_asm if_splits)
     (auto simp: trace_body_def force_body_def bind_eq_Some_conv dest: install_reasons
        split: prod.splits sum.split_asm option.split_asm if_splits)

lemma stops_at_end:
  "search_body U R e cls (d, v) = Some (Break (Inl r, v')) \<Longrightarrow> r = rc_end \<longleftrightarrow> cursor_current U v d = Inr None"
  "trace_body U R visit parameter (d, v) = Some (Break (r, v')) \<Longrightarrow> r = rc_end \<longleftrightarrow> cursor_current U v d = Inr None"
proof -
  have ne: "rc_fatal1 \<noteq> rc_end" by (simp_all add: reason_defs)
  show "r = rc_end \<longleftrightarrow> cursor_current U v d = Inr None" if b: "search_body U R e cls (d, v) = Some (Break (Inl r, v'))"
    using stops_before_end(1)[OF b] ne b by (cases "cursor_current U v d = Inr None") (auto simp: search_body_def)
  show "r = rc_end \<longleftrightarrow> cursor_current U v d = Inr None" if b: "trace_body U R visit parameter (d, v) = Some (Break (r, v'))"
    using stops_before_end(2)[OF b] ne b by (cases "cursor_current U v d = Inr None") (auto simp: trace_body_def)
qed

text \<open>A walk that passes the frames and stops at the cursor after them, with no handler found or frame
  entered: at the end of the stack, where the lookup or the advance fails, or where a personality
  or callback refuses.\<close>

definition search_stops :: "'w machine \<Rightarrow> 'w routines \<Rightarrow> usize \<Rightarrow> ExceptionClass \<Rightarrow> (Cursor \<times> Info) list \<Rightarrow> Cursor \<Rightarrow> bool" where
  "search_stops U R e cls fs d \<longleftrightarrow> (\<forall>v. list_all (quiet U R e cls act_search v) fs \<and>
    (\<exists>r v'. search_body U R e cls (d, v) = Some (Break (Inl r, v'))))"

definition trace_stops :: "'w machine \<Rightarrow> 'w routines \<Rightarrow> usize \<Rightarrow> usize \<Rightarrow> Cursor \<Rightarrow> bool" where
  "trace_stops U R visit parameter d \<longleftrightarrow> (\<forall>v. \<exists>r v'. trace_body U R visit parameter (d, v) = Some (Break (r, v')))"

definition force_stops ::
    "'w machine \<Rightarrow> 'w routines \<Rightarrow> usize \<Rightarrow> ExceptionClass \<Rightarrow> Forced \<Rightarrow> (Cursor \<times> Info) list \<Rightarrow> Cursor \<Rightarrow> bool" where
  "force_stops U R e cls forced fs d \<longleftrightarrow> (\<forall>v.
    list_all (quiet U R e cls (actions_or (u_lib U) act_force act_cleanup) v) fs \<and>
    (\<exists>r v'. force_body U R e cls forced (d, v) = Some (Break (Returned r v'))))"

definition at_end :: "'w machine \<Rightarrow> 'w world \<Rightarrow> Cursor \<Rightarrow> bool" where
  "at_end U w d \<longleftrightarrow> cursor_current U w d = Inr None"

lemma steady_view:
  assumes "steady U"
  shows "same_view U v v'" "at_end U v d \<longleftrightarrow> at_end U v' d" "physical U v c fs d \<Longrightarrow> physical U v' c fs d"
proof -
  show v: "same_view U v v'" for v v' using assms by (simp add: steady_def)
  show "at_end U v d \<longleftrightarrow> at_end U v' d" using same_view_cursor(1)[OF v, of v v'] by (simp add: at_end_def)
  show "physical U v c fs d \<Longrightarrow> physical U v' c fs d" by (rule physical_same_view[OF _ v])
qed

lemma ending_probe:
  assumes "steady U" "physical U w (cursor_new (at_ending K)) fs d" "slot_ending K \<noteq> 0"
    "search_stops U R (slot_ending K) fixture_class fs d"
  shows "\<exists>w'. fixture_ending U R K w = Some (Answers (at_end U w d) w') \<and>
    (at_end U w d \<longrightarrow> fx_drops (w_rest w') = fx_drops (w_rest w))"
proof -
  let ?w = "put_exception (slot_ending K) (exception_new fixture_class None) w"
  let ?body = "search_body U R (slot_ending K) fixture_class"
  obtain r v where r: "?body (d, ?w) = Some (Break (Inl r, v))"
    using assms(4) unfolding search_stops_def by blast
  have "run_loop ?body (cursor_new (at_ending K), ?w) = run_loop ?body (d, ?w)"
    using assms(4) by (intro search_walk.walk_result[OF steady_view(3)[OF assms(1,2)]]) (simp add: search_stops_def)
  then have "walk_raise U R (at_ending K) (slot_ending K) ?w = Some (Returned r v)"
    using r assms(3) by (simp add: walk_raise_def walk_begin_def walk_search_def walk_new_def run_loop_simps(3)
        put_exception_def exception_new_def)
  moreover have "r = rc_end \<longleftrightarrow> at_end U w d"
    using stops_at_end(1)[OF r] steady_view(2)[OF assms(1), of ?w d w] by (simp add: at_end_def)
  moreover have "v = ?w" if "at_end U w d"
    using r that steady_view(2)[OF assms(1), of w d ?w] by (simp add: at_end_def search_body_def)
  ultimately show ?thesis by (auto simp: fixture_ending_def resume_write_rest)
qed

lemma trace_probe:
  assumes "hosts (u_lib U) K R" "steady U" "physical U w (cursor_new (at_trace K)) fs d" "length fs < 2 ^ 64"
    "trace_stops U R (addr_visit K) (slot_tracing K) d"
  shows "\<exists>w'. fixture_trace U R K w =
      Some (Answers (at_end U w d \<and> 3 \<le> length fs \<and> called_from (at_trace K) = trace_return K) w') \<and>
    (at_end U w d \<longrightarrow> fx_drops (w_rest w') = fx_drops (w_rest w))"
proof -
  let ?w = "put_tracing (slot_tracing K) tracing_new w"
  let ?v = "fold (trace_note (slot_tracing K)) fs ?w"
  let ?body = "trace_body U R (addr_visit K) (slot_tracing K)"
  have "list_all (trace_acts (u_lib U) R (addr_visit K) (slot_tracing K) (\<lambda>v. True \<and> same_view U ?w v)
      (trace_note (slot_tracing K))) fs"
    using assms(1) steady_view(1)[OF assms(2)] by (simp add: list_all_iff trace_acts_def with_callback_def hosts_def
        trace_visit_def trace_note_def note_first_stack Let_def)
  from visit_walk.visit_result(1)[OF steady_view(3)[OF assms(2,3)] this] steady_view(1)[OF assms(2)]
  have "run_loop ?body (cursor_new (at_trace K), ?w) = run_loop ?body (d, ?v)" by blast
  moreover obtain r v where r: "?body (d, ?v) = Some (Break (r, v))" using assms(5) unfolding trace_stops_def by blast
  ultimately have "walk_trace U R (at_trace K) (addr_visit K) (slot_tracing K) ?w = Some (r, v)"
    by (simp add: walk_trace_def run_loop_simps(3))
  then have run: "fixture_trace U R K w = Some (Answers (r = rc_end \<and> first_is (trace_return K)
      (tracing_first (fx_tracing (w_rest v) (slot_tracing K))) \<and> 3 \<le> tracing_count (fx_tracing (w_rest v) (slot_tracing K))) v)"
    by (simp add: fixture_trace_def Let_def)
  have count: "3 \<le> (of_nat (length fs) :: usize) \<longleftrightarrow> 3 \<le> length fs"
    using assms(4) by (simp add: word_le_nat_alt unat_of_nat take_bit_nat_eq_self)
  have r_end: "r = rc_end \<longleftrightarrow> at_end U w d"
    using stops_at_end(2)[OF r] steady_view(2)[OF assms(2), of ?v d w] by (simp add: at_end_def)
  show ?thesis
  proof (cases "at_end U w d")
    case True
    then have "v = ?v"
      using r steady_view(2)[OF assms(2), of w d ?v] by (simp add: at_end_def trace_body_def)
    with True run r_end count show ?thesis
      using first_frame[OF assms(3)] by (auto simp: trace_notes tracing_new_def)
  next
    case False
    with run r_end show ?thesis by simp
  qed
qed

lemma forced_probe:
  assumes "bits_laws (u_lib U)" "hosts (u_lib U) K R" "steady U" "physical U w (cursor_new (at_force K)) fs d"
    "slot_forced K \<noteq> 0" "force_stops U R (slot_forced K) fixture_class
      \<lparr>forced_stop = addr_stop K, forced_parameter = slot_forcing K\<rparr> fs d"
  shows "\<exists>w'. fixture_forced U R K w = Some (Answers
      (at_end U w d \<and> fs \<noteq> [] \<and> called_from (at_force K) = force_return K) w') \<and>
      (at_end U w d \<longrightarrow> fx_drops (w_rest w') = fx_drops (w_rest w))"
proof -
  let ?a = "slot_forcing K"
  let ?w = "put_forcing ?a forcing_new (put_exception (slot_forced K) (exception_new fixture_class None) w)"
  let ?forced = "\<lparr>forced_stop = addr_stop K, forced_parameter = ?a\<rparr>"
  let ?w2 = "resume_write (ForcedUnwind ?forced) (slot_forced K) ?w"
  let ?v = "fold (force_note ?a) fs ?w2"
  let ?past = "put_forcing ?a ((fx_forcing (w_rest ?v) ?a)\<lparr>forcing_end := True\<rparr>) ?v"
  let ?body = "force_body U R (slot_forced K) fixture_class ?forced"
  have stop: "\<not> actions_has (u_lib U) (stop_actions (u_lib U) (Some info)) act_end"
      "actions_has (u_lib U) (stop_actions (u_lib U) None) act_end" for info
    using assms(1) by (simp_all add: stop_actions_def bits_laws.has_iff bits_laws.actions_or_eq action_defs)
  have "list_all (stop_acts U R (slot_forced K) fixture_class ?forced (\<lambda>v. True \<and> same_view U ?w2 v) (force_note ?a)) fs"
    using assms(2,6) steady_view(1)[OF assms(3)] stop by (simp add: list_all_iff stop_acts_def with_callback_def hosts_def
        force_stop_def force_note_def note_first_stack force_stops_def Let_def)
  from stop_walk.visit_result(1)[OF steady_view(3)[OF assms(3,4)] this] steady_view(1)[OF assms(3)]
  have "run_loop ?body (cursor_new (at_force K), ?w2) = run_loop ?body (d, ?v)" by blast
  moreover obtain r v where r: "?body (d, ?v) = Some (Break (Returned r v))" using assms(6) unfolding force_stops_def by blast
  ultimately have "walk_forced U R (at_force K) (slot_forced K) (addr_stop K) ?a ?w = Some (Returned r v)"
    using assms(5) by (simp add: walk_forced_def run_force_def walk_force_def walk_new_def run_loop_simps(3)
        put_exception_def exception_new_def Let_def)
  then have run: "fixture_forced U R K w = Some (Answers (r = rc_end \<and> first_is (force_return K)
      (forcing_first (fx_forcing (w_rest v) ?a)) \<and> forcing_end (fx_forcing (w_rest v) ?a)) v)"
    by (simp add: fixture_forced_def Let_def)
  show ?thesis
  proof (cases "at_end U w d")
    case True
    then have "r = rc_end" "v = ?past"
      using r steady_view(2)[OF assms(3), of w d ?v] assms(2) stop
      by (auto simp: at_end_def force_body_def with_callback_def hosts_def force_stop_def Let_def split: if_splits)
    with True run show ?thesis
      using first_frame[OF assms(4)] by (simp add: force_notes resume_put forcing_new_def resume_write_rest)
  next
    case False
    then have "r \<noteq> rc_end"
      using stops_before_end(3)[OF r] steady_view(2)[OF assms(3), of ?v d w] by (auto simp: at_end_def reason_defs)
    with False run show ?thesis by simp
  qed
qed

section \<open>The panics\<close>

text \<open>From the state \<open>s\<close> a panic at \<open>a\<close> passes the landing pads \<open>pads\<close>, which have the effect, and ends
  with the registers \<open>regs\<close>, in any process in which it is raised.\<close>

definition unwinds_to ::
    "'w machine \<Rightarrow> 'w routines \<Rightarrow> usize \<Rightarrow> 'w code \<Rightarrow> State \<Rightarrow> Key \<Rightarrow> Registers list \<Rightarrow> Registers
      \<Rightarrow> ('w world \<Rightarrow> 'w world) \<Rightarrow> bool" where
  "unwinds_to U R a land s h pads regs effect \<longleftrightarrow>
    (\<forall>v. exception_class (w_exception v a) = rust_class \<longrightarrow>
      walk_search U R a rust_class (cursor_new s) v = Some (Inr h, v) \<and>
      passes U (normal_body U R a rust_class h) (passed_over U R a rust_class h) (in_flight a rust_class (Normal h))
        a land s (resume_write (Normal h) a v) pads regs (effect (resume_write (Normal h) a v)))"

lemma unwinds_transfers:
  assumes "unwinds_to U R a land s h pads regs effect" "a \<noteq> 0" "exception_class (w_exception v a) = rust_class"
    "land regs (effect (resume_write (Normal h) a v)) = Some (Settles w')"
  shows "\<exists>r0 w0. walk_raise U R s a v = Some (Transferred r0 w0) \<and>
    propagate U R land (Transferred r0 w0) = Some (Caught regs w', pads)"
proof -
  let ?w = "resume_write (Normal h) a v"
  have u: "walk_search U R a rust_class (cursor_new s) v = Some (Inr h, v)"
    "passes U (normal_body U R a rust_class h) (passed_over U R a rust_class h) (in_flight a rust_class (Normal h))
        a land s ?w pads regs (effect ?w)"
    using assms(1,3) by (simp_all add: unwinds_to_def)
  obtain out where out: "run_loop (normal_body U R a rust_class h) (cursor_new s, ?w) = Some out"
    "run_loop (propagate_body U R land) (out, []) = Some (Caught regs w', pads)"
    using normal_resumed.propagates[OF u(2) assms(4)] by fastforce
  then have "walk_raise U R s a v = Some out"
    using assms(2,3) u(1)
    by (simp add: walk_raise_def walk_begin_def walk_new_def run_normal_def walk_normal_def Let_def)
  moreover obtain r0 w0 where "out = Transferred r0 w0"
    using out(2) by (cases out) (auto simp: run_loop_simps(3) propagate_body_def)
  ultimately show ?thesis using out(2) by (auto simp: propagate_def)
qed

text \<open>What becomes of a panic at \<open>a\<close> from the state \<open>s\<close>, whatever else the process holds: it reaches a pad
  that keeps it, through others that resume; it is given back; or a walk runs into a trap.\<close>

datatype fate = Reaches "Registers list" Registers | GivenBack | Traps

definition fares ::
    "'w machine \<Rightarrow> 'w routines \<Rightarrow> usize \<Rightarrow> 'w code \<Rightarrow> State \<Rightarrow> fate \<Rightarrow> bool" where
  "fares U R a land s fate \<longleftrightarrow> (\<forall>v. exception_class (w_exception v a) = rust_class \<longrightarrow>
    (case fate of
       Reaches pads regs \<Rightarrow> (\<exists>r0 w0 w'. walk_raise U R s a v = Some (Transferred r0 w0) \<and>
         propagate U R land (Transferred r0 w0) = Some (Caught regs w', pads))
     | GivenBack \<Rightarrow> (\<exists>reason w'. walk_raise U R s a v = Some (Returned reason w'))
     | Traps \<Rightarrow> walk_raise U R s a v = Some Trapped \<or>
         (\<exists>r0 w0 pads. walk_raise U R s a v = Some (Transferred r0 w0) \<and>
           propagate U R land (Transferred r0 w0) = Some (Stuck, pads))))"

text \<open>A panic that is caught is caught at the pad, which is entered with it.\<close>

definition caught_at :: "usize \<Rightarrow> usize \<Rightarrow> fate \<Rightarrow> bool" where
  "caught_at pad a fate \<longleftrightarrow> (case fate of Reaches pads regs \<Rightarrow> reg_ra regs = pad \<and> reg_rax regs = a | _ \<Rightarrow> True)"

lemma unwinds_fares:
  assumes "unwinds_to U R a land s h pads regs effect" "a \<noteq> 0" "\<And>v. \<exists>v'. land regs v = Some (Settles v')"
  shows "fares U R a land s (Reaches pads regs)"
  unfolding fares_def fate.case
  using unwinds_transfers[OF assms(1,2)] assms(3) by blast

definition boxed :: "fixture_env \<Rightarrow> fixture world \<Rightarrow> fixture world" where
  "boxed env w = snd (box_into_raw env (packet_new env (U64Box marker)) w)"

lemma boxed: "box_into_raw env (packet_new env (U64Box marker)) w = (env_alloc env w, boxed env w)"
  by (simp add: boxed_def box_into_raw_def Let_def)

lemma boxed_live:
  "live_packet env (env_alloc env w) (U64Box marker) (boxed env w)" "fx_drops (w_rest (boxed env w)) = fx_drops (w_rest w)"
  using into_raw_live[OF boxed[of env w]] by (simp_all add: boxed_def box_into_raw_def Let_def)

lemma fixture_live [simp]:
  "live_packet env a content (fixture_drop w) \<longleftrightarrow> live_packet env a content w"
  "fx_drops (w_rest (freed a w)) = fx_drops (w_rest w)"
  "fx_drops (w_rest (fixture_drop w)) = fx_drops (w_rest w) + 1"
  by (auto simp: live_packet_def fixture_drop_def freed_def)

lemma caught_word_live:
  "live_packet env a (U64Box word) w \<Longrightarrow> caught_word env R a w = Some (Answers (Some word) (freed a w))"
  by (simp add: caught_word_def catch_live)

text \<open>The personalities keep the counter and the packet; then every pad entered is a drop.\<close>

definition keeps_counter :: "fixture_env \<Rightarrow> fixture routines \<Rightarrow> usize \<Rightarrow> bool" where
  "keeps_counter env R a \<longleftrightarrow>
    (\<forall>n. routines_keep R (\<lambda>w. fx_drops (w_rest w) = n)) \<and> routines_keep R (live_packet env a (U64Box marker))"

lemma fixture_propagates:
  assumes "keeps_counter env R a"
    and run: "propagate U R (fixture_code K resumes) (Transferred r0 w0) = Some (Caught regs w', pads)"
    and live: "live_packet env a (U64Box marker) w0"
  shows "fx_drops (w_rest w') = fx_drops (w_rest w0) + of_nat (length pads) \<and> live_packet env a (U64Box marker) w'"
proof (rule propagate_invariant[OF run, where J = "\<lambda>(ps :: Registers list) w.
    fx_drops (w_rest w) = fx_drops (w_rest w0) + of_nat (length ps) \<and> live_packet env a (U64Box marker) w"])
  fix ps :: "Registers list" and regs regs' w s e w1 w2
  assume J: "fx_drops (w_rest w) = fx_drops (w_rest w0) + of_nat (length ps) \<and> live_packet env a (U64Box marker) w"
    and l: "fixture_code K resumes regs w = Some (Resumes s e w1)"
    and r: "walk_resume U R s e w1 = Some (Transferred regs' w2)"
  have w1: "w1 = fixture_drop w" using l by (auto simp: fixture_code_def split: if_splits)
  moreover have "fx_drops (w_rest w2) = fx_drops (w_rest w1)"
    using walks_keep_part(2)[OF _ r, of fx_drops] assms(1) by (simp add: keeps_counter_def)
  moreover have "live_packet env a (U64Box marker) w2"
    using packet_walk.resume_walk_keeps[OF r, of env a "U64Box marker"] assms(1) w1 J by (simp add: keeps_counter_def)
  ultimately show "fx_drops (w_rest w2) = fx_drops (w_rest w0) + of_nat (length (ps @ [regs])) \<and>
      live_packet env a (U64Box marker) w2"
    using J by (simp add: add.assoc)
qed (use live in \<open>auto simp: fixture_code_def split: if_splits\<close>)

lemma panic_source_ends:
  assumes "fares U R a (fixture_code K resumes) s fate" "env_alloc env w = a" "keeps_counter env R a"
    "env_lost env \<noteq> env_foreign env"
  shows "case fate of
      Reaches pads regs \<Rightarrow> \<exists>w'. panic_source env U R (fixture_code K resumes) s w = Some (Answers regs w') \<and>
        fx_drops (w_rest w') = fx_drops (w_rest w) + of_nat (length pads) \<and> live_packet env a (U64Box marker) w'
    | GivenBack \<Rightarrow> \<exists>w'. panic_source env U R (fixture_code K resumes) s w = Some (Finished 70 w')
    | Traps \<Rightarrow> \<exists>log. panic_source env U R (fixture_code K resumes) s w = Some (Killed log)"
proof -
  note b = boxed[of env w, unfolded assms(2)] and live = boxed_live[of env w, unfolded assms(2)]
  have "exception_class (w_exception (boxed env w) a) = rust_class" using live(1) by (simp add: live_packet_def)
  note f = assms(1)[unfolded fares_def, rule_format, OF this]
  note run = panic_source_def fixture_panic_def panic_start_def panic_raise_def answer_then_def
  show ?thesis
  proof (cases fate)
    case (Reaches pads regs)
    with f obtain r0 w0 w' where o: "walk_raise U R s a (boxed env w) = Some (Transferred r0 w0)"
      "propagate U R (fixture_code K resumes) (Transferred r0 w0) = Some (Caught regs w', pads)" by auto
    have "fx_drops (w_rest w0) = fx_drops (w_rest w)" "live_packet env a (U64Box marker) w0"
      using walks_keep_part(1)[OF _ o(1), of fx_drops] packet_walk.raise_keeps[OF o(1), of env a "U64Box marker"]
        assms(3) live by (simp_all add: keeps_counter_def)
    with fixture_propagates[OF assms(3) o(2)] have
      "fx_drops (w_rest w') = fx_drops (w_rest w) + of_nat (length pads)" "live_packet env a (U64Box marker) w'"
      by simp_all
    with Reaches o b show ?thesis by (auto simp: run)
  next
    case GivenBack
    with f b assms(4) show ?thesis by (auto simp: run fixture_hook_def fixture_finish_def)
  next
    case Traps
    with f b show ?thesis by (auto simp: run)
  qed
qed

lemma registers_probe:
  assumes "fares U R a (fixture_code K resumes) (at_registers K) fate" "env_alloc env w = a" "keeps_counter env R a"
    "env_lost env \<noteq> env_foreign env"
    "caught_at (pad_register K) a fate"
  shows "case fate of
      Reaches pads regs \<Rightarrow> \<exists>w'. fixture_registers env U R K (fixture_code K resumes) w = Some (Answers (preserved regs = 1) w') \<and>
        fx_drops (w_rest w') = fx_drops (w_rest w) + of_nat (length pads)
    | GivenBack \<Rightarrow> \<exists>w'. fixture_registers env U R K (fixture_code K resumes) w = Some (Finished 70 w')
    | Traps \<Rightarrow> \<exists>log. fixture_registers env U R K (fixture_code K resumes) w = Some (Killed log)"
  using panic_source_ends[OF assms(1-4)] assms(5)
  by (cases fate) (auto simp: fixture_registers_def answer_then_def register_landing_def caught_word_live caught_at_def)

lemma catch_probe:
  assumes "fares U R a (fixture_code K resumes) (at_boundary K) fate" "env_alloc env w = a" "keeps_counter env R a"
    "env_lost env \<noteq> env_foreign env"
    "caught_at (pad_caught K) a fate"
  shows "case fate of
      Reaches pads regs \<Rightarrow> \<exists>w'. run_catch_unwind env U R K (fixture_code K resumes) w =
        Some (Answers (fx_drops (w_rest w) + of_nat (length pads) = 1) w')
    | GivenBack \<Rightarrow> \<exists>w'. run_catch_unwind env U R K (fixture_code K resumes) w = Some (Finished 70 w')
    | Traps \<Rightarrow> \<exists>log. run_catch_unwind env U R K (fixture_code K resumes) w = Some (Killed log)"
  using panic_source_ends[OF assms(1-4)] assms(5)
  by (cases fate) (auto simp: run_catch_unwind_def answer_then_def caught_word_live caught_at_def)

section \<open>The program\<close>

lemma preserved_iff:
  "preserved regs = 1 \<longleftrightarrow> reg_rbx regs = 0x61111111 \<and> reg_rbp regs = 0x62222222 \<and> reg_r12 regs = 0x63333333 \<and>
    reg_r13 regs = 0x64444444 \<and> reg_r14 regs = 0x65555555 \<and> reg_r15 regs = 0x66666666"
  by (simp add: preserved_def saved_registers_def)

text \<open>The first thing that fails decides the status; a trap in the walk of a panic kills the process.\<close>

definition fixture_status ::
    "sites \<Rightarrow> bool \<Rightarrow> (Cursor \<times> Info) list \<times> bool \<Rightarrow> (Cursor \<times> Info) list \<times> bool \<Rightarrow> fate \<Rightarrow> fate \<Rightarrow> usize \<Rightarrow> c_int option" where
  "fixture_status K ended traced forced fate1 fate2 drops =
    (if \<not> ended then Some 76
     else if \<not> (snd traced \<and> 3 \<le> length (fst traced) \<and> called_from (at_trace K) = trace_return K) then Some 77
     else if \<not> (snd forced \<and> fst forced \<noteq> [] \<and> called_from (at_force K) = force_return K) then Some 78
     else (case fate1 of
        GivenBack \<Rightarrow> Some 70
      | Traps \<Rightarrow> None
      | Reaches pads1 regs1 \<Rightarrow>
          if \<not> (reg_rbx regs1 = 0x61111111 \<and> reg_rbp regs1 = 0x62222222 \<and> reg_r12 regs1 = 0x63333333 \<and>
              reg_r13 regs1 = 0x64444444 \<and> reg_r14 regs1 = 0x65555555 \<and> reg_r15 regs1 = 0x66666666) then Some 79
          else (case fate2 of
             GivenBack \<Rightarrow> Some 70
           | Traps \<Rightarrow> None
           | Reaches pads2 regs2 \<Rightarrow>
               if drops + of_nat (length pads1) + of_nat (length pads2) \<noteq> 1 then Some 72 else Some 0)))"

text \<open>C30. The status of the test program is that of the first thing that is not as it should be, and
  success only if nothing is: the propagation without a handler came to the end of the stack, not
  to a failed lookup, a frame without caller or a personality that refuses (76); so did the
  backtrace, of three frames or more and from its caller (77), and the forced unwind, from its
  caller (78); a panic was not given back (70); the frame that caught the first one had its registers
  back (79); and the pads on the way of the two dropped the guard exactly once (72).  A trap on the
  way of a panic kills the program.\<close>

theorem fixture_exit_status:
  assumes "bits_laws (u_lib U)" "hosts (u_lib U) K R" "steady U" "keeps_counter env R a"
    "\<And>v. env_alloc env v = a" "env_lost env \<noteq> env_foreign env" "slot_ending K \<noteq> 0" "slot_forced K \<noteq> 0"
    "physical U w (cursor_new (at_ending K)) fs1 d1" "search_stops U R (slot_ending K) fixture_class fs1 d1"
    "physical U w (cursor_new (at_trace K)) fs2 d2" "trace_stops U R (addr_visit K) (slot_tracing K) d2" "length fs2 < 2 ^ 64"
    "physical U w (cursor_new (at_force K)) fs3 d3" "force_stops U R (slot_forced K) fixture_class
      \<lparr>forced_stop = addr_stop K, forced_parameter = slot_forcing K\<rparr> fs3 d3"
    "fares U R a (fixture_code K resumes) (at_registers K) fate1"
    "caught_at (pad_register K) a fate1"
    "fares U R a (fixture_code K resumes) (at_boundary K) fate2"
    "caught_at (pad_caught K) a fate2"
  shows "case fixture_status K (at_end U w d1) (fs2, at_end U w d2) (fs3, at_end U w d3) fate1 fate2 (fx_drops (w_rest w)) of
      Some status \<Rightarrow> \<exists>w'. fixture_entry env U R K (fixture_code K resumes) w = Some (Finished status w')
    | None \<Rightarrow> \<exists>log. fixture_entry env U R K (fixture_code K resumes) w = Some (Killed log)"
proof -
  let ?land = "fixture_code K resumes"
  let ?w0 = "fixture_write ''starting no_std rustix linux_raw unwind fixture'' w"
  have up: "physical U v c fs d" "at_end U v d \<longleftrightarrow> at_end U w d" if "physical U w c fs d" for v c fs d
    using steady_view(2,3)[OF assms(3)] that by blast+
  obtain w1 where w1: "fixture_ending U R K ?w0 = Some (Answers (at_end U w d1) w1)"
      "at_end U w d1 \<longrightarrow> fx_drops (w_rest w1) = fx_drops (w_rest w)"
    using ending_probe[OF assms(3) up(1)[OF assms(9), of ?w0] assms(7,10)] up(2)[OF assms(9), of ?w0]
    by (auto simp: fixture_write_def)
  obtain w2 where w2: "fixture_trace U R K w1 = Some (Answers (at_end U w d2 \<and> 3 \<le> length fs2 \<and>
      called_from (at_trace K) = trace_return K) w2)" "at_end U w d2 \<longrightarrow> fx_drops (w_rest w2) = fx_drops (w_rest w1)"
    using trace_probe[OF assms(2,3) up(1)[OF assms(11), of w1] assms(13,12)] up(2)[OF assms(11), of w1] by auto
  obtain w3 where w3: "fixture_forced U R K w2 = Some (Answers (at_end U w d3 \<and> fs3 \<noteq> [] \<and>
      called_from (at_force K) = force_return K) w3)" "at_end U w d3 \<longrightarrow> fx_drops (w_rest w3) = fx_drops (w_rest w2)"
    using forced_probe[OF assms(1-3) up(1)[OF assms(14), of w2] assms(8,15)] up(2)[OF assms(14), of w2] by auto
  note reg = registers_probe[where w = w3, OF assms(16,5,4,6,17)]
  note run = fixture_entry_def fixture_check_def answer_then_def fixture_status_def[folded preserved_iff] fixture_finish_def w1(1) w2(1) w3(1)
  show ?thesis
  proof (cases "at_end U w d1 \<and> at_end U w d2 \<and> at_end U w d3")
    case True
    with w1(2) w2(2) w3(2) have drops: "fx_drops (w_rest w3) = fx_drops (w_rest w)" by simp
    show ?thesis
    proof (cases fate1)
      case (Reaches pads1 regs1)
      with reg obtain w4 where w4: "fixture_registers env U R K ?land w3 = Some (Answers (preserved regs1 = 1) w4)"
        "fx_drops (w_rest w4) = fx_drops (w_rest w) + of_nat (length pads1)" using drops by auto
      with catch_probe[where w = w4, OF assms(18,5,4,6,19)] Reaches show ?thesis
        by (cases fate2) (auto simp: run)
    qed (use reg in \<open>auto simp: run\<close>)
  next
    case False
    then show ?thesis by (auto simp: run)
  qed
qed

section \<open>Witness\<close>

text \<open>Personalities that follow a script by class, actions and instruction pointer.  The test program's
  own class passes everywhere; a panic from \<open>0x1000\<close> drops the guard at \<open>0x1100\<close> and is caught at
  \<open>0x2100\<close>, one from \<open>0x2200\<close> is caught at \<open>0x2300\<close>.\<close>

definition scripted :: "(ExceptionClass \<Rightarrow> Actions \<Rightarrow> usize \<Rightarrow> usize \<Rightarrow> ReasonCode \<times> writes) \<Rightarrow> 'w routines \<Rightarrow> 'w routines" where
  "scripted script R = R\<lparr>r_personality := (\<lambda>a v acts cls e cb w.
    map_option (\<lambda>info. case script cls acts (info_instruction info) e of (r, ws) \<Rightarrow> (r, ws, w)) (callback_frame cb))\<rparr>"

lemma scripted_call:
  "script cls acts ip e = (r, ws) \<Longrightarrow> walk_personality cl_machine (scripted script R) c e cls (ex_info n ip) acts w =
    Some (Inr (Some r), callback_cursor (callback_writes lib_ref ws \<lparr>callback_cursor = c, callback_frame = Some (ex_info n ip)\<rparr>), w)"
  by (simp add: walk_personality_def info_personality_def cl_sel pointer_transpose_def info_pointer_def nonzero_def
      with_callback_def scripted_def ex_info_def)

definition fx_script :: "ExceptionClass \<Rightarrow> Actions \<Rightarrow> usize \<Rightarrow> usize \<Rightarrow> ReasonCode \<times> writes" where
  "fx_script cls actions ip e =
    (if cls = fixture_class then (rc_continue, [])
     else if ip = 0x2200 \<and> actions \<noteq> act_search then (rc_install, [(0, e), (1, 0), (16, 0x2300)])
     else cl_personality actions ip e)"

definition fx_routines :: "fixture routines" where
  "fx_routines = scripted fx_script (ex_routines\<lparr>r_trace := (\<lambda>_. trace_visit), r_stop := (\<lambda>_. force_stop lib_ref)\<rparr>)"

definition fx_passing :: "fixture routines" where
  "fx_passing = scripted (\<lambda>_ _ _ _. (rc_continue, [])) fx_routines"

text \<open>The state of a panic below the frame with the sentinels.\<close>

definition fx_registers :: Registers where
  "fx_registers = registers_zeroed\<lparr>reg_rsp := 0x7008, reg_ra := 0x2201, reg_rbx := 0x61111111, reg_rbp := 0x62222222,
    reg_r12 := 0x63333333, reg_r13 := 0x64444444, reg_r14 := 0x65555555, reg_r15 := 0x66666666\<rparr>"

definition fx_sites :: sites where
  "fx_sites = \<lparr>at_ending = ex_state, at_trace = captured (registers_zeroed\<lparr>reg_rsp := 0x6ff8, reg_ra := 0x1301\<rparr>),
    at_force = ex_state, at_registers = captured fx_registers, at_boundary = ex_state,
    slot_ending = 0xa000, slot_tracing = 0xa100, slot_forced = 0xa200, slot_forcing = 0xa300,
    addr_visit = 0x3000, addr_stop = 0x3100, trace_return = 0x1301, force_return = 0x1001,
    pad_guard = 0x1100, pad_register = 0x2300, pad_caught = 0x2100\<rparr>"

definition fx_env :: fixture_env where
  "fx_env = \<lparr>env_canary = 0x100, env_cleanup = 0x200, env_lost = 0x300, env_foreign = 0x400, env_alloc = (\<lambda>_. 0x9000)\<rparr>"

definition fx_world :: "fixture world" where
  "fx_world = \<lparr>w_exception = w_exception ex_world, w_rest = \<lparr>heap_canary = (\<lambda>_. 0), heap_box = (\<lambda>_. None),
    fx_drops = 0, fx_tracing = (\<lambda>_. tracing_new), fx_forcing = (\<lambda>_. forcing_new), fx_log = []\<rparr>\<rparr>"

abbreviation fx_code :: "fixture code" where
  "fx_code \<equiv> fixture_code fx_sites (\<lambda>_. cl_resumed)"

lemma fx_class [simp]: "rust_class \<noteq> fixture_class"
  by (simp add: rust_class_def rust_class_bytes_def fixture_class_def from_le_bytes_def)

lemma fx_values:
  "fx_script fixture_class acts ip e = (rc_continue, [])"
  "fx_script rust_class act_search 0x1000 e = (rc_continue, [])"
  "acts \<noteq> act_search \<Longrightarrow> fx_script rust_class acts 0x1104 e = (rc_continue, [])"
  "0x2000 \<le> ip \<Longrightarrow> fx_script rust_class act_search ip e = (rc_handler, [])"
  "acts \<noteq> act_search \<Longrightarrow> fx_script rust_class acts 0x1000 e = (rc_install, [(0, e), (1, 0), (16, 0x1100)])"
  "acts \<noteq> act_search \<Longrightarrow> fx_script rust_class acts 0x2000 e = (rc_install, [(0, e), (1, 0), (16, 0x2100)])"
  "acts \<noteq> act_search \<Longrightarrow> fx_script rust_class acts 0x2200 e = (rc_install, [(0, e), (1, 0), (16, 0x2300)])"
  by (simp_all add: fx_script_def cl_personality_def linorder_not_less[symmetric])

lemma fx_calls:
  "walk_personality cl_machine fx_routines c e fixture_class (ex_info n ip) acts w = Some (Inr (Some rc_continue), c, w)"
  "walk_personality cl_machine fx_routines c e rust_class (ex_info 4 0x1000) act_search w = Some (Inr (Some rc_continue), c, w)"
  "acts \<noteq> act_search \<Longrightarrow> walk_personality cl_machine fx_routines c e rust_class (ex_info 4 0x1104) acts w =
    Some (Inr (Some rc_continue), c, w)"
  "0x2000 \<le> ip \<Longrightarrow> walk_personality cl_machine fx_routines c e rust_class (ex_info 5 ip) act_search w =
    Some (Inr (Some rc_handler), c, w)"
  "acts \<noteq> act_search \<Longrightarrow> walk_personality cl_machine fx_routines (ex_frame sp (Some ra)) 0x9000 rust_class
    (ex_info 4 0x1000) acts w = Some (Inr (Some rc_install), cl_landing sp 0x1100, w)"
  "acts \<noteq> act_search \<Longrightarrow> walk_personality cl_machine fx_routines (ex_frame sp (Some ra)) 0x9000 rust_class
    (ex_info 5 0x2000) acts w = Some (Inr (Some rc_install), cl_landing sp 0x2100, w)"
  by (simp_all add: fx_routines_def scripted_call[where script = fx_script, OF fx_values(1)]
      scripted_call[where script = fx_script, OF fx_values(2)] scripted_call[where script = fx_script, OF fx_values(3)]
      scripted_call[where script = fx_script, OF fx_values(4)] scripted_call[where script = fx_script, OF fx_values(5)]
      scripted_call[where script = fx_script, OF fx_values(6)] cl_writes)

lemma fx_passing_calls:
  "walk_personality cl_machine fx_passing c e cls (ex_info n ip) acts w = Some (Inr (Some rc_continue), c, w)"
  by (simp add: fx_passing_def scripted_call)

lemma fx_boundary:
  "unwinds_to cl_machine fx_routines 0x9000 fx_code ex_state (Key 0x7008) [cl_pad] ex_transfer fixture_drop"
proof -
  have body: "normal_body cl_machine fx_routines 0x9000 rust_class (Key 0x7008) (ex_frame sp (Some 0x1001), w) =
      Some (Break (Transferred (registers_zeroed\<lparr>reg_rax := 0x9000, reg_rsp := sp, reg_ra := 0x1100\<rparr>) w))"
    "normal_body cl_machine fx_routines 0x9000 rust_class (Key 0x7008) (ex_frame sp (Some 0x2001), w) =
      Some (Break (Transferred (registers_zeroed\<lparr>reg_rax := 0x9000, reg_rsp := sp, reg_ra := 0x2100\<rparr>) w))" for sp w
    by (rule cleanup_lands[OF cl_current(1) _ _ cl_install] cleanup_lands[OF cl_current(3) _ _ cl_install],
        simp_all add: cl_sel ex_key fx_calls cl_masks)+
  have search: "walk_search cl_machine fx_routines 0x9000 rust_class (cursor_new ex_state) v = Some (Inr (Key 0x7008), v)" for v
    using search_handler[OF cl_current(3) fx_calls(4)] ex_key[of "0x7008" "Some 0x2001"]
    by (simp add: walk_search_def ex_start run_loop_simps(2) search_body_def cl_current(1) fx_calls(2) cl_advance cl_sel)
  have "passes cl_machine (normal_body cl_machine fx_routines 0x9000 rust_class (Key 0x7008))
      (passed_over cl_machine fx_routines 0x9000 rust_class (Key 0x7008)) (in_flight 0x9000 rust_class (Normal (Key 0x7008)))
      0x9000 fx_code ex_state w [cl_pad] ex_transfer (fixture_drop w)"
      (is "passes _ ?body ?good ?mine _ _ _ _ _ _ _")
    if "in_flight 0x9000 rust_class (Normal (Key 0x7008)) w" for w
  proof (rule passes_cleanup[where fs = "[]" and d = "ex_frame 0x7000 (Some 0x1001)"])
    show "passes cl_machine ?body ?good ?mine 0x9000 fx_code cl_resumed (fixture_drop w) [] ex_transfer (fixture_drop w)"
      using cl_physical[of "fixture_drop w"]
      by (intro passes_last[where fs = "[(ex_frame 0x7000 (Some 0x1105), ex_info 4 0x1104)]"])
         (auto simp: cl_resumed_start body ex_transfer_def passed_over_def unselected_def quiet_def fx_calls ex_key
           cl_sel action_defs)
    show "?mine (fixture_drop w)" using that by (simp add: in_flight_def resume_read_def fixture_drop_def)
  qed (auto simp: ex_start body fixture_code_def fx_sites_def physical_here cl_pad_def)
  then show ?thesis
    using search by (simp add: unwinds_to_def in_flight_def resume_read_write resumable_def resume_write_frame(3))
qed

text \<open>The frame with the sentinels is the one that catches.\<close>

definition fx_landed :: Registers where
  "fx_landed = fx_registers\<lparr>reg_rax := 0x9000, reg_ra := 0x2300\<rparr>"

lemma fx_frame:
  "cursor_current cl_machine w (cursor_new (captured fx_registers)) = Inr (Some (ex_info 5 0x2200))"
  "cursor_key lib_ref (cursor_new (captured fx_registers)) = Inr (Key 0x7008)"
  by (simp_all add: cursor_current_def info_new_def cursor_new_def state_ip_def checked_sub_def cl_machine_def
      ex_machine_def image_contains_def ex_image_def ex_gimli_def cfi_row_def ex_info_def captured_def fx_registers_def
      cursor_key_def state_stack_def state_read_cases ref_numbers relation_before_def)

lemma fx_lands:
  "acts \<noteq> act_search \<Longrightarrow> walk_personality cl_machine fx_routines (cursor_new (captured fx_registers)) 0x9000 rust_class
    (ex_info 5 0x2200) acts w = Some (Inr (Some rc_install), (cursor_new (captured fx_registers))\<lparr>cursor_state :=
      (captured fx_registers)\<lparr>st_rax := Some 0x9000, st_rdx := Some 0, st_ra := Some 0x2300\<rparr>\<rparr>, w)"
  by (simp add: fx_routines_def scripted_call[where script = fx_script, OF fx_values(7)] callback_writes_def
      callback_set_def callback_decode_def cursor_write_def state_write_cases ref_numbers cursor_new_def)

lemma fx_install:
  "walk_install cl_machine ((cursor_new (captured fx_registers))\<lparr>cursor_state :=
      (captured fx_registers)\<lparr>st_rax := Some 0x9000, st_rdx := Some 0, st_ra := Some 0x2300\<rparr>\<rparr>) (ex_info 5 a) w =
    Transferred fx_landed w"
  by (subst install_spec)
     (simp_all add: cl_sel ref.x86_laws_axioms required_def captured_def registers_zeroed_def ex_info_def ex_row_def
       state_install_def fx_registers_def fx_landed_def cursor_new_def)

lemma fx_register_unwind:
  "unwinds_to cl_machine fx_routines 0x9000 fx_code (captured fx_registers) (Key 0x7008) [] fx_landed (\<lambda>v. v)"
proof -
  have "walk_search cl_machine fx_routines 0x9000 rust_class (cursor_new (captured fx_registers)) v = Some (Inr (Key 0x7008), v)" for v
    by (rule search_handler[OF fx_frame(1) fx_calls(4)]) (simp_all add: cl_sel fx_frame(2))
  moreover have "normal_body cl_machine fx_routines 0x9000 rust_class (Key 0x7008) (cursor_new (captured fx_registers), w) =
      Some (Break (Transferred fx_landed w))" for w
    by (rule cleanup_lands[OF fx_frame(1) _ fx_lands fx_install]) (simp_all add: cl_sel fx_frame(2) cl_masks)
  ultimately show ?thesis
    by (auto simp: unwinds_to_def intro: passes_last[OF physical_here])
qed

lemma fx_stack:
  "physical cl_machine w (ex_frame 0x7000 (Some 0x1001)) ex_stack (ex_frame 0x7010 None)"
  "cursor_current cl_machine w (ex_frame sp None) = Inr None"
proof -
  have e: "cursor_advance cl_machine w (ex_frame 0x7008 (Some 0x2001)) (ex_info 5 0x2000) = Some (Inr (ex_frame 0x7010 None))"
    using ex_advance(2)[of w "0x7008" "Some 0x2001" "0x2000"]
    by (simp add: cursor_advance_def info_caller_def info_cfa_def ex_info_def ex_row_def ex_sel cl_sel
        apply_rule_def info_register_def cl_machine_def next_relation_def info_signal_def)
  show "physical cl_machine w (ex_frame 0x7000 (Some 0x1001)) ex_stack (ex_frame 0x7010 None)"
    by (intro physical_up[OF cl_current(1) cl_advance] physical_up[OF cl_current(3) e] physical_here)
  show "cursor_current cl_machine w (ex_frame sp None) = Inr None"
    by (simp add: cursor_current_def info_new_def ex_frame_def cursor_new_def state_ip_def)
qed

lemma fx_started:
  "physical cl_machine w (cursor_new (at_ending fx_sites)) ex_stack (ex_frame 0x7010 None)"
  "physical cl_machine w (cursor_new (at_force fx_sites)) ex_stack (ex_frame 0x7010 None)"
  using fx_stack(1) by (simp_all add: fx_sites_def ex_start)

lemma fx_traced:
  "physical cl_machine w (cursor_new (at_trace fx_sites))
    ((ex_frame 0x6ff8 (Some 0x1301), ex_info 4 0x1300) # ex_stack) (ex_frame 0x7010 None)"
proof -
  have s: "cursor_new (at_trace fx_sites) = ex_frame 0x6ff8 (Some 0x1301)"
    by (simp add: fx_sites_def ex_frame_def ex_state_def captured_def registers_zeroed_def)
  have "cursor_current cl_machine w (ex_frame 0x6ff8 (Some 0x1301)) = Inr (Some (ex_info 4 0x1300))"
    by (simp add: cursor_current_def info_new_def ex_frame_def cursor_new_def state_ip_def
        checked_sub_def cl_machine_def ex_machine_def image_contains_def ex_image_def ex_gimli_def cfi_row_def ex_info_def)
  moreover have "cursor_advance cl_machine w (ex_frame 0x6ff8 (Some 0x1301)) (ex_info 4 0x1300) =
      Some (Inr (ex_frame 0x7000 (Some 0x1001)))"
    using ex_advance(3)[of w "Some 0x1301" "0x1300"]
    by (simp add: cursor_advance_def info_caller_def info_cfa_def ex_info_def ex_row_def ex_sel cl_sel
        apply_rule_def info_register_def cl_machine_def next_relation_def info_signal_def)
  ultimately show ?thesis unfolding s by (rule physical_up[OF _ _ fx_stack(1)])
qed

text \<open>The walks of the probes come to the end of the stack.\<close>

lemma fx_stops:
  assumes "R = fx_routines \<or> R = fx_passing"
  shows "search_stops cl_machine R e fixture_class ex_stack (ex_frame 0x7010 None)"
    "trace_stops cl_machine R visit parameter (ex_frame 0x7010 None)"
    "force_stops cl_machine R e fixture_class forced ex_stack (ex_frame 0x7010 None)"
    "hosts (u_lib cl_machine) K R" "keeps_counter fx_env R a"
proof -
  have q: "list_all (quiet cl_machine R e fixture_class acts v) ex_stack" for acts v
    using assms by (elim disjE; simp add: quiet_def fx_calls(1) fx_passing_calls)
  have stop: "r_stop R = (\<lambda>_. force_stop lib_ref)" "r_trace R = (\<lambda>_. trace_visit)"
    using assms by (auto simp: fx_routines_def fx_passing_def scripted_def)
  show "search_stops cl_machine R e fixture_class ex_stack (ex_frame 0x7010 None)"
    using q by (simp add: search_stops_def search_body_def fx_stack(2))
  show "trace_stops cl_machine R visit parameter (ex_frame 0x7010 None)"
    by (simp add: trace_stops_def trace_body_def fx_stack(2))
  show "force_stops cl_machine R e fixture_class forced ex_stack (ex_frame 0x7010 None)"
    using q by (simp add: force_stops_def force_body_def with_callback_def stop force_stop_def fx_stack(2) Let_def)
  show "hosts (u_lib cl_machine) K R" by (simp add: hosts_def stop cl_sel)
  have keep: "r_personality R a v acts cls e cb w = Some (reason, ws, w') \<Longrightarrow> w' = w"
    for a v acts cls e cb w reason ws w'
    using assms by (auto simp: fx_routines_def fx_passing_def scripted_def case_prod_beta)
  have stopped: "r_stop R a v acts cls e cb p w = Some (reason, ws, w') \<Longrightarrow>
      fx_drops (w_rest w') = fx_drops (w_rest w) \<and> (live_packet env b content w' \<longleftrightarrow> live_packet env b content w)"
    for a v acts cls e cb p w reason ws w' env b content
    by (auto simp: stop force_stop_def put_forcing_def live_packet_def Let_def)
  show "keeps_counter fx_env R a"
    by (auto simp: keeps_counter_def routines_keep_def dest!: keep stopped)
qed

lemma fx_given_back: "fares cl_machine fx_passing 0x9000 land ex_state GivenBack"
proof -
  have "walk_raise cl_machine fx_passing ex_state 0x9000 v = Some (Returned rc_end v)" for v
    by (rule raise_unhandled[where d = "ex_frame 0x7010 None" and fs = ex_stack])
       (use fx_started(1)[of v] fx_stack(2) in \<open>simp_all add: fx_sites_def quiet_def fx_passing_calls\<close>)
  then show ?thesis by (auto simp: fares_def)
qed

text \<open>The program passes; where every personality lets a panic pass, it ends with 70.\<close>

theorem fixture_exit_status_witness:
  "(\<exists>w'. fixture_entry fx_env cl_machine fx_routines fx_sites fx_code fx_world = Some (Finished 0 w')) \<and>
    (\<exists>w'. fixture_entry fx_env cl_machine fx_passing (fx_sites\<lparr>at_registers := ex_state\<rparr>)
        (fixture_code (fx_sites\<lparr>at_registers := ex_state\<rparr>) (\<lambda>_. cl_resumed)) fx_world = Some (Finished 70 w'))"
proof -
  have steady: "steady (cl_machine :: fixture machine)" by (simp add: steady_def same_view_def cl_machine_def ex_machine_def)
  have settles: "\<exists>v'. fx_code fx_landed v = Some (Settles v')" "\<exists>v'. fx_code ex_transfer v = Some (Settles v')" for v
    by (simp_all add: fixture_code_def fx_sites_def fx_landed_def ex_transfer_def)
  have fates: "fares cl_machine fx_routines 0x9000 fx_code (at_registers fx_sites) (Reaches [] fx_landed)"
    "fares cl_machine fx_routines 0x9000 fx_code (at_boundary fx_sites) (Reaches [cl_pad] ex_transfer)"
    using unwinds_fares[OF fx_register_unwind _ settles(1)] unwinds_fares[OF fx_boundary _ settles(2)]
    by (simp_all add: fx_sites_def)
  let ?first = "(ex_frame 0x6ff8 (Some 0x1301), ex_info 4 0x1300) # ex_stack"
  let ?last = "ex_frame 0x7010 None"
  have e: "at_end cl_machine w ?last" for w :: "fixture world" using fx_stack(2) by (simp add: at_end_def)
  have status: "fixture_status fx_sites True (?first, True) (ex_stack, True) (Reaches [] fx_landed) (Reaches [cl_pad] ex_transfer) 0 = Some 0"
    "fixture_status (fx_sites\<lparr>at_registers := ex_state\<rparr>) True (?first, True) (ex_stack, True) GivenBack GivenBack 0 = Some 70"
    by (simp_all add: fixture_status_def fx_sites_def called_from_def ex_state_def captured_def registers_zeroed_def
        fx_landed_def fx_registers_def)
  have "case fixture_status fx_sites (at_end cl_machine fx_world ?last) (?first, at_end cl_machine fx_world ?last)
      (ex_stack, at_end cl_machine fx_world ?last) (Reaches [] fx_landed) (Reaches [cl_pad] ex_transfer) (fx_drops (w_rest fx_world)) of
      Some status \<Rightarrow> \<exists>w'. fixture_entry fx_env cl_machine fx_routines fx_sites fx_code fx_world = Some (Finished status w')
    | None \<Rightarrow> \<exists>log. fixture_entry fx_env cl_machine fx_routines fx_sites fx_code fx_world = Some (Killed log)"
    by (rule fixture_exit_status[where a = "0x9000", OF _ fx_stops(4)[OF disjI1[OF refl]] steady fx_stops(5)[OF disjI1[OF refl]] _ _ _ _
          fx_started(1) fx_stops(1)[OF disjI1[OF refl]] fx_traced fx_stops(2)[OF disjI1[OF refl]] _
          fx_started(2) fx_stops(3)[OF disjI1[OF refl]] fates(1) _ fates(2)])
       (simp_all add: cl_sel ref.bits_laws_axioms fx_env_def fx_sites_def fx_landed_def ex_transfer_def caught_at_def)
  moreover have "case fixture_status (fx_sites\<lparr>at_registers := ex_state\<rparr>) (at_end cl_machine fx_world ?last)
      (?first, at_end cl_machine fx_world ?last) (ex_stack, at_end cl_machine fx_world ?last) GivenBack GivenBack (fx_drops (w_rest fx_world)) of
      Some status \<Rightarrow> \<exists>w'. fixture_entry fx_env cl_machine fx_passing (fx_sites\<lparr>at_registers := ex_state\<rparr>)
        (fixture_code (fx_sites\<lparr>at_registers := ex_state\<rparr>) (\<lambda>_. cl_resumed)) fx_world = Some (Finished status w')
    | None \<Rightarrow> \<exists>log. fixture_entry fx_env cl_machine fx_passing (fx_sites\<lparr>at_registers := ex_state\<rparr>)
        (fixture_code (fx_sites\<lparr>at_registers := ex_state\<rparr>) (\<lambda>_. cl_resumed)) fx_world = Some (Killed log)"
    using fx_started fx_traced fx_given_back
    by (intro fixture_exit_status[where a = "0x9000", OF _ fx_stops(4)[OF disjI2[OF refl]] steady fx_stops(5)[OF disjI2[OF refl]] _ _ _ _
          _ fx_stops(1)[OF disjI2[OF refl]] _ fx_stops(2)[OF disjI2[OF refl]] _ _ fx_stops(3)[OF disjI2[OF refl]]])
       (simp_all add: cl_sel ref.bits_laws_axioms fx_env_def fx_sites_def caught_at_def)
  ultimately show ?thesis using status e by (simp add: fx_world_def)
qed

end
