(* ===== verification/FixtureMachine.thy ===== *)
theory FixtureMachine
  imports ProbeProps Fixture
begin

text \<open>
  The probes of the test program in assembly (\<open>tests/no-std-linux/src/catch.S\<close>), on the processor
  of the machine probes: what they call the unwinder with, and what they answer.  \<open>Next\<close> is the
  function a probe calls, its return label names the address after the call.
\<close>

section \<open>The code\<close>

definition check_against :: "(reg \<Rightarrow> u64) \<Rightarrow> string \<Rightarrow> reg \<Rightarrow> probe_instr list" where
  "check_against sentinels fail r = [CmpImm (sentinels r) r, Jne fail]"

fun trace_sentinel :: "reg \<Rightarrow> u64" where
  "trace_sentinel RBX = 0x51111111" | "trace_sentinel RBP = 0x52222222" | "trace_sentinel R12 = 0x53333333"
| "trace_sentinel R13 = 0x54444444" | "trace_sentinel R14 = 0x55555555" | "trace_sentinel R15 = 0x56666666"
| "trace_sentinel _ = 0"

definition trace_call :: "probe_instr list" where
  "trace_call = map (\<lambda>r. Do (Push r)) saved_registers @ [Do (SubImm 24 RSP), Do (Store RDI 0 RSP)] @
    map (\<lambda>r. LoadImm (trace_sentinel r) r) saved_registers @
    [Do (Load 0 RSP RSI), LeaLabel ''desenredo_trace_visit'' RDI]"

definition trace_answer :: "probe_instr list" where
  "trace_answer = [Label ''desenredo_trace_return'', Do (Store RAX 8 RSP), Do (MovImm 1 16 RSP)] @
    concat (map (check_against trace_sentinel ''.Ltrace_clobbered'') saved_registers) @
    [Jmp ''.Ltrace_restore'', Label ''.Ltrace_clobbered'', Do (MovImm 0 16 RSP), Label ''.Ltrace_restore'',
     Do (Load 8 RSP RAX), CmpMemImm 1 16 RSP, Je ''.Ltrace_done'', LoadImm 2 RAX, Label ''.Ltrace_done'',
     Do (AddImm 24 RSP)] @ saved_pops @ [Retq]"

definition trace_probe_code :: "probe_instr list" where
  "trace_probe_code = trace_call @ [CallSym Next ''desenredo_trace_return''] @ trace_answer"

definition force_probe_code :: "probe_instr list" where
  "force_probe_code = [Do (SubImm 8 RSP), Do (MovReg RSI RDX), LeaLabel ''desenredo_force_stop'' RSI,
    CallSym Next ''desenredo_force_return'', Label ''desenredo_force_return'', Do (AddImm 8 RSP), Retq]"

text \<open>The landing pad of the frame with the sentinels, up to its call of the Rust handler.\<close>

definition register_landing_code :: "probe_instr list" where
  "register_landing_code = [Do (MovReg RAX RDI), LoadImm 1 RSI] @
    concat (map (check_against register_sentinel ''.Lregister_bad'') saved_registers) @
    [Jmp ''.Lregister_finish'', Label ''.Lregister_bad'', LoadImm 0 RSI, Label ''.Lregister_finish'']"

definition register_done_code :: "probe_instr list" where
  "register_done_code = [CallSym Next ''.Lregister_done'', Label ''.Lregister_done'', Do (AddImm 8 RSP)] @
    saved_pops @ [Retq]"

section \<open>Checks\<close>

lemma seek_checks: "seek l (concat (map (check_against f l') rs) @ ys) = seek l ys"
  by (induction rs) (simp_all add: seek_def check_against_def)

lemma checks_against:
  "probe_exec E (concat (map (check_against f l) rs) @ ys) (z, s) =
    (if \<forall>r\<in>set rs. cpu_gpr s r = f r then probe_exec E ys (rs \<noteq> [] \<or> z, s)
     else probe_exec E (seek l ys) (False, s))"
proof (induction rs arbitrary: z)
  case (Cons r rs)
  then show ?case
    by (simp add: check_against_def probe_exec.simps seek_checks[unfolded check_against_def])
qed simp

lemma either_way: "\<exists>z'. (if b then f (x, s) else f (y, t)) = f (z', if b then s else t)"
  by (cases b) auto

text \<open>The registers the sentinels are loaded into.\<close>

lemma loaded:
  "fold (probe_step E) (map (\<lambda>r. LoadImm (f r) r) saved_registers) (z, s) =
    (z, s\<lparr>cpu_gpr := \<lambda>r. if r \<in> set saved_registers then f r else cpu_gpr s r\<rparr>)"
  by (auto simp: saved_registers_def set_gpr_def fun_eq_iff)

section \<open>The backtrace probe\<close>

text \<open>Where the probe calls \<open>_Unwind_Backtrace\<close>.\<close>

definition trace_ready :: "surroundings \<Rightarrow> cpu \<Rightarrow> cpu" where
  "trace_ready E s = (let e = cpu_gpr s RSP in
    s\<lparr>cpu_gpr := (\<lambda>r. if r \<in> set saved_registers then trace_sentinel r
      else ((cpu_gpr s)(RSP := e - 72)) r)(RSI := cpu_gpr s RDI, RDI := su_at E ''desenredo_trace_visit''),
      cpu_mem := mem_put (pushed_memory s) (e - 72) (cpu_gpr s RDI)\<rparr>)"

lemma trace_call_runs: "probe_exec E (trace_call @ ys) (z, s) = probe_exec E ys (z, trace_ready E s)"
proof -
  have "fold (probe_step E) trace_call (z, s) = (z, trace_ready E s)"
    by (simp add: trace_call_def pushes loaded set_gpr_def put_mem_def trace_ready_def Let_def
        saved_registers_apart cong: if_cong)
  moreover have "list_all probe_straight trace_call" by (simp add: trace_call_def saved_registers_def)
  ultimately show ?thesis by (simp add: probe_exec_straight)
qed

text \<open>The answer is that of the unwinder, or 2 where it did not keep a register it has to keep.\<close>

definition trace_tail :: "probe_instr list" where
  "trace_tail = [Do (Load 8 RSP RAX), CmpMemImm 1 16 RSP, Je ''.Ltrace_done'', LoadImm 2 RAX, Label ''.Ltrace_done'',
     Do (AddImm 24 RSP)] @ saved_pops @ [Retq]"

lemma trace_answer_split:
  "trace_answer = [Label ''desenredo_trace_return'', Do (Store RAX 8 RSP), Do (MovImm 1 16 RSP)] @
    concat (map (check_against trace_sentinel ''.Ltrace_clobbered'') saved_registers) @
    [Jmp ''.Ltrace_restore'', Label ''.Ltrace_clobbered'', Do (MovImm 0 16 RSP), Label ''.Ltrace_restore''] @ trace_tail"
  by (simp add: trace_answer_def trace_tail_def)

lemma trace_verdict:
  "probe_exec E ([Jmp ''.Ltrace_restore'', Label ''.Ltrace_clobbered'', Do (MovImm 0 16 RSP), Label ''.Ltrace_restore''] @ ys)
    (z, t) = probe_exec E ys (z, t)"
  "probe_exec E (seek ''.Ltrace_clobbered'' ([Jmp ''.Ltrace_restore'', Label ''.Ltrace_clobbered'', Do (MovImm 0 16 RSP),
    Label ''.Ltrace_restore''] @ ys)) (z, t) = probe_exec E ys (z, put_mem (cpu_gpr t RSP + 16) (0 :: u64) t)"
  by (simp_all add: seek_def probe_exec.simps)

lemma trace_tail_runs:
  assumes "cpu_gpr t RSP = b" "mem_get (cpu_mem t) (b + 8) = v" "mem_get (cpu_mem t) (b + 16) = (if kept then 1 else 0 :: u64)"
  shows "probe_exec E trace_tail (z, t) =
    probe_exec E (saved_pops @ [Retq]) (kept, set_gpr RSP (b + 24) (set_gpr RAX (if kept then v else 2) t))"
  using assms by (simp add: trace_tail_def seek_def probe_exec.simps set_gpr_def)

lemma trace_answer_runs:
  assumes "cpu_gpr s RSP = e" "cpu_gpr t RSP = e - 72"
    "\<And>k. k \<in> {0, 8, 16, 24, 32, 40, 48} \<Longrightarrow> (mem_get (cpu_mem t) (e - k) :: u64) = mem_get (pushed_memory s) (e - k)"
    "cpu_mxcsr t = cpu_mxcsr s" "cpu_fcw t = cpu_fcw s"
    "kept \<longleftrightarrow> (\<forall>r\<in>set saved_registers. cpu_gpr t r = trace_sentinel r)"
  shows "answers_probe (if kept then cpu_gpr t RAX else 2) s (probe_exec E trace_answer (z, t))"
proof -
  define t1 where "t1 = put_mem (e - 56) (1 :: u64) (put_mem (e - 64) (cpu_gpr t RAX) t)"
  define t2 where "t2 = (if kept then t1 else put_mem (e - 56) (0 :: u64) t1)"
  have t1: "cpu_gpr t1 = cpu_gpr t" by (simp add: t1_def put_mem_def)
  have t2: "cpu_gpr t2 RSP = e - 72" "mem_get (cpu_mem t2) (e - 72 + 8) = cpu_gpr t RAX"
      "mem_get (cpu_mem t2) (e - 72 + 16) = (if kept then 1 else 0 :: u64)"
      "cpu_mxcsr t2 = cpu_mxcsr s" "cpu_fcw t2 = cpu_fcw s"
    using assms(2,4,5) by (auto simp: t2_def t1_def put_mem_def mem_get_put_apart apart_def)
  have m: "(mem_get (cpu_mem t2) (e - k) :: u64) = mem_get (pushed_memory s) (e - k)"
    if "k \<in> {0, 8, 16, 24, 32, 40, 48}" for k
    using assms(3)[OF that] that by (auto simp: t2_def t1_def put_mem_def mem_get_put_apart apart_def)
  let ?checks = "concat (map (check_against trace_sentinel ''.Ltrace_clobbered'') saved_registers)"
  let ?verdict = "[Jmp ''.Ltrace_restore'', Label ''.Ltrace_clobbered'', Do (MovImm 0 16 RSP), Label ''.Ltrace_restore'']"
  have "probe_exec E trace_answer (z, t) = probe_exec E (?checks @ ?verdict @ trace_tail) (z, t1)"
    using assms(2) by (simp add: trace_answer_split probe_exec.simps t1_def put_mem_def)
  moreover have "\<exists>z'. probe_exec E (?checks @ ?verdict @ trace_tail) (z, t1) = probe_exec E trace_tail (z', t2)"
    unfolding checks_against t1 assms(6)[symmetric] trace_verdict
    using assms(2) by (auto simp: t2_def t1)
  ultimately obtain z' where "probe_exec E trace_answer (z, t) = probe_exec E trace_tail (z', t2)" by metis
  also have "\<dots> = probe_exec E (saved_pops @ [Retq])
      (kept, set_gpr RSP (e - 48) (set_gpr RAX (if kept then cpu_gpr t RAX else 2) t2))"
    using trace_tail_runs[OF t2(1-3)] by simp
  finally have run: "probe_exec E trace_answer (z, t) = probe_exec E (saved_pops @ [Retq])
      (kept, set_gpr RSP (e - 48) (set_gpr RAX (if kept then cpu_gpr t RAX else 2) t2))" .
  show ?thesis
    unfolding run by (rule epilogue_restores[OF assms(1)]) (use t2(4,5) m in \<open>simp_all add: set_gpr_def\<close>)
qed

text \<open>A call that comes back.\<close>

definition comes_back :: "surroundings \<Rightarrow> string \<Rightarrow> cpu \<Rightarrow> cpu \<Rightarrow> bool" where
  "comes_back E l s t \<longleftrightarrow> su_callees E Next (push_word (su_at E l) s) = Some t \<and> cpu_rip t = su_at E l \<and>
    cpu_gpr t RSP = cpu_gpr s RSP \<and> cpu_mxcsr t = cpu_mxcsr s \<and> cpu_fcw t = cpu_fcw s"

lemma call_comes_back:
  "comes_back E l s t \<Longrightarrow> probe_exec E (CallSym Next l # ys) (z, s) = probe_exec E ys (z, t)"
  by (simp add: comes_back_def probe_exec.simps)

text \<open>The backtrace probe hands its argument and the callback to the unwinder, and answers as above.\<close>

theorem trace_probe_answers:
  assumes "comes_back E ''desenredo_trace_return'' (trace_ready E s) t"
    "\<And>k. k \<in> {0, 8, 16, 24, 32, 40, 48} \<Longrightarrow> (mem_get (cpu_mem t) (cpu_gpr s RSP - k) :: u64) =
      mem_get (cpu_mem (trace_ready E s)) (cpu_gpr s RSP - k)"
    "kept \<longleftrightarrow> (\<forall>r\<in>set saved_registers. cpu_gpr t r = trace_sentinel r)"
  shows "cpu_gpr (trace_ready E s) RDI = su_at E ''desenredo_trace_visit'' \<and> cpu_gpr (trace_ready E s) RSI = cpu_gpr s RDI \<and>
    answers_probe (if kept then cpu_gpr t RAX else 2) s (probe_exec E trace_probe_code (z, s))"
proof -
  have ready: "cpu_gpr (trace_ready E s) RSP = cpu_gpr s RSP - 72" "cpu_mxcsr (trace_ready E s) = cpu_mxcsr s"
    "cpu_fcw (trace_ready E s) = cpu_fcw s"
    by (simp_all add: trace_ready_def Let_def saved_registers_apart)
  have "(mem_get (cpu_mem (trace_ready E s)) (cpu_gpr s RSP - k) :: u64) = mem_get (pushed_memory s) (cpu_gpr s RSP - k)"
    if "k \<in> {0, 8, 16, 24, 32, 40, 48}" for k
    using that by (auto simp: trace_ready_def Let_def mem_get_put_apart apart_def)
  then have "answers_probe (if kept then cpu_gpr t RAX else 2) s (probe_exec E trace_answer (z, t))"
    using assms ready by (intro trace_answer_runs[OF refl]) (simp_all add: comes_back_def)
  then show ?thesis
    using trace_call_runs[of E "CallSym Next ''desenredo_trace_return'' # trace_answer" z s] call_comes_back[OF assms(1)]
    by (simp add: trace_probe_code_def trace_ready_def Let_def)
qed

section \<open>The other probes\<close>

text \<open>The probe of a forced unwind passes the exception on with the callback and the state, and returns
  what the unwinder does.\<close>

definition force_ready :: "surroundings \<Rightarrow> cpu \<Rightarrow> cpu" where
  "force_ready E s = s\<lparr>cpu_gpr := (cpu_gpr s)(RSP := cpu_gpr s RSP - 8, RDX := cpu_gpr s RSI,
    RSI := su_at E ''desenredo_force_stop'')\<rparr>"

theorem force_probe_answers:
  assumes "comes_back E ''desenredo_force_return'' (force_ready E s) t"
    "(mem_get (cpu_mem t) (cpu_gpr s RSP) :: u64) = mem_get (cpu_mem s) (cpu_gpr s RSP)"
  shows "\<exists>s'. probe_exec E force_probe_code (z, s) = Some s' \<and> cpu_gpr s' = (cpu_gpr t)(RSP := cpu_gpr s RSP + 8) \<and>
    cpu_rip s' = mem_get (cpu_mem s) (cpu_gpr s RSP)"
proof -
  have "probe_exec E force_probe_code (z, s) =
      probe_exec E [Label ''desenredo_force_return'', Do (AddImm 8 RSP), Retq] (z, t)"
    using call_comes_back[OF assms(1)]
    by (simp add: force_probe_code_def probe_exec.simps(1-3,8-) force_ready_def set_gpr_def fun_upd_twist)
  then show ?thesis
    using assms by (simp add: probe_exec.simps set_gpr_def return_pop_def comes_back_def force_ready_def add.commute)
qed

text \<open>The landing pad calls the Rust handler with the exception the unwinder left in \<open>rax\<close> and with whether
  the registers were restored, as \<open>preserved\<close> has it.\<close>

lemma landing_verdict:
  "probe_exec E ([Jmp ''.Lregister_finish'', Label ''.Lregister_bad'', LoadImm 0 RSI, Label ''.Lregister_finish''] @ ys)
    (z, s) = probe_exec E ys (z, s)"
  "probe_exec E (seek ''.Lregister_bad'' ([Jmp ''.Lregister_finish'', Label ''.Lregister_bad'', LoadImm 0 RSI,
    Label ''.Lregister_finish''] @ ys)) (z, s) = probe_exec E ys (z, set_gpr RSI 0 s)"
  by (simp_all add: seek_def probe_exec.simps)

theorem register_landing_calls:
  assumes "\<And>r. r \<notin> {RA, MXCSR, FCW} \<Longrightarrow> cpu_gpr s r = registers_get r regs"
  shows "\<exists>z'. probe_exec E (register_landing_code @ register_done_code) (z, s) =
    probe_exec E register_done_code (z', set_gpr RSI (ucast (preserved regs)) (set_gpr RDI (reg_rax regs) s))"
proof -
  define s1 where "s1 = set_gpr RSI 1 (set_gpr RDI (reg_rax regs) s)"
  let ?checks = "concat (map (check_against register_sentinel ''.Lregister_bad'') saved_registers)"
  let ?verdict = "[Jmp ''.Lregister_finish'', Label ''.Lregister_bad'', LoadImm 0 RSI, Label ''.Lregister_finish'']"
  have kept: "(\<forall>r\<in>set saved_registers. cpu_gpr s1 r = register_sentinel r) \<longleftrightarrow> preserved regs = 1"
    using assms by (simp add: s1_def set_gpr_def preserved_def saved_registers_def)
  have "preserved regs = 1 \<or> preserved regs = 0" by (simp add: preserved_def)
  then have last: "(if preserved regs = 1 then s1 else set_gpr RSI 0 s1) =
      set_gpr RSI (ucast (preserved regs)) (set_gpr RDI (reg_rax regs) s)"
    by (elim disjE) (simp_all add: s1_def set_gpr_def)
  have "probe_exec E (register_landing_code @ register_done_code) (z, s) =
      probe_exec E (?checks @ ?verdict @ register_done_code) (z, s1)"
    using assms[of RAX] by (simp add: register_landing_code_def probe_exec.simps s1_def)
  then show ?thesis
    unfolding last[symmetric] checks_against kept landing_verdict by (simp only: either_way)
qed

end
