(* ===== verification/Spec2Isabelle.thy ===== *)
theory Spec2Isabelle
  imports LsdaProps UnwindProps PropagationProps PolicyProps LandingProps MachineProps PanicProps WorkerProps
    Linkage CxxRuntime SymbolizeProps ProbeProps Conformance Recovery NativeRaise
    FixtureProps FixtureMachine
begin

text \<open>
  A verification library for \<open>desenredo\<close>, a freestanding implementation of the Itanium C++ ABI
  exception handling interface in Rust for x86_64: the system unwinder (Level I), the reader of
  the language-specific tables, the personalities of Rust and C++, and the panic packets that
  travel through them.

  How the parts interact.  A panic is boxed in a packet and raised (\<open>desenredo-panic\<close>).  The
  exported symbol, emitted by an attribute (\<open>desenredo-macro\<close>), is a naked function that captures
  its caller's registers (\<open>desenredo-unwind/src/arch\<close>) and continues in the walk
  (\<open>runtime.rs\<close>): a search over the physical frames (\<open>cursor.rs\<close>, \<open>source.rs\<close>, through
  \<open>gimli\<close>) for a personality that answers HANDLER, and a second pass that installs the landing pad
  of the next frame that cleans up, whose code resumes the pass with \<open>_Unwind_Resume\<close>, up to the
  handler's frame.  Each personality decodes the call
  (\<open>desenredo-personality\<close>), reads its frame's table (\<open>desenredo-lsda\<close>) and decides by its
  policy (\<open>desenredo-rust\<close>, \<open>desenredo-cxx\<close>).  The example process puts it all together.

  Theories, in the order of their dependence.

  \<^item> \<open>Prelude\<close>: machine integers at their width, \<open>Result\<close> as a sum with the error on the left, the
    \<open>?\<close> operator, checked and saturating arithmetic.  \<open>Flow\<close>: Rust's \<open>loop\<close> as a partial function
    (\<open>run_loop\<close>), its iterations, its invariant rule and the locale of loops that end.
  \<^item> \<open>Extern\<close>: the third-party code as a record of parameters (\<open>nom\<close>, the pointer encodings and
    register numbers of \<open>gimli\<close>, \<open>bitflags\<close>), its documented laws as locales, and an instance.
  \<^item> \<open>Encoding\<close>, \<open>Reader\<close>, \<open>Leb128\<close>, \<open>Table\<close>, \<open>Iterator\<close>, \<open>Consume\<close>, \<open>TableFacts\<close>,
    \<open>SiteFacts\<close>: \<open>desenredo-lsda\<close> (\<open>encoding.rs\<close>, \<open>error.rs\<close>, \<open>table.rs\<close>).  The fuel of an
    action chain is the code's own bound, one more than the length of the table: there are
    fewer positions for a record, so a chain that spends it has come to one of them twice.
  \<^item> \<open>Abi\<close>: \<open>desenredo-abi\<close> (\<open>class.rs\<close>, \<open>unwind.rs\<close>).
  \<^item> \<open>State\<close>, \<open>RegisterFile\<close>, \<open>Dwarf\<close>, \<open>Source\<close>, \<open>SourceFacts\<close>, \<open>Cursor\<close>: register states, the contract
    of a register file, images and resolved frames, the reconstruction of a caller and the walk by
    one frame (\<open>cfi.rs\<close>, \<open>state.rs\<close>, \<open>source.rs\<close>, \<open>relation.rs\<close>, \<open>error.rs\<close>, \<open>cursor.rs\<close>).
  \<^item> \<open>Runtime\<close>, \<open>RuntimeFacts\<close>, \<open>TwoPhase\<close>: \<open>runtime.rs\<close>, the reason codes and masks of the walk,
    and its passes over a physical stack, an inductive relation between cursors.
  \<^item> \<open>Propagation\<close>: a whole propagation, the walk and the code at the landing pads in turn;
    \<open>passes\<close> is an inductive description of the stretches between pads.
  \<^item> \<open>Personality\<close>, \<open>RustPolicy\<close>, \<open>CxxPolicy\<close>, \<open>Level1\<close>, \<open>PolicyFacts\<close>: the protocol
    (\<open>context.rs\<close>, \<open>protocol.rs\<close>, \<open>source.rs\<close>), the two policies, and the runtime as the interface a
    personality is linked against.  \<open>ProcessPolicy\<close>: the personality of the example process.
  \<^item> \<open>Headers\<close>: the layout of the \<open>repr(C)\<close> structures, the exception header and the prefix of a packet
    as bytes, and that \<open>take\<close>, reading a header through a pointer, decides as on the packet itself.
  \<^item> \<open>CxxRuntime\<close>: the allocation of C++ exceptions and its owner (\<open>desenredo-cxx/src/runtime.rs\<close>).
  \<^item> \<open>Memory\<close>, \<open>Machine\<close>, \<open>Entry\<close>, \<open>EntryFacts\<close>: byte-addressed memory, the instructions the naked
    functions use, their code (\<open>registers.rs\<close>, \<open>entry.rs\<close>) and what it does.  \<open>Probes\<close>,
    \<open>ProbeProps\<close>: the machine probes of the test module of \<open>registers.rs\<close>, on the same processor.
  \<^item> \<open>Panic\<close>, \<open>PanicFacts\<close>: \<open>desenredo-panic\<close> (\<open>object.rs\<close>, \<open>runtime.rs\<close>), and the conditions on the
    process that a whole traversal preserves when every routine it calls does.
  \<^item> \<open>Expand\<close>, \<open>Linkage\<close>: \<open>desenredo-macro\<close> against the declarations of \<open>desenredo-abi\<close>, and the emitted
    symbols as functions over typed ABI values, forwarding to the runtime.
  \<^item> \<open>Backtrace\<close>, \<open>Process\<close>, \<open>Linked\<close>, \<open>Worker\<close>, \<open>WorkerFacts\<close>: \<open>examples/no-std-linux\<close>, the capture
    of a backtrace, the initial stack and the allocator, the linked image, and the request worker.
    \<open>Symbolize\<close>, \<open>SymbolizeProps\<close>: the mapped executable and the printing of a captured backtrace.
    \<open>Recovery\<close>: the drops of a panicking request as cleanups that the unwinder enters.
    \<open>NativeRaise\<close>: the example of \<open>desenredo-panic\<close> and its exit status.
  \<^item> \<open>Fixture\<close>, \<open>FixtureProps\<close>, \<open>FixtureMachine\<close>: the freestanding test program
    (\<open>tests/no-std-linux\<close>), its probes over the walks and its panics, and on the processor those of
    its probes that are in assembly (\<open>catch.S\<close>).
  \<^item> \<open>Conformance\<close>: the unit tests of the repository as booleans over the model.
  \<^item> \<open>Example\<close> and the theories whose names end in \<open>Props\<close>: a process of two frames for the witnesses,
    and the properties.

  Conventions.  A pointer is an address; an optional one an option of it.  Mutated structures are
  returned updated.  A routine called through an address, a DWARF expression, a loop or a
  traversal that does not come back is the outer \<open>None\<close>; that the search comes back is proved
  from a measure on the stack pointer (\<open>search_returns\<close>), and that a table iterator ends from
  its fuel (\<open>chain_ends\<close>).  The process state a routine may change is a record of the exception
  headers by address and a rest that is a type variable; images and memory are functions of it.

  What the properties show.  Raising and resuming together run the cleanups of the frames in order,
  each once, and end at the frame the search selected, as does a forced unwind, which
  asks its stop function once at every frame and at the end; an exception is
  given back only before any cleanup has run.  The exported symbols have the declared types and are
  the functions of the runtime.  The readers of LEB128 are exact against its definition, but the signed
  one accepts every tenth octet and is wrong unless it is \<open>0\<close> or \<open>0x7f\<close>.  A written table is parsed back, its lookup finds the
  covering site, its chains are enumerated exactly.  A caller is a simultaneous assignment of the
  callee's registers; a transfer installs exactly the frame's registers and happens only when
  they are complete.  Both phases agree on the frame of the handler, masks and reasons follow the
  protocol, and a raise run on the processor refines the walk.  A Rust handler found by the search
  is landed in with the exception and selector in place; a C++ frame lands by its first matching
  clause or by any cleanup record.  A panic is caught with the payload it was raised with and its
  packet is freed once, whatever lies between.  The worker serves its requests in order and each
  leaves no trace, and a request that panics on the unwinder leaves the process as the worker's
  own boundary does.  The test program's exit status says exactly what is wrong: a walk that stops
  before the end of the stack, its first frame, a panic given back, the restored registers or the
  drops of the guard; and the example that raises into native code exits with success exactly when
  its guard was dropped once on the way to the native handler.  The bytes of a packet's header and
  canary, laid out by the rules of \<open>repr(C)\<close>, are what \<open>take\<close> decides by.  C++ exception storage has one owner in every reachable state.  A backtrace
  prints its frames in order and leaves no mapping or descriptor behind.  As a check of the
  definitions, the model passes the repository's unit tests (\<open>repository_tests_pass\<close>); its
  processor passes the probes of the naked functions.

  Locales.  \<open>nom_laws\<close>, \<open>pe_laws\<close>, \<open>bits_laws\<close>, \<open>x86_laws\<close>, \<open>cfi_laws\<close> are interpreted on the reference instance of
  the third-party code; \<open>register_file\<close> on the register state, \<open>landing_context\<close> on the runtime,
  \<open>visited_walk\<close> on the traversals that call a stop or trace function with effects,
  \<open>frame_walk\<close>, its case without effects, on the four traversals, \<open>bounded_loop\<close> on the search, \<open>walk_invariant\<close> on live
  packets and on the rest of the process, \<open>resumed_walk\<close> on phase two and on forced unwinding,
  \<open>level2_laws\<close> and through it \<open>exception_contract\<close> on a reference C++ runtime, \<open>progress\<close> on the table iterators, \<open>kernel_laws\<close> on a reference kernel.

  Not modelled.  \<open>gimli\<close>, \<open>nom\<close>, \<open>bitflags\<close>, \<open>syn\<close>, \<open>rustix\<close>, \<open>addr2line\<close>, \<open>object\<close>, the Level II functions and
  the type matching of a C++ runtime are parameters; the pooling of \<open>talc\<close> over the mapping
  allocator is left out.  The rows of \<open>cfi.rs\<close> are calls of \<open>gimli\<close>.  The texts of errors, the crate roots with their re-exports
  and the native test sources are not modelled, nor what the compiler emits where a panic would
  leave an \<open>extern "C"\<close> function (the \<open>ffi-c-abort\<close> build of the test program), nor the bytes of a
  packet behind its prefix.  The messages of the worker are a log, whose
  delivery in partial writes is a loop of its own.  Concurrency: the unwinder keeps no shared
  state; the atomics of the worker are those of a single thread, as its sources say.
\<close>

end
